(* ===== verification/Prelude.thy ===== *)
theory Prelude
  imports Main "HOL-Library.Word" "HOL-Library.Multiset"
begin

text \<open>
  Shared vocabulary of the development: the HOL types that stand for the Go
  types of the program, the theorem collections the component theories fill,
  the pieces of the Go standard library the source formats strings with, and
  the generic facts on lists, options and maps that several components use.

  A Go \<open>time.Time\<close> is its instant in nanoseconds and a \<open>time.Duration\<close> a number
  of nanoseconds, both of type \<^typ>\<open>int\<close>. A Go string or byte slice is a
  \<^typ>\<open>string\<close>, whose characters are bytes; a nil slice and an empty slice are the
  same list. A Go map is a partial function. A clock is the function from the
  number of earlier readings to the value the next \<open>time.Now()\<close> returns, and a
  random source is the function from the number of earlier draws to the next one,
  so that no assumption is made on either.
\<close>

type_synonym time = int
type_synonym duration = int
type_synonym bytes = string
type_synonym clock = "nat \<Rightarrow> time"
type_synonym id_source = "nat \<Rightarrow> string"

text \<open>The theorem collections: \<open>go_defs\<close> unfolds small library helpers,
  \<open>store_defs\<close> the memory store's operations, \<open>store_inv\<close> holds what keeps the
  store's invariant, \<open>frame\<close> says what an operation leaves alone and
  \<open>engine_frame\<close> says the same of the workflow engine.\<close>

named_theorems go_defs
named_theorems store_defs
named_theorems store_inv
named_theorems frame
named_theorems engine_frame

section \<open>Formatting\<close>

text \<open>The decimal digits \<open>fmt\<close> prints for \<open>%d\<close>.\<close>

fun nat_str :: "nat \<Rightarrow> string" where
  "nat_str n = (if n < 10 then [char_of (48 + n)] else nat_str (n div 10) @ [char_of (48 + n mod 10)])"

declare nat_str.simps [simp del]

definition int_str :: "int \<Rightarrow> string" where
  "int_str i = (if i < 0 then ''-'' @ nat_str (nat (- i)) else nat_str (nat i))"

text \<open>
  \<open>strconv.Quote\<close>, which \<open>%q\<close> uses, on one byte: the escapes of the language, a
  hexadecimal escape for the other ASCII control characters, and the byte itself
  for the printable ones. Bytes from 128 on belong to multi-byte runes and are
  copied, which is what \<open>%q\<close> does on printable runes.
\<close>

definition hex_digit :: "nat \<Rightarrow> char" where
  "hex_digit n = (if n < 10 then char_of (48 + n) else char_of (87 + n))"

definition quote_char :: "char \<Rightarrow> string" where
  "quote_char c = (let n = of_char c :: nat in
     if n = 34 \<or> n = 92 then [char_of (92::nat), c]
     else if n = 7 then [char_of (92::nat), CHR ''a'']
     else if n = 8 then [char_of (92::nat), CHR ''b'']
     else if n = 12 then [char_of (92::nat), CHR ''f'']
     else if n = 10 then [char_of (92::nat), CHR ''n'']
     else if n = 13 then [char_of (92::nat), CHR ''r'']
     else if n = 9 then [char_of (92::nat), CHR ''t'']
     else if n = 11 then [char_of (92::nat), CHR ''v'']
     else if n < 32 \<or> n = 127 then [char_of (92::nat), CHR ''x'', hex_digit (n div 16), hex_digit (n mod 16)]
     else [c])"

definition quote :: "string \<Rightarrow> string" where
  "quote s = char_of (34::nat) # concat (map quote_char s) @ [char_of (34::nat)]"

text \<open>The eight big-endian bytes of a length, as \<open>binary.BigEndian.PutUint64\<close>
  writes them.\<close>

definition put_uint64 :: "64 word \<Rightarrow> bytes" where
  "put_uint64 w = map (\<lambda>i. char_of (unat (drop_bit (8 * i) w) mod 256)) [7, 6, 5, 4, 3, 2, 1, 0]"

text \<open>Lower-case hexadecimal, as \<open>hex.EncodeToString\<close> and \<open>%x\<close> write it.\<close>

definition hex_encode :: "bytes \<Rightarrow> string" where
  "hex_encode bs = concat (map (\<lambda>c. [hex_digit (of_char c div 16), hex_digit (of_char c mod 16)]) bs)"

section \<open>Maps\<close>

text \<open>Deleting from a Go map, while ranging over it, the entries that satisfy a
  predicate.\<close>

definition delete_where :: "('k \<Rightarrow> 'v \<Rightarrow> bool) \<Rightarrow> ('k \<rightharpoonup> 'v) \<Rightarrow> ('k \<rightharpoonup> 'v)" where
  "delete_where P m = (\<lambda>k. case m k of None \<Rightarrow> None | Some v \<Rightarrow> if P k v then None else Some v)"

text \<open>Reading a Go map with the zero value for a missing key.\<close>

definition map_get :: "'v \<Rightarrow> ('k \<rightharpoonup> 'v) \<Rightarrow> 'k \<Rightarrow> 'v" where
  "map_get z m k = (case m k of None \<Rightarrow> z | Some v \<Rightarrow> v)"

lemma delete_where_Some [simp]:
  "delete_where P m k = Some v \<longleftrightarrow> m k = Some v \<and> \<not> P k v"
  by (auto simp: delete_where_def split: option.splits)

lemma delete_where_None [simp]:
  "delete_where P m k = None \<longleftrightarrow> (\<forall>v. m k = Some v \<longrightarrow> P k v)"
  by (auto simp: delete_where_def split: option.splits)

lemma delete_where_id:
  "(\<And>k v. m k = Some v \<Longrightarrow> \<not> P k v) \<Longrightarrow> delete_where P m = m"
  by (rule ext) (auto simp: delete_where_def split: option.splits)

lemma map_get_upd [simp]: "map_get z (m(k \<mapsto> v)) k' = (if k' = k then v else map_get z m k')"
  by (simp add: map_get_def)

section \<open>Lists\<close>

text \<open>The first position of an element satisfying a predicate, the loop the code
  writes as \<open>for index := range xs\<close>.\<close>

primrec find_index :: "('a \<Rightarrow> bool) \<Rightarrow> 'a list \<Rightarrow> nat option" where
  "find_index P [] = None"
| "find_index P (x # xs) = (if P x then Some 0 else map_option Suc (find_index P xs))"

lemma find_index_Some:
  "find_index P xs = Some i \<longleftrightarrow> i < length xs \<and> P (xs ! i) \<and> (\<forall>j < i. \<not> P (xs ! j))"
proof (induction xs arbitrary: i)
  case (Cons x xs)
  show ?case
  proof (cases i)
    case 0
    then show ?thesis by auto
  next
    case (Suc k)
    then show ?thesis using Cons.IH [of k]
      by (auto simp: less_Suc_eq_0_disj)
  qed
qed simp

lemma find_index_None: "find_index P xs = None \<longleftrightarrow> (\<forall>x \<in> set xs. \<not> P x)"
  by (induction xs) auto

lemma find_index_distinct:
  assumes "distinct (map f xs)" "i < length xs"
  shows "find_index (\<lambda>x. f x = f (xs ! i)) xs = Some i"
proof -
  have "\<not> f (xs ! j) = f (xs ! i)" if "j < i" for j
    using assms that nth_eq_iff_index_eq [OF assms(1), of j i] by auto
  then show ?thesis using assms(2) by (simp add: find_index_Some)
qed

lemma take_Suc_set: "n < length xs \<Longrightarrow> set (take (Suc n) xs) = insert (xs ! n) (set (take n xs))"
  by (simp add: take_Suc_conv_app_nth)

lemma length_filter_le_card:
  "distinct xs \<Longrightarrow> length (filter P xs) = card {x \<in> set xs. P x}"
  by (metis distinct_card distinct_filter set_filter)

text \<open>Changing a predicate at one element of a distinct list changes the number
  of elements it selects by one.\<close>

lemma length_filter_flip:
  assumes "distinct xs" "y \<in> set xs" "\<not> P y"
  shows "length (filter (\<lambda>x. x = y \<or> P x) xs) = Suc (length (filter P xs))"
proof -
  let ?A = "{x \<in> set xs. P x}"
  have "{x \<in> set xs. x = y \<or> P x} = insert y ?A" using assms by auto
  moreover have "y \<notin> ?A" using assms by simp
  ultimately have "card {x \<in> set xs. x = y \<or> P x} = Suc (card ?A)"
    by (simp add: card_insert_if)
  then show ?thesis by (simp add: length_filter_le_card assms(1))
qed

lemma length_filter_drop:
  assumes "distinct xs" "y \<in> set xs" "P y"
  shows "length (filter P xs) = Suc (length (filter (\<lambda>x. x \<noteq> y \<and> P x) xs))"
proof -
  let ?A = "{x \<in> set xs. x \<noteq> y \<and> P x}"
  have "{x \<in> set xs. P x} = insert y ?A" using assms by auto
  moreover have "y \<notin> ?A" by simp
  ultimately have "card {x \<in> set xs. P x} = Suc (card ?A)"
    by (simp add: card_insert_if)
  then show ?thesis by (simp add: length_filter_le_card assms(1))
qed

end
