(* ===== verification/GoErrors.thy ===== *)
theory GoErrors
  imports Prelude
begin

text \<open>
  Go error values and the delivery classification built on them
  (\<open>busruntime/runtime.go\<close>). An error is a tree: package-level sentinels and
  \<open>errors.New\<close> values are leaves, \<open>fmt.Errorf\<close> with \<open>%w\<close>, \<open>errors.Join\<close> and the
  program's own wrapper types are inner nodes, and \<open>errors.Is\<close> and \<open>errors.As\<close>
  search the tree. The nil error is \<^const>\<open>None\<close>.
\<close>

section \<open>Error values\<close>

datatype sentinel =
    ErrNotFound
  | ErrUnsupportedTransitionReceipt
  | ErrCallbackAlreadyInvoked
  | ErrCallbackUnavailable
  | ErrCallbackNotReady
  | ErrDuplicate
  | ErrQueuerShuttingDown
  | ErrWorkerpoolQueueNotInitialized
  | ErrQueuePaused
  | ContextCanceled
  | ContextDeadlineExceeded

datatype goerr =
    ErrNew string                      \<comment> \<open>\<open>errors.New\<close>, and \<open>fmt.Errorf\<close> without \<open>%w\<close>\<close>
  | Sentinel sentinel                  \<comment> \<open>a package-level error variable\<close>
  | ErrWrap string goerr string        \<comment> \<open>\<open>fmt.Errorf\<close> with \<open>%w\<close>: text before, cause, text after\<close>
  | ErrJoin "goerr list"               \<comment> \<open>\<open>errors.Join\<close> of the non-nil errors\<close>
  | PermanentError goerr               \<comment> \<open>\<open>busruntime.permanentError\<close>\<close>
  | UncommittedError goerr             \<comment> \<open>\<open>busruntime.uncommittedError\<close>\<close>
  | AcceptedExecutionError goerr       \<comment> \<open>\<open>queue.acceptedExecutionError\<close>\<close>

fun sentinel_text :: "sentinel \<Rightarrow> string" where
  "sentinel_text ErrNotFound = ''bus record not found''"
| "sentinel_text ErrUnsupportedTransitionReceipt = ''unsupported workflow transition receipt''"
| "sentinel_text ErrCallbackAlreadyInvoked = ''workflow callback already invoked''"
| "sentinel_text ErrCallbackUnavailable = ''workflow callback is unavailable''"
| "sentinel_text ErrCallbackNotReady = ''workflow callback state is not ready''"
| "sentinel_text ErrDuplicate = ''duplicate job''"
| "sentinel_text ErrQueuerShuttingDown = ''queue is shutting down''"
| "sentinel_text ErrWorkerpoolQueueNotInitialized = ''workerpool queue not initialized''"
| "sentinel_text ErrQueuePaused = ''queue is paused''"
| "sentinel_text ContextCanceled = ''context canceled''"
| "sentinel_text ContextDeadlineExceeded = ''context deadline exceeded''"

text \<open>The \<open>Error()\<close> text of an error; \<open>errors.Join\<close> separates its parts by a
  newline.\<close>

primrec intersperse_nl :: "string list \<Rightarrow> string" where
  "intersperse_nl [] = []"
| "intersperse_nl (x # xs) = (if xs = [] then x else x @ char_of (10::nat) # intersperse_nl xs)"

fun error_text :: "goerr \<Rightarrow> string" where
  "error_text (ErrNew s) = s"
| "error_text (Sentinel s) = sentinel_text s"
| "error_text (ErrWrap pre e post) = pre @ error_text e @ post"
| "error_text (ErrJoin es) = intersperse_nl (map error_text es)"
| "error_text (PermanentError e) = error_text e"
| "error_text (UncommittedError e) = error_text e"
| "error_text (AcceptedExecutionError e) = error_text e"

text \<open>\<open>errors.As\<close> visits the tree in preorder and stops at the first node of the
  wanted type.\<close>

fun error_nodes :: "goerr \<Rightarrow> goerr list" where
  "error_nodes (ErrNew s) = [ErrNew s]"
| "error_nodes (Sentinel s) = [Sentinel s]"
| "error_nodes (ErrWrap pre e post) = ErrWrap pre e post # error_nodes e"
| "error_nodes (ErrJoin es) = ErrJoin es # concat (map error_nodes es)"
| "error_nodes (PermanentError e) = PermanentError e # error_nodes e"
| "error_nodes (UncommittedError e) = UncommittedError e # error_nodes e"
| "error_nodes (AcceptedExecutionError e) = AcceptedExecutionError e # error_nodes e"

definition errors_is :: "goerr option \<Rightarrow> sentinel \<Rightarrow> bool" where
  "errors_is err s = (case err of None \<Rightarrow> False | Some e \<Rightarrow> Sentinel s \<in> set (error_nodes e))"

text \<open>\<open>errors.Join\<close> drops nil errors and is nil when nothing is left.\<close>

fun somes :: "'a option list \<Rightarrow> 'a list" where
  "somes [] = []"
| "somes (None # xs) = somes xs"
| "somes (Some x # xs) = x # somes xs"

definition errors_join :: "goerr option list \<Rightarrow> goerr option" where
  "errors_join errs = (case somes errs of [] \<Rightarrow> None | es \<Rightarrow> Some (ErrJoin es))"

section \<open>Permanent and uncommitted errors\<close>

fun is_permanent_node :: "goerr \<Rightarrow> bool" where
  "is_permanent_node (PermanentError _) = True"
| "is_permanent_node _ = False"

fun is_uncommitted_node :: "goerr \<Rightarrow> bool" where
  "is_uncommitted_node (UncommittedError _) = True"
| "is_uncommitted_node _ = False"

definition IsPermanent :: "goerr option \<Rightarrow> bool" where
  "IsPermanent err = (case err of None \<Rightarrow> False | Some e \<Rightarrow> list_ex is_permanent_node (error_nodes e))"

definition IsUncommitted :: "goerr option \<Rightarrow> bool" where
  "IsUncommitted err = (case err of None \<Rightarrow> False | Some e \<Rightarrow> list_ex is_uncommitted_node (error_nodes e))"

definition Permanent :: "goerr option \<Rightarrow> goerr option" where
  "Permanent err = (case err of None \<Rightarrow> None
     | Some e \<Rightarrow> if IsPermanent (Some e) then Some e else Some (PermanentError e))"

definition Uncommitted :: "goerr option \<Rightarrow> goerr option" where
  "Uncommitted err = (case err of None \<Rightarrow> None
     | Some e \<Rightarrow> if IsUncommitted (Some e) then Some e else Some (UncommittedError e))"

section \<open>Delivery attempts\<close>

record delivery_attempt =
  da_Number :: int
  da_MaxRetry :: int

definition Exhausted :: "delivery_attempt \<Rightarrow> bool" where
  "Exhausted a \<longleftrightarrow> da_Number a \<ge> da_MaxRetry a"

datatype attempt_decision = AttemptSucceeded | AttemptRetry | AttemptFailed | AttemptRedeliver

definition ClassifyAttempt :: "delivery_attempt \<Rightarrow> goerr option \<Rightarrow> attempt_decision" where
  "ClassifyAttempt a err =
     (if err = None then AttemptSucceeded
      else if IsUncommitted err then AttemptRedeliver
      else if IsPermanent err \<or> Exhausted a then AttemptFailed
      else AttemptRetry)"

section \<open>Lemmas\<close>

lemma IsPermanent_None [simp]: "\<not> IsPermanent None"
  by (simp add: IsPermanent_def)

lemma IsUncommitted_None [simp]: "\<not> IsUncommitted None"
  by (simp add: IsUncommitted_def)

lemma Permanent_None [simp]: "Permanent None = None"
  by (simp add: Permanent_def)

lemma Uncommitted_None [simp]: "Uncommitted None = None"
  by (simp add: Uncommitted_def)

lemma IsPermanent_simps [simp]:
  "IsPermanent (Some (ErrNew s)) = False"
  "IsPermanent (Some (Sentinel n)) = False"
  "IsPermanent (Some (ErrWrap pre e post)) = IsPermanent (Some e)"
  "IsPermanent (Some (ErrJoin es)) = (\<exists>e \<in> set es. IsPermanent (Some e))"
  "IsPermanent (Some (PermanentError e)) = True"
  "IsPermanent (Some (UncommittedError e)) = IsPermanent (Some e)"
  "IsPermanent (Some (AcceptedExecutionError e)) = IsPermanent (Some e)"
  by (auto simp: IsPermanent_def list_ex_iff)

lemma IsUncommitted_simps [simp]:
  "IsUncommitted (Some (ErrNew s)) = False"
  "IsUncommitted (Some (Sentinel n)) = False"
  "IsUncommitted (Some (ErrWrap pre e post)) = IsUncommitted (Some e)"
  "IsUncommitted (Some (ErrJoin es)) = (\<exists>e \<in> set es. IsUncommitted (Some e))"
  "IsUncommitted (Some (PermanentError e)) = IsUncommitted (Some e)"
  "IsUncommitted (Some (UncommittedError e)) = True"
  "IsUncommitted (Some (AcceptedExecutionError e)) = IsUncommitted (Some e)"
  by (auto simp: IsUncommitted_def list_ex_iff)

lemma IsUncommitted_Uncommitted [simp]: "IsUncommitted (Uncommitted (Some e))"
  by (auto simp: Uncommitted_def)

lemma IsPermanent_Permanent [simp]: "IsPermanent (Permanent (Some e))"
  by (auto simp: Permanent_def)

lemma Uncommitted_eq_None [simp]: "Uncommitted err = None \<longleftrightarrow> err = None"
  by (auto simp: Uncommitted_def split: option.splits)

lemma Permanent_eq_None [simp]: "Permanent err = None \<longleftrightarrow> err = None"
  by (auto simp: Permanent_def split: option.splits)

lemma errors_is_simps [simp]:
  "\<not> errors_is None s"
  "errors_is (Some (ErrNew t)) s = False"
  "errors_is (Some (Sentinel n)) s = (n = s)"
  "errors_is (Some (ErrWrap pre e post)) s = errors_is (Some e) s"
  "errors_is (Some (ErrJoin es)) s = (\<exists>e \<in> set es. errors_is (Some e) s)"
  "errors_is (Some (PermanentError e)) s = errors_is (Some e) s"
  "errors_is (Some (UncommittedError e)) s = errors_is (Some e) s"
  "errors_is (Some (AcceptedExecutionError e)) s = errors_is (Some e) s"
  by (auto simp: errors_is_def)

lemma ClassifyAttempt_Succeeded [simp]: "ClassifyAttempt a err = AttemptSucceeded \<longleftrightarrow> err = None"
  by (simp add: ClassifyAttempt_def)

lemma ClassifyAttempt_Redeliver [simp]:
  "ClassifyAttempt a err = AttemptRedeliver \<longleftrightarrow> IsUncommitted err"
  by (auto simp: ClassifyAttempt_def)

lemma ClassifyAttempt_Failed:
  "ClassifyAttempt a err = AttemptFailed \<longleftrightarrow>
     err \<noteq> None \<and> \<not> IsUncommitted err \<and> (IsPermanent err \<or> Exhausted a)"
  by (auto simp: ClassifyAttempt_def)

lemma ClassifyAttempt_Retry:
  "ClassifyAttempt a err = AttemptRetry \<longleftrightarrow>
     err \<noteq> None \<and> \<not> IsUncommitted err \<and> \<not> IsPermanent err \<and> da_Number a < da_MaxRetry a"
  by (auto simp: ClassifyAttempt_def Exhausted_def)

end
