(* ===== verification/BusRuntime.thy ===== *)
theory BusRuntime
  imports GoErrors
begin

text \<open>
  The delivery contract between the workflow engine and the queue drivers
  (\<open>busruntime/runtime.go\<close>, \<open>busruntime/delivery_settlement.go\<close>) and the dispatch
  acceptance boundary (\<open>dispatch_acceptance.go\<close>): the runtime values a handler
  context carries, the continuation permits that let a running handler enqueue
  descendants while its runtime drains, and the two gates that hold callbacks back
  until a delivery is settled or a dispatch is accepted.

  A context is a record with one field per context key, since a value stored under
  one key does not affect another; a nil context is \<^const>\<open>None\<close>. Settlements,
  permits, acceptances and synchronous results are objects shared through pointers,
  so contexts hold their addresses.
\<close>

section \<open>Contexts\<close>

record delivery_metadata =
  dm_SchemaVersion :: int
  dm_DispatchID :: string
  dm_JobID :: string
  dm_ChainID :: string
  dm_BatchID :: string
  dm_Queue :: string

record delivery_provenance =
  dp_GenerationID :: string
  dp_RecoveredGenerationID :: string
  dp_Recovered :: bool

record dctx =
  cx_attempt :: "delivery_attempt option"
  cx_metadata :: "delivery_metadata option"
  cx_settlement :: "nat option"
  cx_provenance :: "delivery_provenance option"
  cx_permits :: "nat list"
  cx_sync :: "nat option"
  cx_acceptance :: "nat option"

definition background :: dctx where
  "background = \<lparr>cx_attempt = None, cx_metadata = None, cx_settlement = None, cx_provenance = None,
     cx_permits = [], cx_sync = None, cx_acceptance = None\<rparr>"

definition ctx_or_background :: "dctx option \<Rightarrow> dctx" where
  "ctx_or_background ctx = (case ctx of None \<Rightarrow> background | Some c \<Rightarrow> c)"

definition zero_metadata :: delivery_metadata where
  "zero_metadata = \<lparr>dm_SchemaVersion = 0, dm_DispatchID = [], dm_JobID = [], dm_ChainID = [],
     dm_BatchID = [], dm_Queue = []\<rparr>"

definition zero_attempt :: delivery_attempt where
  "zero_attempt = \<lparr>da_Number = 0, da_MaxRetry = 0\<rparr>"

definition zero_provenance :: delivery_provenance where
  "zero_provenance = \<lparr>dp_GenerationID = [], dp_RecoveredGenerationID = [], dp_Recovered = False\<rparr>"

definition DeliveryMetadataVersion :: int where
  "DeliveryMetadataVersion = 1"

definition WithDeliveryAttempt :: "dctx option \<Rightarrow> delivery_attempt \<Rightarrow> dctx" where
  "WithDeliveryAttempt ctx a = (ctx_or_background ctx)\<lparr>cx_attempt := Some a\<rparr>"

definition DeliveryAttemptFromContext :: "dctx option \<Rightarrow> delivery_attempt \<times> bool" where
  "DeliveryAttemptFromContext ctx = (case ctx of None \<Rightarrow> (zero_attempt, False)
     | Some c \<Rightarrow> (case cx_attempt c of None \<Rightarrow> (zero_attempt, False) | Some a \<Rightarrow> (a, True)))"

definition WithDeliveryMetadata :: "dctx option \<Rightarrow> delivery_metadata \<Rightarrow> dctx" where
  "WithDeliveryMetadata ctx m = (ctx_or_background ctx)\<lparr>cx_metadata := Some m\<rparr>"

definition DeliveryMetadataFromContext :: "dctx option \<Rightarrow> delivery_metadata \<times> bool" where
  "DeliveryMetadataFromContext ctx = (case ctx of None \<Rightarrow> (zero_metadata, False)
     | Some c \<Rightarrow> (case cx_metadata c of None \<Rightarrow> (zero_metadata, False)
         | Some m \<Rightarrow> if dm_SchemaVersion m \<noteq> DeliveryMetadataVersion then (zero_metadata, False) else (m, True)))"

definition WithDeliveryProvenance :: "dctx option \<Rightarrow> delivery_provenance \<Rightarrow> dctx" where
  "WithDeliveryProvenance ctx p = (ctx_or_background ctx)\<lparr>cx_provenance := Some p\<rparr>"

definition DeliveryProvenanceFromContext :: "dctx option \<Rightarrow> delivery_provenance \<times> bool" where
  "DeliveryProvenanceFromContext ctx = (case ctx of None \<Rightarrow> (zero_provenance, False)
     | Some c \<Rightarrow> (case cx_provenance c of None \<Rightarrow> (zero_provenance, False) | Some p \<Rightarrow> (p, True)))"

definition deliverySettlementFromContext :: "dctx option \<Rightarrow> nat option" where
  "deliverySettlementFromContext ctx = (case ctx of None \<Rightarrow> None | Some c \<Rightarrow> cx_settlement c)"

definition continuationPermits :: "dctx option \<Rightarrow> nat list" where
  "continuationPermits ctx = (case ctx of None \<Rightarrow> [] | Some c \<Rightarrow> cx_permits c)"

section \<open>Continuation permits\<close>

text \<open>A permit is a heap object with the token of the scope that issued it and its
  active flag. A scope is the address of its token; the nil scope and the zero scope
  are \<^const>\<open>None\<close>.\<close>

record permit =
  pm_scope :: nat
  pm_active :: bool

record permit_heap =
  ph_next :: nat
  ph_permits :: "nat \<rightharpoonup> permit"

type_synonym scope = "nat option"

definition Permit :: "scope \<Rightarrow> dctx option \<Rightarrow> permit_heap \<Rightarrow> dctx \<times> nat option \<times> permit_heap" where
  "Permit s ctx h = (let c = ctx_or_background ctx in
     case s of None \<Rightarrow> (c, None, h)
     | Some tok \<Rightarrow> (let p = ph_next h in
         (c\<lparr>cx_permits := continuationPermits (Some c) @ [p]\<rparr>, Some p,
          h\<lparr>ph_next := Suc p, ph_permits := (ph_permits h)(p \<mapsto> \<lparr>pm_scope = tok, pm_active = True\<rparr>)\<rparr>)))"

text \<open>The release function \<open>Permit\<close> returns; it does nothing for a nil scope.\<close>

definition release_permit :: "nat option \<Rightarrow> permit_heap \<Rightarrow> permit_heap" where
  "release_permit r h = (case r of None \<Rightarrow> h
     | Some p \<Rightarrow> (case ph_permits h p of None \<Rightarrow> h
         | Some pm \<Rightarrow> h\<lparr>ph_permits := (ph_permits h)(p \<mapsto> pm\<lparr>pm_active := False\<rparr>)\<rparr>))"

definition permit_live :: "nat \<Rightarrow> permit_heap \<Rightarrow> nat \<Rightarrow> bool" where
  "permit_live tok h p = (case ph_permits h p of None \<Rightarrow> False
     | Some pm \<Rightarrow> pm_scope pm = tok \<and> pm_active pm)"

definition Owns :: "scope \<Rightarrow> dctx option \<Rightarrow> permit_heap \<Rightarrow> bool" where
  "Owns s ctx h = (case s of None \<Rightarrow> False
     | Some tok \<Rightarrow> list_ex (permit_live tok h) (continuationPermits ctx))"

definition PreserveDeliveryContext :: "dctx option \<Rightarrow> dctx option \<Rightarrow> dctx" where
  "PreserveDeliveryContext source replacement =
    (let p0 = ctx_or_background replacement;
         p1 = (case deliverySettlementFromContext source of None \<Rightarrow> p0 | Some s \<Rightarrow> p0\<lparr>cx_settlement := Some s\<rparr>);
         p2 = (case DeliveryProvenanceFromContext source of (pv, ok) \<Rightarrow>
                 if ok then p1\<lparr>cx_provenance := Some pv\<rparr> else p1);
         p3 = (case source of None \<Rightarrow> p2
                | Some src \<Rightarrow>
                   (let p' = (case cx_attempt src of None \<Rightarrow> p2 | Some a \<Rightarrow> p2\<lparr>cx_attempt := Some a\<rparr>)
                    in (case cx_metadata src of None \<Rightarrow> p' | Some m \<Rightarrow> p'\<lparr>cx_metadata := Some m\<rparr>)));
         sourcePermits = continuationPermits source;
         replacementPermits = continuationPermits (Some p3);
         missing = filter (\<lambda>p. p \<notin> set replacementPermits) sourcePermits
     in if sourcePermits = [] then p3
        else if missing = [] then p3
        else p3\<lparr>cx_permits := replacementPermits @ missing\<rparr>)"

section \<open>Delivery settlement and dispatch acceptance\<close>

text \<open>Both gates are polymorphic in the callbacks they hold: running an operation
  returns the callbacks it invokes, in order, and the new gate.\<close>

record 'cb settlement =
  st_committed :: bool
  st_applicationStateCommitted :: bool
  st_callbacks :: "'cb list"

definition new_settlement :: "'cb settlement" where
  "new_settlement = \<lparr>st_committed = False, st_applicationStateCommitted = False, st_callbacks = []\<rparr>"

definition deferCommit :: "'cb \<Rightarrow> 'cb settlement \<Rightarrow> 'cb list \<times> 'cb settlement" where
  "deferCommit fn s = (if \<not> st_committed s then ([], s\<lparr>st_callbacks := st_callbacks s @ [fn]\<rparr>)
     else ([fn], s))"

definition Commit :: "'cb settlement \<Rightarrow> 'cb list \<times> 'cb settlement" where
  "Commit s = (if st_committed s then ([], s)
     else (st_callbacks s, s\<lparr>st_committed := True, st_callbacks := []\<rparr>))"

definition markApplicationStateCommitted :: "'cb settlement \<Rightarrow> 'cb settlement" where
  "markApplicationStateCommitted s = s\<lparr>st_applicationStateCommitted := True\<rparr>"

definition ApplicationStateCommitted :: "'cb settlement \<Rightarrow> bool" where
  "ApplicationStateCommitted s = st_applicationStateCommitted s"

text \<open>A settlement boundary is allocated at a fresh address and attached to the
  context.\<close>

definition WithDeliverySettlement ::
  "dctx option \<Rightarrow> nat \<Rightarrow> (nat \<rightharpoonup> 'cb settlement) \<Rightarrow> dctx \<times> (nat \<rightharpoonup> 'cb settlement)" where
  "WithDeliverySettlement ctx a H =
     ((ctx_or_background ctx)\<lparr>cx_settlement := Some a\<rparr>, H(a \<mapsto> new_settlement))"

text \<open>Handlers reach their settlement through the context; the settlements are heap
  objects. \<open>MarkDeliveryApplicationStateCommitted\<close> and
  \<open>DeferUntilDeliveryCommitted\<close> report whether the context carries one.\<close>

definition MarkDeliveryApplicationStateCommitted ::
  "dctx option \<Rightarrow> (nat \<rightharpoonup> 'cb settlement) \<Rightarrow> bool \<times> (nat \<rightharpoonup> 'cb settlement)" where
  "MarkDeliveryApplicationStateCommitted ctx H =
     (case deliverySettlementFromContext ctx of None \<Rightarrow> (False, H)
      | Some a \<Rightarrow> (case H a of None \<Rightarrow> (False, H)
          | Some s \<Rightarrow> (True, H(a \<mapsto> markApplicationStateCommitted s))))"

definition DeferUntilDeliveryCommitted ::
  "dctx option \<Rightarrow> 'cb \<Rightarrow> (nat \<rightharpoonup> 'cb settlement) \<Rightarrow> bool \<times> 'cb list \<times> (nat \<rightharpoonup> 'cb settlement)" where
  "DeferUntilDeliveryCommitted ctx fn H =
     (case deliverySettlementFromContext ctx of None \<Rightarrow> (False, [], H)
      | Some a \<Rightarrow> (case H a of None \<Rightarrow> (False, [], H)
          | Some s \<Rightarrow> (case deferCommit fn s of (cs, s') \<Rightarrow> (True, cs, H(a \<mapsto> s')))))"

record 'cb dispatch_acceptance =
  ac_accepted :: bool
  ac_callbacks :: "'cb list"

definition new_acceptance :: "'cb dispatch_acceptance" where
  "new_acceptance = \<lparr>ac_accepted = False, ac_callbacks = []\<rparr>"

definition onAccepted :: "'cb \<Rightarrow> 'cb dispatch_acceptance \<Rightarrow> 'cb list \<times> 'cb dispatch_acceptance" where
  "onAccepted fn a = (if \<not> ac_accepted a then ([], a\<lparr>ac_callbacks := ac_callbacks a @ [fn]\<rparr>)
     else ([fn], a))"

definition markAccepted :: "'cb dispatch_acceptance \<Rightarrow> 'cb list \<times> 'cb dispatch_acceptance" where
  "markAccepted a = (if ac_accepted a then ([], a)
     else (ac_callbacks a, a\<lparr>ac_accepted := True, ac_callbacks := []\<rparr>))"

definition isAccepted :: "'cb dispatch_acceptance \<Rightarrow> bool" where
  "isAccepted a = ac_accepted a"

subsection \<open>The interface the two gates share\<close>

text \<open>A gate is closed until it is opened once; a callback registered while it is
  closed waits, one registered afterwards runs at once.\<close>

datatype 'cb gate_op = Register 'cb | Open

definition gate_step ::
  "('cb \<Rightarrow> 'g \<Rightarrow> 'cb list \<times> 'g) \<Rightarrow> ('g \<Rightarrow> 'cb list \<times> 'g) \<Rightarrow> 'cb gate_op \<Rightarrow> 'g \<Rightarrow> 'cb list \<times> 'g" where
  "gate_step reg opn op g = (case op of Register c \<Rightarrow> reg c g | Open \<Rightarrow> opn g)"

fun gate_run ::
  "('cb \<Rightarrow> 'g \<Rightarrow> 'cb list \<times> 'g) \<Rightarrow> ('g \<Rightarrow> 'cb list \<times> 'g) \<Rightarrow> 'cb gate_op list \<Rightarrow> 'g \<Rightarrow> 'cb list \<times> 'g" where
  "gate_run reg opn [] g = ([], g)"
| "gate_run reg opn (op # ops) g =
     (let (cs, g') = gate_step reg opn op g; (cs', g'') = gate_run reg opn ops g' in (cs @ cs', g''))"

fun registered :: "'cb gate_op list \<Rightarrow> 'cb list" where
  "registered [] = []"
| "registered (Register c # ops) = c # registered ops"
| "registered (Open # ops) = registered ops"

locale commit_gate =
  fixes opened :: "'g \<Rightarrow> bool"
    and waiting :: "'g \<Rightarrow> 'cb list"
    and reg :: "'cb \<Rightarrow> 'g \<Rightarrow> 'cb list \<times> 'g"
    and opn :: "'g \<Rightarrow> 'cb list \<times> 'g"
  assumes reg_closed: "\<not> opened g \<Longrightarrow> reg c g = (cs, g') \<Longrightarrow>
      cs = [] \<and> \<not> opened g' \<and> waiting g' = waiting g @ [c]"
    and reg_opened: "opened g \<Longrightarrow> reg c g = ([c], g)"
    and opn_closed: "\<not> opened g \<Longrightarrow> opn g = (cs, g') \<Longrightarrow> cs = waiting g \<and> opened g' \<and> waiting g' = []"
    and opn_opened: "opened g \<Longrightarrow> opn g = ([], g)"
begin

lemma run_opened: "opened g \<Longrightarrow> gate_run reg opn ops g = (registered ops, g)"
  by (induction ops rule: registered.induct) (auto simp: gate_step_def reg_opened opn_opened)

lemma run_closed_no_open:
  "\<not> opened g \<Longrightarrow> Open \<notin> set ops \<Longrightarrow> gate_run reg opn ops g = (cs, g') \<Longrightarrow>
     cs = [] \<and> \<not> opened g' \<and> waiting g' = waiting g @ registered ops"
proof (induction ops arbitrary: g cs g' rule: registered.induct)
  case (2 c ops)
  obtain cs1 g1 where s: "reg c g = (cs1, g1)" by (cases "reg c g")
  note s1 = reg_closed [OF "2.prems"(1) s]
  obtain cs2 g2 where r: "gate_run reg opn ops g1 = (cs2, g2)" by (cases "gate_run reg opn ops g1")
  have "cs2 = [] \<and> \<not> opened g2 \<and> waiting g2 = waiting g1 @ registered ops"
    using "2.IH" [OF _ _ r] s1 "2.prems"(2) by auto
  then show ?case using "2.prems"(3) s s1 r by (auto simp: gate_step_def)
qed auto

text \<open>Until the gate opens nothing runs; once it has, every registered callback has
  run exactly once, in the order of registration.\<close>

lemma run_callbacks:
  assumes "\<not> opened g" "waiting g = []" "gate_run reg opn ops g = (cs, g')"
  shows "if Open \<in> set ops then opened g' \<and> cs = registered ops else \<not> opened g' \<and> cs = []"
proof -
  have "\<not> opened g \<Longrightarrow> gate_run reg opn ops g = (cs, g') \<Longrightarrow> Open \<in> set ops \<Longrightarrow>
      opened g' \<and> cs = waiting g @ registered ops" for ops g cs g'
  proof (induction ops arbitrary: g cs g' rule: registered.induct)
    case (2 c ops)
    obtain cs1 g1 where s: "reg c g = (cs1, g1)" by (cases "reg c g")
    note s1 = reg_closed [OF "2.prems"(1) s]
    obtain cs2 g2 where r: "gate_run reg opn ops g1 = (cs2, g2)" by (cases "gate_run reg opn ops g1")
    have "opened g2 \<and> cs2 = waiting g1 @ registered ops"
      using "2.IH" [of g1 cs2 g2] s1 "2.prems" r s by (auto simp: gate_step_def)
    then show ?case using "2.prems"(2) s s1 r by (auto simp: gate_step_def)
  next
    case (3 ops)
    obtain cs1 g1 where s: "opn g = (cs1, g1)" by (cases "opn g")
    note s1 = opn_closed [OF "3.prems"(1) s]
    then show ?case using "3.prems"(2) s run_opened [of g1 ops] by (auto simp: gate_step_def)
  qed simp
  then show ?thesis using assms run_closed_no_open [OF assms(1) _ assms(3)] by auto
qed

end

interpretation settlement_gate: commit_gate st_committed st_callbacks deferCommit Commit
  by unfold_locales (auto simp: deferCommit_def Commit_def)

interpretation acceptance_gate: commit_gate ac_accepted ac_callbacks onAccepted markAccepted
  by unfold_locales (auto simp: onAccepted_def markAccepted_def)

section \<open>Lemmas on contexts and permits\<close>

lemma continuationPermits_Some [simp]: "continuationPermits (Some c) = cx_permits c"
  by (simp add: continuationPermits_def)

lemma continuationPermits_background [simp]:
  "cx_permits (ctx_or_background ctx) = continuationPermits ctx"
  by (cases ctx) (simp_all add: ctx_or_background_def background_def continuationPermits_def)

lemma Owns_iff:
  "Owns (Some tok) ctx h \<longleftrightarrow> (\<exists>p \<in> set (continuationPermits ctx). permit_live tok h p)"
  by (simp add: Owns_def list_ex_iff)

lemma Owns_None [simp]: "\<not> Owns None ctx h"
  by (simp add: Owns_def)

lemma PreserveDeliveryContext_permits:
  "set (cx_permits (PreserveDeliveryContext src rep)) =
     set (continuationPermits src) \<union> set (continuationPermits rep)"
proof -
  have p: "cx_permits (case deliverySettlementFromContext src of None \<Rightarrow> c | Some s \<Rightarrow> c\<lparr>cx_settlement := Some s\<rparr>)
      = cx_permits c" for c by (simp split: option.splits)
  show ?thesis
    unfolding PreserveDeliveryContext_def Let_def
    by (auto simp: p filter_empty_conv split: option.splits prod.splits if_splits)
qed

text \<open>A heap is well formed when the next address is fresh and every context in use
  holds allocated permits only.\<close>

definition permit_heap_ok :: "permit_heap \<Rightarrow> bool" where
  "permit_heap_ok h \<longleftrightarrow> (\<forall>p pm. ph_permits h p = Some pm \<longrightarrow> p < ph_next h)"

lemma permit_fresh: "permit_heap_ok h \<Longrightarrow> \<not> permit_live tok h (ph_next h)"
  by (auto simp: permit_heap_ok_def permit_live_def split: option.splits)

lemma Permit_live:
  "permit_heap_ok h \<Longrightarrow> Permit (Some tok) ctx h = (c, r, h')
   \<Longrightarrow> permit_live t h' p = (if p = ph_next h then t = tok else permit_live t h p)"
  by (auto simp: Permit_def Let_def permit_live_def)

lemma release_live:
  "permit_heap_ok h \<Longrightarrow> Permit (Some tok) ctx h = (c, r, h')
   \<Longrightarrow> permit_live t (release_permit r h') p = permit_live t h p"
  using permit_fresh [of h t]
  by (cases "p = ph_next h") (auto simp: Permit_def Let_def release_permit_def permit_live_def)

lemma Permit_permits:
  "Permit (Some tok) ctx h = (c, r, h') \<Longrightarrow> cx_permits c = continuationPermits ctx @ [ph_next h]"
  by (auto simp: Permit_def Let_def)

section \<open>Properties\<close>

text \<open>C16. Deferred facts of a delivery are published exactly once, in order, and only
  after broker settlement: running any sequence of registrations and commits on a new
  settlement invokes nothing if it is never committed, and otherwise every registered
  callback exactly once in registration order.\<close>

theorem settlement_publishes_once:
  "fst (gate_run deferCommit Commit ops new_settlement) = (if Open \<in> set ops then registered ops else [])"
  using settlement_gate.run_callbacks [of new_settlement ops]
  by (cases "gate_run deferCommit Commit ops new_settlement") (auto simp: new_settlement_def split: if_splits)

text \<open>C17. Callbacks waiting for the acceptance of a dispatch run exactly once, in
  order, and only when the dispatch was accepted.\<close>

theorem acceptance_runs_once:
  "fst (gate_run onAccepted markAccepted ops new_acceptance) = (if Open \<in> set ops then registered ops else [])"
  using acceptance_gate.run_callbacks [of new_acceptance ops]
  by (cases "gate_run onAccepted markAccepted ops new_acceptance") (auto simp: new_acceptance_def split: if_splits)

text \<open>C18. A continuation permit lasts exactly as long as its handler: the context a
  scope marks is owned by that scope until the permit is released, and after the
  release neither that context nor any context that preserved its delivery state owns
  more than what the original contexts owned before.\<close>

theorem permit_expires_on_release:
  assumes "permit_heap_ok h" "Permit (Some tok) ctx h = (c, r, h')"
  shows "Owns (Some tok) (Some c) h'
    \<and> Owns s (Some c) (release_permit r h') = Owns s ctx h
    \<and> Owns s (Some (PreserveDeliveryContext (Some c) other)) (release_permit r h') = (Owns s ctx h \<or> Owns s other h)"
proof -
  have f: "\<not> permit_live t h (ph_next h)" for t using assms(1) by (rule permit_fresh)
  note p = Permit_permits [OF assms(2)] Permit_live [OF assms] release_live [OF assms]
  show ?thesis
    by (cases s) (auto simp: Owns_iff p f PreserveDeliveryContext_permits)
qed

theorem permit_expires_on_release_witness:
  "\<exists>c r h'. Permit (Some 7) None \<lparr>ph_next = 0, ph_permits = Map.empty\<rparr> = (c, r, h')
     \<and> Owns (Some 7) (Some c) h' \<and> \<not> Owns (Some 7) (Some c) (release_permit r h')"
proof -
  let ?h = "\<lparr>ph_next = 0, ph_permits = Map.empty\<rparr>"
  obtain c r h' where p: "Permit (Some 7) None ?h = (c, r, h')" by (cases "Permit (Some 7) None ?h")
  have ok: "permit_heap_ok ?h" by (simp add: permit_heap_ok_def)
  have "\<not> Owns (Some 7) None ?h" by (simp add: Owns_iff continuationPermits_def)
  then show ?thesis using p permit_expires_on_release [OF ok p, of "Some 7" None] by blast
qed

end
