(* ===== verification/WorkflowTypes.thy ===== *)
theory WorkflowTypes
  imports BusRuntime
begin

text \<open>
  The data of the workflow engine: jobs and delivery envelopes
  (\<open>internal/workflow/types.go\<close>, \<open>runtime.go\<close>), the physical protocol
  (\<open>protocol.go\<close>), observer events (\<open>events.go\<close>), middleware composition
  (\<open>middleware.go\<close>), and the persisted workflow records together with the
  validation and disposition functions every store shares (\<open>store.go\<close>).
\<close>

section \<open>Jobs and envelopes\<close>

record job_options =
  jo_Queue :: string
  jo_Delay :: duration
  jo_Timeout :: duration
  jo_Retry :: int
  jo_Backoff :: duration
  jo_UniqueFor :: duration

record 'p job =
  jb_Type :: string
  jb_Payload :: 'p
  jb_Options :: job_options

definition zero_job_options :: job_options where
  "zero_job_options = \<lparr>jo_Queue = [], jo_Delay = 0, jo_Timeout = 0, jo_Retry = 0, jo_Backoff = 0,
     jo_UniqueFor = 0\<rparr>"

definition NewJob :: "string \<Rightarrow> 'p \<Rightarrow> 'p job" where
  "NewJob jobType payload = \<lparr>jb_Type = jobType, jb_Payload = payload, jb_Options = zero_job_options\<rparr>"

definition job_OnQueue :: "string \<Rightarrow> 'p job \<Rightarrow> 'p job" where
  "job_OnQueue name j = j\<lparr>jb_Options := (jb_Options j)\<lparr>jo_Queue := name\<rparr>\<rparr>"

definition job_Delay :: "duration \<Rightarrow> 'p job \<Rightarrow> 'p job" where
  "job_Delay d j = j\<lparr>jb_Options := (jb_Options j)\<lparr>jo_Delay := d\<rparr>\<rparr>"

definition job_Timeout :: "duration \<Rightarrow> 'p job \<Rightarrow> 'p job" where
  "job_Timeout d j = j\<lparr>jb_Options := (jb_Options j)\<lparr>jo_Timeout := d\<rparr>\<rparr>"

definition job_Retry :: "int \<Rightarrow> 'p job \<Rightarrow> 'p job" where
  "job_Retry n j = j\<lparr>jb_Options := (jb_Options j)\<lparr>jo_Retry := n\<rparr>\<rparr>"

definition job_Backoff :: "duration \<Rightarrow> 'p job \<Rightarrow> 'p job" where
  "job_Backoff d j = j\<lparr>jb_Options := (jb_Options j)\<lparr>jo_Backoff := d\<rparr>\<rparr>"

definition job_UniqueFor :: "duration \<Rightarrow> 'p job \<Rightarrow> 'p job" where
  "job_UniqueFor d j = j\<lparr>jb_Options := (jb_Options j)\<lparr>jo_UniqueFor := d\<rparr>\<rparr>"

record stored_job =
  sj_Type :: string
  sj_Payload :: bytes
  sj_Options :: job_options

text \<open>Serialisation of an application payload is \<open>json.Marshal\<close>, passed in.\<close>

definition toStoredJob :: "('p \<Rightarrow> goerr + bytes) \<Rightarrow> 'p job \<Rightarrow> goerr + stored_job" where
  "toStoredJob marshal j =
     (if jb_Type j = [] then Inl (ErrNew ''bus job type is required'')
      else case marshal (jb_Payload j) of Inl e \<Rightarrow> Inl e
        | Inr payload \<Rightarrow> Inr \<lparr>sj_Type = jb_Type j, sj_Payload = payload, sj_Options = jb_Options j\<rparr>)"

definition storedJobsEqual :: "stored_job \<Rightarrow> stored_job \<Rightarrow> bool" where
  "storedJobsEqual l r \<longleftrightarrow> sj_Type l = sj_Type r \<and> sj_Payload l = sj_Payload r \<and> sj_Options l = sj_Options r"

record envelope =
  en_SchemaVersion :: int
  en_DispatchID :: string
  en_Kind :: string
  en_JobID :: string
  en_ChainID :: string
  en_BatchID :: string
  en_NodeID :: string
  en_Attempt :: int
  en_Job :: stored_job
  en_CallbackKind :: string
  en_Error :: string

definition zero_stored_job :: stored_job where
  "zero_stored_job = \<lparr>sj_Type = [], sj_Payload = [], sj_Options = zero_job_options\<rparr>"

definition zero_envelope :: envelope where
  "zero_envelope = \<lparr>en_SchemaVersion = 0, en_DispatchID = [], en_Kind = [], en_JobID = [],
     en_ChainID = [], en_BatchID = [], en_NodeID = [], en_Attempt = 0, en_Job = zero_stored_job,
     en_CallbackKind = [], en_Error = []\<rparr>"

text \<open>The message a handler and its middleware receive.\<close>

record wcontext =
  wc_SchemaVersion :: int
  wc_DispatchID :: string
  wc_JobID :: string
  wc_ChainID :: string
  wc_BatchID :: string
  wc_Attempt :: int
  wc_JobType :: string
  wc_payload :: bytes

definition NewContext ::
  "int \<Rightarrow> string \<Rightarrow> string \<Rightarrow> string \<Rightarrow> string \<Rightarrow> int \<Rightarrow> string \<Rightarrow> bytes \<Rightarrow> wcontext" where
  "NewContext schemaVersion dispatchID jobID chainID batchID attempt jobType payload =
     \<lparr>wc_SchemaVersion = schemaVersion, wc_DispatchID = dispatchID, wc_JobID = jobID,
      wc_ChainID = chainID, wc_BatchID = batchID, wc_Attempt = attempt, wc_JobType = jobType,
      wc_payload = payload\<rparr>"

definition PayloadBytes :: "wcontext \<Rightarrow> bytes" where
  "PayloadBytes c = wc_payload c"

section \<open>The physical protocol\<close>

definition ProtocolSchemaVersion :: int where "ProtocolSchemaVersion = 1"
definition DirectDeliveryType :: string where "DirectDeliveryType = ''bus:job''"
definition ChainNodeDeliveryType :: string where "ChainNodeDeliveryType = ''bus:chain:node''"
definition BatchJobDeliveryType :: string where "BatchJobDeliveryType = ''bus:batch:job''"
definition CallbackDeliveryType :: string where "CallbackDeliveryType = ''bus:callback''"

lemmas protocol_names [go_defs] = ProtocolSchemaVersion_def DirectDeliveryType_def
  ChainNodeDeliveryType_def BatchJobDeliveryType_def CallbackDeliveryType_def

definition IsDeliveryType :: "string \<Rightarrow> bool" where
  "IsDeliveryType t \<longleftrightarrow> t = DirectDeliveryType \<or> t = ChainNodeDeliveryType
     \<or> t = BatchJobDeliveryType \<or> t = CallbackDeliveryType"

record resolved_delivery =
  rd_JobType :: string
  rd_Payload :: bytes
  rd_DispatchID :: string
  rd_JobID :: string
  rd_ChainID :: string
  rd_BatchID :: string

text \<open>The fields \<open>ResolveDelivery\<close> decodes from the payload.\<close>

record delivery_envelope =
  de_SchemaVersion :: int
  de_DispatchID :: string
  de_JobID :: string
  de_ChainID :: string
  de_BatchID :: string
  de_JobType :: string
  de_JobPayload :: bytes

text \<open>\<open>unmarshal\<close> is \<open>json.Unmarshal\<close> into that struct; \<^const>\<open>None\<close> is an error.\<close>

definition ResolveDelivery ::
  "(bytes \<Rightarrow> delivery_envelope option) \<Rightarrow> string \<Rightarrow> bytes \<Rightarrow> resolved_delivery" where
  "ResolveDelivery unmarshal deliveryType payload =
    (let metadata = \<lparr>rd_JobType = deliveryType, rd_Payload = payload, rd_DispatchID = [], rd_JobID = [],
                      rd_ChainID = [], rd_BatchID = []\<rparr>
     in if deliveryType = [] \<or> length payload = 0 \<or> \<not> IsDeliveryType deliveryType then metadata
        else case unmarshal payload of None \<Rightarrow> metadata
          | Some env \<Rightarrow>
             if de_SchemaVersion env \<noteq> ProtocolSchemaVersion then metadata
             else (let m = metadata\<lparr>rd_DispatchID := de_DispatchID env, rd_JobID := de_JobID env,
                              rd_ChainID := de_ChainID env, rd_BatchID := de_BatchID env\<rparr>
                   in if de_JobType env \<noteq> []
                      then m\<lparr>rd_JobType := de_JobType env, rd_Payload := de_JobPayload env\<rparr> else m))"

section \<open>Observer events\<close>

datatype event_kind =
    EventDispatchStarted | EventDispatchSucceeded | EventDispatchFailed
  | EventJobStarted | EventJobSucceeded | EventJobFailed
  | EventChainStarted | EventChainAdvanced | EventChainCompleted | EventChainFailed
  | EventBatchStarted | EventBatchProgressed | EventBatchCompleted | EventBatchFailed
  | EventBatchCancelled | EventCallbackStarted | EventCallbackSucceeded | EventCallbackFailed

fun event_kind_text :: "event_kind \<Rightarrow> string" where
  "event_kind_text EventDispatchStarted = ''dispatch_started''"
| "event_kind_text EventDispatchSucceeded = ''dispatch_succeeded''"
| "event_kind_text EventDispatchFailed = ''dispatch_failed''"
| "event_kind_text EventJobStarted = ''job_started''"
| "event_kind_text EventJobSucceeded = ''job_succeeded''"
| "event_kind_text EventJobFailed = ''job_failed''"
| "event_kind_text EventChainStarted = ''chain_started''"
| "event_kind_text EventChainAdvanced = ''chain_advanced''"
| "event_kind_text EventChainCompleted = ''chain_completed''"
| "event_kind_text EventChainFailed = ''chain_failed''"
| "event_kind_text EventBatchStarted = ''batch_started''"
| "event_kind_text EventBatchProgressed = ''batch_progressed''"
| "event_kind_text EventBatchCompleted = ''batch_completed''"
| "event_kind_text EventBatchFailed = ''batch_failed''"
| "event_kind_text EventBatchCancelled = ''batch_cancelled''"
| "event_kind_text EventCallbackStarted = ''callback_started''"
| "event_kind_text EventCallbackSucceeded = ''callback_succeeded''"
| "event_kind_text EventCallbackFailed = ''callback_failed''"

record event =
  ev_SchemaVersion :: int
  ev_EventID :: string
  ev_Kind :: event_kind
  ev_DispatchID :: string
  ev_JobID :: string
  ev_ChainID :: string
  ev_BatchID :: string
  ev_Attempt :: int
  ev_JobType :: string
  ev_JobKey :: string
  ev_Queue :: string
  ev_Duration :: duration
  ev_Time :: time
  ev_Err :: "goerr option"

definition eventSchemaVersion :: int where "eventSchemaVersion = 1"

definition eventWaitsForDeliverySettlement :: "event_kind \<Rightarrow> bool" where
  "eventWaitsForDeliverySettlement k \<longleftrightarrow>
     k = EventJobSucceeded \<or> k = EventChainAdvanced \<or> k = EventChainCompleted
     \<or> k = EventBatchProgressed \<or> k = EventBatchCompleted \<or> k = EventCallbackSucceeded"

section \<open>Middleware\<close>

text \<open>A middleware turns the remaining execution into a larger one; a nil one is
  skipped. The loop runs from the last middleware to the first.\<close>

definition chainMiddleware :: "('n \<Rightarrow> 'n) option list \<Rightarrow> 'n \<Rightarrow> 'n" where
  "chainMiddleware ms final =
     foldr (\<lambda>m next. case m of None \<Rightarrow> next | Some handle \<Rightarrow> handle next) ms final"

section \<open>Persisted workflow records\<close>

record chain_node =
  cn_NodeID :: string
  cn_Job :: stored_job

record chain_record =
  cr_ChainID :: string
  cr_DispatchID :: string
  cr_Queue :: string
  cr_Nodes :: "chain_node list"
  cr_CreatedAt :: time

record chain_state =
  cs_ChainID :: string
  cs_DispatchID :: string
  cs_Queue :: string
  cs_Nodes :: "chain_node list"
  cs_NextIndex :: int
  cs_Completed :: bool
  cs_Failed :: bool
  cs_Failure :: string
  cs_CreatedAt :: time
  cs_UpdatedAt :: time

record batch_job =
  bj_JobID :: string
  bj_Job :: stored_job

record batch_record =
  br_BatchID :: string
  br_DispatchID :: string
  br_Name :: string
  br_Queue :: string
  br_AllowFailed :: bool
  br_Jobs :: "batch_job list"
  br_CreatedAt :: time

text \<open>\<open>BatchJobOutcome\<close> is a string type with two named values; every other string
  is \<open>OtherOutcome\<close>.\<close>

datatype batch_job_outcome = BatchJobSucceeded | BatchJobFailed | OtherOutcome string

record batch_state =
  bs_BatchID :: string
  bs_DispatchID :: string
  bs_Name :: string
  bs_Queue :: string
  bs_AllowFailed :: bool
  bs_Total :: int
  bs_Pending :: int
  bs_Processed :: int
  bs_Failed :: int
  bs_Cancelled :: bool
  bs_Completed :: bool
  bs_CreatedAt :: time
  bs_UpdatedAt :: time

record transition_claim =
  tc_deliveryID :: string
  tc_attempt :: int
  tc_dispatchID :: string
  tc_jobID :: string
  tc_jobFingerprint :: string

definition claim_valid :: "transition_claim \<Rightarrow> bool" where
  "claim_valid c \<longleftrightarrow> tc_deliveryID c \<noteq> [] \<and> tc_attempt c \<ge> 0 \<and> tc_dispatchID c \<noteq> []
     \<and> tc_jobID c \<noteq> [] \<and> tc_jobFingerprint c \<noteq> []"

datatype workflow_kind = ChainTransitionKind | BatchTransitionKind | OtherKind string

record transition_receipt =
  tr_version :: int
  tr_eventSchemaVersion :: int
  tr_workflowKind :: workflow_kind
  tr_workflowID :: string
  tr_workflowDispatchID :: string
  tr_workflowCreatedAt :: time
  tr_memberID :: string
  tr_outcome :: batch_job_outcome
  tr_owner :: transition_claim
  tr_aggregateCompleted :: bool
  tr_aggregateCancelled :: bool
  tr_createdAt :: time

record transition_receipt_key =
  tk_workflowKind :: workflow_kind
  tk_workflowID :: string
  tk_memberID :: string

definition transitionReceiptVersion :: int where "transitionReceiptVersion = 1"

definition zero_claim :: transition_claim where
  "zero_claim = \<lparr>tc_deliveryID = [], tc_attempt = 0, tc_dispatchID = [], tc_jobID = [], tc_jobFingerprint = []\<rparr>"

definition zero_receipt :: transition_receipt where
  "zero_receipt = \<lparr>tr_version = 0, tr_eventSchemaVersion = 0, tr_workflowKind = OtherKind [], tr_workflowID = [],
     tr_workflowDispatchID = [], tr_workflowCreatedAt = 0, tr_memberID = [], tr_outcome = OtherOutcome [],
     tr_owner = zero_claim, tr_aggregateCompleted = False, tr_aggregateCancelled = False, tr_createdAt = 0\<rparr>"

definition zero_chain_state :: chain_state where
  "zero_chain_state = \<lparr>cs_ChainID = [], cs_DispatchID = [], cs_Queue = [], cs_Nodes = [], cs_NextIndex = 0,
     cs_Completed = False, cs_Failed = False, cs_Failure = [], cs_CreatedAt = 0, cs_UpdatedAt = 0\<rparr>"

definition zero_batch_state :: batch_state where
  "zero_batch_state = \<lparr>bs_BatchID = [], bs_DispatchID = [], bs_Name = [], bs_Queue = [], bs_AllowFailed = False,
     bs_Total = 0, bs_Pending = 0, bs_Processed = 0, bs_Failed = 0, bs_Cancelled = False, bs_Completed = False,
     bs_CreatedAt = 0, bs_UpdatedAt = 0\<rparr>"

definition receipt_supported :: "transition_receipt \<Rightarrow> bool" where
  "receipt_supported r \<longleftrightarrow> tr_version r = transitionReceiptVersion \<and> tr_eventSchemaVersion r = eventSchemaVersion"

definition validateTransitionReceiptSupport :: "transition_receipt \<Rightarrow> goerr option" where
  "validateTransitionReceiptSupport r =
     (if receipt_supported r then None
      else Some (ErrWrap [] (Sentinel ErrUnsupportedTransitionReceipt)
        ('': receipt version '' @ int_str (tr_version r) @ '', event schema '' @ int_str (tr_eventSchemaVersion r))))"

record chain_advance_result =
  ca_state :: chain_state
  ca_next :: "chain_node option"
  ca_done :: bool
  ca_successOwned :: bool
  ca_claimedNow :: bool
  ca_receipt :: transition_receipt
  ca_receiptKnown :: bool

record chain_failure_result =
  cf_state :: chain_state
  cf_owned :: bool
  cf_claimedNow :: bool
  cf_receipt :: transition_receipt
  cf_receiptKnown :: bool

record batch_settlement_result =
  br_state :: batch_state
  br_owned :: bool
  br_claimedNow :: bool
  br_receipt :: transition_receipt
  br_receiptKnown :: bool

section \<open>Validation and dispositions\<close>

definition chainNodePosition :: "chain_node list \<Rightarrow> string \<Rightarrow> nat option" where
  "chainNodePosition nodes nodeID = find_index (\<lambda>n. cn_NodeID n = nodeID) nodes"

fun validateChainNodes :: "string set \<Rightarrow> chain_node list \<Rightarrow> goerr option" where
  "validateChainNodes seen [] = None"
| "validateChainNodes seen (n # ns) =
     (if cn_NodeID n = [] then Some (ErrNew ''chain node id is required'')
      else if cn_NodeID n \<in> seen then Some (ErrNew (''chain contains duplicate node id '' @ quote (cn_NodeID n)))
      else validateChainNodes (insert (cn_NodeID n) seen) ns)"

definition validateChainRecord :: "chain_record \<Rightarrow> goerr option" where
  "validateChainRecord rec =
     (if cr_ChainID rec = [] then Some (ErrNew ''chain id is required'')
      else if cr_Nodes rec = [] then Some (ErrNew ''chain requires at least one node'')
      else validateChainNodes {} (cr_Nodes rec))"

fun validateBatchJobs :: "string set \<Rightarrow> batch_job list \<Rightarrow> goerr option" where
  "validateBatchJobs seen [] = None"
| "validateBatchJobs seen (j # js) =
     (if bj_JobID j = [] then Some (ErrNew ''batch job id is required'')
      else if bj_JobID j \<in> seen then Some (ErrNew (''batch contains duplicate job id '' @ quote (bj_JobID j)))
      else validateBatchJobs (insert (bj_JobID j) seen) js)"

definition validateBatchRecord :: "batch_record \<Rightarrow> goerr option" where
  "validateBatchRecord rec =
     (if br_BatchID rec = [] then Some (ErrNew ''batch id is required'')
      else if br_Jobs rec = [] then Some (ErrNew ''batch requires at least one job'')
      else validateBatchJobs {} (br_Jobs rec))"

definition validateChainState :: "chain_state \<Rightarrow> goerr option" where
  "validateChainState st =
     (case validateChainRecord \<lparr>cr_ChainID = cs_ChainID st, cr_DispatchID = [], cr_Queue = [],
              cr_Nodes = cs_Nodes st, cr_CreatedAt = 0\<rparr> of
        Some e \<Rightarrow> Some e
      | None \<Rightarrow>
          if cs_NextIndex st < 0 \<or> cs_NextIndex st > int (length (cs_Nodes st))
          then Some (ErrNew (''chain '' @ quote (cs_ChainID st) @ '' has invalid next index '' @ int_str (cs_NextIndex st)))
          else if cs_Completed st \<noteq> (cs_NextIndex st = int (length (cs_Nodes st)))
          then Some (ErrNew (''chain '' @ quote (cs_ChainID st) @ '' completion does not match next index ''
                              @ int_str (cs_NextIndex st)))
          else None)"

definition chain_lacks_node :: "chain_state \<Rightarrow> string \<Rightarrow> goerr" where
  "chain_lacks_node st nodeID =
     ErrNew (''chain '' @ quote (cs_ChainID st) @ '' does not contain node '' @ quote nodeID)"

definition chain_early_node :: "chain_state \<Rightarrow> string \<Rightarrow> string \<Rightarrow> goerr" where
  "chain_early_node st nodeID word =
     ErrNew (''chain '' @ quote (cs_ChainID st) @ '' received node '' @ quote nodeID @ word
              @ quote (cn_NodeID (cs_Nodes st ! nat (cs_NextIndex st))))"

definition chain_bad_index :: "chain_state \<Rightarrow> goerr" where
  "chain_bad_index st =
     ErrNew (''chain '' @ quote (cs_ChainID st) @ '' has invalid next index '' @ int_str (cs_NextIndex st))"

definition chainNodeSuccessDisposition :: "chain_state \<Rightarrow> string \<Rightarrow> goerr + bool" where
  "chainNodeSuccessDisposition st nodeID =
     (case validateChainState st of Some e \<Rightarrow> Inl e
      | None \<Rightarrow> (case chainNodePosition (cs_Nodes st) nodeID of None \<Rightarrow> Inl (chain_lacks_node st nodeID)
          | Some index \<Rightarrow>
              if int index > cs_NextIndex st then Inl (chain_early_node st nodeID '' before node '')
              else Inr (int index < cs_NextIndex st)))"

text \<open>The result is the successor, whether the chain is done, and whether the
  current node can be claimed.\<close>

definition chainNodeAdvanceDisposition ::
  "chain_state \<Rightarrow> string \<Rightarrow> goerr + chain_node option \<times> bool \<times> bool" where
  "chainNodeAdvanceDisposition st nodeID =
     (case chainNodePosition (cs_Nodes st) nodeID of None \<Rightarrow> Inl (chain_lacks_node st nodeID)
      | Some index \<Rightarrow>
          if cs_Completed st then Inr (None, True, False)
          else if cs_NextIndex st < 0 \<or> cs_NextIndex st \<ge> int (length (cs_Nodes st)) then Inl (chain_bad_index st)
          else if cs_Failed st then
            (if int index > cs_NextIndex st then Inl (chain_early_node st nodeID '' after failure at node '')
             else Inr (None, True, False))
          else if int index > cs_NextIndex st then Inl (chain_early_node st nodeID '' before node '')
          else if int index = cs_NextIndex st then Inr (None, False, True)
          else Inr (Some (cs_Nodes st ! nat (cs_NextIndex st)), False, False))"

text \<open>The result is whether failure already owns the node and whether it can still
  claim it.\<close>

definition chainNodeFailureDisposition :: "chain_state \<Rightarrow> string \<Rightarrow> goerr + bool \<times> bool" where
  "chainNodeFailureDisposition st nodeID =
     (case chainNodePosition (cs_Nodes st) nodeID of None \<Rightarrow> Inl (chain_lacks_node st nodeID)
      | Some index \<Rightarrow>
          if cs_Completed st then Inr (False, False)
          else if cs_NextIndex st < 0 \<or> cs_NextIndex st \<ge> int (length (cs_Nodes st)) then Inl (chain_bad_index st)
          else if cs_Failed st then
            (if int index > cs_NextIndex st then Inl (chain_early_node st nodeID '' after failure at node '')
             else Inr (int index = cs_NextIndex st, False))
          else if int index < cs_NextIndex st then Inr (False, False)
          else if int index > cs_NextIndex st then Inl (chain_early_node st nodeID '' before node '')
          else Inr (False, True))"

definition cloneChainNode :: "chain_node \<Rightarrow> chain_node" where
  "cloneChainNode n = n\<lparr>cn_Job := (cn_Job n)\<lparr>sj_Payload := [] @ sj_Payload (cn_Job n)\<rparr>\<rparr>"

definition cloneChainNodes :: "chain_node list \<Rightarrow> chain_node list" where
  "cloneChainNodes ns = map cloneChainNode ns"

section \<open>Lemmas\<close>

lemma cloneChainNode_id [simp]: "cloneChainNode n = n"
  by (simp add: cloneChainNode_def)

lemma cloneChainNodes_id [simp]: "cloneChainNodes ns = ns"
  by (simp add: cloneChainNodes_def map_idI)

lemma storedJobsEqual_iff [simp]: "storedJobsEqual l r \<longleftrightarrow> l = r"
  by (cases l, cases r) (auto simp: storedJobsEqual_def)

lemma validateChainNodes_None:
  "validateChainNodes seen ns = None \<longleftrightarrow>
     distinct (map cn_NodeID ns) \<and> [] \<notin> cn_NodeID ` set ns \<and> cn_NodeID ` set ns \<inter> seen = {}"
  by (induction seen ns rule: validateChainNodes.induct) auto

lemma validateBatchJobs_None:
  "validateBatchJobs seen js = None \<longleftrightarrow>
     distinct (map bj_JobID js) \<and> [] \<notin> bj_JobID ` set js \<and> bj_JobID ` set js \<inter> seen = {}"
  by (induction seen js rule: validateBatchJobs.induct) auto

text \<open>Well-formed node lists and member lists, and the chain states every store
  accepts.\<close>

definition nodes_ok :: "chain_node list \<Rightarrow> bool" where
  "nodes_ok ns \<longleftrightarrow> ns \<noteq> [] \<and> distinct (map cn_NodeID ns) \<and> [] \<notin> cn_NodeID ` set ns"

lemma validateChainRecord_None:
  "validateChainRecord rec = None \<longleftrightarrow> cr_ChainID rec \<noteq> [] \<and> nodes_ok (cr_Nodes rec)"
  by (auto simp: validateChainRecord_def validateChainNodes_None nodes_ok_def)

lemma validateBatchRecord_None:
  "validateBatchRecord rec = None \<longleftrightarrow> br_BatchID rec \<noteq> [] \<and> br_Jobs rec \<noteq> []
     \<and> distinct (map bj_JobID (br_Jobs rec)) \<and> [] \<notin> bj_JobID ` set (br_Jobs rec)"
  by (auto simp: validateBatchRecord_def validateBatchJobs_None)

lemma validateChainState_None:
  "validateChainState st = None \<longleftrightarrow> cs_ChainID st \<noteq> [] \<and> nodes_ok (cs_Nodes st)
     \<and> 0 \<le> cs_NextIndex st \<and> cs_NextIndex st \<le> int (length (cs_Nodes st))
     \<and> (cs_Completed st \<longleftrightarrow> cs_NextIndex st = int (length (cs_Nodes st)))"
proof -
  let ?r = "\<lparr>cr_ChainID = cs_ChainID st, cr_DispatchID = [], cr_Queue = [], cr_Nodes = cs_Nodes st,
             cr_CreatedAt = 0\<rparr>"
  show ?thesis
    using validateChainRecord_None [of ?r]
    by (cases "validateChainRecord ?r") (auto simp: validateChainState_def)
qed

lemma chainNodePosition_Some:
  "chainNodePosition ns nodeID = Some i \<Longrightarrow> i < length ns \<and> cn_NodeID (ns ! i) = nodeID"
  by (simp add: chainNodePosition_def find_index_Some)

lemma chainNodePosition_nth [simp]:
  "nodes_ok ns \<Longrightarrow> i < length ns \<Longrightarrow> chainNodePosition ns (cn_NodeID (ns ! i)) = Some i"
  by (simp add: chainNodePosition_def nodes_ok_def find_index_distinct)

lemma chainNodePosition_None:
  "chainNodePosition ns nodeID = None \<longleftrightarrow> nodeID \<notin> cn_NodeID ` set ns"
  by (auto simp: chainNodePosition_def find_index_None)

end
