(* ===== verification/MemoryStore.thy ===== *)
theory MemoryStore
  imports WorkflowTypes
begin

text \<open>
  The in-memory workflow store (\<open>internal/workflow/store_memory.go\<close>). Every method
  holds one mutex for its whole body, so a method is one atomic function on the
  state; a method with results returns \<open>goerr + result\<close> and the new state. The
  n-th call of \<open>time.Now()\<close> under the mutex reads \<open>ms_clock m n\<close>.
\<close>

section \<open>State\<close>

record memory_chain =
  mc_state :: chain_state
  mc_completedNode :: "string \<rightharpoonup> bool"

record batch_job_status =
  js_started :: bool
  js_done :: bool
  js_failed :: bool

record memory_batch =
  mb_state :: batch_state
  mb_jobs :: "string \<rightharpoonup> batch_job_status"

record memory_store =
  ms_chains :: "string \<rightharpoonup> memory_chain"
  ms_batch :: "string \<rightharpoonup> memory_batch"
  ms_callbacks :: "string \<rightharpoonup> time"
  ms_transitionReceipts :: "transition_receipt_key \<rightharpoonup> transition_receipt"
  ms_clock :: clock
  ms_ticks :: nat

definition NewMemoryStore :: "clock \<Rightarrow> memory_store" where
  "NewMemoryStore clk = \<lparr>ms_chains = Map.empty, ms_batch = Map.empty, ms_callbacks = Map.empty,
     ms_transitionReceipts = Map.empty, ms_clock = clk, ms_ticks = 0\<rparr>"

definition store_now :: "memory_store \<Rightarrow> time \<times> memory_store" where
  "store_now m = (ms_clock m (ms_ticks m), m\<lparr>ms_ticks := Suc (ms_ticks m)\<rparr>)"

definition zero_job_status :: batch_job_status where
  "zero_job_status = \<lparr>js_started = False, js_done = False, js_failed = False\<rparr>"

definition receipt_key :: "workflow_kind \<Rightarrow> string \<Rightarrow> string \<Rightarrow> transition_receipt_key" where
  "receipt_key kind workflowID memberID =
     \<lparr>tk_workflowKind = kind, tk_workflowID = workflowID, tk_memberID = memberID\<rparr>"

section \<open>Transition receipts\<close>

definition recordTransitionReceipt ::
  "workflow_kind \<Rightarrow> string \<Rightarrow> string \<Rightarrow> time \<Rightarrow> string \<Rightarrow> batch_job_outcome \<Rightarrow> transition_claim
   \<Rightarrow> bool \<Rightarrow> bool \<Rightarrow> memory_store \<Rightarrow> (transition_receipt \<times> bool) \<times> memory_store" where
  "recordTransitionReceipt kind workflowID workflowDispatchID workflowCreatedAt memberID outcome claim
     aggregateCompleted aggregateCancelled m =
     (if \<not> claim_valid claim then ((zero_receipt, False), m)
      else let (now, m) = store_now m;
               receipt = \<lparr>tr_version = transitionReceiptVersion, tr_eventSchemaVersion = eventSchemaVersion,
                  tr_workflowKind = kind, tr_workflowID = workflowID, tr_workflowDispatchID = workflowDispatchID,
                  tr_workflowCreatedAt = workflowCreatedAt, tr_memberID = memberID, tr_outcome = outcome,
                  tr_owner = claim, tr_aggregateCompleted = aggregateCompleted,
                  tr_aggregateCancelled = aggregateCancelled, tr_createdAt = now\<rparr>
           in ((receipt, True), m\<lparr>ms_transitionReceipts :=
                 (ms_transitionReceipts m)(receipt_key kind workflowID memberID \<mapsto> receipt)\<rparr>))"

definition transitionReceipt ::
  "workflow_kind \<Rightarrow> string \<Rightarrow> string \<Rightarrow> memory_store \<Rightarrow> transition_receipt \<times> bool" where
  "transitionReceipt kind workflowID memberID m =
     (case ms_transitionReceipts m (receipt_key kind workflowID memberID) of
        None \<Rightarrow> (zero_receipt, False) | Some receipt \<Rightarrow> (receipt, True))"

definition deleteTransitionReceipts :: "workflow_kind \<Rightarrow> string \<Rightarrow> memory_store \<Rightarrow> memory_store" where
  "deleteTransitionReceipts kind workflowID m = m\<lparr>ms_transitionReceipts :=
     delete_where (\<lambda>key _. tk_workflowKind key = kind \<and> tk_workflowID key = workflowID) (ms_transitionReceipts m)\<rparr>"

text \<open>The receipt, or \<^const>\<open>None\<close> when no receipt exists, for the current workflow
  incarnation.\<close>

definition chainTransitionReceipt ::
  "string \<Rightarrow> string \<Rightarrow> memory_store \<Rightarrow> goerr + transition_receipt option" where
  "chainTransitionReceipt chainID nodeID m =
     (case ms_chains m chainID of None \<Rightarrow> Inl (Sentinel ErrNotFound)
      | Some chain \<Rightarrow>
          (case transitionReceipt ChainTransitionKind chainID nodeID m of (receipt, ok) \<Rightarrow>
             if \<not> ok then Inr None
             else if tr_workflowDispatchID receipt \<noteq> cs_DispatchID (mc_state chain)
                   \<or> tr_workflowCreatedAt receipt \<noteq> cs_CreatedAt (mc_state chain)
             then Inl (ErrNew (''chain '' @ quote chainID @ '' transition receipt does not match current workflow incarnation''))
             else case validateTransitionReceiptSupport receipt of Some e \<Rightarrow> Inl e | None \<Rightarrow> Inr (Some receipt)))"

definition batchTransitionReceipt ::
  "string \<Rightarrow> string \<Rightarrow> memory_store \<Rightarrow> goerr + transition_receipt option" where
  "batchTransitionReceipt batchID jobID m =
     (case ms_batch m batchID of None \<Rightarrow> Inl (Sentinel ErrNotFound)
      | Some batch \<Rightarrow>
          (case transitionReceipt BatchTransitionKind batchID jobID m of (receipt, ok) \<Rightarrow>
             if \<not> ok then Inr None
             else if tr_workflowDispatchID receipt \<noteq> bs_DispatchID (mb_state batch)
                   \<or> tr_workflowCreatedAt receipt \<noteq> bs_CreatedAt (mb_state batch)
             then Inl (ErrNew (''batch '' @ quote batchID @ '' transition receipt does not match current workflow incarnation''))
             else case validateTransitionReceiptSupport receipt of Some e \<Rightarrow> Inl e | None \<Rightarrow> Inr (Some receipt)))"

section \<open>Chains\<close>

definition put_chain :: "string \<Rightarrow> memory_chain \<Rightarrow> memory_store \<Rightarrow> memory_store" where
  "put_chain chainID ch m = m\<lparr>ms_chains := (ms_chains m)(chainID \<mapsto> ch)\<rparr>"

definition new_chain_state :: "chain_record \<Rightarrow> time \<Rightarrow> chain_state" where
  "new_chain_state rec now = \<lparr>cs_ChainID = cr_ChainID rec, cs_DispatchID = cr_DispatchID rec,
     cs_Queue = cr_Queue rec, cs_Nodes = cloneChainNodes (cr_Nodes rec), cs_NextIndex = 0,
     cs_Completed = False, cs_Failed = False, cs_Failure = [], cs_CreatedAt = cr_CreatedAt rec,
     cs_UpdatedAt = now\<rparr>"

definition CreateChain :: "chain_record \<Rightarrow> memory_store \<Rightarrow> goerr option \<times> memory_store" where
  "CreateChain rec m =
     (case validateChainRecord rec of Some e \<Rightarrow> (Some e, m)
      | None \<Rightarrow>
          let (now, m) = store_now m;
              m = deleteTransitionReceipts ChainTransitionKind (cr_ChainID rec) m
          in (None, put_chain (cr_ChainID rec)
                 \<lparr>mc_state = new_chain_state rec now, mc_completedNode = Map.empty\<rparr> m))"

text \<open>A claim and a workflow that both name a dispatch must name the same one.\<close>

definition dispatch_mismatch :: "string \<Rightarrow> transition_claim \<Rightarrow> bool" where
  "dispatch_mismatch dispatchID claim \<longleftrightarrow>
     dispatchID \<noteq> [] \<and> tc_dispatchID claim \<noteq> [] \<and> dispatchID \<noteq> tc_dispatchID claim"

definition zero_advance :: chain_advance_result where
  "zero_advance = \<lparr>ca_state = zero_chain_state, ca_next = None, ca_done = False, ca_successOwned = False,
     ca_claimedNow = False, ca_receipt = zero_receipt, ca_receiptKnown = False\<rparr>"

definition advanceChainOutcome ::
  "string \<Rightarrow> string \<Rightarrow> transition_claim \<Rightarrow> memory_store \<Rightarrow> (goerr + chain_advance_result) \<times> memory_store" where
  "advanceChainOutcome chainID completedNode claim m =
     (case ms_chains m chainID of None \<Rightarrow> (Inl (Sentinel ErrNotFound), m)
      | Some ch \<Rightarrow>
        (case chainNodeSuccessDisposition (mc_state ch) completedNode of Inl e \<Rightarrow> (Inl e, m)
         | Inr successOwned \<Rightarrow>
           (case chainNodeAdvanceDisposition (mc_state ch) completedNode of Inl e \<Rightarrow> (Inl e, m)
            | Inr (nextNode, done, claimable) \<Rightarrow>
              if \<not> claimable then
                (if dispatch_mismatch (cs_DispatchID (mc_state ch)) claim
                 then (Inr (zero_advance\<lparr>ca_state := mc_state ch\<rparr>), m)
                 else case transitionReceipt ChainTransitionKind chainID completedNode m of (receipt, receiptKnown) \<Rightarrow>
                   (Inr (zero_advance\<lparr>ca_state := mc_state ch, ca_next := map_option cloneChainNode nextNode,
                      ca_done := done, ca_successOwned := successOwned, ca_receipt := receipt,
                      ca_receiptKnown := receiptKnown\<rparr>), m))
              else if dispatch_mismatch (cs_DispatchID (mc_state ch)) claim
              then (Inl (ErrNew (''chain '' @ quote chainID @ '' dispatch mismatch'')), m)
              else let (now, m) = store_now m;
                       st = (mc_state ch)\<lparr>cs_NextIndex := cs_NextIndex (mc_state ch) + 1, cs_UpdatedAt := now\<rparr>;
                       completedNodes = (mc_completedNode ch)(completedNode \<mapsto> True)
                   in if cs_NextIndex st \<ge> int (length (cs_Nodes st))
                      then let st = st\<lparr>cs_Completed := True\<rparr>;
                               m = put_chain chainID \<lparr>mc_state = st, mc_completedNode = completedNodes\<rparr> m;
                               ((receipt, receiptKnown), m) = recordTransitionReceipt ChainTransitionKind chainID
                                 (cs_DispatchID st) (cs_CreatedAt st) completedNode BatchJobSucceeded claim True False m
                           in (Inr (zero_advance\<lparr>ca_state := st, ca_done := True, ca_successOwned := True,
                                 ca_claimedNow := True, ca_receipt := receipt, ca_receiptKnown := receiptKnown\<rparr>), m)
                      else let n = cloneChainNode (cs_Nodes st ! nat (cs_NextIndex st));
                               m = put_chain chainID \<lparr>mc_state = st, mc_completedNode = completedNodes\<rparr> m;
                               ((receipt, receiptKnown), m) = recordTransitionReceipt ChainTransitionKind chainID
                                 (cs_DispatchID st) (cs_CreatedAt st) completedNode BatchJobSucceeded claim False False m
                           in (Inr (zero_advance\<lparr>ca_state := st, ca_next := Some n, ca_successOwned := True,
                                 ca_claimedNow := True, ca_receipt := receipt, ca_receiptKnown := receiptKnown\<rparr>), m))))"

definition AdvanceChain ::
  "string \<Rightarrow> string \<Rightarrow> memory_store \<Rightarrow> (goerr + chain_node option \<times> bool) \<times> memory_store" where
  "AdvanceChain chainID completedNode m =
     (case advanceChainOutcome chainID completedNode zero_claim m of
        (Inl e, m) \<Rightarrow> (Inl e, m) | (Inr r, m) \<Rightarrow> (Inr (ca_next r, ca_done r), m))"

definition zero_failure :: chain_failure_result where
  "zero_failure = \<lparr>cf_state = zero_chain_state, cf_owned = False, cf_claimedNow = False,
     cf_receipt = zero_receipt, cf_receiptKnown = False\<rparr>"

definition fail_state :: "goerr option \<Rightarrow> time \<Rightarrow> chain_state \<Rightarrow> chain_state" where
  "fail_state cause now st = st\<lparr>cs_Failed := True,
     cs_Failure := (case cause of None \<Rightarrow> cs_Failure st | Some e \<Rightarrow> error_text e), cs_UpdatedAt := now\<rparr>"

definition failChainOutcome ::
  "string \<Rightarrow> string \<Rightarrow> goerr option \<Rightarrow> transition_claim \<Rightarrow> memory_store
   \<Rightarrow> (goerr + chain_failure_result) \<times> memory_store" where
  "failChainOutcome chainID nodeID cause claim m =
     (case ms_chains m chainID of None \<Rightarrow> (Inl (Sentinel ErrNotFound), m)
      | Some ch \<Rightarrow>
        (case chainNodeFailureDisposition (mc_state ch) nodeID of Inl e \<Rightarrow> (Inl e, m)
         | Inr (owned, claimable) \<Rightarrow>
           if \<not> claimable then
             (if dispatch_mismatch (cs_DispatchID (mc_state ch)) claim
              then (Inr (zero_failure\<lparr>cf_state := mc_state ch\<rparr>), m)
              else case transitionReceipt ChainTransitionKind chainID nodeID m of (receipt, receiptKnown) \<Rightarrow>
                (Inr (zero_failure\<lparr>cf_state := mc_state ch, cf_owned := owned, cf_receipt := receipt,
                   cf_receiptKnown := receiptKnown\<rparr>), m))
           else if dispatch_mismatch (cs_DispatchID (mc_state ch)) claim
           then (Inl (ErrNew (''chain '' @ quote chainID @ '' dispatch mismatch'')), m)
           else let (now, m) = store_now m;
                    st = fail_state cause now (mc_state ch);
                    m = put_chain chainID (ch\<lparr>mc_state := st\<rparr>) m;
                    ((receipt, receiptKnown), m) = recordTransitionReceipt ChainTransitionKind chainID
                      (cs_DispatchID st) (cs_CreatedAt st) nodeID BatchJobFailed claim False False m
                in (Inr \<lparr>cf_state = st, cf_owned = True, cf_claimedNow = True, cf_receipt = receipt,
                      cf_receiptKnown = receiptKnown\<rparr>, m)))"

definition FailChainNode ::
  "string \<Rightarrow> string \<Rightarrow> goerr option \<Rightarrow> memory_store \<Rightarrow> (goerr + chain_state \<times> bool) \<times> memory_store" where
  "FailChainNode chainID nodeID cause m =
     (case failChainOutcome chainID nodeID cause zero_claim m of
        (Inl e, m) \<Rightarrow> (Inl e, m) | (Inr r, m) \<Rightarrow> (Inr (cf_state r, cf_owned r), m))"

definition FailChain :: "string \<Rightarrow> goerr option \<Rightarrow> memory_store \<Rightarrow> goerr option \<times> memory_store" where
  "FailChain chainID cause m =
     (case ms_chains m chainID of None \<Rightarrow> (Some (Sentinel ErrNotFound), m)
      | Some ch \<Rightarrow>
          if \<not> cs_Completed (mc_state ch) \<and> \<not> cs_Failed (mc_state ch)
          then let (now, m) = store_now m
               in (None, put_chain chainID (ch\<lparr>mc_state := fail_state cause now (mc_state ch)\<rparr>) m)
          else (None, m))"

definition GetChain :: "string \<Rightarrow> memory_store \<Rightarrow> goerr + chain_state" where
  "GetChain chainID m =
     (case ms_chains m chainID of None \<Rightarrow> Inl (Sentinel ErrNotFound)
      | Some ch \<Rightarrow> Inr ((mc_state ch)\<lparr>cs_Nodes := cloneChainNodes (cs_Nodes (mc_state ch))\<rparr>))"

definition DiscardChain :: "string \<Rightarrow> memory_store \<Rightarrow> memory_store" where
  "DiscardChain chainID m =
     deleteTransitionReceipts ChainTransitionKind chainID (m\<lparr>ms_chains := (ms_chains m)(chainID := None)\<rparr>)"

section \<open>Batches\<close>

definition put_batch :: "string \<Rightarrow> memory_batch \<Rightarrow> memory_store \<Rightarrow> memory_store" where
  "put_batch batchID b m = m\<lparr>ms_batch := (ms_batch m)(batchID \<mapsto> b)\<rparr>"

definition new_batch_state :: "batch_record \<Rightarrow> time \<Rightarrow> batch_state" where
  "new_batch_state rec now = \<lparr>bs_BatchID = br_BatchID rec, bs_DispatchID = br_DispatchID rec,
     bs_Name = br_Name rec, bs_Queue = br_Queue rec, bs_AllowFailed = br_AllowFailed rec,
     bs_Total = int (length (br_Jobs rec)), bs_Pending = int (length (br_Jobs rec)),
     bs_Processed = 0, bs_Failed = 0, bs_Cancelled = False, bs_Completed = False,
     bs_CreatedAt = br_CreatedAt rec, bs_UpdatedAt = now\<rparr>"

definition CreateBatch :: "batch_record \<Rightarrow> memory_store \<Rightarrow> goerr option \<times> memory_store" where
  "CreateBatch rec m =
     (case validateBatchRecord rec of Some e \<Rightarrow> (Some e, m)
      | None \<Rightarrow>
          let (now, m) = store_now m;
              m = deleteTransitionReceipts BatchTransitionKind (br_BatchID rec) m;
              jm = fold (\<lambda>job jm. jm(bj_JobID job \<mapsto> zero_job_status)) (br_Jobs rec) Map.empty
          in (None, put_batch (br_BatchID rec) \<lparr>mb_state = new_batch_state rec now, mb_jobs = jm\<rparr> m))"

definition MarkBatchJobStarted :: "string \<Rightarrow> string \<Rightarrow> memory_store \<Rightarrow> goerr option \<times> memory_store" where
  "MarkBatchJobStarted batchID jobID m =
     (case ms_batch m batchID of None \<Rightarrow> (Some (Sentinel ErrNotFound), m)
      | Some b \<Rightarrow> (case mb_jobs b jobID of None \<Rightarrow> (Some (Sentinel ErrNotFound), m)
        | Some js \<Rightarrow>
            let (now, m) = store_now m
            in (None, put_batch batchID
                  (b\<lparr>mb_jobs := (mb_jobs b)(jobID \<mapsto> js\<lparr>js_started := True\<rparr>),
                     mb_state := (mb_state b)\<lparr>bs_UpdatedAt := now\<rparr>\<rparr>) m)))"

definition zero_settlement :: batch_settlement_result where
  "zero_settlement = \<lparr>br_state = zero_batch_state, br_owned = False, br_claimedNow = False,
     br_receipt = zero_receipt, br_receiptKnown = False\<rparr>"

text \<open>The counters and terminal flags of a batch after the first outcome of one
  member.\<close>

definition settle_state :: "bool \<Rightarrow> time \<Rightarrow> batch_state \<Rightarrow> batch_state" where
  "settle_state requestedFailure now st =
    (let st = st\<lparr>bs_Pending := bs_Pending st - 1, bs_Processed := bs_Processed st + 1\<rparr>;
         st = (if requestedFailure then st\<lparr>bs_Failed := bs_Failed st + 1\<rparr> else st);
         st = (if requestedFailure \<and> \<not> bs_AllowFailed st then st\<lparr>bs_Cancelled := True, bs_Completed := True\<rparr>
               else if bs_Pending st \<le> 0 then st\<lparr>bs_Completed := True\<rparr> else st)
     in st\<lparr>bs_UpdatedAt := now\<rparr>)"

definition settleBatchOutcome ::
  "string \<Rightarrow> string \<Rightarrow> batch_job_outcome \<Rightarrow> transition_claim \<Rightarrow> memory_store
   \<Rightarrow> (goerr + batch_settlement_result) \<times> memory_store" where
  "settleBatchOutcome batchID jobID outcome claim m =
     (if outcome \<noteq> BatchJobSucceeded \<and> outcome \<noteq> BatchJobFailed
      then (Inl (ErrNew (''unsupported batch job outcome '' @
               quote (case outcome of OtherOutcome s \<Rightarrow> s | _ \<Rightarrow> []))), m)
      else case ms_batch m batchID of None \<Rightarrow> (Inl (Sentinel ErrNotFound), m)
      | Some b \<Rightarrow> (case mb_jobs b jobID of None \<Rightarrow> (Inl (Sentinel ErrNotFound), m)
        | Some js \<Rightarrow>
          let requestedFailure = (outcome = BatchJobFailed) in
          if js_done js then
            (if dispatch_mismatch (bs_DispatchID (mb_state b)) claim
             then (Inr (zero_settlement\<lparr>br_state := mb_state b\<rparr>), m)
             else let (now, m) = store_now m;
                      b = b\<lparr>mb_state := (mb_state b)\<lparr>bs_UpdatedAt := now\<rparr>\<rparr>;
                      m = put_batch batchID b m;
                      (receipt, receiptKnown) = transitionReceipt BatchTransitionKind batchID jobID m
                  in (Inr (zero_settlement\<lparr>br_state := mb_state b, br_owned := (js_failed js = requestedFailure),
                        br_receipt := receipt, br_receiptKnown := receiptKnown\<rparr>), m))
          else if dispatch_mismatch (bs_DispatchID (mb_state b)) claim
          then (Inl (ErrNew (''batch '' @ quote batchID @ '' dispatch mismatch'')), m)
          else let js = js\<lparr>js_done := True, js_failed := requestedFailure\<rparr>;
                   wasCompleted = bs_Completed (mb_state b);
                   (now, m) = store_now m;
                   st = settle_state requestedFailure now (mb_state b);
                   m = put_batch batchID \<lparr>mb_state = st, mb_jobs = (mb_jobs b)(jobID \<mapsto> js)\<rparr> m;
                   aggregateCompleted = (\<not> wasCompleted \<and> bs_Completed st);
                   ((receipt, receiptKnown), m) = recordTransitionReceipt BatchTransitionKind batchID
                      (bs_DispatchID st) (bs_CreatedAt st) jobID outcome claim aggregateCompleted
                      (aggregateCompleted \<and> bs_Cancelled st) m
               in (Inr \<lparr>br_state = st, br_owned = True, br_claimedNow = True, br_receipt = receipt,
                     br_receiptKnown = receiptKnown\<rparr>, m)))"

definition SettleBatchJob ::
  "string \<Rightarrow> string \<Rightarrow> batch_job_outcome \<Rightarrow> memory_store \<Rightarrow> (goerr + batch_state \<times> bool) \<times> memory_store" where
  "SettleBatchJob batchID jobID outcome m =
     (case settleBatchOutcome batchID jobID outcome zero_claim m of
        (Inl e, m) \<Rightarrow> (Inl e, m) | (Inr r, m) \<Rightarrow> (Inr (br_state r, br_owned r), m))"

definition MarkBatchJobSucceeded ::
  "string \<Rightarrow> string \<Rightarrow> memory_store \<Rightarrow> (goerr + batch_state \<times> bool) \<times> memory_store" where
  "MarkBatchJobSucceeded batchID jobID m =
     (case SettleBatchJob batchID jobID BatchJobSucceeded m of
        (Inl e, m) \<Rightarrow> (Inl e, m) | (Inr (st, _), m) \<Rightarrow> (Inr (st, bs_Completed st), m))"

definition MarkBatchJobFailed ::
  "string \<Rightarrow> string \<Rightarrow> goerr option \<Rightarrow> memory_store \<Rightarrow> (goerr + batch_state \<times> bool) \<times> memory_store" where
  "MarkBatchJobFailed batchID jobID cause m =
     (case SettleBatchJob batchID jobID BatchJobFailed m of
        (Inl e, m) \<Rightarrow> (Inl e, m) | (Inr (st, _), m) \<Rightarrow> (Inr (st, bs_Completed st), m))"

definition CancelBatch :: "string \<Rightarrow> memory_store \<Rightarrow> goerr option \<times> memory_store" where
  "CancelBatch batchID m =
     (case ms_batch m batchID of None \<Rightarrow> (Some (Sentinel ErrNotFound), m)
      | Some b \<Rightarrow> let (now, m) = store_now m
          in (None, put_batch batchID (b\<lparr>mb_state := (mb_state b)\<lparr>bs_Cancelled := True, bs_Completed := True,
                bs_UpdatedAt := now\<rparr>\<rparr>) m))"

definition GetBatch :: "string \<Rightarrow> memory_store \<Rightarrow> goerr + batch_state" where
  "GetBatch batchID m =
     (case ms_batch m batchID of None \<Rightarrow> Inl (Sentinel ErrNotFound) | Some b \<Rightarrow> Inr (mb_state b))"

definition DiscardBatch :: "string \<Rightarrow> memory_store \<Rightarrow> memory_store" where
  "DiscardBatch batchID m =
     deleteTransitionReceipts BatchTransitionKind batchID (m\<lparr>ms_batch := (ms_batch m)(batchID := None)\<rparr>)"

section \<open>Callbacks and retention\<close>

definition MarkCallbackInvoked :: "string \<Rightarrow> memory_store \<Rightarrow> bool \<times> memory_store" where
  "MarkCallbackInvoked key m =
     (case ms_callbacks m key of Some _ \<Rightarrow> (False, m)
      | None \<Rightarrow> let (now, m) = store_now m in (True, m\<lparr>ms_callbacks := (ms_callbacks m)(key \<mapsto> now)\<rparr>))"

definition chain_expired :: "time \<Rightarrow> memory_chain \<Rightarrow> bool" where
  "chain_expired before ch \<longleftrightarrow>
     (cs_Completed (mc_state ch) \<or> cs_Failed (mc_state ch)) \<and> cs_UpdatedAt (mc_state ch) < before"

definition batch_expired :: "time \<Rightarrow> memory_batch \<Rightarrow> bool" where
  "batch_expired before b \<longleftrightarrow> bs_Completed (mb_state b) \<and> bs_UpdatedAt (mb_state b) < before"

text \<open>The three loops range over Go maps in an unspecified order; deleting the
  entries that satisfy the guard, and the receipts of each deleted workflow, does
  not depend on that order.\<close>

definition Prune :: "time \<Rightarrow> memory_store \<Rightarrow> memory_store" where
  "Prune before m =
    (let chain_gone = (\<lambda>id. case ms_chains m id of None \<Rightarrow> False | Some ch \<Rightarrow> chain_expired before ch);
         batch_gone = (\<lambda>id. case ms_batch m id of None \<Rightarrow> False | Some b \<Rightarrow> batch_expired before b)
     in m\<lparr>ms_chains := delete_where (\<lambda>_ ch. chain_expired before ch) (ms_chains m),
          ms_batch := delete_where (\<lambda>_ b. batch_expired before b) (ms_batch m),
          ms_callbacks := delete_where (\<lambda>_ createdAt. createdAt < before) (ms_callbacks m),
          ms_transitionReceipts := delete_where (\<lambda>key _.
             tk_workflowKind key = ChainTransitionKind \<and> chain_gone (tk_workflowID key)
             \<or> tk_workflowKind key = BatchTransitionKind \<and> batch_gone (tk_workflowID key)) (ms_transitionReceipts m)\<rparr>)"

end
