(* ===== verification/StoreInvariants.thy ===== *)
theory StoreInvariants
  imports MemoryStore
begin

text \<open>
  What the in-memory store keeps true. The section on effects states each
  operation once, as the transition it makes; the invariant \<open>store_ok\<close> ties chain
  progress, batch counters and transition receipts together and is kept by every
  operation; \<open>store_op\<close> and \<open>store_step\<close> are the operations as steps of one
  machine, whose reachable states all satisfy \<open>store_ok\<close>.
\<close>

section \<open>Effects of the operations\<close>

lemma store_now_simp [simp]: "store_now m = (ms_clock m (ms_ticks m), m\<lparr>ms_ticks := Suc (ms_ticks m)\<rparr>)"
  by (simp add: store_now_def)

lemma receipt_key_inject [simp]:
  "receipt_key k w n = receipt_key k' w' n' \<longleftrightarrow> k = k' \<and> w = w' \<and> n = n'"
  by (simp add: receipt_key_def)

lemma receipt_key_sel [simp]:
  "tk_workflowKind (receipt_key k w n) = k" "tk_workflowID (receipt_key k w n) = w"
  "tk_memberID (receipt_key k w n) = n"
  by (simp_all add: receipt_key_def)

lemma put_chain_sel [simp]:
  "ms_chains (put_chain c ch m) = (ms_chains m)(c \<mapsto> ch)" "ms_batch (put_chain c ch m) = ms_batch m"
  "ms_callbacks (put_chain c ch m) = ms_callbacks m"
  "ms_transitionReceipts (put_chain c ch m) = ms_transitionReceipts m"
  "ms_clock (put_chain c ch m) = ms_clock m" "ms_ticks (put_chain c ch m) = ms_ticks m"
  by (simp_all add: put_chain_def)

lemma put_batch_sel [simp]:
  "ms_batch (put_batch c b m) = (ms_batch m)(c \<mapsto> b)" "ms_chains (put_batch c b m) = ms_chains m"
  "ms_callbacks (put_batch c b m) = ms_callbacks m"
  "ms_transitionReceipts (put_batch c b m) = ms_transitionReceipts m"
  "ms_clock (put_batch c b m) = ms_clock m" "ms_ticks (put_batch c b m) = ms_ticks m"
  by (simp_all add: put_batch_def)

lemma deleteTransitionReceipts_sel [simp]:
  "ms_chains (deleteTransitionReceipts k w m) = ms_chains m"
  "ms_batch (deleteTransitionReceipts k w m) = ms_batch m"
  "ms_callbacks (deleteTransitionReceipts k w m) = ms_callbacks m"
  "ms_clock (deleteTransitionReceipts k w m) = ms_clock m"
  "ms_ticks (deleteTransitionReceipts k w m) = ms_ticks m"
  "ms_transitionReceipts (deleteTransitionReceipts k w m) key = Some r \<longleftrightarrow>
     ms_transitionReceipts m key = Some r \<and> \<not> (tk_workflowKind key = k \<and> tk_workflowID key = w)"
  by (auto simp: deleteTransitionReceipts_def)

definition make_receipt ::
  "workflow_kind \<Rightarrow> string \<Rightarrow> string \<Rightarrow> time \<Rightarrow> string \<Rightarrow> batch_job_outcome \<Rightarrow> transition_claim
   \<Rightarrow> bool \<Rightarrow> bool \<Rightarrow> time \<Rightarrow> transition_receipt" where
  "make_receipt k w d t n out claim c x now =
     \<lparr>tr_version = transitionReceiptVersion, tr_eventSchemaVersion = eventSchemaVersion,
      tr_workflowKind = k, tr_workflowID = w, tr_workflowDispatchID = d, tr_workflowCreatedAt = t,
      tr_memberID = n, tr_outcome = out, tr_owner = claim, tr_aggregateCompleted = c,
      tr_aggregateCancelled = x, tr_createdAt = now\<rparr>"

lemma make_receipt_sel [simp]:
  "receipt_supported (make_receipt k w d t n out claim c x now)"
  "tr_workflowKind (make_receipt k w d t n out claim c x now) = k"
  "tr_workflowID (make_receipt k w d t n out claim c x now) = w"
  "tr_workflowDispatchID (make_receipt k w d t n out claim c x now) = d"
  "tr_workflowCreatedAt (make_receipt k w d t n out claim c x now) = t"
  "tr_memberID (make_receipt k w d t n out claim c x now) = n"
  "tr_outcome (make_receipt k w d t n out claim c x now) = out"
  "tr_owner (make_receipt k w d t n out claim c x now) = claim"
  "tr_aggregateCompleted (make_receipt k w d t n out claim c x now) = c"
  "tr_aggregateCancelled (make_receipt k w d t n out claim c x now) = x"
  by (simp_all add: make_receipt_def receipt_supported_def)

text \<open>The state after recording a receipt: an invalid claim records nothing.\<close>

definition with_receipt ::
  "transition_claim \<Rightarrow> transition_receipt \<Rightarrow> memory_store \<Rightarrow> memory_store" where
  "with_receipt claim r m =
     (if claim_valid claim
      then m\<lparr>ms_ticks := Suc (ms_ticks m),
             ms_transitionReceipts := (ms_transitionReceipts m)
               (receipt_key (tr_workflowKind r) (tr_workflowID r) (tr_memberID r) \<mapsto> r)\<rparr>
      else m)"

lemma with_receipt_sel [simp]:
  "ms_chains (with_receipt claim r m) = ms_chains m" "ms_batch (with_receipt claim r m) = ms_batch m"
  "ms_callbacks (with_receipt claim r m) = ms_callbacks m" "ms_clock (with_receipt claim r m) = ms_clock m"
  by (simp_all add: with_receipt_def)

lemma recordTransitionReceipt_simp:
  "recordTransitionReceipt k w d t n out claim c x m =
     (let r = make_receipt k w d t n out claim c x (ms_clock m (ms_ticks m))
      in (if claim_valid claim then (r, True) else (zero_receipt, False), with_receipt claim r m))"
  by (simp add: recordTransitionReceipt_def make_receipt_def with_receipt_def Let_def)

text \<open>The state of a chain after the current node's success was claimed.\<close>

definition advanced :: "time \<Rightarrow> chain_state \<Rightarrow> chain_state" where
  "advanced now st =
    (let st = st\<lparr>cs_NextIndex := cs_NextIndex st + 1, cs_UpdatedAt := now\<rparr>
     in if cs_NextIndex st \<ge> int (length (cs_Nodes st)) then st\<lparr>cs_Completed := True\<rparr> else st)"

lemma advanced_sel [simp]:
  "cs_ChainID (advanced t st) = cs_ChainID st" "cs_DispatchID (advanced t st) = cs_DispatchID st"
  "cs_Nodes (advanced t st) = cs_Nodes st" "cs_NextIndex (advanced t st) = cs_NextIndex st + 1"
  "cs_Failed (advanced t st) = cs_Failed st" "cs_CreatedAt (advanced t st) = cs_CreatedAt st"
  "cs_Completed (advanced t st) \<longleftrightarrow> cs_Completed st \<or> cs_NextIndex st + 1 \<ge> int (length (cs_Nodes st))"
  by (simp_all add: advanced_def Let_def)

lemma fail_state_sel [simp]:
  "cs_ChainID (fail_state c t st) = cs_ChainID st" "cs_DispatchID (fail_state c t st) = cs_DispatchID st"
  "cs_Nodes (fail_state c t st) = cs_Nodes st" "cs_NextIndex (fail_state c t st) = cs_NextIndex st"
  "cs_Failed (fail_state c t st)" "cs_CreatedAt (fail_state c t st) = cs_CreatedAt st"
  "cs_Completed (fail_state c t st) = cs_Completed st"
  by (simp_all add: fail_state_def)

lemma new_chain_state_sel [simp]:
  "cs_ChainID (new_chain_state rec t) = cr_ChainID rec" "cs_DispatchID (new_chain_state rec t) = cr_DispatchID rec"
  "cs_Nodes (new_chain_state rec t) = cr_Nodes rec" "cs_NextIndex (new_chain_state rec t) = 0"
  "\<not> cs_Failed (new_chain_state rec t)" "\<not> cs_Completed (new_chain_state rec t)"
  "cs_CreatedAt (new_chain_state rec t) = cr_CreatedAt rec" "cs_UpdatedAt (new_chain_state rec t) = t"
  by (simp_all add: new_chain_state_def)

text \<open>The two ways an advancement can go: it changes nothing and claims nothing, or
  the node is the current one of an open chain and is claimed.\<close>

definition can_claim :: "memory_store \<Rightarrow> string \<Rightarrow> string \<Rightarrow> transition_claim \<Rightarrow> memory_chain \<Rightarrow> nat \<Rightarrow> bool" where
  "can_claim m chainID nodeID claim ch i \<longleftrightarrow>
     ms_chains m chainID = Some ch \<and> chainNodePosition (cs_Nodes (mc_state ch)) nodeID = Some i
     \<and> cs_NextIndex (mc_state ch) = int i \<and> \<not> cs_Completed (mc_state ch) \<and> \<not> cs_Failed (mc_state ch)
     \<and> \<not> dispatch_mismatch (cs_DispatchID (mc_state ch)) claim"

definition advanced_store ::
  "string \<Rightarrow> string \<Rightarrow> transition_claim \<Rightarrow> memory_chain \<Rightarrow> memory_store \<Rightarrow> memory_store" where
  "advanced_store chainID nodeID claim ch m =
    (let m1 = m\<lparr>ms_ticks := Suc (ms_ticks m)\<rparr>; st = advanced (ms_clock m (ms_ticks m)) (mc_state ch)
     in with_receipt claim
          (make_receipt ChainTransitionKind chainID (cs_DispatchID st) (cs_CreatedAt st) nodeID BatchJobSucceeded
             claim (cs_Completed st) False (ms_clock m (Suc (ms_ticks m))))
          (put_chain chainID \<lparr>mc_state = st, mc_completedNode = (mc_completedNode ch)(nodeID \<mapsto> True)\<rparr> m1))"

lemma advance_claim_eq:
  assumes "can_claim m chainID nodeID claim ch i" "validateChainState (mc_state ch) = None"
  shows "advanceChainOutcome chainID nodeID claim m =
    (let st = advanced (ms_clock m (ms_ticks m)) (mc_state ch);
         r = make_receipt ChainTransitionKind chainID (cs_DispatchID st) (cs_CreatedAt st) nodeID BatchJobSucceeded
               claim (cs_Completed st) False (ms_clock m (Suc (ms_ticks m)))
     in (Inr \<lparr>ca_state = st, ca_next = (if cs_Completed st then None else Some (cs_Nodes st ! Suc i)),
              ca_done = cs_Completed st, ca_successOwned = True, ca_claimedNow = True,
              ca_receipt = (if claim_valid claim then r else zero_receipt), ca_receiptKnown = claim_valid claim\<rparr>,
         advanced_store chainID nodeID claim ch m))"
proof -
  have "chainNodeSuccessDisposition (mc_state ch) nodeID = Inr False"
    "chainNodeAdvanceDisposition (mc_state ch) nodeID = Inr (None, False, True)"
    using assms chainNodePosition_Some [of "cs_Nodes (mc_state ch)" nodeID i]
    by (auto simp: can_claim_def chainNodeSuccessDisposition_def chainNodeAdvanceDisposition_def)
  moreover have "nat (int i + 1) = Suc i" by simp
  ultimately show ?thesis
    using assms(1)
    by (simp add: can_claim_def advanceChainOutcome_def zero_advance_def recordTransitionReceipt_simp
        advanced_store_def Let_def) (simp add: advanced_def Let_def)
qed

lemma advance_no_claim:
  assumes "advanceChainOutcome chainID nodeID claim m = (r, m')"
    "\<nexists>ch i. can_claim m chainID nodeID claim ch i \<and> validateChainState (mc_state ch) = None"
  shows "m' = m \<and> (\<forall>x. r = Inr x \<longrightarrow> \<not> ca_claimedNow x)"
proof (cases "ms_chains m chainID")
  case (Some ch)
  show ?thesis
  proof (cases "chainNodeSuccessDisposition (mc_state ch) nodeID")
    case (Inr own)
    then have val: "validateChainState (mc_state ch) = None"
      by (auto simp: chainNodeSuccessDisposition_def split: option.splits)
    have no: "dispatch_mismatch (cs_DispatchID (mc_state ch)) claim"
      if "chainNodeAdvanceDisposition (mc_state ch) nodeID = Inr (nx, d, True)" for nx d
      using that assms(2) Some val
      by (auto simp: chainNodeAdvanceDisposition_def can_claim_def split: option.splits if_splits) metis?
    show ?thesis
      using assms(1) Some Inr no
      by (auto simp: advanceChainOutcome_def zero_advance_def split: sum.splits prod.splits if_splits)
  qed (use assms(1) Some in \<open>auto simp: advanceChainOutcome_def\<close>)
qed (use assms(1) in \<open>auto simp: advanceChainOutcome_def\<close>)

lemma advanceChainOutcome_cases:
  assumes "advanceChainOutcome chainID nodeID claim m = (r, m')"
  obtains (unchanged) "m' = m" "\<And>x. r = Inr x \<Longrightarrow> \<not> ca_claimedNow x"
  | (claimed) ch i x where "can_claim m chainID nodeID claim ch i" "validateChainState (mc_state ch) = None"
      "m' = advanced_store chainID nodeID claim ch m" "r = Inr x" "ca_claimedNow x" "ca_successOwned x"
      "ca_state x = advanced (ms_clock m (ms_ticks m)) (mc_state ch)"
      "ca_done x \<longleftrightarrow> cs_Completed (ca_state x)"
      "ca_next x = (if ca_done x then None else Some (cs_Nodes (mc_state ch) ! Suc i))"
proof (cases "\<exists>ch i. can_claim m chainID nodeID claim ch i \<and> validateChainState (mc_state ch) = None")
  case True
  then obtain ch i where c: "can_claim m chainID nodeID claim ch i" "validateChainState (mc_state ch) = None"
    by blast
  show thesis using assms by (intro claimed [OF c]) (auto simp: advance_claim_eq [OF c] Let_def)
next
  case False
  show thesis using advance_no_claim [OF assms False] unchanged by blast
qed

definition failed_store ::
  "string \<Rightarrow> string \<Rightarrow> goerr option \<Rightarrow> transition_claim \<Rightarrow> memory_chain \<Rightarrow> memory_store \<Rightarrow> memory_store" where
  "failed_store chainID nodeID cause claim ch m =
    (let m1 = m\<lparr>ms_ticks := Suc (ms_ticks m)\<rparr>; st = fail_state cause (ms_clock m (ms_ticks m)) (mc_state ch)
     in with_receipt claim
          (make_receipt ChainTransitionKind chainID (cs_DispatchID st) (cs_CreatedAt st) nodeID BatchJobFailed
             claim False False (ms_clock m (Suc (ms_ticks m))))
          (put_chain chainID (ch\<lparr>mc_state := st\<rparr>) m1))"

lemma fail_claim_eq:
  assumes "can_claim m chainID nodeID claim ch i"
  shows "failChainOutcome chainID nodeID cause claim m =
    (let st = fail_state cause (ms_clock m (ms_ticks m)) (mc_state ch);
         r = make_receipt ChainTransitionKind chainID (cs_DispatchID st) (cs_CreatedAt st) nodeID BatchJobFailed
               claim False False (ms_clock m (Suc (ms_ticks m)))
     in (Inr \<lparr>cf_state = st, cf_owned = True, cf_claimedNow = True,
              cf_receipt = (if claim_valid claim then r else zero_receipt), cf_receiptKnown = claim_valid claim\<rparr>,
         failed_store chainID nodeID cause claim ch m))"
proof -
  have "chainNodeFailureDisposition (mc_state ch) nodeID = Inr (False, True)"
    using assms chainNodePosition_Some [of "cs_Nodes (mc_state ch)" nodeID i]
    by (auto simp: can_claim_def chainNodeFailureDisposition_def)
  then show ?thesis
    using assms
    by (simp add: can_claim_def failChainOutcome_def recordTransitionReceipt_simp failed_store_def Let_def)
qed

lemma fail_no_claim:
  assumes "failChainOutcome chainID nodeID cause claim m = (r, m')"
    "\<nexists>ch i. can_claim m chainID nodeID claim ch i"
  shows "m' = m \<and> (\<forall>x. r = Inr x \<longrightarrow> \<not> cf_claimedNow x)"
proof (cases "ms_chains m chainID")
  case (Some ch)
  have no: "dispatch_mismatch (cs_DispatchID (mc_state ch)) claim"
    if "chainNodeFailureDisposition (mc_state ch) nodeID = Inr (own, True)" for own
    using that assms(2) Some
    by (auto simp: chainNodeFailureDisposition_def can_claim_def split: option.splits if_splits) metis?
  show ?thesis
    using assms(1) Some no
    by (auto simp: failChainOutcome_def zero_failure_def split: sum.splits prod.splits if_splits)
qed (use assms(1) in \<open>auto simp: failChainOutcome_def\<close>)

lemma failChainOutcome_cases:
  assumes "failChainOutcome chainID nodeID cause claim m = (r, m')"
  obtains (unchanged) "m' = m" "\<And>x. r = Inr x \<Longrightarrow> \<not> cf_claimedNow x"
  | (claimed) ch i x where "can_claim m chainID nodeID claim ch i"
      "m' = failed_store chainID nodeID cause claim ch m" "r = Inr x" "cf_claimedNow x" "cf_owned x"
      "cf_state x = fail_state cause (ms_clock m (ms_ticks m)) (mc_state ch)"
proof (cases "\<exists>ch i. can_claim m chainID nodeID claim ch i")
  case True
  then obtain ch i where c: "can_claim m chainID nodeID claim ch i" by blast
  show thesis using assms by (intro claimed [OF c]) (auto simp: fail_claim_eq [OF c] Let_def)
next
  case False
  show thesis using fail_no_claim [OF assms False] unchanged by blast
qed

text \<open>The same for a batch member: nothing changes, a settled member is looked at
  again (only the update time moves), or the member is settled now.\<close>

definition member :: "memory_store \<Rightarrow> string \<Rightarrow> string \<Rightarrow> memory_batch \<Rightarrow> batch_job_status \<Rightarrow> bool" where
  "member m batchID jobID b js \<longleftrightarrow> ms_batch m batchID = Some b \<and> mb_jobs b jobID = Some js"

definition touched_batch :: "string \<Rightarrow> memory_batch \<Rightarrow> memory_store \<Rightarrow> memory_store" where
  "touched_batch batchID b m =
     put_batch batchID (b\<lparr>mb_state := (mb_state b)\<lparr>bs_UpdatedAt := ms_clock m (ms_ticks m)\<rparr>\<rparr>)
       (m\<lparr>ms_ticks := Suc (ms_ticks m)\<rparr>)"

definition settled_batch :: "bool \<Rightarrow> string \<Rightarrow> time \<Rightarrow> memory_batch \<Rightarrow> batch_job_status \<Rightarrow> memory_batch" where
  "settled_batch failure jobID now b js = \<lparr>mb_state = settle_state failure now (mb_state b),
     mb_jobs = (mb_jobs b)(jobID \<mapsto> js\<lparr>js_done := True, js_failed := failure\<rparr>)\<rparr>"

definition settled_store ::
  "string \<Rightarrow> string \<Rightarrow> batch_job_outcome \<Rightarrow> transition_claim \<Rightarrow> memory_batch \<Rightarrow> batch_job_status
   \<Rightarrow> memory_store \<Rightarrow> memory_store" where
  "settled_store batchID jobID outcome claim b js m =
    (let b' = settled_batch (outcome = BatchJobFailed) jobID (ms_clock m (ms_ticks m)) b js;
         done = (\<not> bs_Completed (mb_state b) \<and> bs_Completed (mb_state b'))
     in with_receipt claim
          (make_receipt BatchTransitionKind batchID (bs_DispatchID (mb_state b')) (bs_CreatedAt (mb_state b')) jobID
             outcome claim done (done \<and> bs_Cancelled (mb_state b')) (ms_clock m (Suc (ms_ticks m))))
          (put_batch batchID b' (m\<lparr>ms_ticks := Suc (ms_ticks m)\<rparr>)))"

lemma settle_claim_eq:
  assumes "member m batchID jobID b js" "\<not> js_done js" "outcome = BatchJobSucceeded \<or> outcome = BatchJobFailed"
    "\<not> dispatch_mismatch (bs_DispatchID (mb_state b)) claim"
  shows "\<exists>r k. settleBatchOutcome batchID jobID outcome claim m =
    (Inr \<lparr>br_state = settle_state (outcome = BatchJobFailed) (ms_clock m (ms_ticks m)) (mb_state b),
          br_owned = True, br_claimedNow = True, br_receipt = r, br_receiptKnown = k\<rparr>,
     settled_store batchID jobID outcome claim b js m)"
proof -
  have "\<not> (outcome \<noteq> BatchJobSucceeded \<and> outcome \<noteq> BatchJobFailed)" using assms(3) by blast
  then show ?thesis using assms(1,2,4)
    by (cases "claim_valid claim") (auto simp: member_def settleBatchOutcome_def settled_store_def
        settled_batch_def recordTransitionReceipt_simp Let_def)
qed

lemma settle_repeat_eq:
  assumes "member m batchID jobID b js" "js_done js" "outcome = BatchJobSucceeded \<or> outcome = BatchJobFailed"
    "\<not> dispatch_mismatch (bs_DispatchID (mb_state b)) claim"
  shows "\<exists>r k. settleBatchOutcome batchID jobID outcome claim m =
    (Inr \<lparr>br_state = (mb_state b)\<lparr>bs_UpdatedAt := ms_clock m (ms_ticks m)\<rparr>,
          br_owned = (js_failed js = (outcome = BatchJobFailed)), br_claimedNow = False, br_receipt = r,
          br_receiptKnown = k\<rparr>, touched_batch batchID b m)"
proof -
  have "\<not> (outcome \<noteq> BatchJobSucceeded \<and> outcome \<noteq> BatchJobFailed)" using assms(3) by blast
  then show ?thesis using assms(1,2,4)
    by (cases "transitionReceipt BatchTransitionKind batchID jobID (touched_batch batchID b m)")
      (simp add: member_def settleBatchOutcome_def zero_settlement_def touched_batch_def Let_def)
qed

lemma settle_unchanged:
  assumes "settleBatchOutcome batchID jobID outcome claim m = (r, m')"
    "\<nexists>b js. member m batchID jobID b js \<and> (outcome = BatchJobSucceeded \<or> outcome = BatchJobFailed)
        \<and> \<not> dispatch_mismatch (bs_DispatchID (mb_state b)) claim"
  shows "m' = m \<and> (\<forall>x. r = Inr x \<longrightarrow> \<not> br_claimedNow x)"
proof (cases "outcome \<noteq> BatchJobSucceeded \<and> outcome \<noteq> BatchJobFailed")
  case True
  then show ?thesis using assms(1) by (auto simp: settleBatchOutcome_def)
next
  case False
  then show ?thesis using assms
    by (auto simp: settleBatchOutcome_def member_def zero_settlement_def Let_def split: option.splits if_splits)
qed

lemma settleBatchOutcome_cases:
  assumes "settleBatchOutcome batchID jobID outcome claim m = (r, m')"
  obtains (unchanged) "m' = m" "\<And>x. r = Inr x \<Longrightarrow> \<not> br_claimedNow x"
  | (repeated) b js x where "member m batchID jobID b js" "js_done js" "m' = touched_batch batchID b m"
      "\<not> dispatch_mismatch (bs_DispatchID (mb_state b)) claim"
      "r = Inr x" "\<not> br_claimedNow x" "br_owned x \<longleftrightarrow> js_failed js = (outcome = BatchJobFailed)"
      "br_state x = (mb_state b)\<lparr>bs_UpdatedAt := ms_clock m (ms_ticks m)\<rparr>"
  | (claimed) b js x where "member m batchID jobID b js" "\<not> js_done js"
      "outcome = BatchJobSucceeded \<or> outcome = BatchJobFailed"
      "\<not> dispatch_mismatch (bs_DispatchID (mb_state b)) claim"
      "m' = settled_store batchID jobID outcome claim b js m" "r = Inr x" "br_claimedNow x" "br_owned x"
      "br_state x = settle_state (outcome = BatchJobFailed) (ms_clock m (ms_ticks m)) (mb_state b)"
proof (cases "\<exists>b js. member m batchID jobID b js \<and> (outcome = BatchJobSucceeded \<or> outcome = BatchJobFailed)
        \<and> \<not> dispatch_mismatch (bs_DispatchID (mb_state b)) claim")
  case True
  then obtain b js where b: "member m batchID jobID b js" "outcome = BatchJobSucceeded \<or> outcome = BatchJobFailed"
      "\<not> dispatch_mismatch (bs_DispatchID (mb_state b)) claim"
    by blast
  show thesis
  proof (cases "js_done js")
    case True
    show thesis
      using settle_repeat_eq [OF b(1) True b(2,3)] assms
      by (elim exE) (rule repeated [OF b(1) True _ b(3)], auto)
  next
    case False
    show thesis
      using settle_claim_eq [OF b(1) False b(2,3)] assms
      by (elim exE) (rule claimed [OF b(1) False b(2,3)], auto)
  qed
next
  case False
  show thesis using settle_unchanged [OF assms False] unchanged by blast
qed

section \<open>Later states of one workflow\<close>

text \<open>A terminal chain is frozen; an open one keeps its definition and moves
  forward.\<close>

definition chain_later :: "chain_state \<Rightarrow> chain_state \<Rightarrow> bool" where
  "chain_later st st' \<longleftrightarrow>
     cs_ChainID st' = cs_ChainID st \<and> cs_DispatchID st' = cs_DispatchID st \<and> cs_Queue st' = cs_Queue st
     \<and> cs_Nodes st' = cs_Nodes st \<and> cs_CreatedAt st' = cs_CreatedAt st \<and> cs_NextIndex st \<le> cs_NextIndex st'
     \<and> (cs_Completed st \<or> cs_Failed st \<longrightarrow> st' = st)"

definition status_later :: "batch_job_status \<Rightarrow> batch_job_status \<Rightarrow> bool" where
  "status_later js js' \<longleftrightarrow> (js_started js \<longrightarrow> js_started js') \<and> (js_done js \<longrightarrow> js_done js' \<and> js_failed js' = js_failed js)"

definition batch_later :: "memory_batch \<Rightarrow> memory_batch \<Rightarrow> bool" where
  "batch_later b b' \<longleftrightarrow> (let st = mb_state b; st' = mb_state b' in
     bs_BatchID st' = bs_BatchID st \<and> bs_DispatchID st' = bs_DispatchID st \<and> bs_Name st' = bs_Name st
     \<and> bs_Queue st' = bs_Queue st \<and> bs_AllowFailed st' = bs_AllowFailed st \<and> bs_Total st' = bs_Total st
     \<and> bs_CreatedAt st' = bs_CreatedAt st
     \<and> bs_Pending st' \<le> bs_Pending st \<and> bs_Processed st \<le> bs_Processed st' \<and> bs_Failed st \<le> bs_Failed st'
     \<and> (bs_Completed st \<longrightarrow> bs_Completed st') \<and> (bs_Cancelled st \<longrightarrow> bs_Cancelled st'))
     \<and> dom (mb_jobs b') = dom (mb_jobs b)
     \<and> (\<forall>j js js'. mb_jobs b j = Some js \<longrightarrow> mb_jobs b' j = Some js' \<longrightarrow> status_later js js')"

lemma chain_later_refl [simp]: "chain_later st st"
  by (simp add: chain_later_def)

lemma chain_later_trans: "chain_later a b \<Longrightarrow> chain_later b c \<Longrightarrow> chain_later a c"
  by (auto simp: chain_later_def)

lemma chain_later_advanced [simp]:
  "\<not> cs_Completed st \<Longrightarrow> \<not> cs_Failed st \<Longrightarrow> chain_later st (advanced t st)"
  by (simp add: chain_later_def advanced_def Let_def)

lemma chain_later_fail [simp]:
  "\<not> cs_Completed st \<Longrightarrow> \<not> cs_Failed st \<Longrightarrow> chain_later st (fail_state c t st)"
  by (simp add: chain_later_def fail_state_def)

lemma status_later_refl [simp]: "status_later js js"
  by (simp add: status_later_def)

lemma batch_later_refl [simp]: "batch_later b b"
  by (auto simp: batch_later_def Let_def)

lemma batch_later_trans:
  assumes "batch_later a b" "batch_later b c"
  shows "batch_later a c"
proof -
  have "status_later js js'" if "mb_jobs a j = Some js" "mb_jobs c j = Some js'" for j js js'
  proof -
    have "j \<in> dom (mb_jobs b)" using assms(1) that(1) by (auto simp: batch_later_def)
    then obtain jb where jb: "mb_jobs b j = Some jb" by blast
    have "status_later js jb" "status_later jb js'"
      using assms that jb unfolding batch_later_def by blast+
    then show ?thesis by (auto simp: status_later_def)
  qed
  then show ?thesis using assms by (auto simp: batch_later_def Let_def)
qed

lemma settle_state_sel [simp]:
  "bs_BatchID (settle_state f t st) = bs_BatchID st" "bs_DispatchID (settle_state f t st) = bs_DispatchID st"
  "bs_Name (settle_state f t st) = bs_Name st" "bs_Queue (settle_state f t st) = bs_Queue st"
  "bs_AllowFailed (settle_state f t st) = bs_AllowFailed st" "bs_Total (settle_state f t st) = bs_Total st"
  "bs_CreatedAt (settle_state f t st) = bs_CreatedAt st"
  "bs_Pending (settle_state f t st) = bs_Pending st - 1" "bs_Processed (settle_state f t st) = bs_Processed st + 1"
  "bs_Failed (settle_state f t st) = (if f then bs_Failed st + 1 else bs_Failed st)"
  "bs_Cancelled (settle_state f t st) \<longleftrightarrow> bs_Cancelled st \<or> f \<and> \<not> bs_AllowFailed st"
  "bs_Completed (settle_state f t st) \<longleftrightarrow> bs_Completed st \<or> f \<and> \<not> bs_AllowFailed st \<or> bs_Pending st \<le> 1"
  by (simp_all add: settle_state_def Let_def)

lemma batch_later_settled:
  assumes "mb_jobs b j = Some js" "\<not> js_done js"
  shows "batch_later b (settled_batch f j t b js)"
  using assms by (auto simp: batch_later_def settled_batch_def Let_def status_later_def)

lemma batch_later_touch [simp]: "batch_later b (b\<lparr>mb_state := (mb_state b)\<lparr>bs_UpdatedAt := t\<rparr>\<rparr>)"
  by (auto simp: batch_later_def Let_def)

lemma batch_later_start:
  assumes "mb_jobs b j = Some js"
  shows "batch_later b (b\<lparr>mb_jobs := (mb_jobs b)(j \<mapsto> js\<lparr>js_started := True\<rparr>), mb_state := (mb_state b)\<lparr>bs_UpdatedAt := t\<rparr>\<rparr>)"
  using assms by (auto simp: batch_later_def Let_def status_later_def)

lemma batch_later_cancel [simp]:
  "batch_later b (b\<lparr>mb_state := (mb_state b)\<lparr>bs_Cancelled := True, bs_Completed := True, bs_UpdatedAt := t\<rparr>\<rparr>)"
  by (auto simp: batch_later_def Let_def)

section \<open>The invariant\<close>

text \<open>A chain's index, its set of completed nodes and its flags agree.\<close>

definition chain_ok :: "string \<Rightarrow> memory_chain \<Rightarrow> bool" where
  "chain_ok chainID ch \<longleftrightarrow>
     cs_ChainID (mc_state ch) = chainID \<and> validateChainState (mc_state ch) = None
     \<and> \<not> (cs_Completed (mc_state ch) \<and> cs_Failed (mc_state ch))
     \<and> (\<forall>n. mc_completedNode ch n =
          (if n \<in> set (take (nat (cs_NextIndex (mc_state ch))) (map cn_NodeID (cs_Nodes (mc_state ch))))
           then Some True else None))"

definition members_with :: "(batch_job_status \<Rightarrow> bool) \<Rightarrow> memory_batch \<Rightarrow> string set" where
  "members_with P b = {j. \<exists>js. mb_jobs b j = Some js \<and> P js}"

text \<open>A batch's counters count its members, and its terminal flags follow from them
  and from cancellation.\<close>

definition batch_ok :: "string \<Rightarrow> memory_batch \<Rightarrow> bool" where
  "batch_ok batchID b \<longleftrightarrow> (let st = mb_state b in
     batchID \<noteq> [] \<and> bs_BatchID st = batchID \<and> finite (dom (mb_jobs b)) \<and> [] \<notin> dom (mb_jobs b)
     \<and> 0 < bs_Total st \<and> bs_Total st = int (card (dom (mb_jobs b)))
     \<and> bs_Pending st = int (card (members_with (\<lambda>js. \<not> js_done js) b))
     \<and> bs_Processed st = int (card (members_with js_done b))
     \<and> bs_Failed st = int (card (members_with js_failed b))
     \<and> members_with js_failed b \<subseteq> members_with js_done b
     \<and> (bs_Completed st \<longleftrightarrow> bs_Pending st = 0 \<or> bs_Cancelled st)
     \<and> (0 < bs_Failed st \<and> \<not> bs_AllowFailed st \<longrightarrow> bs_Cancelled st))"

definition chain_receipt_ok :: "chain_state \<Rightarrow> transition_receipt \<Rightarrow> bool" where
  "chain_receipt_ok st r \<longleftrightarrow>
     tr_workflowDispatchID r = cs_DispatchID st \<and> tr_workflowCreatedAt r = cs_CreatedAt st
     \<and> \<not> dispatch_mismatch (cs_DispatchID st) (tr_owner r) \<and> \<not> tr_aggregateCancelled r
     \<and> (\<exists>i. chainNodePosition (cs_Nodes st) (tr_memberID r) = Some i
          \<and> (tr_outcome r = BatchJobSucceeded \<and> int i < cs_NextIndex st
               \<and> (tr_aggregateCompleted r \<longleftrightarrow> Suc i = length (cs_Nodes st))
             \<or> tr_outcome r = BatchJobFailed \<and> int i = cs_NextIndex st \<and> cs_Failed st \<and> \<not> tr_aggregateCompleted r))"

definition batch_receipt_ok :: "memory_batch \<Rightarrow> transition_receipt \<Rightarrow> bool" where
  "batch_receipt_ok b r \<longleftrightarrow>
     tr_workflowDispatchID r = bs_DispatchID (mb_state b) \<and> tr_workflowCreatedAt r = bs_CreatedAt (mb_state b)
     \<and> \<not> dispatch_mismatch (bs_DispatchID (mb_state b)) (tr_owner r)
     \<and> (tr_aggregateCompleted r \<longrightarrow> bs_Completed (mb_state b))
     \<and> (tr_aggregateCancelled r \<longrightarrow> tr_aggregateCompleted r \<and> bs_Cancelled (mb_state b))
     \<and> (\<exists>js. mb_jobs b (tr_memberID r) = Some js \<and> js_done js
          \<and> tr_outcome r = (if js_failed js then BatchJobFailed else BatchJobSucceeded))"

definition receipt_ok :: "memory_store \<Rightarrow> transition_receipt_key \<Rightarrow> transition_receipt \<Rightarrow> bool" where
  "receipt_ok m key r \<longleftrightarrow>
     key = receipt_key (tr_workflowKind r) (tr_workflowID r) (tr_memberID r)
     \<and> receipt_supported r \<and> claim_valid (tr_owner r)
     \<and> (case tr_workflowKind r of
          ChainTransitionKind \<Rightarrow> (\<exists>ch. ms_chains m (tr_workflowID r) = Some ch \<and> chain_receipt_ok (mc_state ch) r)
        | BatchTransitionKind \<Rightarrow> (\<exists>b. ms_batch m (tr_workflowID r) = Some b \<and> batch_receipt_ok b r)
        | OtherKind _ \<Rightarrow> False)"

text \<open>At most one member's receipt says that it completed the batch.\<close>

definition one_completion :: "memory_store \<Rightarrow> bool" where
  "one_completion m \<longleftrightarrow> (\<forall>k r k' r'. ms_transitionReceipts m k = Some r \<longrightarrow> ms_transitionReceipts m k' = Some r'
     \<longrightarrow> tr_workflowKind r = BatchTransitionKind \<longrightarrow> tr_workflowKind r' = BatchTransitionKind
     \<longrightarrow> tr_workflowID r = tr_workflowID r' \<longrightarrow> tr_aggregateCompleted r \<longrightarrow> tr_aggregateCompleted r' \<longrightarrow> k = k')"

definition receipts_ok :: "memory_store \<Rightarrow> bool" where
  "receipts_ok m \<longleftrightarrow> (\<forall>key r. ms_transitionReceipts m key = Some r \<longrightarrow> receipt_ok m key r) \<and> one_completion m"

definition store_ok :: "memory_store \<Rightarrow> bool" where
  "store_ok m \<longleftrightarrow> (\<forall>c ch. ms_chains m c = Some ch \<longrightarrow> chain_ok c ch) \<and> (\<forall>i b. ms_batch m i = Some b \<longrightarrow> batch_ok i b)
     \<and> receipts_ok m"

lemma store_okI:
  "(\<And>c ch. ms_chains m c = Some ch \<Longrightarrow> chain_ok c ch) \<Longrightarrow> (\<And>i b. ms_batch m i = Some b \<Longrightarrow> batch_ok i b)
   \<Longrightarrow> receipts_ok m \<Longrightarrow> store_ok m"
  by (simp add: store_ok_def)

lemma store_okD:
  "store_ok m \<Longrightarrow> ms_chains m c = Some ch \<Longrightarrow> chain_ok c ch"
  "store_ok m \<Longrightarrow> ms_batch m i = Some b \<Longrightarrow> batch_ok i b"
  "store_ok m \<Longrightarrow> receipts_ok m"
  by (auto simp: store_ok_def)

section \<open>Every operation keeps the invariant\<close>

lemma chain_ok_advanced:
  assumes "chain_ok c ch" "chainNodePosition (cs_Nodes (mc_state ch)) n = Some i"
    "cs_NextIndex (mc_state ch) = int i" "\<not> cs_Completed (mc_state ch)" "\<not> cs_Failed (mc_state ch)"
  shows "chain_ok c \<lparr>mc_state = advanced t (mc_state ch), mc_completedNode = (mc_completedNode ch)(n \<mapsto> True)\<rparr>"
proof -
  have i: "i < length (cs_Nodes (mc_state ch))" "cn_NodeID (cs_Nodes (mc_state ch) ! i) = n"
    using chainNodePosition_Some [OF assms(2)] by auto
  have "nat (int i + 1) = Suc i" by simp
  then have "set (take (nat (int i + 1)) (map cn_NodeID (cs_Nodes (mc_state ch)))) =
      insert n (set (take i (map cn_NodeID (cs_Nodes (mc_state ch)))))"
    using take_Suc_set [of i "map cn_NodeID (cs_Nodes (mc_state ch))"] i by simp
  then show ?thesis
    using assms i by (auto simp: chain_ok_def validateChainState_None)
qed

lemma chain_ok_failed:
  "chain_ok c ch \<Longrightarrow> \<not> cs_Completed (mc_state ch) \<Longrightarrow> chain_ok c (ch\<lparr>mc_state := fail_state e t (mc_state ch)\<rparr>)"
  by (auto simp: chain_ok_def validateChainState_None)

lemma chain_ok_new:
  "validateChainRecord rec = None
   \<Longrightarrow> chain_ok (cr_ChainID rec) \<lparr>mc_state = new_chain_state rec t, mc_completedNode = Map.empty\<rparr>"
  by (auto simp: chain_ok_def validateChainState_None validateChainRecord_None nodes_ok_def)

lemma members_with_upd:
  assumes "mb_jobs b j = Some js"
  shows "members_with P (b\<lparr>mb_jobs := (mb_jobs b)(j \<mapsto> js')\<rparr>) =
    (if P js' then insert j (members_with P b) else members_with P b - {j})"
  by (auto simp: members_with_def)

lemma members_with_state [simp]:
  "members_with P (b\<lparr>mb_jobs := x, mb_state := s\<rparr>) = members_with P (b\<lparr>mb_jobs := x\<rparr>)"
  "members_with P (b\<lparr>mb_state := s\<rparr>) = members_with P b"
  by (simp_all add: members_with_def)

lemma finite_members: "finite (dom (mb_jobs b)) \<Longrightarrow> finite (members_with P b)"
  by (rule finite_subset [of _ "dom (mb_jobs b)"]) (auto simp: members_with_def)

lemma members_with_mem: "mb_jobs b j = Some js \<Longrightarrow> j \<in> members_with P b \<longleftrightarrow> P js"
  by (auto simp: members_with_def)

lemma batch_ok_settled:
  assumes ok: "batch_ok i b" and j: "mb_jobs b j = Some js" "\<not> js_done js"
  shows "batch_ok i (settled_batch f j t b js)"
proof -
  let ?js = "js\<lparr>js_done := True, js_failed := f\<rparr>" and ?b = "settled_batch f j t b js"
  have fin: "finite (members_with P b)" for P
    using ok by (auto simp: batch_ok_def Let_def intro: finite_members)
  have upd: "members_with P ?b = (if P ?js then insert j (members_with P b) else members_with P b - {j})" for P
    by (auto simp: settled_batch_def members_with_def)
  have mem: "j \<in> members_with P b \<longleftrightarrow> P js" for P
    using j by (simp add: members_with_mem)
  have nf: "\<not> js_failed js"
    using ok j mem by (auto simp: batch_ok_def Let_def)
  have pend: "0 < card (members_with (\<lambda>js. \<not> js_done js) b)"
    using mem [of "\<lambda>js. \<not> js_done js"] fin j by (auto simp: card_gt_0_iff)
  have d: "dom (mb_jobs ?b) = dom (mb_jobs b)" "mb_state ?b = settle_state f t (mb_state b)"
    using j by (auto simp: settled_batch_def)
  show ?thesis
    using ok mem pend nf j fin
    by (auto simp: batch_ok_def Let_def upd d card_insert_if card_Diff_singleton)
qed

lemma batch_ok_touch: "batch_ok i b \<Longrightarrow> batch_ok i (b\<lparr>mb_state := (mb_state b)\<lparr>bs_UpdatedAt := t\<rparr>\<rparr>)"
  by (simp add: batch_ok_def Let_def)

lemma batch_ok_cancel:
  "batch_ok i b \<Longrightarrow>
   batch_ok i (b\<lparr>mb_state := (mb_state b)\<lparr>bs_Cancelled := True, bs_Completed := True, bs_UpdatedAt := t\<rparr>\<rparr>)"
  by (simp add: batch_ok_def Let_def)

lemma batch_ok_start:
  assumes "batch_ok i b" "mb_jobs b j = Some js"
  shows "batch_ok i (b\<lparr>mb_jobs := (mb_jobs b)(j \<mapsto> js\<lparr>js_started := True\<rparr>), mb_state := (mb_state b)\<lparr>bs_UpdatedAt := t\<rparr>\<rparr>)"
proof -
  have "members_with P (b\<lparr>mb_jobs := (mb_jobs b)(j \<mapsto> js\<lparr>js_started := True\<rparr>)\<rparr>) = members_with P b"
    if "P (js\<lparr>js_started := True\<rparr>) = P js" for P
    using assms(2) that members_with_mem [OF assms(2), of P] by (auto simp: members_with_upd)
  then have "members_with js_done (b\<lparr>mb_jobs := (mb_jobs b)(j \<mapsto> js\<lparr>js_started := True\<rparr>)\<rparr>) = members_with js_done b"
    "members_with js_failed (b\<lparr>mb_jobs := (mb_jobs b)(j \<mapsto> js\<lparr>js_started := True\<rparr>)\<rparr>) = members_with js_failed b"
    "members_with (\<lambda>js. \<not> js_done js) (b\<lparr>mb_jobs := (mb_jobs b)(j \<mapsto> js\<lparr>js_started := True\<rparr>)\<rparr>) =
     members_with (\<lambda>js. \<not> js_done js) b"
    by simp_all
  moreover have "dom ((mb_jobs b)(j \<mapsto> js\<lparr>js_started := True\<rparr>)) = dom (mb_jobs b)"
    using assms(2) by auto
  ultimately show ?thesis
    using assms(1) by (simp add: batch_ok_def Let_def)
qed

lemma fold_members:
  "fold (\<lambda>job jm. jm(bj_JobID job \<mapsto> z)) js m =
   (\<lambda>j. if j \<in> bj_JobID ` set js then Some z else m j)"
  by (induction js arbitrary: m) (auto simp: fun_eq_iff)

lemma batch_ok_new:
  assumes "validateBatchRecord rec = None"
  shows "batch_ok (br_BatchID rec) \<lparr>mb_state = new_batch_state rec t,
    mb_jobs = fold (\<lambda>job jm. jm(bj_JobID job \<mapsto> zero_job_status)) (br_Jobs rec) Map.empty\<rparr>"
proof -
  let ?jm = "\<lambda>j. if j \<in> bj_JobID ` set (br_Jobs rec) then Some zero_job_status else None"
  have r: "br_BatchID rec \<noteq> []" "br_Jobs rec \<noteq> []" "distinct (map bj_JobID (br_Jobs rec))"
    "[] \<notin> bj_JobID ` set (br_Jobs rec)"
    using assms by (simp_all add: validateBatchRecord_None)
  have "card (bj_JobID ` set (br_Jobs rec)) = length (br_Jobs rec)"
    using distinct_card [OF r(3)] by simp
  moreover have "dom ?jm = bj_JobID ` set (br_Jobs rec)" by (auto split: if_splits)
  moreover have "members_with js_done \<lparr>mb_state = s, mb_jobs = ?jm\<rparr> = {}"
    "members_with js_failed \<lparr>mb_state = s, mb_jobs = ?jm\<rparr> = {}"
    "members_with (\<lambda>js. \<not> js_done js) \<lparr>mb_state = s, mb_jobs = ?jm\<rparr> = bj_JobID ` set (br_Jobs rec)" for s
    by (auto simp: members_with_def zero_job_status_def split: if_splits)
  ultimately show ?thesis
    using r by (simp add: batch_ok_def Let_def new_batch_state_def fold_members)
qed

text \<open>Receipts stay right when workflows only move to later states and receipts are
  only removed.\<close>

lemma chain_receipt_later: "chain_receipt_ok st r \<Longrightarrow> chain_later st st' \<Longrightarrow> chain_receipt_ok st' r"
  by (auto simp: chain_receipt_ok_def chain_later_def)

lemma batch_receipt_later:
  assumes "batch_receipt_ok b r" "batch_later b b'"
  shows "batch_receipt_ok b' r"
proof -
  obtain js where js: "mb_jobs b (tr_memberID r) = Some js" "js_done js"
    "tr_outcome r = (if js_failed js then BatchJobFailed else BatchJobSucceeded)"
    using assms(1) by (auto simp: batch_receipt_ok_def)
  then have "tr_memberID r \<in> dom (mb_jobs b')"
    using assms(2) by (auto simp: batch_later_def)
  then obtain js' where js': "mb_jobs b' (tr_memberID r) = Some js'" by blast
  then have "status_later js js'"
    using assms(2) js(1) unfolding batch_later_def by blast
  then have "js_done js'" "js_failed js' = js_failed js"
    using js by (auto simp: status_later_def)
  then show ?thesis
    using assms js js' by (auto simp: batch_receipt_ok_def batch_later_def Let_def)
qed

lemma receipts_ok_later:
  assumes "receipts_ok m"
    and sub: "\<And>k r. ms_transitionReceipts m' k = Some r \<Longrightarrow> ms_transitionReceipts m k = Some r"
    and chains: "\<And>k r ch. ms_transitionReceipts m' k = Some r \<Longrightarrow> tr_workflowKind r = ChainTransitionKind
      \<Longrightarrow> ms_chains m (tr_workflowID r) = Some ch
      \<Longrightarrow> \<exists>ch'. ms_chains m' (tr_workflowID r) = Some ch' \<and> chain_later (mc_state ch) (mc_state ch')"
    and batches: "\<And>k r b. ms_transitionReceipts m' k = Some r \<Longrightarrow> tr_workflowKind r = BatchTransitionKind
      \<Longrightarrow> ms_batch m (tr_workflowID r) = Some b
      \<Longrightarrow> \<exists>b'. ms_batch m' (tr_workflowID r) = Some b' \<and> batch_later b b'"
  shows "receipts_ok m'"
proof -
  have "receipt_ok m' k r" if k: "ms_transitionReceipts m' k = Some r" for k r
  proof -
    have ok: "receipt_ok m k r" using assms(1) sub [OF k] by (simp add: receipts_ok_def)
    show ?thesis
    proof (cases "tr_workflowKind r")
      case ChainTransitionKind
      then show ?thesis using ok chains [OF k] chain_receipt_later by (fastforce simp: receipt_ok_def)
    next
      case BatchTransitionKind
      then show ?thesis using ok batches [OF k] batch_receipt_later by (fastforce simp: receipt_ok_def)
    next
      case (OtherKind s)
      then show ?thesis using ok by (simp add: receipt_ok_def)
    qed
  qed
  moreover have "one_completion m'"
    using assms(1) sub unfolding receipts_ok_def one_completion_def by blast
  ultimately show ?thesis by (simp add: receipts_ok_def)
qed

lemma receipt_key_of: "receipts_ok m \<Longrightarrow> ms_transitionReceipts m k = Some r
   \<Longrightarrow> k = receipt_key (tr_workflowKind r) (tr_workflowID r) (tr_memberID r)"
  by (auto simp: receipts_ok_def receipt_ok_def)

lemma receipts_ok_put_chain:
  assumes "receipts_ok m" "ms_chains m c = Some ch" "chain_later (mc_state ch) (mc_state ch')"
  shows "receipts_ok (put_chain c ch' (m\<lparr>ms_ticks := t\<rparr>))"
  using assms(1) by (rule receipts_ok_later) (use assms in auto)

lemma receipts_ok_put_batch:
  assumes "receipts_ok m" "ms_batch m i = Some b" "batch_later b b'"
  shows "receipts_ok (put_batch i b' (m\<lparr>ms_ticks := t\<rparr>))"
  using assms(1) by (rule receipts_ok_later) (use assms in auto)

lemma receipts_ok_with_receipt:
  assumes "receipts_ok m"
    and "claim_valid claim \<Longrightarrow> receipt_ok m (receipt_key (tr_workflowKind r) (tr_workflowID r) (tr_memberID r)) r"
    and one: "\<And>k r'. tr_workflowKind r = BatchTransitionKind \<Longrightarrow> tr_aggregateCompleted r
      \<Longrightarrow> ms_transitionReceipts m k = Some r' \<Longrightarrow> tr_workflowKind r' = BatchTransitionKind
      \<Longrightarrow> tr_workflowID r' = tr_workflowID r \<Longrightarrow> \<not> tr_aggregateCompleted r'"
  shows "receipts_ok (with_receipt claim r m)"
proof (cases "claim_valid claim")
  case True
  let ?m = "with_receipt claim r m" and ?k = "receipt_key (tr_workflowKind r) (tr_workflowID r) (tr_memberID r)"
  have lookup: "ms_transitionReceipts ?m k = (if k = ?k then Some r else ms_transitionReceipts m k)" for k
    using True by (simp add: with_receipt_def)
  have same: "receipt_ok ?m k x = receipt_ok m k x" for k x
    by (cases "tr_workflowKind x") (simp_all add: receipt_ok_def)
  have "receipt_ok ?m k x" if k: "ms_transitionReceipts ?m k = Some x" for k x
  proof (cases "k = ?k")
    case True
    then have "x = r" using k lookup by simp
    then show ?thesis using True assms(2) \<open>claim_valid claim\<close> same by blast
  next
    case False
    then have "ms_transitionReceipts m k = Some x" using k lookup by simp
    then show ?thesis using assms(1) same by (simp add: receipts_ok_def)
  qed
  moreover have "one_completion ?m"
    unfolding one_completion_def lookup
  proof (intro allI impI)
    fix k x k' x'
    assume h: "(if k = ?k then Some r else ms_transitionReceipts m k) = Some x"
      "(if k' = ?k then Some r else ms_transitionReceipts m k') = Some x'"
      "tr_workflowKind x = BatchTransitionKind" "tr_workflowKind x' = BatchTransitionKind"
      "tr_workflowID x = tr_workflowID x'" "tr_aggregateCompleted x" "tr_aggregateCompleted x'"
    have old: "k = k'" if "ms_transitionReceipts m k = Some x" "ms_transitionReceipts m k' = Some x'"
      using assms(1) that h unfolding receipts_ok_def one_completion_def by blast
    have new: "x \<noteq> r" if "ms_transitionReceipts m k' = Some x'"
      using one [OF _ _ that h(4)] h by metis
    have new': "x' \<noteq> r" if "ms_transitionReceipts m k = Some x"
      using one [OF _ _ that h(3)] h by metis
    show "k = k'"
      using h(1,2) old new new' by (cases "k = ?k"; cases "k' = ?k") simp_all
  qed
  ultimately show ?thesis by (simp add: receipts_ok_def)
qed (use assms(1) in \<open>simp add: with_receipt_def\<close>)

lemma store_ok_new: "store_ok (NewMemoryStore clk)"
  by (simp add: store_ok_def NewMemoryStore_def receipts_ok_def one_completion_def)

lemma advanceChainOutcome_ok [store_inv]:
  assumes "store_ok m"
  shows "store_ok (snd (advanceChainOutcome c n claim m))"
proof -
  obtain r m' where e: "advanceChainOutcome c n claim m = (r, m')" by (cases "advanceChainOutcome c n claim m")
  show ?thesis using e
  proof (cases rule: advanceChainOutcome_cases)
    case unchanged
    then show ?thesis using assms e by simp
  next
    case (claimed ch i x)
    let ?st = "advanced (ms_clock m (ms_ticks m)) (mc_state ch)"
    let ?ch = "\<lparr>mc_state = ?st, mc_completedNode = (mc_completedNode ch)(n \<mapsto> True)\<rparr>"
    have c: "ms_chains m c = Some ch" "chainNodePosition (cs_Nodes (mc_state ch)) n = Some i"
      "cs_NextIndex (mc_state ch) = int i" "\<not> cs_Completed (mc_state ch)" "\<not> cs_Failed (mc_state ch)"
      "\<not> dispatch_mismatch (cs_DispatchID (mc_state ch)) claim"
      using claimed(1) by (simp_all add: can_claim_def)
    have ok: "chain_ok c ?ch"
      using store_okD(1) [OF assms c(1)] c by (intro chain_ok_advanced)
    have "receipts_ok (put_chain c ?ch (m\<lparr>ms_ticks := Suc (ms_ticks m)\<rparr>))"
      using store_okD(3) [OF assms] c by (intro receipts_ok_put_chain) auto
    then have "receipts_ok (advanced_store c n claim ch m)"
      unfolding advanced_store_def Let_def
      by (rule receipts_ok_with_receipt)
        (use c chainNodePosition_Some [OF c(2)] in \<open>auto simp: receipt_ok_def chain_receipt_ok_def\<close>)
    then have "store_ok (advanced_store c n claim ch m)"
      using assms ok by (auto simp: store_ok_def advanced_store_def Let_def)
    then show ?thesis using e claimed by simp
  qed
qed

lemma failChainOutcome_ok [store_inv]:
  assumes "store_ok m"
  shows "store_ok (snd (failChainOutcome c n cause claim m))"
proof -
  obtain r m' where e: "failChainOutcome c n cause claim m = (r, m')" by (cases "failChainOutcome c n cause claim m")
  show ?thesis using e
  proof (cases rule: failChainOutcome_cases)
    case unchanged
    then show ?thesis using assms e by simp
  next
    case (claimed ch i x)
    let ?ch = "ch\<lparr>mc_state := fail_state cause (ms_clock m (ms_ticks m)) (mc_state ch)\<rparr>"
    have c: "ms_chains m c = Some ch" "chainNodePosition (cs_Nodes (mc_state ch)) n = Some i"
      "cs_NextIndex (mc_state ch) = int i" "\<not> cs_Completed (mc_state ch)" "\<not> cs_Failed (mc_state ch)"
      "\<not> dispatch_mismatch (cs_DispatchID (mc_state ch)) claim"
      using claimed(1) by (simp_all add: can_claim_def)
    have ok: "chain_ok c ?ch"
      using store_okD(1) [OF assms c(1)] c by (intro chain_ok_failed)
    have "receipts_ok (put_chain c ?ch (m\<lparr>ms_ticks := Suc (ms_ticks m)\<rparr>))"
      using store_okD(3) [OF assms] c by (intro receipts_ok_put_chain) auto
    then have "receipts_ok (failed_store c n cause claim ch m)"
      unfolding failed_store_def Let_def
      by (rule receipts_ok_with_receipt) (use c in \<open>auto simp: receipt_ok_def chain_receipt_ok_def\<close>)
    then have "store_ok (failed_store c n cause claim ch m)"
      using assms ok by (auto simp: store_ok_def failed_store_def Let_def)
    then show ?thesis using e claimed by simp
  qed
qed

lemma settleBatchOutcome_ok [store_inv]:
  assumes "store_ok m"
  shows "store_ok (snd (settleBatchOutcome i j outcome claim m))"
proof -
  obtain r m' where e: "settleBatchOutcome i j outcome claim m = (r, m')"
    by (cases "settleBatchOutcome i j outcome claim m")
  show ?thesis using e
  proof (cases rule: settleBatchOutcome_cases)
    case unchanged
    then show ?thesis using assms e by simp
  next
    case (repeated b js x)
    have b: "ms_batch m i = Some b" using repeated(1) by (simp add: member_def)
    have "receipts_ok m'"
      unfolding repeated touched_batch_def by (rule receipts_ok_put_batch [OF store_okD(3) [OF assms] b]) simp
    then show ?thesis
      using assms e repeated(3) batch_ok_touch [OF store_okD(2) [OF assms b]]
      by (auto simp: store_ok_def touched_batch_def)
  next
    case (claimed b js x)
    let ?b = "settled_batch (outcome = BatchJobFailed) j (ms_clock m (ms_ticks m)) b js"
    have b: "ms_batch m i = Some b" "mb_jobs b j = Some js" using claimed(1) by (simp_all add: member_def)
    have ok: "batch_ok i ?b"
      using batch_ok_settled [OF store_okD(2) [OF assms b(1)] b(2) claimed(2)] .
    have r: "receipts_ok (put_batch i ?b (m\<lparr>ms_ticks := Suc (ms_ticks m)\<rparr>))"
      using receipts_ok_put_batch [OF store_okD(3) [OF assms] b(1) batch_later_settled [OF b(2) claimed(2)]] .
    have old: "\<not> tr_aggregateCompleted r'"
      if "ms_transitionReceipts m k = Some r'" "tr_workflowKind r' = BatchTransitionKind" "tr_workflowID r' = i"
        "\<not> bs_Completed (mb_state b)" for k r'
      using store_okD(3) [OF assms] that b(1) by (fastforce simp: receipts_ok_def receipt_ok_def batch_receipt_ok_def)
    have "receipts_ok (settled_store i j outcome claim b js m)"
      unfolding settled_store_def Let_def
      by (rule receipts_ok_with_receipt [OF r])
        (use claimed(3,4) old in \<open>auto simp: receipt_ok_def batch_receipt_ok_def settled_batch_def\<close>)
    then have "store_ok (settled_store i j outcome claim b js m)"
      using assms ok by (auto simp: store_ok_def settled_store_def Let_def)
    then show ?thesis using e claimed by simp
  qed
qed

lemma store_ok_update:
  assumes "store_ok m" "receipts_ok m'"
    "\<And>c ch. ms_chains m' c = Some ch \<Longrightarrow> ms_chains m c = Some ch \<or> chain_ok c ch"
    "\<And>i b. ms_batch m' i = Some b \<Longrightarrow> ms_batch m i = Some b \<or> batch_ok i b"
  shows "store_ok m'"
  using assms unfolding store_ok_def by blast

lemma CreateChain_ok [store_inv]:
  assumes "store_ok m"
  shows "store_ok (snd (CreateChain rec m))"
proof (cases "validateChainRecord rec")
  case None
  let ?m = "snd (CreateChain rec m)"
  have "receipts_ok ?m"
    using store_okD(3) [OF assms]
  proof (rule receipts_ok_later)
    fix k r
    assume "ms_transitionReceipts ?m k = Some r"
    then show "ms_transitionReceipts m k = Some r" using None by (simp add: CreateChain_def)
  next
    fix k r ch
    assume "ms_transitionReceipts ?m k = Some r" "tr_workflowKind r = ChainTransitionKind"
      "ms_chains m (tr_workflowID r) = Some ch"
    then show "\<exists>ch'. ms_chains ?m (tr_workflowID r) = Some ch' \<and> chain_later (mc_state ch) (mc_state ch')"
      using None receipt_key_of [OF store_okD(3) [OF assms], of k r] by (auto simp: CreateChain_def)
  qed (simp add: CreateChain_def None)
  then show ?thesis
    by (rule store_ok_update [OF assms]) (auto simp: CreateChain_def None chain_ok_new split: if_splits)
qed (use assms in \<open>simp add: CreateChain_def\<close>)

lemma CreateBatch_ok [store_inv]:
  assumes "store_ok m"
  shows "store_ok (snd (CreateBatch rec m))"
proof (cases "validateBatchRecord rec")
  case None
  let ?m = "snd (CreateBatch rec m)"
  have "receipts_ok ?m"
    using store_okD(3) [OF assms]
  proof (rule receipts_ok_later)
    fix k r
    assume "ms_transitionReceipts ?m k = Some r"
    then show "ms_transitionReceipts m k = Some r" using None by (simp add: CreateBatch_def)
  next
    fix k r b
    assume "ms_transitionReceipts ?m k = Some r" "tr_workflowKind r = BatchTransitionKind"
      "ms_batch m (tr_workflowID r) = Some b"
    then show "\<exists>b'. ms_batch ?m (tr_workflowID r) = Some b' \<and> batch_later b b'"
      using None receipt_key_of [OF store_okD(3) [OF assms], of k r] by (auto simp: CreateBatch_def)
  qed (simp add: CreateBatch_def None)
  then show ?thesis
    using assms batch_ok_new [OF None]
    by (intro store_ok_update [OF assms]) (auto simp: CreateBatch_def None Let_def split: if_splits)
qed (use assms in \<open>simp add: CreateBatch_def\<close>)

lemma FailChain_ok [store_inv]:
  assumes "store_ok m"
  shows "store_ok (snd (FailChain c cause m))"
proof (cases "ms_chains m c")
  case (Some ch)
  have "receipts_ok (snd (FailChain c cause m))"
    using store_okD(3) [OF assms] Some by (auto simp: FailChain_def intro: receipts_ok_put_chain)
  then show ?thesis
    using chain_ok_failed [OF store_okD(1) [OF assms Some]] Some
    by (intro store_ok_update [OF assms]) (auto simp: FailChain_def split: if_splits)
qed (use assms in \<open>simp add: FailChain_def\<close>)

lemma MarkBatchJobStarted_ok [store_inv]:
  assumes "store_ok m"
  shows "store_ok (snd (MarkBatchJobStarted i j m))"
proof (cases "\<exists>b js. member m i j b js")
  case True
  then obtain b js where b: "ms_batch m i = Some b" "mb_jobs b j = Some js" by (auto simp: member_def)
  have "receipts_ok (snd (MarkBatchJobStarted i j m))"
    using receipts_ok_put_batch [OF store_okD(3) [OF assms] b(1) batch_later_start [OF b(2)]] b
    by (simp add: MarkBatchJobStarted_def)
  then show ?thesis
    using batch_ok_start [OF store_okD(2) [OF assms b(1)] b(2)] b
    by (intro store_ok_update [OF assms]) (auto simp: MarkBatchJobStarted_def split: if_splits)
qed (use assms in \<open>auto simp: MarkBatchJobStarted_def member_def split: option.splits\<close>)

lemma CancelBatch_ok [store_inv]:
  assumes "store_ok m"
  shows "store_ok (snd (CancelBatch i m))"
proof (cases "ms_batch m i")
  case (Some b)
  have "receipts_ok (snd (CancelBatch i m))"
    using receipts_ok_put_batch [OF store_okD(3) [OF assms] Some batch_later_cancel] Some
    by (simp add: CancelBatch_def)
  then show ?thesis
    using batch_ok_cancel [OF store_okD(2) [OF assms Some]] Some
    by (intro store_ok_update [OF assms]) (auto simp: CancelBatch_def split: if_splits)
qed (use assms in \<open>simp add: CancelBatch_def\<close>)

lemma DiscardChain_ok [store_inv]:
  assumes "store_ok m"
  shows "store_ok (DiscardChain c m)"
proof -
  have "receipts_ok (DiscardChain c m)"
    using store_okD(3) [OF assms]
  proof (rule receipts_ok_later)
    fix k r ch
    assume "ms_transitionReceipts (DiscardChain c m) k = Some r" "tr_workflowKind r = ChainTransitionKind"
      "ms_chains m (tr_workflowID r) = Some ch"
    then show "\<exists>ch'. ms_chains (DiscardChain c m) (tr_workflowID r) = Some ch' \<and> chain_later (mc_state ch) (mc_state ch')"
      using receipt_key_of [OF store_okD(3) [OF assms], of k r] by (auto simp: DiscardChain_def)
  qed (auto simp: DiscardChain_def)
  then show ?thesis
    by (rule store_ok_update [OF assms]) (auto simp: DiscardChain_def split: if_splits)
qed

lemma DiscardBatch_ok [store_inv]:
  assumes "store_ok m"
  shows "store_ok (DiscardBatch i m)"
proof -
  have "receipts_ok (DiscardBatch i m)"
    using store_okD(3) [OF assms]
  proof (rule receipts_ok_later)
    fix k r b
    assume "ms_transitionReceipts (DiscardBatch i m) k = Some r" "tr_workflowKind r = BatchTransitionKind"
      "ms_batch m (tr_workflowID r) = Some b"
    then show "\<exists>b'. ms_batch (DiscardBatch i m) (tr_workflowID r) = Some b' \<and> batch_later b b'"
      using receipt_key_of [OF store_okD(3) [OF assms], of k r] by (auto simp: DiscardBatch_def)
  qed (auto simp: DiscardBatch_def)
  then show ?thesis
    by (rule store_ok_update [OF assms]) (auto simp: DiscardBatch_def split: if_splits)
qed

lemma MarkCallbackInvoked_ok [store_inv]:
  assumes "store_ok m"
  shows "store_ok (snd (MarkCallbackInvoked key m))"
proof -
  have "receipts_ok (snd (MarkCallbackInvoked key m))"
    using store_okD(3) [OF assms]
    by (rule receipts_ok_later) (auto simp: MarkCallbackInvoked_def split: option.splits)
  then show ?thesis
    by (rule store_ok_update [OF assms]) (auto simp: MarkCallbackInvoked_def split: option.splits)
qed

lemma Prune_sel [simp]:
  "ms_chains (Prune t m) c = Some ch \<longleftrightarrow> ms_chains m c = Some ch \<and> \<not> chain_expired t ch"
  "ms_batch (Prune t m) i = Some b \<longleftrightarrow> ms_batch m i = Some b \<and> \<not> batch_expired t b"
  "ms_callbacks (Prune t m) k = Some at \<longleftrightarrow> ms_callbacks m k = Some at \<and> \<not> at < t"
  by (auto simp: Prune_def Let_def)

lemma Prune_receipts:
  "ms_transitionReceipts (Prune t m) k = Some r \<longleftrightarrow> ms_transitionReceipts m k = Some r
   \<and> \<not> (tk_workflowKind k = ChainTransitionKind \<and> (\<exists>ch. ms_chains m (tk_workflowID k) = Some ch \<and> chain_expired t ch))
   \<and> \<not> (tk_workflowKind k = BatchTransitionKind \<and> (\<exists>b. ms_batch m (tk_workflowID k) = Some b \<and> batch_expired t b))"
  by (auto simp: Prune_def Let_def split: option.splits)

lemma Prune_ok [store_inv]:
  assumes "store_ok m"
  shows "store_ok (Prune t m)"
proof -
  have "receipts_ok (Prune t m)"
    using store_okD(3) [OF assms]
  proof (rule receipts_ok_later)
    fix k r ch
    assume "ms_transitionReceipts (Prune t m) k = Some r" "tr_workflowKind r = ChainTransitionKind"
      "ms_chains m (tr_workflowID r) = Some ch"
    then show "\<exists>ch'. ms_chains (Prune t m) (tr_workflowID r) = Some ch' \<and> chain_later (mc_state ch) (mc_state ch')"
      using receipt_key_of [OF store_okD(3) [OF assms], of k r] by (auto simp: Prune_receipts)
  next
    fix k r b
    assume "ms_transitionReceipts (Prune t m) k = Some r" "tr_workflowKind r = BatchTransitionKind"
      "ms_batch m (tr_workflowID r) = Some b"
    then show "\<exists>b'. ms_batch (Prune t m) (tr_workflowID r) = Some b' \<and> batch_later b b'"
      using receipt_key_of [OF store_okD(3) [OF assms], of k r] by (auto simp: Prune_receipts)
  qed (simp add: Prune_receipts)
  then show ?thesis
    by (rule store_ok_update [OF assms]) auto
qed

end
