(* ===== verification/StoreTraces.thy ===== *)
theory StoreTraces
  imports StoreInvariants
begin

text \<open>
  Runs of the in-memory store. An operation with its arguments is a \<open>store_op\<close>;
  \<open>store_step\<close> executes one, so that a schedule of concurrent callers, serialised by
  the store's mutex, is a list of operations. The theory shows that the invariant
  holds in every reachable state, that workflows only move forward, and that each
  chain node, batch member, batch completion and callback key is claimed at most
  once.
\<close>

datatype store_op =
    OpCreateChain chain_record
  | OpAdvanceChain string string transition_claim
  | OpFailChainNode string string "goerr option" transition_claim
  | OpFailChain string "goerr option"
  | OpDiscardChain string
  | OpCreateBatch batch_record
  | OpMarkBatchJobStarted string string
  | OpSettleBatchJob string string batch_job_outcome transition_claim
  | OpCancelBatch string
  | OpDiscardBatch string
  | OpMarkCallbackInvoked string
  | OpPrune time

fun store_step :: "store_op \<Rightarrow> memory_store \<Rightarrow> memory_store" where
  "store_step (OpCreateChain rec) m = snd (CreateChain rec m)"
| "store_step (OpAdvanceChain c n claim) m = snd (advanceChainOutcome c n claim m)"
| "store_step (OpFailChainNode c n cause claim) m = snd (failChainOutcome c n cause claim m)"
| "store_step (OpFailChain c cause) m = snd (FailChain c cause m)"
| "store_step (OpDiscardChain c) m = DiscardChain c m"
| "store_step (OpCreateBatch rec) m = snd (CreateBatch rec m)"
| "store_step (OpMarkBatchJobStarted i j) m = snd (MarkBatchJobStarted i j m)"
| "store_step (OpSettleBatchJob i j outcome claim) m = snd (settleBatchOutcome i j outcome claim m)"
| "store_step (OpCancelBatch i) m = snd (CancelBatch i m)"
| "store_step (OpDiscardBatch i) m = DiscardBatch i m"
| "store_step (OpMarkCallbackInvoked k) m = snd (MarkCallbackInvoked k m)"
| "store_step (OpPrune t) m = Prune t m"

definition store_run :: "store_op list \<Rightarrow> memory_store \<Rightarrow> memory_store" where
  "store_run ops m = fold store_step ops m"

inductive memory_reachable :: "clock \<Rightarrow> memory_store \<Rightarrow> bool" for clk where
  start: "memory_reachable clk (NewMemoryStore clk)"
| step: "memory_reachable clk m \<Longrightarrow> memory_reachable clk (store_step op m)"

text \<open>The methods without a claim, of the public interface, are the ones with the
  empty claim.\<close>

lemma public_steps [simp]:
  "snd (AdvanceChain c n m) = store_step (OpAdvanceChain c n zero_claim) m"
  "snd (FailChainNode c n cause m) = store_step (OpFailChainNode c n cause zero_claim) m"
  "snd (SettleBatchJob i j outcome m) = store_step (OpSettleBatchJob i j outcome zero_claim) m"
  "snd (MarkBatchJobSucceeded i j m) = store_step (OpSettleBatchJob i j BatchJobSucceeded zero_claim) m"
  "snd (MarkBatchJobFailed i j cause m) = store_step (OpSettleBatchJob i j BatchJobFailed zero_claim) m"
  by (auto simp: AdvanceChain_def FailChainNode_def SettleBatchJob_def MarkBatchJobSucceeded_def
      MarkBatchJobFailed_def split: prod.splits sum.splits)

lemma store_step_ok [store_inv]: "store_ok m \<Longrightarrow> store_ok (store_step op m)"
  by (cases op) (simp_all add: store_inv)

lemma store_run_ok: "store_ok m \<Longrightarrow> store_ok (store_run ops m)"
  by (induction ops arbitrary: m) (simp_all add: store_run_def store_inv)

lemma reachable_ok: "memory_reachable clk m \<Longrightarrow> store_ok m"
  by (induction rule: memory_reachable.induct) (simp_all add: store_ok_new store_inv)

section \<open>Workflows move forward\<close>

text \<open>The operations that replace or remove a chain, a batch or a callback key.\<close>

fun keeps_chain :: "string \<Rightarrow> store_op \<Rightarrow> bool" where
  "keeps_chain c (OpCreateChain rec) = (cr_ChainID rec \<noteq> c)"
| "keeps_chain c (OpDiscardChain c') = (c' \<noteq> c)"
| "keeps_chain c (OpPrune t) = False"
| "keeps_chain c _ = True"

fun keeps_batch :: "string \<Rightarrow> store_op \<Rightarrow> bool" where
  "keeps_batch i (OpCreateBatch rec) = (br_BatchID rec \<noteq> i)"
| "keeps_batch i (OpDiscardBatch i') = (i' \<noteq> i)"
| "keeps_batch i (OpPrune t) = False"
| "keeps_batch i _ = True"

fun keeps_callbacks :: "store_op \<Rightarrow> bool" where
  "keeps_callbacks (OpPrune t) = False"
| "keeps_callbacks _ = True"

text \<open>What the operations on the other kind of workflow leave alone.\<close>

lemma advance_frame [frame]:
  "ms_batch (snd (advanceChainOutcome c n claim m)) = ms_batch m"
  "ms_callbacks (snd (advanceChainOutcome c n claim m)) = ms_callbacks m"
  "c' \<noteq> c \<Longrightarrow> ms_chains (snd (advanceChainOutcome c n claim m)) c' = ms_chains m c'"
proof -
  have "advanceChainOutcome c n claim m = (fst (advanceChainOutcome c n claim m), snd (advanceChainOutcome c n claim m))" by simp
  then have "ms_batch (snd (advanceChainOutcome c n claim m)) = ms_batch m \<and> ms_callbacks (snd (advanceChainOutcome c n claim m)) = ms_callbacks m \<and> (c' \<noteq> c \<longrightarrow> ms_chains (snd (advanceChainOutcome c n claim m)) c' = ms_chains m c')"
    by (cases rule: advanceChainOutcome_cases) (simp_all add: advanced_store_def Let_def)
  then show "ms_batch (snd (advanceChainOutcome c n claim m)) = ms_batch m"
    "ms_callbacks (snd (advanceChainOutcome c n claim m)) = ms_callbacks m"
    "c' \<noteq> c \<Longrightarrow> ms_chains (snd (advanceChainOutcome c n claim m)) c' = ms_chains m c'" by blast+
qed

lemma fail_frame [frame]:
  "ms_batch (snd (failChainOutcome c n cause claim m)) = ms_batch m"
  "ms_callbacks (snd (failChainOutcome c n cause claim m)) = ms_callbacks m"
  "c' \<noteq> c \<Longrightarrow> ms_chains (snd (failChainOutcome c n cause claim m)) c' = ms_chains m c'"
proof -
  have "failChainOutcome c n cause claim m = (fst (failChainOutcome c n cause claim m), snd (failChainOutcome c n cause claim m))" by simp
  then have "ms_batch (snd (failChainOutcome c n cause claim m)) = ms_batch m \<and> ms_callbacks (snd (failChainOutcome c n cause claim m)) = ms_callbacks m \<and> (c' \<noteq> c \<longrightarrow> ms_chains (snd (failChainOutcome c n cause claim m)) c' = ms_chains m c')"
    by (cases rule: failChainOutcome_cases) (simp_all add: failed_store_def Let_def)
  then show "ms_batch (snd (failChainOutcome c n cause claim m)) = ms_batch m"
    "ms_callbacks (snd (failChainOutcome c n cause claim m)) = ms_callbacks m"
    "c' \<noteq> c \<Longrightarrow> ms_chains (snd (failChainOutcome c n cause claim m)) c' = ms_chains m c'" by blast+
qed

lemma settle_frame [frame]:
  "ms_chains (snd (settleBatchOutcome i j outcome claim m)) = ms_chains m"
  "ms_callbacks (snd (settleBatchOutcome i j outcome claim m)) = ms_callbacks m"
  "i' \<noteq> i \<Longrightarrow> ms_batch (snd (settleBatchOutcome i j outcome claim m)) i' = ms_batch m i'"
proof -
  have "settleBatchOutcome i j outcome claim m = (fst (settleBatchOutcome i j outcome claim m), snd (settleBatchOutcome i j outcome claim m))" by simp
  then have "ms_chains (snd (settleBatchOutcome i j outcome claim m)) = ms_chains m \<and> ms_callbacks (snd (settleBatchOutcome i j outcome claim m)) = ms_callbacks m \<and> (i' \<noteq> i \<longrightarrow> ms_batch (snd (settleBatchOutcome i j outcome claim m)) i' = ms_batch m i')"
    by (cases rule: settleBatchOutcome_cases) (simp_all add: settled_store_def touched_batch_def Let_def)
  then show "ms_chains (snd (settleBatchOutcome i j outcome claim m)) = ms_chains m"
    "ms_callbacks (snd (settleBatchOutcome i j outcome claim m)) = ms_callbacks m"
    "i' \<noteq> i \<Longrightarrow> ms_batch (snd (settleBatchOutcome i j outcome claim m)) i' = ms_batch m i'" by blast+
qed

lemma other_frame [frame]:
  "ms_batch (snd (CreateChain rec m)) = ms_batch m" "ms_callbacks (snd (CreateChain rec m)) = ms_callbacks m"
  "cr_ChainID rec \<noteq> c' \<Longrightarrow> ms_chains (snd (CreateChain rec m)) c' = ms_chains m c'"
  "ms_batch (snd (FailChain c cause m)) = ms_batch m" "ms_callbacks (snd (FailChain c cause m)) = ms_callbacks m"
  "c' \<noteq> c \<Longrightarrow> ms_chains (snd (FailChain c cause m)) c' = ms_chains m c'"
  "ms_batch (DiscardChain c m) = ms_batch m" "ms_callbacks (DiscardChain c m) = ms_callbacks m"
  "c \<noteq> c' \<Longrightarrow> ms_chains (DiscardChain c m) c' = ms_chains m c'"
  "ms_chains (snd (CreateBatch br m)) = ms_chains m" "ms_callbacks (snd (CreateBatch br m)) = ms_callbacks m"
  "br_BatchID br \<noteq> i' \<Longrightarrow> ms_batch (snd (CreateBatch br m)) i' = ms_batch m i'"
  "ms_chains (snd (MarkBatchJobStarted i j m)) = ms_chains m"
  "ms_callbacks (snd (MarkBatchJobStarted i j m)) = ms_callbacks m"
  "i' \<noteq> i \<Longrightarrow> ms_batch (snd (MarkBatchJobStarted i j m)) i' = ms_batch m i'"
  "ms_chains (snd (CancelBatch i m)) = ms_chains m" "ms_callbacks (snd (CancelBatch i m)) = ms_callbacks m"
  "i' \<noteq> i \<Longrightarrow> ms_batch (snd (CancelBatch i m)) i' = ms_batch m i'"
  "ms_chains (DiscardBatch i m) = ms_chains m" "ms_callbacks (DiscardBatch i m) = ms_callbacks m"
  "i \<noteq> i' \<Longrightarrow> ms_batch (DiscardBatch i m) i' = ms_batch m i'"
  "ms_chains (snd (MarkCallbackInvoked k m)) = ms_chains m" "ms_batch (snd (MarkCallbackInvoked k m)) = ms_batch m"
  by (auto simp: CreateChain_def FailChain_def DiscardChain_def CreateBatch_def MarkBatchJobStarted_def
      CancelBatch_def DiscardBatch_def MarkCallbackInvoked_def Let_def split: option.splits)

lemma chain_step_later:
  assumes "ms_chains m c = Some ch" "keeps_chain c op"
  shows "\<exists>ch'. ms_chains (store_step op m) c = Some ch' \<and> chain_later (mc_state ch) (mc_state ch')"
proof (cases op)
  case (OpAdvanceChain c' n claim)
  obtain r m' where e: "advanceChainOutcome c' n claim m = (r, m')" by fastforce
  show ?thesis using e
  proof (cases rule: advanceChainOutcome_cases)
    case (claimed ch' i x)
    then show ?thesis using assms e OpAdvanceChain
      by (cases "c' = c") (auto simp: advanced_store_def Let_def can_claim_def)
  qed (use assms e OpAdvanceChain in auto)
next
  case (OpFailChainNode c' n cause claim)
  obtain r m' where e: "failChainOutcome c' n cause claim m = (r, m')" by fastforce
  show ?thesis using e
  proof (cases rule: failChainOutcome_cases)
    case (claimed ch' i x)
    then show ?thesis using assms e OpFailChainNode
      by (cases "c' = c") (auto simp: failed_store_def Let_def can_claim_def)
  qed (use assms e OpFailChainNode in auto)
next
  case (OpFailChain c' cause)
  then show ?thesis using assms by (cases "c' = c") (auto simp: FailChain_def split: option.splits)
qed (use assms in \<open>auto simp: frame\<close>)

lemma batch_step_later:
  assumes "ms_batch m i = Some b" "keeps_batch i op"
  shows "\<exists>b'. ms_batch (store_step op m) i = Some b' \<and> batch_later b b'"
proof (cases op)
  case (OpSettleBatchJob i' j outcome claim)
  obtain r m' where e: "settleBatchOutcome i' j outcome claim m = (r, m')" by fastforce
  show ?thesis using e
  proof (cases rule: settleBatchOutcome_cases)
    case (repeated b' js x)
    then show ?thesis using assms e OpSettleBatchJob
      by (cases "i' = i") (auto simp: touched_batch_def member_def)
  next
    case (claimed b' js x)
    then show ?thesis using assms e OpSettleBatchJob
      by (cases "i' = i") (auto simp: settled_store_def Let_def member_def intro: batch_later_settled)
  qed (use assms e OpSettleBatchJob in auto)
next
  case (OpMarkBatchJobStarted i' j)
  then show ?thesis using assms
    by (cases "i' = i") (auto simp: MarkBatchJobStarted_def intro: batch_later_start split: option.splits)
next
  case (OpCancelBatch i')
  then show ?thesis using assms by (cases "i' = i") (auto simp: CancelBatch_def split: option.splits)
qed (use assms in \<open>auto simp: frame\<close>)

lemma chain_run_later:
  assumes "ms_chains m c = Some ch" "list_all (keeps_chain c) ops"
  shows "\<exists>ch'. ms_chains (store_run ops m) c = Some ch' \<and> chain_later (mc_state ch) (mc_state ch')"
  using assms
proof (induction ops arbitrary: m ch)
  case (Cons op ops)
  obtain ch1 where "ms_chains (store_step op m) c = Some ch1" "chain_later (mc_state ch) (mc_state ch1)"
    using chain_step_later Cons.prems by fastforce
  then show ?case using Cons.IH [of "store_step op m" ch1] Cons.prems chain_later_trans
    by (auto simp: store_run_def)
qed (simp add: store_run_def)

lemma batch_run_later:
  assumes "ms_batch m i = Some b" "list_all (keeps_batch i) ops"
  shows "\<exists>b'. ms_batch (store_run ops m) i = Some b' \<and> batch_later b b'"
  using assms
proof (induction ops arbitrary: m b)
  case (Cons op ops)
  obtain b1 where "ms_batch (store_step op m) i = Some b1" "batch_later b b1"
    using batch_step_later Cons.prems by fastforce
  then show ?case using Cons.IH [of "store_step op m" b1] Cons.prems batch_later_trans
    by (auto simp: store_run_def)
qed (simp add: store_run_def)

section \<open>Claims happen at most once\<close>

text \<open>Whether an operation, executed in a state, claims the outcome of a chain node,
  of a batch member, or a callback key.\<close>

fun claims_node :: "string \<Rightarrow> string \<Rightarrow> store_op \<Rightarrow> memory_store \<Rightarrow> bool" where
  "claims_node c n (OpAdvanceChain c' n' claim) m =
     (c' = c \<and> n' = n \<and> (case fst (advanceChainOutcome c n claim m) of Inl _ \<Rightarrow> False | Inr x \<Rightarrow> ca_claimedNow x))"
| "claims_node c n (OpFailChainNode c' n' cause claim) m =
     (c' = c \<and> n' = n \<and> (case fst (failChainOutcome c n cause claim m) of Inl _ \<Rightarrow> False | Inr x \<Rightarrow> cf_claimedNow x))"
| "claims_node c n _ m = False"

fun claims_member :: "string \<Rightarrow> string \<Rightarrow> store_op \<Rightarrow> memory_store \<Rightarrow> bool" where
  "claims_member i j (OpSettleBatchJob i' j' outcome claim) m =
     (i' = i \<and> j' = j \<and> (case fst (settleBatchOutcome i j outcome claim m) of Inl _ \<Rightarrow> False | Inr x \<Rightarrow> br_claimedNow x))"
| "claims_member i j _ m = False"

fun claims_callback :: "string \<Rightarrow> store_op \<Rightarrow> memory_store \<Rightarrow> bool" where
  "claims_callback k (OpMarkCallbackInvoked k') m = (k' = k \<and> fst (MarkCallbackInvoked k m))"
| "claims_callback k _ m = False"

text \<open>A claimed node is the current node of an open chain, and afterwards is not.\<close>

definition node_open :: "string \<Rightarrow> string \<Rightarrow> memory_store \<Rightarrow> bool" where
  "node_open c n m \<longleftrightarrow> (\<exists>ch i. ms_chains m c = Some ch \<and> chainNodePosition (cs_Nodes (mc_state ch)) n = Some i
     \<and> cs_NextIndex (mc_state ch) \<le> int i \<and> \<not> cs_Completed (mc_state ch) \<and> \<not> cs_Failed (mc_state ch))"

lemma claims_node_open: "claims_node c n op m \<Longrightarrow> node_open c n m"
proof (induction c n op m rule: claims_node.induct)
  case (1 c n c' n' claim m)
  obtain r m' where e: "advanceChainOutcome c n claim m = (r, m')" by fastforce
  show ?case using e
    by (cases rule: advanceChainOutcome_cases) (use 1 e in \<open>auto simp: node_open_def can_claim_def split: sum.splits\<close>)
next
  case (2 c n c' n' cause claim m)
  obtain r m' where e: "failChainOutcome c n cause claim m = (r, m')" by fastforce
  show ?case using e
    by (cases rule: failChainOutcome_cases) (use 2 e in \<open>auto simp: node_open_def can_claim_def split: sum.splits\<close>)
qed simp_all

lemma claims_node_closes:
  assumes "claims_node c n op m"
  shows "ms_chains (store_step op m) c \<noteq> None \<and> \<not> node_open c n (store_step op m)"
  using assms
proof (induction c n op m rule: claims_node.induct)
  case (1 c n c' n' claim m)
  obtain r m' where e: "advanceChainOutcome c n claim m = (r, m')" by fastforce
  show ?case using e
    by (cases rule: advanceChainOutcome_cases)
      (use 1 e in \<open>auto simp: node_open_def can_claim_def advanced_store_def Let_def split: sum.splits\<close>)
next
  case (2 c n c' n' cause claim m)
  obtain r m' where e: "failChainOutcome c n cause claim m = (r, m')" by fastforce
  show ?case using e
    by (cases rule: failChainOutcome_cases)
      (use 2 e in \<open>auto simp: node_open_def can_claim_def failed_store_def Let_def split: sum.splits\<close>)
qed simp_all

lemma node_closed_stays:
  assumes "ms_chains m c \<noteq> None" "\<not> node_open c n m" "list_all (keeps_chain c) ops"
  shows "\<not> node_open c n (store_run ops m)"
proof -
  obtain ch where ch: "ms_chains m c = Some ch" using assms(1) by blast
  obtain ch' where ch': "ms_chains (store_run ops m) c = Some ch'" "chain_later (mc_state ch) (mc_state ch')"
    using chain_run_later [OF ch assms(3)] by blast
  have "cs_NextIndex (mc_state ch) \<le> cs_NextIndex (mc_state ch')" "cs_Nodes (mc_state ch') = cs_Nodes (mc_state ch)"
    "cs_Completed (mc_state ch) \<Longrightarrow> cs_Completed (mc_state ch')" "cs_Failed (mc_state ch) \<Longrightarrow> cs_Failed (mc_state ch')"
    using ch'(2) by (auto simp: chain_later_def)
  then show ?thesis
    using assms(2) ch ch'(1) by (auto simp: node_open_def)
qed

definition member_open :: "string \<Rightarrow> string \<Rightarrow> memory_store \<Rightarrow> bool" where
  "member_open i j m \<longleftrightarrow> (\<exists>b js. member m i j b js \<and> \<not> js_done js)"

lemma claims_member_open: "claims_member i j op m \<Longrightarrow> member_open i j m"
proof (induction i j op m rule: claims_member.induct)
  case (1 i j i' j' outcome claim m)
  obtain r m' where e: "settleBatchOutcome i j outcome claim m = (r, m')" by fastforce
  show ?case using e
    by (cases rule: settleBatchOutcome_cases) (use 1 e in \<open>auto simp: member_open_def split: sum.splits\<close>)
qed simp_all

lemma claims_member_closes:
  assumes "claims_member i j op m"
  shows "ms_batch (store_step op m) i \<noteq> None \<and> \<not> member_open i j (store_step op m)"
  using assms
proof (induction i j op m rule: claims_member.induct)
  case (1 i j i' j' outcome claim m)
  obtain r m' where e: "settleBatchOutcome i j outcome claim m = (r, m')" by fastforce
  show ?case using e
    by (cases rule: settleBatchOutcome_cases)
      (use 1 e in \<open>auto simp: member_open_def member_def settled_store_def settled_batch_def Let_def split: sum.splits\<close>)
qed simp_all

lemma member_closed_stays:
  assumes "ms_batch m i \<noteq> None" "\<not> member_open i j m" "list_all (keeps_batch i) ops"
  shows "\<not> member_open i j (store_run ops m)"
proof -
  obtain b where b: "ms_batch m i = Some b" using assms(1) by blast
  obtain b' where b': "ms_batch (store_run ops m) i = Some b'" "batch_later b b'"
    using batch_run_later [OF b assms(3)] by blast
  have "js_done js'" if js': "mb_jobs b' j = Some js'" for js'
  proof -
    have "j \<in> dom (mb_jobs b)" using b'(2) js' by (auto simp: batch_later_def)
    then obtain js where js: "mb_jobs b j = Some js" by blast
    have "status_later js js'" using b'(2) js js' unfolding batch_later_def by blast
    then show ?thesis using assms(2) b js by (auto simp: member_open_def member_def status_later_def)
  qed
  then show ?thesis using b' by (auto simp: member_open_def member_def)
qed

lemma callback_step:
  "ms_callbacks m k \<noteq> None \<Longrightarrow> keeps_callbacks op \<Longrightarrow> ms_callbacks (store_step op m) k \<noteq> None"
  by (cases op) (auto simp: frame MarkCallbackInvoked_def split: option.splits)

lemma callback_run:
  "ms_callbacks m k \<noteq> None \<Longrightarrow> list_all keeps_callbacks ops \<Longrightarrow> ms_callbacks (store_run ops m) k \<noteq> None"
proof (induction ops arbitrary: m)
  case (Cons op ops)
  then show ?case using callback_step [of m k op] by (simp add: store_run_def)
qed (simp add: store_run_def)

section \<open>Receipts\<close>

lemma with_receipt_other:
  "k \<noteq> receipt_key (tr_workflowKind r) (tr_workflowID r) (tr_memberID r)
   \<Longrightarrow> ms_transitionReceipts (with_receipt claim r m) k = ms_transitionReceipts m k"
  by (simp add: with_receipt_def)

lemma chain_receipt_closed:
  assumes "store_ok m" "ms_transitionReceipts m (receipt_key ChainTransitionKind c n) = Some r"
  shows "\<not> node_open c n m \<and> ms_chains m c \<noteq> None"
  using assms
  by (fastforce simp: store_ok_def receipts_ok_def receipt_ok_def chain_receipt_ok_def node_open_def)

lemma batch_receipt_closed:
  assumes "store_ok m" "ms_transitionReceipts m (receipt_key BatchTransitionKind i j) = Some r"
  shows "\<not> member_open i j m \<and> ms_batch m i \<noteq> None"
  using assms
  by (fastforce simp: store_ok_def receipts_ok_def receipt_ok_def batch_receipt_ok_def member_open_def member_def)

text \<open>An operation that is not a claim on a key leaves the receipt under that key.\<close>

lemma advance_receipt:
  assumes "\<not> node_open c n m" "k = receipt_key ChainTransitionKind c n \<or> tk_workflowKind k \<noteq> ChainTransitionKind"
  shows "ms_transitionReceipts (snd (advanceChainOutcome c' n' claim m)) k = ms_transitionReceipts m k"
proof -
  have "advanceChainOutcome c' n' claim m = (fst (advanceChainOutcome c' n' claim m), snd (advanceChainOutcome c' n' claim m))"
    by simp
  then show ?thesis
  proof (cases rule: advanceChainOutcome_cases)
    case (claimed ch i x)
    have "(c', n') \<noteq> (c, n)" using claimed(1) assms(1) by (auto simp: can_claim_def node_open_def)
    then have "k \<noteq> receipt_key ChainTransitionKind c' n'" using assms(2) by auto
    then show ?thesis using claimed(3) by (simp add: advanced_store_def Let_def with_receipt_other)
  qed simp
qed

lemma fail_receipt:
  assumes "\<not> node_open c n m" "k = receipt_key ChainTransitionKind c n \<or> tk_workflowKind k \<noteq> ChainTransitionKind"
  shows "ms_transitionReceipts (snd (failChainOutcome c' n' cause claim m)) k = ms_transitionReceipts m k"
proof -
  have "failChainOutcome c' n' cause claim m =
      (fst (failChainOutcome c' n' cause claim m), snd (failChainOutcome c' n' cause claim m))"
    by simp
  then show ?thesis
  proof (cases rule: failChainOutcome_cases)
    case (claimed ch i x)
    have "(c', n') \<noteq> (c, n)" using claimed(1) assms(1) by (auto simp: can_claim_def node_open_def)
    then have "k \<noteq> receipt_key ChainTransitionKind c' n'" using assms(2) by auto
    then show ?thesis using claimed(2) by (simp add: failed_store_def Let_def with_receipt_other)
  qed simp
qed

lemma settle_receipt:
  assumes "\<not> member_open i j m" "k = receipt_key BatchTransitionKind i j \<or> tk_workflowKind k \<noteq> BatchTransitionKind"
  shows "ms_transitionReceipts (snd (settleBatchOutcome i' j' outcome claim m)) k = ms_transitionReceipts m k"
proof -
  have "settleBatchOutcome i' j' outcome claim m =
      (fst (settleBatchOutcome i' j' outcome claim m), snd (settleBatchOutcome i' j' outcome claim m))"
    by simp
  then show ?thesis
  proof (cases rule: settleBatchOutcome_cases)
    case (claimed b js x)
    have "(i', j') \<noteq> (i, j)" using claimed(1,2) assms(1) by (auto simp: member_open_def)
    then have "k \<noteq> receipt_key BatchTransitionKind i' j'" using assms(2) by auto
    then show ?thesis using claimed(5) by (simp add: settled_store_def Let_def with_receipt_other)
  qed (simp_all add: touched_batch_def)
qed

lemma no_empty_ids: "store_ok m \<Longrightarrow> \<not> member_open [] j m" "store_ok m \<Longrightarrow> \<not> node_open [] n m"
  by (auto simp: member_open_def member_def node_open_def batch_ok_def chain_ok_def validateChainState_None Let_def
      dest: store_okD)

lemma chain_receipt_step:
  assumes "store_ok m" "ms_transitionReceipts m (receipt_key ChainTransitionKind c n) = Some r" "keeps_chain c op"
  shows "ms_transitionReceipts (store_step op m) (receipt_key ChainTransitionKind c n) = Some r"
proof -
  have closed: "\<not> node_open c n m" using chain_receipt_closed assms by blast
  have other: "\<not> member_open [] [] m" using no_empty_ids assms(1) by blast
  show ?thesis
    using assms advance_receipt [OF closed] fail_receipt [OF closed] settle_receipt [OF other]
    by (cases op) (auto simp: CreateChain_def FailChain_def DiscardChain_def CreateBatch_def MarkBatchJobStarted_def
        CancelBatch_def DiscardBatch_def MarkCallbackInvoked_def Let_def split: option.splits)
qed

lemma batch_receipt_step:
  assumes "store_ok m" "ms_transitionReceipts m (receipt_key BatchTransitionKind i j) = Some r" "keeps_batch i op"
  shows "ms_transitionReceipts (store_step op m) (receipt_key BatchTransitionKind i j) = Some r"
proof -
  have closed: "\<not> member_open i j m" using batch_receipt_closed assms by blast
  have other: "\<not> node_open [] [] m" using no_empty_ids assms(1) by blast
  show ?thesis
    using assms advance_receipt [OF other] fail_receipt [OF other] settle_receipt [OF closed]
    by (cases op) (auto simp: CreateChain_def FailChain_def DiscardChain_def CreateBatch_def MarkBatchJobStarted_def
        CancelBatch_def DiscardBatch_def MarkCallbackInvoked_def Let_def split: option.splits)
qed

lemma chain_receipt_run:
  "store_ok m \<Longrightarrow> ms_transitionReceipts m (receipt_key ChainTransitionKind c n) = Some r
   \<Longrightarrow> list_all (keeps_chain c) ops
   \<Longrightarrow> ms_transitionReceipts (store_run ops m) (receipt_key ChainTransitionKind c n) = Some r"
  by (induction ops arbitrary: m) (simp_all add: store_run_def chain_receipt_step store_inv)

lemma batch_receipt_run:
  "store_ok m \<Longrightarrow> ms_transitionReceipts m (receipt_key BatchTransitionKind i j) = Some r
   \<Longrightarrow> list_all (keeps_batch i) ops
   \<Longrightarrow> ms_transitionReceipts (store_run ops m) (receipt_key BatchTransitionKind i j) = Some r"
  by (induction ops arbitrary: m) (simp_all add: store_run_def batch_receipt_step store_inv)

text \<open>In a state that satisfies the invariant a stored receipt is returned and its
  absence reported; the lookup never finds provenance of another incarnation.\<close>

lemma chainTransitionReceipt_eq:
  assumes "store_ok m" "ms_chains m c \<noteq> None"
  shows "chainTransitionReceipt c n m = Inr (ms_transitionReceipts m (receipt_key ChainTransitionKind c n))"
proof (cases "ms_transitionReceipts m (receipt_key ChainTransitionKind c n)")
  case (Some r)
  then have "receipt_ok m (receipt_key ChainTransitionKind c n) r"
    using assms(1) by (simp add: store_ok_def receipts_ok_def)
  then show ?thesis using Some
    by (auto simp: chainTransitionReceipt_def transitionReceipt_def receipt_ok_def chain_receipt_ok_def
        validateTransitionReceiptSupport_def)
qed (use assms in \<open>auto simp: chainTransitionReceipt_def transitionReceipt_def\<close>)

lemma batchTransitionReceipt_eq:
  assumes "store_ok m" "ms_batch m i \<noteq> None"
  shows "batchTransitionReceipt i j m = Inr (ms_transitionReceipts m (receipt_key BatchTransitionKind i j))"
proof (cases "ms_transitionReceipts m (receipt_key BatchTransitionKind i j)")
  case (Some r)
  then have "receipt_ok m (receipt_key BatchTransitionKind i j) r"
    using assms(1) by (simp add: store_ok_def receipts_ok_def)
  then show ?thesis using Some
    by (auto simp: batchTransitionReceipt_def transitionReceipt_def receipt_ok_def batch_receipt_ok_def
        validateTransitionReceiptSupport_def)
qed (use assms in \<open>auto simp: batchTransitionReceipt_def transitionReceipt_def\<close>)

section \<open>Progress\<close>

text \<open>An open chain whose remaining nodes succeed in order completes.\<close>

lemma advance_current:
  assumes "store_ok m" "ms_chains m c = Some ch" "cs_NextIndex (mc_state ch) = int k"
    "k < length (cs_Nodes (mc_state ch))" "\<not> cs_Failed (mc_state ch)"
    "\<not> dispatch_mismatch (cs_DispatchID (mc_state ch)) claim"
  shows "\<exists>ch'. ms_chains (store_step (OpAdvanceChain c (cn_NodeID (cs_Nodes (mc_state ch) ! k)) claim) m) c = Some ch'
    \<and> mc_state ch' = advanced (ms_clock m (ms_ticks m)) (mc_state ch)"
proof -
  have "chain_ok c ch" using assms store_okD by blast
  then have val: "validateChainState (mc_state ch) = None" and nodes: "nodes_ok (cs_Nodes (mc_state ch))"
    and opn: "\<not> cs_Completed (mc_state ch)"
    using assms by (auto simp: chain_ok_def validateChainState_None)
  have "can_claim m c (cn_NodeID (cs_Nodes (mc_state ch) ! k)) claim ch k"
    using assms nodes opn by (simp add: can_claim_def)
  from advance_claim_eq [OF this val] show ?thesis
    by (simp add: Let_def advanced_store_def)
qed

lemma advance_rest:
  assumes "store_ok m" "ms_chains m c = Some ch" "cs_NextIndex (mc_state ch) = int k"
    "k \<le> length (cs_Nodes (mc_state ch))" "\<not> cs_Failed (mc_state ch)"
    "\<not> dispatch_mismatch (cs_DispatchID (mc_state ch)) claim"
  shows "\<exists>ch'. ms_chains (store_run (map (\<lambda>n. OpAdvanceChain c (cn_NodeID n) claim)
      (drop k (cs_Nodes (mc_state ch)))) m) c = Some ch'
    \<and> cs_NextIndex (mc_state ch') = int (length (cs_Nodes (mc_state ch))) \<and> \<not> cs_Failed (mc_state ch')"
  using assms
proof (induction "length (cs_Nodes (mc_state ch)) - k" arbitrary: m ch k)
  case 0
  then show ?case by (simp add: store_run_def)
next
  case (Suc d)
  then have k: "k < length (cs_Nodes (mc_state ch))" by simp
  let ?op = "OpAdvanceChain c (cn_NodeID (cs_Nodes (mc_state ch) ! k)) claim"
  obtain ch' where ch': "ms_chains (store_step ?op m) c = Some ch'"
      "mc_state ch' = advanced (ms_clock m (ms_ticks m)) (mc_state ch)"
    using advance_current [OF Suc.prems(1-3) k Suc.prems(5,6)] by blast
  have "\<exists>ch''. ms_chains (store_run (map (\<lambda>n. OpAdvanceChain c (cn_NodeID n) claim)
      (drop (Suc k) (cs_Nodes (mc_state ch')))) (store_step ?op m)) c = Some ch''
    \<and> cs_NextIndex (mc_state ch'') = int (length (cs_Nodes (mc_state ch'))) \<and> \<not> cs_Failed (mc_state ch'')"
    by (rule Suc.hyps(1) [OF _ store_step_ok [OF Suc.prems(1)] ch'(1)]) (use Suc k ch' in auto)
  then show ?case
    using ch'(2) by (simp add: Cons_nth_drop_Suc [OF k, symmetric] store_run_def)
qed

text \<open>Members settled one after the other, in any order, are all done with their
  own outcome.\<close>

definition settle_op :: "string \<Rightarrow> (string \<Rightarrow> bool) \<Rightarrow> string \<Rightarrow> store_op" where
  "settle_op i fails j = OpSettleBatchJob i j (if fails j then BatchJobFailed else BatchJobSucceeded) zero_claim"

lemma settle_one:
  assumes "ms_batch m i = Some b" "mb_jobs b j = Some js" "\<not> js_done js"
  shows "\<exists>b'. ms_batch (store_step (settle_op i fails j) m) i = Some b'
    \<and> mb_jobs b' = (mb_jobs b)(j \<mapsto> js\<lparr>js_done := True, js_failed := fails j\<rparr>)"
proof -
  let ?out = "if fails j then BatchJobFailed else BatchJobSucceeded"
  have "member m i j b js" using assms by (simp add: member_def)
  moreover have "\<not> dispatch_mismatch (bs_DispatchID (mb_state b)) zero_claim"
    by (simp add: dispatch_mismatch_def zero_claim_def)
  ultimately obtain r k where "settleBatchOutcome i j ?out zero_claim m =
      (Inr \<lparr>br_state = settle_state (?out = BatchJobFailed) (ms_clock m (ms_ticks m)) (mb_state b),
            br_owned = True, br_claimedNow = True, br_receipt = r, br_receiptKnown = k\<rparr>,
       settled_store i j ?out zero_claim b js m)"
    using settle_claim_eq [of m i j b js ?out zero_claim] assms(3) by fastforce
  then show ?thesis
    by (simp add: settle_op_def settled_store_def settled_batch_def Let_def)
qed

lemma settle_all:
  assumes "ms_batch m i = Some b" "distinct js" "\<And>j. j \<in> set js \<Longrightarrow> \<exists>s. mb_jobs b j = Some s \<and> \<not> js_done s"
  shows "\<exists>b'. ms_batch (store_run (map (settle_op i fails) js) m) i = Some b'
    \<and> dom (mb_jobs b') = dom (mb_jobs b)
    \<and> (\<forall>j \<in> set js. \<exists>s. mb_jobs b' j = Some s \<and> js_done s \<and> js_failed s = fails j)
    \<and> (\<forall>j. j \<notin> set js \<longrightarrow> mb_jobs b' j = mb_jobs b j)"
  using assms
proof (induction js arbitrary: m b)
  case Nil
  then show ?case by (simp add: store_run_def)
next
  case (Cons j js)
  obtain s where s: "mb_jobs b j = Some s" "\<not> js_done s" using Cons.prems(3) by force
  obtain b1 where b1: "ms_batch (store_step (settle_op i fails j) m) i = Some b1"
      "mb_jobs b1 = (mb_jobs b)(j \<mapsto> s\<lparr>js_done := True, js_failed := fails j\<rparr>)"
    using settle_one [OF Cons.prems(1) s] by blast
  have "\<exists>s'. mb_jobs b1 j' = Some s' \<and> \<not> js_done s'" if "j' \<in> set js" for j'
    using that Cons.prems b1(2) by (cases "j' = j") auto
  then obtain b' where b': "ms_batch (store_run (map (settle_op i fails) js) (store_step (settle_op i fails j) m)) i = Some b'"
      "dom (mb_jobs b') = dom (mb_jobs b1)"
      "\<forall>j \<in> set js. \<exists>s. mb_jobs b' j = Some s \<and> js_done s \<and> js_failed s = fails j"
      "\<forall>j. j \<notin> set js \<longrightarrow> mb_jobs b' j = mb_jobs b1 j"
    using Cons.IH [OF b1(1)] Cons.prems(2) by auto
  moreover have "dom (mb_jobs b1) = dom (mb_jobs b)" using b1(2) s(1) by auto
  moreover have "j \<notin> set js" using Cons.prems(2) by simp
  ultimately show ?case using b1(2) by (auto simp: store_run_def)
qed

lemma run_reachable: "memory_reachable clk m \<Longrightarrow> memory_reachable clk (store_run ops m)"
  by (induction ops arbitrary: m) (simp_all add: store_run_def memory_reachable.step)

lemmas new_run_reachable = run_reachable [OF memory_reachable.start]

section \<open>A sample run\<close>

definition sample_job :: stored_job where
  "sample_job = \<lparr>sj_Type = ''send'', sj_Payload = ''{}'', sj_Options = zero_job_options\<rparr>"

definition sample_chain :: chain_record where
  "sample_chain = \<lparr>cr_ChainID = ''c1'', cr_DispatchID = ''d1'', cr_Queue = ''q'',
     cr_Nodes = [\<lparr>cn_NodeID = ''n1'', cn_Job = sample_job\<rparr>, \<lparr>cn_NodeID = ''n2'', cn_Job = sample_job\<rparr>],
     cr_CreatedAt = 5\<rparr>"

definition sample_batch :: batch_record where
  "sample_batch = \<lparr>br_BatchID = ''b1'', br_DispatchID = ''d2'', br_Name = ''b'', br_Queue = ''q'',
     br_AllowFailed = True,
     br_Jobs = [\<lparr>bj_JobID = ''j1'', bj_Job = sample_job\<rparr>, \<lparr>bj_JobID = ''j2'', bj_Job = sample_job\<rparr>],
     br_CreatedAt = 6\<rparr>"

definition sample_claim :: "string \<Rightarrow> transition_claim" where
  "sample_claim d = \<lparr>tc_deliveryID = ''g1'', tc_attempt = 0, tc_dispatchID = d, tc_jobID = ''j'',
     tc_jobFingerprint = ''f''\<rparr>"

definition sample_store :: memory_store where
  "sample_store = store_run [OpCreateChain sample_chain, OpCreateBatch sample_batch] (NewMemoryStore int)"

lemmas sample_defs = sample_job_def sample_chain_def sample_batch_def sample_claim_def sample_store_def

lemma sample_reachable: "memory_reachable int (store_run ops sample_store)"
  unfolding sample_store_def by (intro run_reachable memory_reachable.start)

section \<open>Properties\<close>

text \<open>C1. In every state the in-memory store can reach, under any clock and any
  interleaving of its operations, each chain's index, completed-node set and terminal
  flags agree and never say both completed and failed; each batch's pending, processed
  and failed counters count its members and its terminal flags follow from them; each
  transition receipt matches the outcome of its member; and at most one receipt of a
  batch says it completed the batch.\<close>

theorem reachable_store_ok: "memory_reachable clk m \<Longrightarrow> store_ok m"
  by (rule reachable_ok)

theorem reachable_store_ok_witness:
  "store_ok (store_run [OpAdvanceChain ''c1'' ''n1'' (sample_claim ''d1''),
      OpSettleBatchJob ''b1'' ''j2'' BatchJobFailed (sample_claim ''d2'')] sample_store)"
  by (rule reachable_store_ok [OF sample_reachable])





text \<open>C5. A callback key is claimed at most once until retention prunes the markers.\<close>

theorem callback_claimed_once:
  assumes "claims_callback k op m" "list_all keeps_callbacks ops"
  shows "\<not> claims_callback k op' (store_run ops (store_step op m))"
proof -
  have "ms_callbacks (store_step op m) k \<noteq> None"
    using assms(1) by (cases op) (auto simp: MarkCallbackInvoked_def split: option.splits)
  then have "ms_callbacks (store_run ops (store_step op m)) k \<noteq> None"
    using callback_run assms(2) by blast
  then show ?thesis by (cases op') (auto simp: MarkCallbackInvoked_def)
qed

theorem callback_claimed_once_witness:
  "claims_callback ''k'' (OpMarkCallbackInvoked ''k'') sample_store
   \<and> \<not> claims_callback ''k'' (OpMarkCallbackInvoked ''k'')
        (store_run [OpFailChain ''c1'' None] (store_step (OpMarkCallbackInvoked ''k'') sample_store))"
proof -
  have 1: "claims_callback ''k'' (OpMarkCallbackInvoked ''k'') sample_store"
    by code_simp
  have 2: "list_all (keeps_callbacks) [OpFailChain ''c1'' None]" by simp
  show ?thesis using 1 callback_claimed_once [OF 1 2] by blast
qed







text \<open>C14. A valid chain whose nodes succeed one after the other completes: after the
  chain is created and every node is advanced in order, the stored state is completed,
  not failed, and its index is the number of nodes.\<close>

theorem chain_success_completes:
  assumes "memory_reachable clk m" "validateChainRecord rec = None"
    "cr_DispatchID rec = [] \<or> tc_dispatchID claim = [] \<or> tc_dispatchID claim = cr_DispatchID rec"
  shows "\<exists>st. GetChain (cr_ChainID rec) (store_run (OpCreateChain rec #
      map (\<lambda>n. OpAdvanceChain (cr_ChainID rec) (cn_NodeID n) claim) (cr_Nodes rec)) m) = Inr st
    \<and> cs_Completed st \<and> \<not> cs_Failed st \<and> cs_NextIndex st = int (length (cr_Nodes rec))"
proof -
  let ?m = "store_step (OpCreateChain rec) m" and ?c = "cr_ChainID rec"
  have ok: "store_ok ?m" using reachable_ok [OF assms(1)] by (rule store_step_ok)
  obtain ch where ch: "ms_chains ?m ?c = Some ch" "mc_state ch = new_chain_state rec (ms_clock m (ms_ticks m))"
    using assms(2) by (simp add: CreateChain_def)
  let ?ops = "map (\<lambda>n. OpAdvanceChain ?c (cn_NodeID n) claim) (cr_Nodes rec)"
  obtain ch' where ch': "ms_chains (store_run ?ops ?m) ?c = Some ch'"
      "cs_NextIndex (mc_state ch') = int (length (cr_Nodes rec))" "\<not> cs_Failed (mc_state ch')"
    using advance_rest [OF ok ch(1), of 0 claim] assms(3) ch(2) by (auto simp: dispatch_mismatch_def)
  have "list_all (keeps_chain ?c) ?ops" by (simp add: list_all_length)
  then have "chain_later (mc_state ch) (mc_state ch')"
    using chain_run_later [OF ch(1)] ch'(1) by fastforce
  then have "cs_Nodes (mc_state ch') = cr_Nodes rec"
    using ch(2) by (simp add: chain_later_def)
  moreover have "chain_ok ?c ch'" using store_okD(1) [OF store_run_ok [OF ok] ch'(1)] .
  ultimately have "cs_Completed (mc_state ch')" using ch'(2) by (simp add: chain_ok_def validateChainState_None)
  moreover have "store_run (OpCreateChain rec # ?ops) m = store_run ?ops ?m" by (simp add: store_run_def)
  ultimately show ?thesis using ch' by (simp add: GetChain_def)
qed

theorem chain_success_completes_witness:
  "\<exists>st. GetChain ''c1'' (store_run (OpCreateChain sample_chain #
      map (\<lambda>n. OpAdvanceChain ''c1'' (cn_NodeID n) (sample_claim ''d1'')) (cr_Nodes sample_chain)) sample_store) = Inr st
    \<and> cs_Completed st \<and> cs_NextIndex st = 2"
proof -
  have "memory_reachable int sample_store"
    using sample_reachable [of "[]"] by (simp add: store_run_def)
  moreover have "validateChainRecord sample_chain = None"
    "cr_DispatchID sample_chain = [] \<or> tc_dispatchID (sample_claim ''d1'') = []
      \<or> tc_dispatchID (sample_claim ''d1'') = cr_DispatchID sample_chain"
    by code_simp+
  ultimately show ?thesis
    using chain_success_completes [of int sample_store sample_chain "sample_claim ''d1''"]
    by (auto simp: sample_chain_def)
qed

text \<open>C15. A batch whose members all settle completes with exact counters, in whatever
  order the members settle: nothing is pending, every member is processed, the failed
  counter is the number of members that failed, and without permission to fail one
  failure cancels the batch.\<close>

theorem batch_settles:
  assumes "memory_reachable clk m" "validateBatchRecord rec = None"
    "distinct js" "set js = bj_JobID ` set (br_Jobs rec)"
  shows "\<exists>st. GetBatch (br_BatchID rec) (store_run (OpCreateBatch rec #
      map (settle_op (br_BatchID rec) fails) js) m) = Inr st
    \<and> bs_Completed st \<and> bs_Pending st = 0 \<and> bs_Processed st = int (length (br_Jobs rec))
    \<and> bs_Failed st = int (length (filter fails js))
    \<and> (\<not> br_AllowFailed rec \<and> (\<exists>j \<in> set js. fails j) \<longrightarrow> bs_Cancelled st)"
proof -
  let ?m = "store_step (OpCreateBatch rec) m" and ?i = "br_BatchID rec" and ?ops = "map (settle_op (br_BatchID rec) fails) js"
  have ok: "store_ok ?m" using reachable_ok [OF assms(1)] by (rule store_step_ok)
  obtain b where b: "ms_batch ?m ?i = Some b" "mb_state b = new_batch_state rec (ms_clock m (ms_ticks m))"
      "mb_jobs b = (\<lambda>j. if j \<in> bj_JobID ` set (br_Jobs rec) then Some zero_job_status else None)"
    using assms(2) by (intro that [of "\<lparr>mb_state = new_batch_state rec (ms_clock m (ms_ticks m)),
        mb_jobs = (\<lambda>j. if j \<in> bj_JobID ` set (br_Jobs rec) then Some zero_job_status else None)\<rparr>"])
      (simp_all add: CreateBatch_def Let_def fold_members)
  obtain b' where b': "ms_batch (store_run ?ops ?m) ?i = Some b'" "dom (mb_jobs b') = dom (mb_jobs b)"
      "\<forall>j \<in> set js. \<exists>s. mb_jobs b' j = Some s \<and> js_done s \<and> js_failed s = fails j"
    using settle_all [OF b(1) assms(3), of fails] assms(4) b(3) by (fastforce simp: zero_job_status_def)
  have dm: "dom (mb_jobs b') = set js" using b'(2) b(3) assms(4) by (auto split: if_splits)
  have all: "mb_jobs b' j = Some s \<Longrightarrow> js_done s \<and> js_failed s = fails j \<and> j \<in> set js" for j s
    using b'(3) dm by (metis domI option.inject)
  have mem: "members_with (\<lambda>s. \<not> js_done s) b' = {}" "members_with js_done b' = set js"
      "members_with js_failed b' = set (filter fails js)"
    using all b'(3) by (fastforce simp: members_with_def)+
  have "list_all (keeps_batch ?i) ?ops" by (simp add: list_all_length settle_op_def)
  then have "batch_later b b'" using batch_run_later [OF b(1)] b'(1) by fastforce
  then have allow: "bs_AllowFailed (mb_state b') = br_AllowFailed rec"
    using b(2) by (simp add: batch_later_def Let_def new_batch_state_def)
  have len: "length js = length (br_Jobs rec)"
    using distinct_card [OF assms(3)] assms(2,4) distinct_card [of "map bj_JobID (br_Jobs rec)"]
    by (simp add: validateBatchRecord_None)
  have fl: "card (set (filter fails js)) = length (filter fails js)"
    using assms(3) by (intro distinct_card) simp
  have "batch_ok ?i b'" using store_okD(2) [OF store_run_ok [OF ok] b'(1)] .
  then have "bs_Completed (mb_state b') \<and> bs_Pending (mb_state b') = 0
      \<and> bs_Processed (mb_state b') = int (length (br_Jobs rec))
      \<and> bs_Failed (mb_state b') = int (length (filter fails js))
      \<and> (\<not> br_AllowFailed rec \<and> (\<exists>j \<in> set js. fails j) \<longrightarrow> bs_Cancelled (mb_state b'))"
    using allow len fl distinct_card [OF assms(3)]
    by (auto simp: batch_ok_def Let_def mem filter_empty_conv)
  moreover have "store_run (OpCreateBatch rec # ?ops) m = store_run ?ops ?m" by (simp add: store_run_def)
  ultimately show ?thesis using b' by (simp add: GetBatch_def)
qed

theorem batch_settles_witness:
  "\<exists>st. GetBatch ''b1'' (store_run (OpCreateBatch sample_batch #
      map (settle_op ''b1'' (\<lambda>j. j = ''j1'')) [''j2'', ''j1'']) sample_store) = Inr st
    \<and> bs_Completed st \<and> bs_Pending st = 0 \<and> bs_Failed st = 1"
proof -
  have "memory_reachable int sample_store"
    using sample_reachable [of "[]"] by (simp add: store_run_def)
  moreover have "validateBatchRecord sample_batch = None" by code_simp
  ultimately show ?thesis
    using batch_settles [of int sample_store sample_batch "[''j2'', ''j1'']" "\<lambda>j. j = ''j1''"]
    by (auto simp: sample_batch_def)
qed

end
