(* ===== verification/EngineBase.thy ===== *)
theory EngineBase
  imports StoreTraces "HOL-Library.State_Monad"
begin

text \<open>
  The workflow engine's surroundings (\<open>internal/workflow/runtime.go\<close>,
  \<open>internal/jobidentity\<close>): the store interface as a record of operations, the
  engine's configuration, its mutable state, and the operations every handler uses
  (identifiers, events, dispatch, execution of one application attempt, recovery
  identity checks).

  The engine runs in a state monad. The configuration \<open>runtime\<close> holds what the code
  keeps as functions: the store, the clock, the random source, the handlers and
  middleware, the queue the engine dispatches on, the JSON codec of envelopes, the
  hash functions and the behaviour of callback closures. The queue, the handlers and
  the closures act on the whole engine state, so that a queue that delivers inline and
  application code that calls back into the engine are covered.
\<close>

section \<open>The store interface\<close>

text \<open>The \<open>Store\<close> interface and the optional capabilities the engine discovers by
  type assertion; a missing capability is \<^const>\<open>None\<close>.\<close>

record 's store_iface =
  si_CreateChain :: "chain_record \<Rightarrow> 's \<Rightarrow> goerr option \<times> 's"
  si_AdvanceChain :: "string \<Rightarrow> string \<Rightarrow> 's \<Rightarrow> (goerr + chain_node option \<times> bool) \<times> 's"
  si_FailChain :: "string \<Rightarrow> goerr option \<Rightarrow> 's \<Rightarrow> goerr option \<times> 's"
  si_GetChain :: "string \<Rightarrow> 's \<Rightarrow> (goerr + chain_state) \<times> 's"
  si_CreateBatch :: "batch_record \<Rightarrow> 's \<Rightarrow> goerr option \<times> 's"
  si_MarkBatchJobStarted :: "string \<Rightarrow> string \<Rightarrow> 's \<Rightarrow> goerr option \<times> 's"
  si_MarkBatchJobSucceeded :: "string \<Rightarrow> string \<Rightarrow> 's \<Rightarrow> (goerr + batch_state \<times> bool) \<times> 's"
  si_MarkBatchJobFailed :: "string \<Rightarrow> string \<Rightarrow> goerr option \<Rightarrow> 's \<Rightarrow> (goerr + batch_state \<times> bool) \<times> 's"
  si_CancelBatch :: "string \<Rightarrow> 's \<Rightarrow> goerr option \<times> 's"
  si_GetBatch :: "string \<Rightarrow> 's \<Rightarrow> (goerr + batch_state) \<times> 's"
  si_MarkCallbackInvoked :: "string \<Rightarrow> 's \<Rightarrow> (goerr + bool) \<times> 's"
  si_Prune :: "time \<Rightarrow> 's \<Rightarrow> goerr option \<times> 's"
  si_FailChainNode :: "(string \<Rightarrow> string \<Rightarrow> goerr option \<Rightarrow> 's \<Rightarrow> (goerr + chain_state \<times> bool) \<times> 's) option"
  si_SettleBatchJob ::
    "(string \<Rightarrow> string \<Rightarrow> batch_job_outcome \<Rightarrow> goerr option \<Rightarrow> 's \<Rightarrow> (goerr + batch_state \<times> bool) \<times> 's) option"
  si_advanceChainOutcome ::
    "(string \<Rightarrow> string \<Rightarrow> transition_claim \<Rightarrow> 's \<Rightarrow> (goerr + chain_advance_result) \<times> 's) option"
  si_failChainOutcome ::
    "(string \<Rightarrow> string \<Rightarrow> goerr option \<Rightarrow> transition_claim \<Rightarrow> 's \<Rightarrow> (goerr + chain_failure_result) \<times> 's) option"
  si_settleBatchOutcome ::
    "(string \<Rightarrow> string \<Rightarrow> batch_job_outcome \<Rightarrow> goerr option \<Rightarrow> transition_claim \<Rightarrow> 's
      \<Rightarrow> (goerr + batch_settlement_result) \<times> 's) option"
  si_chainTransitionReceipt ::
    "(string \<Rightarrow> string \<Rightarrow> 's \<Rightarrow> (goerr + transition_receipt option) \<times> 's) option"
  si_batchTransitionReceipt ::
    "(string \<Rightarrow> string \<Rightarrow> 's \<Rightarrow> (goerr + transition_receipt option) \<times> 's) option"

text \<open>The in-memory store has every capability.\<close>

definition memory_iface :: "memory_store store_iface" where
  "memory_iface = \<lparr>si_CreateChain = CreateChain, si_AdvanceChain = AdvanceChain, si_FailChain = FailChain,
     si_GetChain = (\<lambda>c m. (GetChain c m, m)), si_CreateBatch = CreateBatch,
     si_MarkBatchJobStarted = MarkBatchJobStarted, si_MarkBatchJobSucceeded = MarkBatchJobSucceeded,
     si_MarkBatchJobFailed = MarkBatchJobFailed, si_CancelBatch = CancelBatch,
     si_GetBatch = (\<lambda>i m. (GetBatch i m, m)),
     si_MarkCallbackInvoked = (\<lambda>k m. case MarkCallbackInvoked k m of (b, m) \<Rightarrow> (Inr b, m)),
     si_Prune = (\<lambda>t m. (None, Prune t m)), si_FailChainNode = Some FailChainNode,
     si_SettleBatchJob = Some (\<lambda>i j outcome cause. SettleBatchJob i j outcome),
     si_advanceChainOutcome = Some advanceChainOutcome, si_failChainOutcome = Some failChainOutcome,
     si_settleBatchOutcome = Some (\<lambda>i j outcome cause claim. settleBatchOutcome i j outcome claim),
     si_chainTransitionReceipt = Some (\<lambda>c n m. (chainTransitionReceipt c n m, m)),
     si_batchTransitionReceipt = Some (\<lambda>i j m. (batchTransitionReceipt i j m, m))\<rparr>"

section \<open>Engine state and configuration\<close>

text \<open>A closure is named by a number; its behaviour is part of the configuration.\<close>

record chain_callbacks =
  cc_catch :: "nat option"
  cc_finally :: "nat option"

record batch_callbacks =
  bc_progress :: "nat option"
  bc_then :: "nat option"
  bc_catch :: "nat option"
  bc_finally :: "nat option"

record ('s, 'x) engine =
  eg_store :: 's
  eg_ticks :: nat
  eg_draws :: nat
  eg_chainCallbacks :: "string \<rightharpoonup> chain_callbacks"
  eg_batchCallbacks :: "string \<rightharpoonup> batch_callbacks"
  eg_settlements :: "nat \<rightharpoonup> event settlement"
  eg_observed :: "event list"
  eg_sync :: "goerr option list"
  eg_world :: 'x

datatype callback_result = Returned "goerr option" | PanickedError goerr | PanickedValue string

type_synonym ('s, 'x) eng = "(('s, 'x) engine, goerr option) state"
type_synonym ('s, 'x) handler = "dctx \<Rightarrow> wcontext \<Rightarrow> ('s, 'x) eng"

record ('s, 'x) runtime =
  rt_store :: "'s store_iface"
  rt_now :: clock
  rt_ids :: id_source
  rt_observer :: bool
  rt_handlers :: "string \<rightharpoonup> ('s, 'x) handler"
  rt_middlewares :: "(('s, 'x) handler \<Rightarrow> ('s, 'x) handler) option list"
  rt_ephemeralCallbacksDisabled :: bool
  rt_BusDispatch :: "dctx \<Rightarrow> string \<Rightarrow> bytes \<Rightarrow> job_options \<Rightarrow> ('s, 'x) eng"
  rt_BusDispatchDirect :: "(dctx \<Rightarrow> string \<Rightarrow> bytes \<Rightarrow> delivery_metadata \<Rightarrow> job_options \<Rightarrow> ('s, 'x) eng) option"
  rt_marshal :: "envelope \<Rightarrow> goerr + bytes"
  rt_unmarshal :: "bytes \<Rightarrow> goerr + envelope"
  rt_sha256 :: "bytes \<Rightarrow> bytes"
  rt_sha1 :: "bytes \<Rightarrow> bytes"
  rt_chainCatch :: "nat \<Rightarrow> dctx \<Rightarrow> chain_state \<Rightarrow> goerr option \<Rightarrow> (('s, 'x) engine, callback_result) state"
  rt_chainFinally :: "nat \<Rightarrow> dctx \<Rightarrow> chain_state \<Rightarrow> (('s, 'x) engine, callback_result) state"
  rt_batchHook :: "nat \<Rightarrow> dctx \<Rightarrow> batch_state \<Rightarrow> (('s, 'x) engine, callback_result) state"
  rt_batchCatch :: "nat \<Rightarrow> dctx \<Rightarrow> batch_state \<Rightarrow> goerr option \<Rightarrow> (('s, 'x) engine, callback_result) state"

definition on_store :: "('s \<Rightarrow> 'a \<times> 's) \<Rightarrow> (('s, 'x) engine, 'a) state" where
  "on_store f = State (\<lambda>e. case f (eg_store e) of (a, s) \<Rightarrow> (a, e\<lparr>eg_store := s\<rparr>))"

definition now :: "('s, 'x) runtime \<Rightarrow> (('s, 'x) engine, time) state" where
  "now r = State (\<lambda>e. (rt_now r (eg_ticks e), e\<lparr>eg_ticks := Suc (eg_ticks e)\<rparr>))"

definition newID :: "('s, 'x) runtime \<Rightarrow> string \<Rightarrow> (('s, 'x) engine, string) state" where
  "newID r prefix = State (\<lambda>e. (prefix @ ''_'' @ rt_ids r (eg_draws e), e\<lparr>eg_draws := Suc (eg_draws e)\<rparr>))"

definition modify :: "('e \<Rightarrow> 'e) \<Rightarrow> ('e, unit) state" where
  "modify f = State (\<lambda>e. ((), f e))"

definition gets :: "('e \<Rightarrow> 'a) \<Rightarrow> ('e, 'a) state" where
  "gets f = State (\<lambda>e. (f e, e))"

definition Register :: "string \<Rightarrow> ('s, 'x) handler option \<Rightarrow> ('s, 'x) runtime \<Rightarrow> ('s, 'x) runtime" where
  "Register jobType handler r = (case handler of None \<Rightarrow> r
     | Some h \<Rightarrow> r\<lparr>rt_handlers := (rt_handlers r)(jobType \<mapsto> h)\<rparr>)"

section \<open>Identity\<close>

definition CanonicalPayload :: "bytes \<Rightarrow> bytes" where
  "CanonicalPayload payload = (if length payload = 0 \<or> payload = ''null'' then [] else payload)"

definition ObservedKey :: "(bytes \<Rightarrow> bytes) \<Rightarrow> string \<Rightarrow> bytes \<Rightarrow> string" where
  "ObservedKey sha1 jobType payload = hex_encode (sha1 ((jobType @ '':'') @ CanonicalPayload payload))"

definition storedJobEventKey :: "('s, 'x) runtime \<Rightarrow> stored_job \<Rightarrow> string" where
  "storedJobEventKey r job = ObservedKey (rt_sha1 r) (sj_Type job) (sj_Payload job)"

text \<open>The bytes fed to the hash: each value behind its 64-bit big-endian length.\<close>

definition frame_values :: "string list \<Rightarrow> bytes" where
  "frame_values vs = concat (map (\<lambda>v. put_uint64 (of_nat (length v)) @ v) vs)"

definition stableWorkflowFactID :: "('s, 'x) runtime \<Rightarrow> event_kind \<Rightarrow> string list \<Rightarrow> string" where
  "stableWorkflowFactID r kind identity =
     ''evt_'' @ hex_encode (take 16 (rt_sha256 r (frame_values (int_str eventSchemaVersion # event_kind_text kind # identity))))"

definition fingerprint_values :: "stored_job \<Rightarrow> string list" where
  "fingerprint_values job = [sj_Type job, sj_Payload job, jo_Queue (sj_Options job), int_str (jo_Delay (sj_Options job)),
     int_str (jo_Timeout (sj_Options job)), int_str (jo_Retry (sj_Options job)), int_str (jo_Backoff (sj_Options job)),
     int_str (jo_UniqueFor (sj_Options job))]"

definition storedJobReceiptFingerprint :: "('s, 'x) runtime \<Rightarrow> stored_job \<Rightarrow> string" where
  "storedJobReceiptFingerprint r job = hex_encode (rt_sha256 r (frame_values (fingerprint_values job)))"

section \<open>Events\<close>

definition new_event :: "event_kind \<Rightarrow> string \<Rightarrow> time \<Rightarrow> event" where
  "new_event kind eid t = \<lparr>ev_SchemaVersion = eventSchemaVersion, ev_EventID = eid, ev_Kind = kind,
     ev_DispatchID = [], ev_JobID = [], ev_ChainID = [], ev_BatchID = [], ev_Attempt = 0, ev_JobType = [],
     ev_JobKey = [], ev_Queue = [], ev_Duration = 0, ev_Time = t, ev_Err = None\<rparr>"

text \<open>The job correlation every event carries.\<close>

definition with_job :: "('s, 'x) runtime \<Rightarrow> stored_job \<Rightarrow> event \<Rightarrow> event" where
  "with_job r job ev = ev\<lparr>ev_JobType := sj_Type job, ev_JobKey := storedJobEventKey r job,
     ev_Queue := jo_Queue (sj_Options job)\<rparr>"

definition safeObserve :: "('s, 'x) runtime \<Rightarrow> event \<Rightarrow> (('s, 'x) engine, unit) state" where
  "safeObserve r ev = (if rt_observer r then modify (\<lambda>e. e\<lparr>eg_observed := eg_observed e @ [ev]\<rparr>)
     else State_Monad.return ())"

definition emit :: "('s, 'x) runtime \<Rightarrow> dctx \<Rightarrow> event \<Rightarrow> (('s, 'x) engine, unit) state" where
  "emit r ctx ev =
     (if eventWaitsForDeliverySettlement (ev_Kind ev) then do {
        H \<leftarrow> gets eg_settlements;
        case DeferUntilDeliveryCommitted (Some ctx) ev H of (deferred, run, H') \<Rightarrow>
          if deferred then do {
            modify (\<lambda>e. e\<lparr>eg_settlements := H'\<rparr>);
            (case run of [] \<Rightarrow> State_Monad.return () | _ \<Rightarrow> safeObserve r ev)
          } else safeObserve r ev
      } else safeObserve r ev)"

section \<open>Dispatch\<close>

definition acceptedDispatchExecutionError :: "goerr option \<Rightarrow> goerr option" where
  "acceptedDispatchExecutionError err = (case err of None \<Rightarrow> None
     | Some e \<Rightarrow> (case filter (\<lambda>n. case n of AcceptedExecutionError _ \<Rightarrow> True | _ \<Rightarrow> False) (error_nodes e) of
         AcceptedExecutionError inner # _ \<Rightarrow> Some inner | _ \<Rightarrow> None))"

definition dispatchEnvelope :: "('s, 'x) runtime \<Rightarrow> dctx \<Rightarrow> string \<Rightarrow> envelope \<Rightarrow> ('s, 'x) eng" where
  "dispatchEnvelope r ctx jobType env =
     (case rt_marshal r env of Inl e \<Rightarrow> State_Monad.return (Some e)
      | Inr payload \<Rightarrow> rt_BusDispatch r ctx jobType payload (sj_Options (en_Job env)))"

definition dispatchDirectEnvelope :: "('s, 'x) runtime \<Rightarrow> dctx \<Rightarrow> envelope \<Rightarrow> ('s, 'x) eng" where
  "dispatchDirectEnvelope r ctx env =
     (case rt_BusDispatchDirect r of None \<Rightarrow> dispatchEnvelope r ctx DirectDeliveryType env
      | Some direct \<Rightarrow>
          if IsDeliveryType (sj_Type (en_Job env)) then dispatchEnvelope r ctx DirectDeliveryType env
          else direct ctx (sj_Type (en_Job env)) (sj_Payload (en_Job env))
                 \<lparr>dm_SchemaVersion = DeliveryMetadataVersion, dm_DispatchID = en_DispatchID env,
                  dm_JobID = en_JobID env, dm_ChainID = en_ChainID env, dm_BatchID = en_BatchID env,
                  dm_Queue = jo_Queue (sj_Options (en_Job env))\<rparr> (sj_Options (en_Job env)))"

definition dispatch_event ::
  "('s, 'x) runtime \<Rightarrow> dctx \<Rightarrow> event_kind \<Rightarrow> envelope \<Rightarrow> goerr option \<Rightarrow> (('s, 'x) engine, unit) state" where
  "dispatch_event r ctx kind env err = do {
     eid \<leftarrow> newID r ''evt'';
     t \<leftarrow> now r;
     emit r ctx ((with_job r (en_Job env) (new_event kind eid t))
       \<lparr>ev_DispatchID := en_DispatchID env, ev_JobID := en_JobID env, ev_Err := err\<rparr>)
   }"

text \<open>The result is the dispatch identifier and the error.\<close>

definition dispatch ::
  "('s, 'x) runtime \<Rightarrow> dctx \<Rightarrow> stored_job \<Rightarrow> bool \<Rightarrow> (('s, 'x) engine, string \<times> goerr option) state" where
  "dispatch r ctx job direct = do {
     dispatchID \<leftarrow> newID r ''dsp'';
     jobID \<leftarrow> newID r ''job'';
     let env = zero_envelope\<lparr>en_SchemaVersion := ProtocolSchemaVersion, en_DispatchID := dispatchID,
                 en_Kind := ''job'', en_JobID := jobID, en_Job := job\<rparr>;
     dispatch_event r ctx EventDispatchStarted env None;
     err \<leftarrow> (if direct then dispatchDirectEnvelope r ctx env else dispatchEnvelope r ctx DirectDeliveryType env);
     case err of
       None \<Rightarrow> do { dispatch_event r ctx EventDispatchSucceeded env None; State_Monad.return (dispatchID, None) }
     | Some e \<Rightarrow>
         (case acceptedDispatchExecutionError err of
            Some executionErr \<Rightarrow> do {
              dispatch_event r ctx EventDispatchSucceeded env None; State_Monad.return (dispatchID, Some executionErr) }
          | None \<Rightarrow> do {
              dispatch_event r ctx EventDispatchFailed env err; State_Monad.return (dispatchID, err) })
   }"

definition DispatchDirect ::
  "('s, 'x) runtime \<Rightarrow> dctx \<Rightarrow> stored_job \<Rightarrow> (('s, 'x) engine, string \<times> goerr option) state" where
  "DispatchDirect r ctx job =
     (if sj_Type job = [] then State_Monad.return ([], Some (ErrNew ''bus job type is required''))
      else dispatch r ctx job True)"

definition Dispatch ::
  "('s, 'x) runtime \<Rightarrow> ('p \<Rightarrow> goerr + bytes) \<Rightarrow> dctx \<Rightarrow> 'p job \<Rightarrow> (('s, 'x) engine, string \<times> goerr option) state" where
  "Dispatch r marshal ctx job =
     (case toStoredJob marshal job of Inl e \<Rightarrow> State_Monad.return ([], Some e)
      | Inr stored \<Rightarrow> dispatch r ctx stored False)"

section \<open>Executing one application attempt\<close>

record stored_job_outcome =
  oc_env :: envelope
  oc_attempt :: delivery_attempt
  oc_started :: time
  oc_finished :: time
  oc_err :: "goerr option"

text \<open>The envelope with the attempt of the physical worker, and the attempt.\<close>

definition applyDeliveryAttempt :: "dctx \<Rightarrow> envelope \<Rightarrow> envelope \<times> delivery_attempt" where
  "applyDeliveryAttempt ctx env =
     (case DeliveryAttemptFromContext (Some ctx) of (attempt, ok) \<Rightarrow>
        if ok then (env\<lparr>en_Attempt := da_Number attempt\<rparr>, attempt)
        else (env, \<lparr>da_Number = en_Attempt env, da_MaxRetry = jo_Retry (sj_Options (en_Job env))\<rparr>))"

definition executeStoredJobAttempt ::
  "('s, 'x) runtime \<Rightarrow> dctx \<Rightarrow> envelope \<Rightarrow> (('s, 'x) engine, stored_job_outcome) state" where
  "executeStoredJobAttempt r ctx env0 = (case applyDeliveryAttempt ctx env0 of (env, attempt) \<Rightarrow> do {
     started \<leftarrow> now r;
     eid \<leftarrow> newID r ''evt'';
     emit r ctx ((with_job r (en_Job env) (new_event EventJobStarted eid started))
       \<lparr>ev_DispatchID := en_DispatchID env, ev_JobID := en_JobID env, ev_ChainID := en_ChainID env,
        ev_BatchID := en_BatchID env, ev_Attempt := en_Attempt env\<rparr>);
     (case rt_handlers r (sj_Type (en_Job env)) of
        None \<Rightarrow> do {
          finished \<leftarrow> now r;
          State_Monad.return \<lparr>oc_env = env, oc_attempt = attempt, oc_started = started, oc_finished = finished,
            oc_err = Some (ErrNew (''bus handler not registered for '' @ quote (sj_Type (en_Job env))))\<rparr> }
      | Some handler \<Rightarrow> do {
          err \<leftarrow> chainMiddleware (rt_middlewares r) handler ctx
                   (NewContext ProtocolSchemaVersion (en_DispatchID env) (en_JobID env) (en_ChainID env)
                      (en_BatchID env) (en_Attempt env) (sj_Type (en_Job env)) (sj_Payload (en_Job env)));
          finished \<leftarrow> now r;
          State_Monad.return \<lparr>oc_env = env, oc_attempt = attempt, oc_started = started, oc_finished = finished,
            oc_err = err\<rparr> })
   })"

definition storedJobOutcomeFactID ::
  "('s, 'x) runtime \<Rightarrow> event_kind \<Rightarrow> stored_job_outcome \<Rightarrow> (('s, 'x) engine, string) state" where
  "storedJobOutcomeFactID r kind oc = (let env = oc_env oc in
     if kind \<noteq> EventJobSucceeded \<or> en_DispatchID env = [] \<or> en_JobID env = [] then newID r ''evt''
     else State_Monad.return (stableWorkflowFactID r kind [en_DispatchID env, en_JobID env, en_ChainID env, en_BatchID env,
            sj_Type (en_Job env), storedJobEventKey r (en_Job env), jo_Queue (sj_Options (en_Job env)),
            int_str (en_Attempt env)]))"

definition emitStoredJobOutcome ::
  "('s, 'x) runtime \<Rightarrow> dctx \<Rightarrow> stored_job_outcome \<Rightarrow> (('s, 'x) engine, unit) state" where
  "emitStoredJobOutcome r ctx oc =
    (if oc_err oc \<noteq> None \<and> ClassifyAttempt (oc_attempt oc) (oc_err oc) \<noteq> AttemptFailed then State_Monad.return ()
     else do {
       let kind = (if oc_err oc = None then EventJobSucceeded else EventJobFailed);
       let env = oc_env oc;
       eid \<leftarrow> storedJobOutcomeFactID r kind oc;
       emit r ctx ((with_job r (en_Job env) (new_event kind eid (oc_finished oc)))
         \<lparr>ev_DispatchID := en_DispatchID env, ev_JobID := en_JobID env, ev_ChainID := en_ChainID env,
          ev_BatchID := en_BatchID env, ev_Attempt := en_Attempt env,
          ev_Duration := oc_finished oc - oc_started oc, ev_Err := oc_err oc\<rparr>)
     })"

definition executeStoredJob :: "('s, 'x) runtime \<Rightarrow> dctx \<Rightarrow> envelope \<Rightarrow> ('s, 'x) eng" where
  "executeStoredJob r ctx env = do {
     outcome \<leftarrow> executeStoredJobAttempt r ctx env;
     emitStoredJobOutcome r ctx outcome;
     State_Monad.return (oc_err outcome)
   }"

definition handleInternalJob :: "('s, 'x) runtime \<Rightarrow> dctx \<Rightarrow> bytes \<Rightarrow> ('s, 'x) eng" where
  "handleInternalJob r ctx payload =
     (case rt_unmarshal r payload of Inl e \<Rightarrow> State_Monad.return (Some e) | Inr env \<Rightarrow> executeStoredJob r ctx env)"

definition handleDirectJob :: "('s, 'x) runtime \<Rightarrow> dctx \<Rightarrow> string \<Rightarrow> bytes \<Rightarrow> ('s, 'x) eng" where
  "handleDirectJob r ctx jobType payload =
    (let metadata = fst (DeliveryMetadataFromContext (Some ctx)); attempt = fst (DeliveryAttemptFromContext (Some ctx))
     in executeStoredJob r ctx (zero_envelope\<lparr>en_SchemaVersion := ProtocolSchemaVersion,
          en_DispatchID := dm_DispatchID metadata, en_Kind := ''job'', en_JobID := dm_JobID metadata,
          en_ChainID := dm_ChainID metadata, en_BatchID := dm_BatchID metadata, en_Attempt := da_Number attempt,
          en_Job := \<lparr>sj_Type = jobType, sj_Payload = payload,
            sj_Options = zero_job_options\<lparr>jo_Queue := dm_Queue metadata, jo_Retry := da_MaxRetry attempt\<rparr>\<rparr>\<rparr>))"

section \<open>Recovery identity\<close>

definition validateRecoveredTransitionReceipt ::
  "('s, 'x) runtime \<Rightarrow> envelope \<Rightarrow> transition_receipt \<Rightarrow> bool \<Rightarrow> goerr option" where
  "validateRecoveredTransitionReceipt r env receipt requireOwnerJobID =
     (case validateTransitionReceiptSupport receipt of Some e \<Rightarrow> Some e
      | None \<Rightarrow>
        if \<not> claim_valid (tr_owner receipt) then Some (ErrNew ''transition receipt has incomplete owner identity'')
        else if en_DispatchID env = [] then Some (ErrNew ''delivery dispatch id is required'')
        else if en_JobID env = [] then Some (ErrNew ''delivery job id is required'')
        else if tc_dispatchID (tr_owner receipt) \<noteq> en_DispatchID env
        then Some (ErrNew ''transition receipt dispatch does not match delivery'')
        else if tc_jobFingerprint (tr_owner receipt) \<noteq> storedJobReceiptFingerprint r (en_Job env)
        then Some (ErrNew ''transition receipt job fingerprint does not match delivery'')
        else if requireOwnerJobID \<and> tc_jobID (tr_owner receipt) \<noteq> en_JobID env
        then Some (ErrNew ''transition receipt member job id does not match delivery'')
        else None)"

definition validateRecoveredTransitionFactIdentity ::
  "('s, 'x) runtime \<Rightarrow> envelope \<Rightarrow> transition_receipt \<Rightarrow> goerr option" where
  "validateRecoveredTransitionFactIdentity r env receipt =
     (case validateRecoveredTransitionReceipt r env receipt True of Some e \<Rightarrow> Some e
      | None \<Rightarrow> if tc_attempt (tr_owner receipt) \<noteq> en_Attempt env
          then Some (ErrNew (''transition receipt attempt '' @ int_str (tc_attempt (tr_owner receipt))
                 @ '' does not match delivery attempt '' @ int_str (en_Attempt env)))
          else None)"

definition recoveredStoredJobSuccess ::
  "('s, 'x) runtime \<Rightarrow> stored_job_outcome \<Rightarrow> transition_receipt \<Rightarrow> time \<Rightarrow> goerr + stored_job_outcome" where
  "recoveredStoredJobSuccess r oc receipt observed =
     (if tr_outcome receipt \<noteq> BatchJobSucceeded then Inl (ErrNew ''transition receipt does not own success'')
      else case validateRecoveredTransitionFactIdentity r (oc_env oc) receipt of Some e \<Rightarrow> Inl e
      | None \<Rightarrow> Inr (oc\<lparr>oc_attempt := (oc_attempt oc)\<lparr>da_Number := tc_attempt (tr_owner receipt)\<rparr>,
                 oc_started := observed, oc_finished := observed, oc_err := None\<rparr>))"

definition transitionReceiptOwnsRecoveredFacts ::
  "envelope \<Rightarrow> transition_receipt \<Rightarrow> delivery_provenance \<Rightarrow> bool" where
  "transitionReceiptOwnsRecoveredFacts env receipt provenance \<longleftrightarrow>
     dp_RecoveredGenerationID provenance \<noteq> [] \<and> tc_deliveryID (tr_owner receipt) = dp_RecoveredGenerationID provenance
     \<and> tc_attempt (tr_owner receipt) = en_Attempt env \<and> tc_jobID (tr_owner receipt) = en_JobID env"

definition transitionClaimFromOutcome ::
  "('s, 'x) runtime \<Rightarrow> dctx \<Rightarrow> stored_job_outcome \<Rightarrow> transition_claim" where
  "transitionClaimFromOutcome r ctx oc =
     \<lparr>tc_deliveryID = dp_GenerationID (fst (DeliveryProvenanceFromContext (Some ctx))),
      tc_attempt = en_Attempt (oc_env oc), tc_dispatchID = en_DispatchID (oc_env oc), tc_jobID = en_JobID (oc_env oc),
      tc_jobFingerprint = storedJobReceiptFingerprint r (en_Job (oc_env oc))\<rparr>"

definition recoveredDeliveryProvenance :: "dctx \<Rightarrow> delivery_provenance \<times> bool" where
  "recoveredDeliveryProvenance ctx = (case DeliveryProvenanceFromContext (Some ctx) of (provenance, ok) \<Rightarrow>
     (provenance, ok \<and> dp_Recovered provenance))"

definition markDeliveryTransitionCommitted :: "dctx \<Rightarrow> bool \<Rightarrow> bool \<Rightarrow> (('s, 'x) engine, unit) state" where
  "markDeliveryTransitionCommitted ctx claimedNow receiptKnown =
     (if claimedNow \<and> receiptKnown
      then modify (\<lambda>e. e\<lparr>eg_settlements := snd (MarkDeliveryApplicationStateCommitted (Some ctx) (eg_settlements e))\<rparr>)
      else State_Monad.return ())"

definition uncommittedMutationError :: "string \<Rightarrow> goerr \<Rightarrow> goerr option" where
  "uncommittedMutationError operation err = Uncommitted (Some (ErrWrap (operation @ '': '') err []))"

definition runEphemeralCallback :: "callback_result \<Rightarrow> goerr option" where
  "runEphemeralCallback res = (case res of Returned e \<Rightarrow> e
     | PanickedError e \<Rightarrow> Some (ErrWrap ''workflow callback panicked: '' e [])
     | PanickedValue v \<Rightarrow> Some (ErrNew (''workflow callback panicked: '' @ v)))"

end
