(* ===== verification/Callbacks.thy ===== *)
theory Callbacks
  imports EngineBase
begin

text \<open>
  Ephemeral callbacks of chains and batches: the closures kept per workflow, their
  clean-up, the claim that makes each run at most once, and the delivery that invokes
  them (\<open>chain.go\<close>, \<open>batch.go\<close>, \<open>runtime.go\<close> under \<open>internal/workflow\<close>).
\<close>

section \<open>The retained closures\<close>

definition zero_chain_callbacks :: chain_callbacks where
  "zero_chain_callbacks = \<lparr>cc_catch = None, cc_finally = None\<rparr>"

definition zero_batch_callbacks :: batch_callbacks where
  "zero_batch_callbacks = \<lparr>bc_progress = None, bc_then = None, bc_catch = None, bc_finally = None\<rparr>"

definition chain_closures :: "string \<Rightarrow> ('s, 'x) engine \<Rightarrow> chain_callbacks" where
  "chain_closures chainID e = map_get zero_chain_callbacks (eg_chainCallbacks e) chainID"

definition batch_closures :: "string \<Rightarrow> ('s, 'x) engine \<Rightarrow> batch_callbacks" where
  "batch_closures batchID e = map_get zero_batch_callbacks (eg_batchCallbacks e) batchID"

definition prepareChainSuccessCallbacks :: "string \<Rightarrow> (('s, 'x) engine, unit) state" where
  "prepareChainSuccessCallbacks chainID = modify (\<lambda>e.
     case eg_chainCallbacks e chainID of None \<Rightarrow> e
     | Some callbacks \<Rightarrow> e\<lparr>eg_chainCallbacks := (eg_chainCallbacks e)(chainID \<mapsto> callbacks\<lparr>cc_catch := None\<rparr>)\<rparr>)"

definition put_chain_callbacks :: "string \<Rightarrow> chain_callbacks \<Rightarrow> ('s, 'x) engine \<Rightarrow> ('s, 'x) engine" where
  "put_chain_callbacks chainID callbacks e = e\<lparr>eg_chainCallbacks := (eg_chainCallbacks e)
     (chainID := (if cc_catch callbacks = None \<and> cc_finally callbacks = None then None else Some callbacks))\<rparr>"

definition finishChainCallback :: "string \<Rightarrow> string \<Rightarrow> (('s, 'x) engine, unit) state" where
  "finishChainCallback chainID kind = modify (\<lambda>e.
     case eg_chainCallbacks e chainID of None \<Rightarrow> e
     | Some callbacks \<Rightarrow>
         put_chain_callbacks chainID
           (if kind = ''catch'' then callbacks\<lparr>cc_catch := None\<rparr>
            else if kind = ''finally'' then callbacks\<lparr>cc_finally := None\<rparr> else callbacks) e)"

definition cleanupChainCallbacks :: "string \<Rightarrow> (('s, 'x) engine, unit) state" where
  "cleanupChainCallbacks chainID = modify (\<lambda>e.
     case eg_chainCallbacks e chainID of None \<Rightarrow> e
     | Some callbacks \<Rightarrow> if cc_catch callbacks = None \<and> cc_finally callbacks = None
         then e\<lparr>eg_chainCallbacks := (eg_chainCallbacks e)(chainID := None)\<rparr> else e)"

definition no_batch_closure :: "batch_callbacks \<Rightarrow> bool" where
  "no_batch_closure c \<longleftrightarrow> bc_progress c = None \<and> bc_then c = None \<and> bc_catch c = None \<and> bc_finally c = None"

definition put_batch_callbacks :: "string \<Rightarrow> batch_callbacks \<Rightarrow> ('s, 'x) engine \<Rightarrow> ('s, 'x) engine" where
  "put_batch_callbacks batchID callbacks e = e\<lparr>eg_batchCallbacks := (eg_batchCallbacks e)
     (batchID := (if no_batch_closure callbacks then None else Some callbacks))\<rparr>"

definition prepareBatchTerminalCallbacks :: "string \<Rightarrow> bool \<Rightarrow> bool \<Rightarrow> (('s, 'x) engine, unit) state" where
  "prepareBatchTerminalCallbacks batchID succeeded hasFailures = modify (\<lambda>e.
     case eg_batchCallbacks e batchID of None \<Rightarrow> e
     | Some callbacks \<Rightarrow>
        let c1 = callbacks\<lparr>bc_progress := None\<rparr>;
            c2 = (if succeeded \<and> \<not> hasFailures then c1\<lparr>bc_catch := None\<rparr> else c1);
            c3 = (if \<not> succeeded then c2\<lparr>bc_then := None\<rparr> else c2)
        in put_batch_callbacks batchID c3 e)"

definition finishBatchCallback :: "string \<Rightarrow> string \<Rightarrow> (('s, 'x) engine, unit) state" where
  "finishBatchCallback batchID kind = modify (\<lambda>e.
     case eg_batchCallbacks e batchID of None \<Rightarrow> e
     | Some callbacks \<Rightarrow>
         put_batch_callbacks batchID
           (if kind = ''then'' then callbacks\<lparr>bc_then := None\<rparr>
            else if kind = ''catch'' then callbacks\<lparr>bc_catch := None\<rparr>
            else if kind = ''finally'' then callbacks\<lparr>bc_finally := None\<rparr> else callbacks) e)"

definition cleanupBatchCallbacks :: "string \<Rightarrow> (('s, 'x) engine, unit) state" where
  "cleanupBatchCallbacks batchID = modify (\<lambda>e.
     case eg_batchCallbacks e batchID of None \<Rightarrow> e
     | Some callbacks \<Rightarrow> if no_batch_closure callbacks
         then e\<lparr>eg_batchCallbacks := (eg_batchCallbacks e)(batchID := None)\<rparr> else e)"

section \<open>Invocation\<close>

definition callbackOnce :: "('s, 'x) runtime \<Rightarrow> string \<Rightarrow> (('s, 'x) engine, goerr option + bool) state" where
  "callbackOnce r key = do {
     marked \<leftarrow> on_store (si_MarkCallbackInvoked (rt_store r) key);
     State_Monad.return (case marked of Inl e \<Rightarrow> Inl (uncommittedMutationError ''mark callback invoked'' e)
       | Inr ok \<Rightarrow> Inr ok)
   }"

text \<open>The shape the five invocations share: claim the key, run \<open>onClaimed\<close>, and run
  the closure if there still is one, clearing it afterwards. In the code \<open>onClaimed\<close>
  assigns the start time its caller measures from; here the time is returned beside the
  error, \<^const>\<open>None\<close> when the claim did not happen.\<close>

type_synonym ('s, 'x) claimed_eng = "(('s, 'x) engine, goerr option \<times> time option) state"

definition claim_and_run ::
  "('s, 'x) runtime \<Rightarrow> string \<Rightarrow> (('s, 'x) engine, time) state \<Rightarrow> (('s, 'x) engine \<Rightarrow> nat option)
   \<Rightarrow> (nat \<Rightarrow> (('s, 'x) engine, callback_result) state) \<Rightarrow> (('s, 'x) engine, unit) state
   \<Rightarrow> ('s, 'x) claimed_eng" where
  "claim_and_run r key onClaimed closure run finish = do {
     once \<leftarrow> callbackOnce r key;
     case once of Inl onceErr \<Rightarrow> State_Monad.return (onceErr, None)
     | Inr ok \<Rightarrow>
         if \<not> ok then State_Monad.return (Some (Sentinel ErrCallbackAlreadyInvoked), None)
         else do {
           start \<leftarrow> onClaimed;
           cb \<leftarrow> gets closure;
           case cb of None \<Rightarrow> State_Monad.return (Some (Sentinel ErrCallbackUnavailable), Some start)
           | Some fn \<Rightarrow> do {
               res \<leftarrow> run fn;
               finish;
               State_Monad.return (runEphemeralCallback res, Some start)
             }
         }
   }"

definition invokeChainCatchObserved ::
  "('s, 'x) runtime \<Rightarrow> dctx \<Rightarrow> chain_state \<Rightarrow> goerr option \<Rightarrow> (('s, 'x) engine, time) state \<Rightarrow> ('s, 'x) claimed_eng" where
  "invokeChainCatchObserved r ctx st err onClaimed =
     (if \<not> cs_Failed st \<or> cs_Completed st then State_Monad.return (Some (Sentinel ErrCallbackNotReady), None)
      else claim_and_run r (''chain_catch:'' @ cs_ChainID st) onClaimed (\<lambda>e. cc_catch (chain_closures (cs_ChainID st) e))
             (\<lambda>fn. rt_chainCatch r fn ctx st err) (finishChainCallback (cs_ChainID st) ''catch''))"

definition invokeChainFinallyObserved ::
  "('s, 'x) runtime \<Rightarrow> dctx \<Rightarrow> chain_state \<Rightarrow> (('s, 'x) engine, time) state \<Rightarrow> ('s, 'x) claimed_eng" where
  "invokeChainFinallyObserved r ctx st onClaimed =
     (if \<not> cs_Failed st \<and> \<not> cs_Completed st then State_Monad.return (Some (Sentinel ErrCallbackNotReady), None)
      else claim_and_run r (''chain_finally:'' @ cs_ChainID st) onClaimed (\<lambda>e. cc_finally (chain_closures (cs_ChainID st) e))
             (\<lambda>fn. rt_chainFinally r fn ctx st) (finishChainCallback (cs_ChainID st) ''finally''))"

definition invokeBatchThenObserved ::
  "('s, 'x) runtime \<Rightarrow> dctx \<Rightarrow> batch_state \<Rightarrow> (('s, 'x) engine, time) state \<Rightarrow> ('s, 'x) claimed_eng" where
  "invokeBatchThenObserved r ctx st onClaimed =
     (if \<not> bs_Completed st \<or> bs_Cancelled st then State_Monad.return (Some (Sentinel ErrCallbackNotReady), None)
      else claim_and_run r (''batch_then:'' @ bs_BatchID st) onClaimed (\<lambda>e. bc_then (batch_closures (bs_BatchID st) e))
             (\<lambda>fn. rt_batchHook r fn ctx st) (finishBatchCallback (bs_BatchID st) ''then''))"

definition invokeBatchCatchObserved ::
  "('s, 'x) runtime \<Rightarrow> dctx \<Rightarrow> batch_state \<Rightarrow> goerr option \<Rightarrow> (('s, 'x) engine, time) state \<Rightarrow> ('s, 'x) claimed_eng" where
  "invokeBatchCatchObserved r ctx st err onClaimed =
     (if bs_Failed st \<le> 0 \<and> \<not> bs_Cancelled st then State_Monad.return (Some (Sentinel ErrCallbackNotReady), None)
      else claim_and_run r (''batch_catch:'' @ bs_BatchID st) onClaimed (\<lambda>e. bc_catch (batch_closures (bs_BatchID st) e))
             (\<lambda>fn. rt_batchCatch r fn ctx st err) (finishBatchCallback (bs_BatchID st) ''catch''))"

definition invokeBatchFinallyObserved ::
  "('s, 'x) runtime \<Rightarrow> dctx \<Rightarrow> batch_state \<Rightarrow> (('s, 'x) engine, time) state \<Rightarrow> ('s, 'x) claimed_eng" where
  "invokeBatchFinallyObserved r ctx st onClaimed =
     (if \<not> bs_Completed st then State_Monad.return (Some (Sentinel ErrCallbackNotReady), None)
      else claim_and_run r (''batch_finally:'' @ bs_BatchID st) onClaimed (\<lambda>e. bc_finally (batch_closures (bs_BatchID st) e))
             (\<lambda>fn. rt_batchHook r fn ctx st) (finishBatchCallback (bs_BatchID st) ''finally''))"

section \<open>Callback deliveries\<close>

definition with_callback_env :: "envelope \<Rightarrow> event \<Rightarrow> event" where
  "with_callback_env env ev = ev\<lparr>ev_DispatchID := en_DispatchID env, ev_JobID := en_JobID env,
     ev_ChainID := en_ChainID env, ev_BatchID := en_BatchID env\<rparr>"

text \<open>The hook run once the claim succeeded.\<close>

definition callback_started :: "('s, 'x) runtime \<Rightarrow> dctx \<Rightarrow> envelope \<Rightarrow> (('s, 'x) engine, time) state" where
  "callback_started r ctx env = do {
     start \<leftarrow> now r;
     eid \<leftarrow> newID r ''evt'';
     emit r ctx (with_callback_env env (with_job r (en_Job env) (new_event EventCallbackStarted eid start)));
     State_Monad.return start
   }"

text \<open>Reading the workflow a callback belongs to.\<close>

definition on_chain ::
  "('s, 'x) runtime \<Rightarrow> envelope \<Rightarrow> (chain_state \<Rightarrow> ('s, 'x) claimed_eng) \<Rightarrow> ('s, 'x) claimed_eng" where
  "on_chain r env invoke =
     (if en_ChainID env = [] then State_Monad.return (Some (ErrNew ''chain callback requires chain_id''), None)
      else do {
        st \<leftarrow> on_store (si_GetChain (rt_store r) (en_ChainID env));
        case st of Inl e \<Rightarrow> State_Monad.return (uncommittedMutationError ''read chain callback state'' e, None)
        | Inr st \<Rightarrow> invoke st })"

definition on_batch ::
  "('s, 'x) runtime \<Rightarrow> envelope \<Rightarrow> (batch_state \<Rightarrow> ('s, 'x) claimed_eng) \<Rightarrow> ('s, 'x) claimed_eng" where
  "on_batch r env invoke =
     (if en_BatchID env = [] then State_Monad.return (Some (ErrNew ''batch callback requires batch_id''), None)
      else do {
        st \<leftarrow> on_store (si_GetBatch (rt_store r) (en_BatchID env));
        case st of Inl e \<Rightarrow> State_Monad.return (uncommittedMutationError ''read batch callback state'' e, None)
        | Inr st \<Rightarrow> invoke st })"

text \<open>The invocation selected by the callback kind of an envelope.\<close>

definition select_callback :: "('s, 'x) runtime \<Rightarrow> dctx \<Rightarrow> envelope \<Rightarrow> ('s, 'x) claimed_eng" where
  "select_callback r ctx env =
    (let cbErr = (if en_Error env = [] then None else Some (ErrNew (en_Error env)));
         onClaimed = callback_started r ctx env
     in if en_CallbackKind env = ''chain_catch''
        then on_chain r env (\<lambda>st. invokeChainCatchObserved r ctx st cbErr onClaimed)
        else if en_CallbackKind env = ''chain_finally''
        then on_chain r env (\<lambda>st. invokeChainFinallyObserved r ctx st onClaimed)
        else if en_CallbackKind env = ''batch_catch''
        then on_batch r env (\<lambda>st. invokeBatchCatchObserved r ctx st cbErr onClaimed)
        else if en_CallbackKind env = ''batch_then''
        then on_batch r env (\<lambda>st. invokeBatchThenObserved r ctx st onClaimed)
        else if en_CallbackKind env = ''batch_finally''
        then on_batch r env (\<lambda>st. invokeBatchFinallyObserved r ctx st onClaimed)
        else State_Monad.return (Some (ErrNew ''unknown callback kind''), None))"

definition callback_event ::
  "('s, 'x) runtime \<Rightarrow> dctx \<Rightarrow> envelope \<Rightarrow> event_kind \<Rightarrow> time \<Rightarrow> goerr option \<Rightarrow> (('s, 'x) engine, unit) state" where
  "callback_event r ctx env kind start err = do {
     eid \<leftarrow> newID r ''evt'';
     t1 \<leftarrow> now r;
     t2 \<leftarrow> now r;
     emit r ctx ((with_callback_env env (with_job r (en_Job env) (new_event kind eid t2)))
       \<lparr>ev_Duration := t1 - start, ev_Err := err\<rparr>)
   }"

definition handleCallbackEnvelope :: "('s, 'x) runtime \<Rightarrow> dctx \<Rightarrow> envelope \<Rightarrow> ('s, 'x) eng" where
  "handleCallbackEnvelope r ctx env = do {
     start0 \<leftarrow> now r;
     res \<leftarrow> select_callback r ctx env;
     let (err, claimed) = res;
     let start = (case claimed of None \<Rightarrow> start0 | Some t \<Rightarrow> t);
     case err of
       None \<Rightarrow> do { callback_event r ctx env EventCallbackSucceeded start None; State_Monad.return None }
     | Some e \<Rightarrow>
         if errors_is err ErrCallbackAlreadyInvoked then State_Monad.return None
         else if IsUncommitted err then State_Monad.return err
         else do { callback_event r ctx env EventCallbackFailed start err; State_Monad.return err }
   }"

definition handleInternalCallback :: "('s, 'x) runtime \<Rightarrow> dctx \<Rightarrow> bytes \<Rightarrow> ('s, 'x) eng" where
  "handleInternalCallback r ctx payload =
     (case rt_unmarshal r payload of Inl e \<Rightarrow> State_Monad.return (Some e)
      | Inr env \<Rightarrow> handleCallbackEnvelope r ctx env)"

section \<open>Scheduling callbacks\<close>

definition callbackConfigured :: "('s, 'x) engine \<Rightarrow> envelope \<Rightarrow> string \<Rightarrow> bool" where
  "callbackConfigured e base kind =
     (if kind = ''chain_catch'' then cc_catch (chain_closures (en_ChainID base) e) \<noteq> None
      else if kind = ''chain_finally'' then cc_finally (chain_closures (en_ChainID base) e) \<noteq> None
      else if kind = ''batch_catch'' then bc_catch (batch_closures (en_BatchID base) e) \<noteq> None
      else if kind = ''batch_then'' then bc_then (batch_closures (en_BatchID base) e) \<noteq> None
      else if kind = ''batch_finally'' then bc_finally (batch_closures (en_BatchID base) e) \<noteq> None
      else False)"

definition callbackEnvelope ::
  "('s, 'x) runtime \<Rightarrow> envelope \<Rightarrow> string \<Rightarrow> goerr option \<Rightarrow> (('s, 'x) engine, envelope option) state" where
  "callbackEnvelope r base kind err = do {
     configured \<leftarrow> gets (\<lambda>e. callbackConfigured e base kind);
     if \<not> configured then State_Monad.return None
     else do {
       jobID \<leftarrow> newID r ''job'';
       State_Monad.return (Some (zero_envelope\<lparr>en_SchemaVersion := ProtocolSchemaVersion,
         en_DispatchID := en_DispatchID base, en_Kind := ''callback'', en_JobID := jobID,
         en_ChainID := en_ChainID base, en_BatchID := en_BatchID base, en_CallbackKind := kind,
         en_Job := \<lparr>sj_Type = sj_Type (en_Job base), sj_Payload = sj_Payload (en_Job base),
           sj_Options = zero_job_options\<lparr>jo_Queue := jo_Queue (sj_Options (en_Job base))\<rparr>\<rparr>,
         en_Error := (case err of None \<Rightarrow> [] | Some e \<Rightarrow> error_text e)\<rparr>))
     }
   }"

definition dispatchCallback ::
  "('s, 'x) runtime \<Rightarrow> dctx \<Rightarrow> envelope \<Rightarrow> string \<Rightarrow> goerr option \<Rightarrow> ('s, 'x) eng" where
  "dispatchCallback r ctx base kind err = do {
     callback \<leftarrow> callbackEnvelope r base kind err;
     case callback of None \<Rightarrow> State_Monad.return None
     | Some env \<Rightarrow> dispatchEnvelope r ctx CallbackDeliveryType env
   }"

definition invokeCallbackInline ::
  "('s, 'x) runtime \<Rightarrow> dctx \<Rightarrow> envelope \<Rightarrow> string \<Rightarrow> goerr option \<Rightarrow> ('s, 'x) eng" where
  "invokeCallbackInline r ctx base kind err = do {
     callback \<leftarrow> callbackEnvelope r base kind err;
     case callback of None \<Rightarrow> State_Monad.return None
     | Some env \<Rightarrow> handleCallbackEnvelope r ctx env
   }"

end
