(* ===== verification/ChainEngine.thy ===== *)
theory ChainEngine
  imports Callbacks
begin

text \<open>
  Sequential workflows (\<open>internal/workflow/chain.go\<close>): the builder's dispatch, the
  store access with its fallbacks for stores without the optional capabilities, the
  recovery of committed outcomes after a delivery was reclaimed, and the handler of
  chain-node deliveries.
\<close>

section \<open>Synchronous results\<close>

definition withSynchronousChainResult :: "dctx option \<Rightarrow> (('s, 'x) engine, dctx \<times> nat) state" where
  "withSynchronousChainResult ctx = State (\<lambda>e.
     (((ctx_or_background ctx)\<lparr>cx_sync := Some (length (eg_sync e))\<rparr>, length (eg_sync e)),
      e\<lparr>eg_sync := eg_sync e @ [None]\<rparr>))"

definition recordSynchronousChainError :: "dctx \<Rightarrow> goerr option \<Rightarrow> (('s, 'x) engine, unit) state" where
  "recordSynchronousChainError ctx err = modify (\<lambda>e.
     case cx_sync ctx of None \<Rightarrow> e
     | Some a \<Rightarrow> if err \<noteq> None \<and> a < length (eg_sync e) \<and> eg_sync e ! a = None
         then e\<lparr>eg_sync := (eg_sync e)[a := err]\<rparr> else e)"

definition executionError :: "nat \<Rightarrow> (('s, 'x) engine, goerr option) state" where
  "executionError a = gets (\<lambda>e. if a < length (eg_sync e) then eg_sync e ! a else None)"

section \<open>Store access\<close>

definition failChainNode ::
  "('s, 'x) runtime \<Rightarrow> string \<Rightarrow> string \<Rightarrow> goerr option
   \<Rightarrow> (('s, 'x) engine, goerr + chain_state \<times> bool) state" where
  "failChainNode r chainID nodeID cause =
     (case si_FailChainNode (rt_store r) of Some f \<Rightarrow> on_store (f chainID nodeID cause)
      | None \<Rightarrow> do {
          st \<leftarrow> on_store (si_GetChain (rt_store r) chainID);
          case st of Inl e \<Rightarrow> State_Monad.return (Inl e)
          | Inr state \<Rightarrow>
             (case chainNodeFailureDisposition state nodeID of Inl e \<Rightarrow> State_Monad.return (Inl e)
              | Inr (owned, claimable) \<Rightarrow>
                 if \<not> claimable then State_Monad.return (Inr (state, owned))
                 else do {
                   failed \<leftarrow> on_store (si_FailChain (rt_store r) chainID cause);
                   case failed of Some e \<Rightarrow> State_Monad.return (Inl e)
                   | None \<Rightarrow> do {
                       st' \<leftarrow> on_store (si_GetChain (rt_store r) chainID);
                       case st' of Inl e \<Rightarrow> State_Monad.return (Inl e)
                       | Inr state' \<Rightarrow>
                          (case chainNodeFailureDisposition state' nodeID of Inl e \<Rightarrow> State_Monad.return (Inl e)
                           | Inr (owned', claimable') \<Rightarrow>
                              if claimable'
                              then State_Monad.return (Inl (ErrNew ''chain store accepted failure without terminal state''))
                              else State_Monad.return (Inr (state', owned')))
                     }
                 })
        })"

definition failChainNodeOutcome ::
  "('s, 'x) runtime \<Rightarrow> string \<Rightarrow> string \<Rightarrow> goerr option \<Rightarrow> transition_claim
   \<Rightarrow> (('s, 'x) engine, goerr + chain_failure_result) state" where
  "failChainNodeOutcome r chainID nodeID cause claim =
     (case si_failChainOutcome (rt_store r) of Some f \<Rightarrow> on_store (f chainID nodeID cause claim)
      | None \<Rightarrow> do {
          res \<leftarrow> failChainNode r chainID nodeID cause;
          State_Monad.return (case res of Inl e \<Rightarrow> Inl e
            | Inr (state, owned) \<Rightarrow> Inr (zero_failure\<lparr>cf_state := state, cf_owned := owned, cf_claimedNow := owned\<rparr>))
        })"

definition observedChainFailure :: "chain_state \<Rightarrow> goerr option \<Rightarrow> goerr option" where
  "observedChainFailure state current =
     (if cs_Failure state = [] \<or> (case current of None \<Rightarrow> False | Some e \<Rightarrow> error_text e = cs_Failure state) then current
      else if IsPermanent current then Permanent (Some (ErrNew (cs_Failure state)))
      else Some (ErrNew (cs_Failure state)))"

definition advanceChainNode ::
  "('s, 'x) runtime \<Rightarrow> string \<Rightarrow> string \<Rightarrow> transition_claim
   \<Rightarrow> (('s, 'x) engine, goerr + chain_advance_result) state" where
  "advanceChainNode r chainID nodeID claim =
     (case si_advanceChainOutcome (rt_store r) of Some f \<Rightarrow> on_store (f chainID nodeID claim)
      | None \<Rightarrow> do {
          res \<leftarrow> on_store (si_AdvanceChain (rt_store r) chainID nodeID);
          State_Monad.return (case res of Inl e \<Rightarrow> Inl e
            | Inr (nextNode, done) \<Rightarrow> Inr (zero_advance\<lparr>ca_next := nextNode, ca_done := done, ca_successOwned := True,
                ca_claimedNow := True\<rparr>))
        })"

section \<open>Events and continuation\<close>

definition chainFactID :: "('s, 'x) runtime \<Rightarrow> event_kind \<Rightarrow> envelope \<Rightarrow> string" where
  "chainFactID r kind env = stableWorkflowFactID r kind [en_DispatchID env, en_ChainID env, en_NodeID env, en_JobID env,
     sj_Type (en_Job env), storedJobEventKey r (en_Job env), jo_Queue (sj_Options (en_Job env))]"

text \<open>An event about a chain with a given identifier, timed now.\<close>

definition chain_event ::
  "('s, 'x) runtime \<Rightarrow> dctx \<Rightarrow> envelope \<Rightarrow> event_kind \<Rightarrow> string \<Rightarrow> goerr option \<Rightarrow> (('s, 'x) engine, unit) state" where
  "chain_event r ctx env kind eid err = do {
     t \<leftarrow> now r;
     emit r ctx ((with_job r (en_Job env) (new_event kind eid t))
       \<lparr>ev_DispatchID := en_DispatchID env, ev_ChainID := en_ChainID env, ev_JobID := en_JobID env, ev_Err := err\<rparr>)
   }"

definition dispatchChainSuccessor :: "('s, 'x) runtime \<Rightarrow> dctx \<Rightarrow> envelope \<Rightarrow> chain_node option \<Rightarrow> ('s, 'x) eng" where
  "dispatchChainSuccessor r ctx env nextNode =
     (case nextNode of
        None \<Rightarrow> State_Monad.return (uncommittedMutationError ''dispatch next chain node'' (ErrNew ''chain store omitted successor''))
      | Some n \<Rightarrow> do {
          jobID \<leftarrow> newID r ''job'';
          dispatchErr \<leftarrow> dispatchEnvelope r ctx ChainNodeDeliveryType (zero_envelope\<lparr>en_SchemaVersion := ProtocolSchemaVersion,
             en_DispatchID := en_DispatchID env, en_Kind := ''chain_node'', en_ChainID := en_ChainID env,
             en_NodeID := cn_NodeID n, en_JobID := jobID, en_Job := cn_Job n\<rparr>);
          case acceptedDispatchExecutionError dispatchErr of
            Some executionErr \<Rightarrow> do {
              recordSynchronousChainError ctx (Some executionErr); State_Monad.return None }
          | None \<Rightarrow> (case dispatchErr of None \<Rightarrow> State_Monad.return None
              | Some e \<Rightarrow> State_Monad.return (uncommittedMutationError ''dispatch next chain node'' e))
        })"

section \<open>Recovery\<close>

definition recoverCommittedChainSuccessor ::
  "('s, 'x) runtime \<Rightarrow> dctx \<Rightarrow> envelope \<Rightarrow> chain_state \<Rightarrow> nat \<Rightarrow> ('s, 'x) eng" where
  "recoverCommittedChainSuccessor r ctx env state index =
     (if cs_Completed state \<or> cs_Failed state \<or> cs_NextIndex state \<noteq> int index + 1 then State_Monad.return None
      else dispatchChainSuccessor r ctx env (Some (cs_Nodes state ! nat (cs_NextIndex state))))"

text \<open>A recovery reports whether it handled the delivery, and the error.\<close>

definition recovery_failure :: "string \<Rightarrow> goerr \<Rightarrow> (('s, 'x) engine, bool \<times> goerr option) state" where
  "recovery_failure operation e = State_Monad.return (True, uncommittedMutationError operation e)"

definition handled_by :: "('s, 'x) eng \<Rightarrow> (('s, 'x) engine, bool \<times> goerr option) state" where
  "handled_by m = do { err \<leftarrow> m; State_Monad.return (True, err) }"

definition receipt_mismatch :: "workflow_kind \<Rightarrow> string \<Rightarrow> string \<Rightarrow> string \<Rightarrow> time \<Rightarrow> transition_receipt \<Rightarrow> bool" where
  "receipt_mismatch kind workflowID memberID dispatchID createdAt receipt \<longleftrightarrow>
     tr_workflowKind receipt \<noteq> kind \<or> tr_workflowID receipt \<noteq> workflowID \<or> tr_memberID receipt \<noteq> memberID
     \<or> tr_workflowDispatchID receipt \<noteq> dispatchID \<or> tr_workflowCreatedAt receipt \<noteq> createdAt"

definition zero_outcome :: "envelope \<Rightarrow> stored_job_outcome" where
  "zero_outcome env = \<lparr>oc_env = env, oc_attempt = zero_attempt, oc_started = 0, oc_finished = 0, oc_err = None\<rparr>"

text \<open>What recovery does with a receipt that proves the node's success.\<close>

definition recover_success_receipt ::
  "('s, 'x) runtime \<Rightarrow> dctx \<Rightarrow> envelope \<Rightarrow> chain_state \<Rightarrow> nat \<Rightarrow> delivery_provenance \<Rightarrow> transition_receipt
   \<Rightarrow> (('s, 'x) engine, bool \<times> goerr option) state" where
  "recover_success_receipt r ctx env state index provenance receipt =
    (let op = ''recover committed chain success''; finalNode = (int index = int (length (cs_Nodes state)) - 1) in
     if receipt_mismatch ChainTransitionKind (en_ChainID env) (en_NodeID env) (cs_DispatchID state) (cs_CreatedAt state) receipt
     then recovery_failure op (ErrNew ''transition receipt does not match chain state'')
     else case validateRecoveredTransitionReceipt r env receipt False of Some e \<Rightarrow> recovery_failure op e
     | None \<Rightarrow>
       if tr_outcome receipt \<noteq> BatchJobSucceeded then recovery_failure op (ErrNew ''transition receipt does not own success'')
       else if tr_aggregateCancelled receipt
       then recovery_failure op (ErrNew ''successful chain receipt cannot own cancellation'')
       else if tr_aggregateCompleted receipt \<noteq> finalNode
       then recovery_failure op (ErrNew ''transition receipt completion does not match chain node position'')
       else if \<not> transitionReceiptOwnsRecoveredFacts env receipt provenance
       then handled_by (recoverCommittedChainSuccessor r ctx env state index)
       else do {
         observed \<leftarrow> now r;
         case recoveredStoredJobSuccess r (zero_outcome env) receipt observed of Inl e \<Rightarrow> recovery_failure op e
         | Inr committedOutcome \<Rightarrow>
             if finalNode then do {
               emitStoredJobOutcome r ctx committedOutcome;
               chain_event r ctx env EventChainCompleted (chainFactID r EventChainCompleted env) None;
               State_Monad.return (True, None) }
             else do {
               emitStoredJobOutcome r ctx committedOutcome;
               chain_event r ctx env EventChainAdvanced (chainFactID r EventChainAdvanced env) None;
               handled_by (recoverCommittedChainSuccessor r ctx env state index) }
       })"

definition recoverCommittedChainSuccess ::
  "('s, 'x) runtime \<Rightarrow> dctx \<Rightarrow> envelope \<Rightarrow> (('s, 'x) engine, bool \<times> goerr option) state" where
  "recoverCommittedChainSuccess r ctx env = (let op = ''recover committed chain success'' in
     case recoveredDeliveryProvenance ctx of (provenance, recovering) \<Rightarrow>
     if \<not> recovering then State_Monad.return (False, None)
     else do {
       st \<leftarrow> on_store (si_GetChain (rt_store r) (en_ChainID env));
       case st of Inl e \<Rightarrow> recovery_failure op e
       | Inr state \<Rightarrow>
         if cs_ChainID state \<noteq> en_ChainID env
         then recovery_failure op (ErrNew (''requested chain '' @ quote (en_ChainID env) @ '' returned state for '' @ quote (cs_ChainID state)))
         else if cs_DispatchID state \<noteq> [] \<and> en_DispatchID env \<noteq> [] \<and> cs_DispatchID state \<noteq> en_DispatchID env
         then recovery_failure op (ErrNew (''chain '' @ quote (en_ChainID env) @ '' dispatch mismatch''))
         else case chainNodePosition (cs_Nodes state) (en_NodeID env) of
           None \<Rightarrow> recovery_failure op (ErrNew (''chain '' @ quote (en_ChainID env) @ '' does not contain node '' @ quote (en_NodeID env)))
         | Some index \<Rightarrow>
           (case chainNodeSuccessDisposition state (en_NodeID env) of Inl e \<Rightarrow> recovery_failure op e
            | Inr successOwned \<Rightarrow>
              if \<not> storedJobsEqual (cn_Job (cs_Nodes state ! index)) (en_Job env)
              then recovery_failure op (ErrNew (''chain '' @ quote (en_ChainID env) @ '' node '' @ quote (en_NodeID env) @ '' job mismatch''))
              else if \<not> successOwned then State_Monad.return (False, None)
              else case si_chainTransitionReceipt (rt_store r) of
                None \<Rightarrow> handled_by (recoverCommittedChainSuccessor r ctx env state index)
              | Some getReceipt \<Rightarrow> do {
                  rc \<leftarrow> on_store (getReceipt (en_ChainID env) (en_NodeID env));
                  case rc of Inl e \<Rightarrow> recovery_failure op e
                  | Inr None \<Rightarrow> handled_by (recoverCommittedChainSuccessor r ctx env state index)
                  | Inr (Some receipt) \<Rightarrow> recover_success_receipt r ctx env state index provenance receipt })
     })"

definition recover_failure_receipt ::
  "('s, 'x) runtime \<Rightarrow> envelope \<Rightarrow> chain_state \<Rightarrow> transition_receipt \<Rightarrow> (('s, 'x) engine, bool \<times> goerr option) state" where
  "recover_failure_receipt r env state receipt = (let op = ''recover committed chain failure'' in
     if receipt_mismatch ChainTransitionKind (en_ChainID env) (en_NodeID env) (cs_DispatchID state) (cs_CreatedAt state) receipt
     then recovery_failure op (ErrNew ''transition receipt does not match chain state'')
     else if tr_outcome receipt \<noteq> BatchJobFailed then recovery_failure op (ErrNew ''transition receipt does not own failure'')
     else if tr_aggregateCompleted receipt \<or> tr_aggregateCancelled receipt
     then recovery_failure op (ErrNew ''failed chain receipt cannot own completion'')
     else case validateRecoveredTransitionReceipt r env receipt False of Some e \<Rightarrow> recovery_failure op e
     | None \<Rightarrow>
       if cs_Failure state = []
       then State_Monad.return (True, Permanent (Some (ErrNew (''chain '' @ quote (en_ChainID env) @ '' node '' @ quote (en_NodeID env)
              @ '' was already committed as failed; original cause was empty''))))
       else State_Monad.return (True, Permanent (Some (ErrNew (cs_Failure state)))))"

definition recoverCommittedChainFailure ::
  "('s, 'x) runtime \<Rightarrow> dctx \<Rightarrow> envelope \<Rightarrow> (('s, 'x) engine, bool \<times> goerr option) state" where
  "recoverCommittedChainFailure r ctx env = (let op = ''recover committed chain failure'' in
     if \<not> snd (recoveredDeliveryProvenance ctx) then State_Monad.return (False, None)
     else do {
       st \<leftarrow> on_store (si_GetChain (rt_store r) (en_ChainID env));
       case st of Inl e \<Rightarrow> recovery_failure op e
       | Inr state \<Rightarrow>
         if cs_ChainID state \<noteq> en_ChainID env
         then recovery_failure op (ErrNew (''requested chain '' @ quote (en_ChainID env) @ '' returned state for '' @ quote (cs_ChainID state)))
         else if cs_DispatchID state \<noteq> [] \<and> en_DispatchID env \<noteq> [] \<and> cs_DispatchID state \<noteq> en_DispatchID env
         then recovery_failure op (ErrNew (''chain '' @ quote (en_ChainID env) @ '' dispatch mismatch''))
         else if \<not> cs_Failed state \<or> cs_Completed state then State_Monad.return (False, None)
         else case chainNodePosition (cs_Nodes state) (en_NodeID env) of
           None \<Rightarrow> recovery_failure op (ErrNew (''chain '' @ quote (en_ChainID env) @ '' does not contain node '' @ quote (en_NodeID env)))
         | Some index \<Rightarrow>
           (case chainNodeFailureDisposition state (en_NodeID env) of Inl e \<Rightarrow> recovery_failure op e
            | Inr (owned, _) \<Rightarrow>
              if \<not> owned then State_Monad.return (False, None)
              else if \<not> storedJobsEqual (cn_Job (cs_Nodes state ! index)) (en_Job env)
              then recovery_failure op (ErrNew (''chain '' @ quote (en_ChainID env) @ '' node '' @ quote (en_NodeID env) @ '' job mismatch''))
              else case si_chainTransitionReceipt (rt_store r) of
                None \<Rightarrow> State_Monad.return (False, None)
              | Some getReceipt \<Rightarrow> do {
                  rc \<leftarrow> on_store (getReceipt (en_ChainID env) (en_NodeID env));
                  case rc of Inl e \<Rightarrow> recovery_failure op e
                  | Inr None \<Rightarrow> State_Monad.return (False, None)
                  | Inr (Some receipt) \<Rightarrow> recover_failure_receipt r env state receipt })
     })"

section \<open>The handler of chain-node deliveries\<close>

text \<open>Run a recovery first; when it neither handled the delivery nor failed, go on.\<close>

definition unless_handled ::
  "(('s, 'x) engine, bool \<times> goerr option) state \<Rightarrow> ('s, 'x) eng \<Rightarrow> ('s, 'x) eng" where
  "unless_handled recovery rest = do {
     res \<leftarrow> recovery;
     let (handled, recoveryErr) = res;
     if recoveryErr \<noteq> None \<or> handled then State_Monad.return recoveryErr else rest
   }"

definition chain_failed_attempt ::
  "('s, 'x) runtime \<Rightarrow> dctx \<Rightarrow> envelope \<Rightarrow> stored_job_outcome \<Rightarrow> ('s, 'x) eng" where
  "chain_failed_attempt r ctx env outcome = do {
     marked \<leftarrow> failChainNodeOutcome r (en_ChainID env) (en_NodeID env) (oc_err outcome) (transitionClaimFromOutcome r ctx outcome);
     case marked of Inl markErr \<Rightarrow> State_Monad.return (uncommittedMutationError ''fail chain'' markErr)
     | Inr failed \<Rightarrow> do {
         markDeliveryTransitionCommitted ctx (cf_claimedNow failed) (cf_receiptKnown failed);
         let recovered = snd (recoveredDeliveryProvenance ctx);
         if \<not> cf_owned failed then
           (if \<not> recovered then State_Monad.return None
            else unless_handled (recoverCommittedChainFailure r ctx (oc_env outcome))
                   (unless_handled (recoverCommittedChainSuccess r ctx (oc_env outcome)) (State_Monad.return None)))
         else if \<not> cf_claimedNow failed then
           (if recovered then unless_handled (recoverCommittedChainFailure r ctx (oc_env outcome)) (State_Monad.return (oc_err outcome))
            else State_Monad.return None)
         else if cs_Completed (cf_state failed) then State_Monad.return None
         else if \<not> cs_Failed (cf_state failed)
         then State_Monad.return (uncommittedMutationError ''confirm chain failure''
                (ErrNew ''chain store accepted failure without terminal state''))
         else do {
           let observedErr = observedChainFailure (cf_state failed) (oc_err outcome);
           emitStoredJobOutcome r ctx (outcome\<lparr>oc_err := observedErr\<rparr>);
           eid \<leftarrow> newID r ''evt'';
           chain_event r ctx env EventChainFailed eid observedErr;
           dispatchCallback r ctx env ''chain_catch'' observedErr;
           dispatchCallback r ctx env ''chain_finally'' None;
           cleanupChainCallbacks (en_ChainID env);
           State_Monad.return (oc_err outcome)
         }
       }
   }"

text \<open>A success whose transition another delivery already claimed.\<close>

definition chain_repeated_success ::
  "('s, 'x) runtime \<Rightarrow> dctx \<Rightarrow> envelope \<Rightarrow> stored_job_outcome \<Rightarrow> chain_advance_result \<Rightarrow> ('s, 'x) eng" where
  "chain_repeated_success r ctx env outcome advance =
     (if \<not> ca_successOwned advance then State_Monad.return None
      else if snd (recoveredDeliveryProvenance ctx) then
        unless_handled (recoverCommittedChainSuccess r ctx (oc_env outcome))
          (State_Monad.return (uncommittedMutationError ''recover committed chain success''
             (ErrNew ''store reported success ownership without advanced state'')))
      else if ca_done advance then
        (let state = ca_state advance in
         if (case chainNodePosition (cs_Nodes state) (en_NodeID env) of None \<Rightarrow> False
             | Some index \<Rightarrow> cs_Completed state \<and> int index = int (length (cs_Nodes state)) - 1)
         then do {
           prepareChainSuccessCallbacks (en_ChainID env);
           dispatchCallback r ctx env ''chain_finally'' None;
           cleanupChainCallbacks (en_ChainID env);
           State_Monad.return None }
         else State_Monad.return None)
      else dispatchChainSuccessor r ctx env (ca_next advance))"

text \<open>A claimed success that ended the chain.\<close>

definition chain_completed_success ::
  "('s, 'x) runtime \<Rightarrow> dctx \<Rightarrow> envelope \<Rightarrow> stored_job_outcome \<Rightarrow> chain_advance_result \<Rightarrow> ('s, 'x) eng" where
  "chain_completed_success r ctx env outcome advance = do {
     st \<leftarrow> (if cs_ChainID (ca_state advance) = [] then on_store (si_GetChain (rt_store r) (en_ChainID env))
             else State_Monad.return (Inr (ca_state advance)));
     case st of Inl stateErr \<Rightarrow> State_Monad.return (uncommittedMutationError ''confirm chain completion'' stateErr)
     | Inr state \<Rightarrow>
       if \<not> cs_Completed state \<and> cs_Failed state then State_Monad.return None
       else if \<not> cs_Completed state
       then State_Monad.return (uncommittedMutationError ''confirm chain completion''
              (ErrNew ''chain store returned done without terminal state''))
       else case chainNodePosition (cs_Nodes state) (en_NodeID env) of
         None \<Rightarrow> State_Monad.return (uncommittedMutationError ''confirm chain completion''
              (ErrNew ''chain store returned done for an unknown node''))
       | Some index \<Rightarrow>
         if int index \<noteq> int (length (cs_Nodes state)) - 1 then State_Monad.return None
         else do {
           emitStoredJobOutcome r ctx outcome;
           prepareChainSuccessCallbacks (en_ChainID env);
           chain_event r ctx env EventChainCompleted (chainFactID r EventChainCompleted env) None;
           dispatchCallback r ctx env ''chain_finally'' None;
           cleanupChainCallbacks (en_ChainID env);
           State_Monad.return None
         }
   }"

definition chain_succeeded_attempt ::
  "('s, 'x) runtime \<Rightarrow> dctx \<Rightarrow> envelope \<Rightarrow> stored_job_outcome \<Rightarrow> ('s, 'x) eng" where
  "chain_succeeded_attempt r ctx env outcome = do {
     adv \<leftarrow> advanceChainNode r (en_ChainID env) (en_NodeID env) (transitionClaimFromOutcome r ctx outcome);
     case adv of Inl advErr \<Rightarrow> State_Monad.return (uncommittedMutationError ''advance chain'' advErr)
     | Inr advance \<Rightarrow> do {
         markDeliveryTransitionCommitted ctx (ca_claimedNow advance) (ca_receiptKnown advance);
         if \<not> ca_claimedNow advance then chain_repeated_success r ctx env outcome advance
         else if ca_done advance then chain_completed_success r ctx env outcome advance
         else do {
           emitStoredJobOutcome r ctx outcome;
           chain_event r ctx env EventChainAdvanced (chainFactID r EventChainAdvanced env) None;
           dispatchChainSuccessor r ctx env (ca_next advance)
         }
       }
   }"

definition chain_attempt :: "('s, 'x) runtime \<Rightarrow> dctx \<Rightarrow> envelope \<Rightarrow> ('s, 'x) eng" where
  "chain_attempt r ctx env = do {
     outcome \<leftarrow> executeStoredJobAttempt r ctx env;
     case ClassifyAttempt (oc_attempt outcome) (oc_err outcome) of
       AttemptRetry \<Rightarrow> State_Monad.return (oc_err outcome)
     | AttemptRedeliver \<Rightarrow> State_Monad.return (oc_err outcome)
     | AttemptFailed \<Rightarrow> chain_failed_attempt r ctx env outcome
     | AttemptSucceeded \<Rightarrow> chain_succeeded_attempt r ctx env outcome
   }"

definition handleInternalChainNode :: "('s, 'x) runtime \<Rightarrow> dctx \<Rightarrow> bytes \<Rightarrow> ('s, 'x) eng" where
  "handleInternalChainNode r ctx payload =
     (case rt_unmarshal r payload of Inl e \<Rightarrow> State_Monad.return (Some e)
      | Inr env \<Rightarrow>
          if snd (recoveredDeliveryProvenance ctx)
          then (let env' = fst (applyDeliveryAttempt ctx env) in
                unless_handled (recoverCommittedChainFailure r ctx env')
                  (unless_handled (recoverCommittedChainSuccess r ctx env') (chain_attempt r ctx env')))
          else chain_attempt r ctx env)"

section \<open>Dispatching a chain\<close>

record 'p chain_builder =
  cb_jobs :: "'p job list"
  cb_queue :: string
  cb_catch :: "nat option"
  cb_done :: "nat option"

definition nodeID :: "('s, 'x) runtime \<Rightarrow> string \<Rightarrow> (('s, 'x) engine, string) state" where
  "nodeID r chainID = do { n \<leftarrow> newID r ''n''; State_Monad.return (chainID @ ''_'' @ n) }"

definition default_queue :: "string \<Rightarrow> stored_job \<Rightarrow> stored_job" where
  "default_queue queue wj = (if queue \<noteq> [] \<and> jo_Queue (sj_Options wj) = []
     then wj\<lparr>sj_Options := (sj_Options wj)\<lparr>jo_Queue := queue\<rparr>\<rparr> else wj)"

fun build_nodes ::
  "('s, 'x) runtime \<Rightarrow> ('p \<Rightarrow> goerr + bytes) \<Rightarrow> string \<Rightarrow> string \<Rightarrow> 'p job list
   \<Rightarrow> (('s, 'x) engine, goerr + chain_node list) state" where
  "build_nodes r marshal queue chainID [] = State_Monad.return (Inr [])"
| "build_nodes r marshal queue chainID (job # jobs) =
     (case toStoredJob marshal job of Inl e \<Rightarrow> State_Monad.return (Inl e)
      | Inr wj \<Rightarrow> do {
          nid \<leftarrow> nodeID r chainID;
          rest \<leftarrow> build_nodes r marshal queue chainID jobs;
          State_Monad.return (case rest of Inl e \<Rightarrow> Inl e
            | Inr ns \<Rightarrow> Inr (\<lparr>cn_NodeID = nid, cn_Job = default_queue queue wj\<rparr> # ns))
        })"

text \<open>What \<open>Dispatch\<close> does when the first delivery was rejected.\<close>

definition chain_dispatch_rejected ::
  "('s, 'x) runtime \<Rightarrow> dctx \<Rightarrow> string \<Rightarrow> string \<Rightarrow> chain_node \<Rightarrow> goerr \<Rightarrow> ('s, 'x) eng" where
  "chain_dispatch_rejected r ctx chainID dispatchID first err = do {
     res \<leftarrow> failChainNode r chainID (cn_NodeID first) (Some err);
     case res of
       Inl failErr \<Rightarrow> State_Monad.return (uncommittedMutationError ''fail chain after initial dispatch rejection'' (ErrJoin [err, failErr]))
     | Inr (_, owned) \<Rightarrow>
         if \<not> owned then State_Monad.return (Some err)
         else do {
           let base = zero_envelope\<lparr>en_DispatchID := dispatchID, en_ChainID := chainID, en_Job := cn_Job first\<rparr>;
           eid \<leftarrow> newID r ''evt'';
           chain_event r ctx base EventChainFailed eid (Some err);
           st \<leftarrow> on_store (si_GetChain (rt_store r) chainID);
           case st of Inl stErr \<Rightarrow>
               State_Monad.return (errors_join [Some err, uncommittedMutationError ''read chain after initial dispatch rejection'' stErr])
           | Inr _ \<Rightarrow> do {
               catchErr \<leftarrow> invokeCallbackInline r ctx base ''chain_catch'' (Some err);
               finallyErr \<leftarrow> invokeCallbackInline r ctx base ''chain_finally'' None;
               cleanupChainCallbacks chainID;
               State_Monad.return (errors_join [Some err, catchErr, finallyErr])
             }
         }
   }"

definition chain_Dispatch ::
  "('s, 'x) runtime \<Rightarrow> ('p \<Rightarrow> goerr + bytes) \<Rightarrow> 'p chain_builder \<Rightarrow> dctx option
   \<Rightarrow> (('s, 'x) engine, string \<times> goerr option) state" where
  "chain_Dispatch r marshal b ctx0 =
     (if cb_jobs b = [] then State_Monad.return ([], Some (ErrNew ''chain requires at least one job''))
      else do {
        cs \<leftarrow> withSynchronousChainResult ctx0;
        let (ctx, synchronousResult) = cs;
        chainID \<leftarrow> newID r ''chn'';
        dispatchID \<leftarrow> newID r ''dsp'';
        built \<leftarrow> build_nodes r marshal (cb_queue b) chainID (cb_jobs b);
        case built of Inl e \<Rightarrow> State_Monad.return ([], Some e)
        | Inr nodes \<Rightarrow> do {
            createdAt \<leftarrow> now r;
            created \<leftarrow> on_store (si_CreateChain (rt_store r) \<lparr>cr_ChainID = chainID, cr_DispatchID = dispatchID,
              cr_Queue = cb_queue b, cr_Nodes = nodes, cr_CreatedAt = createdAt\<rparr>);
            case created of Some e \<Rightarrow> State_Monad.return ([], Some e)
            | None \<Rightarrow> do {
                (if \<not> rt_ephemeralCallbacksDisabled r \<and> (cb_catch b \<noteq> None \<or> cb_done b \<noteq> None)
                 then modify (\<lambda>e. e\<lparr>eg_chainCallbacks := (eg_chainCallbacks e)
                        (chainID \<mapsto> \<lparr>cc_catch = cb_catch b, cc_finally = cb_done b\<rparr>)\<rparr>)
                 else State_Monad.return ());
                let first = hd nodes;
                eid \<leftarrow> newID r ''evt'';
                t \<leftarrow> now r;
                emit r ctx ((with_job r (cn_Job first) (new_event EventChainStarted eid t))
                  \<lparr>ev_DispatchID := dispatchID, ev_ChainID := chainID\<rparr>);
                jobID \<leftarrow> newID r ''job'';
                err \<leftarrow> dispatchEnvelope r ctx ChainNodeDeliveryType (zero_envelope\<lparr>en_SchemaVersion := ProtocolSchemaVersion,
                  en_DispatchID := dispatchID, en_Kind := ''chain_node'', en_ChainID := chainID,
                  en_NodeID := cn_NodeID first, en_JobID := jobID, en_Job := cn_Job first\<rparr>);
                case err of
                  Some e \<Rightarrow>
                    (case acceptedDispatchExecutionError err of
                       Some executionErr \<Rightarrow> State_Monad.return (chainID, Some executionErr)
                     | None \<Rightarrow> do {
                         err' \<leftarrow> chain_dispatch_rejected r ctx chainID dispatchID first e;
                         State_Monad.return (chainID, err') })
                | None \<Rightarrow> do {
                    executionErr \<leftarrow> executionError synchronousResult;
                    State_Monad.return (chainID, executionErr) }
              }
          }
      })"

end
