(* ===== verification/BatchEngine.thy ===== *)
theory BatchEngine
  imports ChainEngine
begin

text \<open>
  Aggregate workflows (\<open>internal/workflow/batch.go\<close>): the builder's dispatch, member
  settlement with its fallbacks, the recovery of committed members, and the handler of
  batch-job deliveries; and the dispatch of a physical delivery to the engine's four
  handlers.
\<close>

section \<open>Settlement\<close>

definition batchFactID :: "('s, 'x) runtime \<Rightarrow> event_kind \<Rightarrow> envelope \<Rightarrow> string" where
  "batchFactID r kind env = stableWorkflowFactID r kind [en_DispatchID env, en_BatchID env, en_JobID env,
     sj_Type (en_Job env), storedJobEventKey r (en_Job env), jo_Queue (sj_Options (en_Job env))]"

definition batch_event ::
  "('s, 'x) runtime \<Rightarrow> dctx \<Rightarrow> envelope \<Rightarrow> event_kind \<Rightarrow> string \<Rightarrow> goerr option \<Rightarrow> (('s, 'x) engine, unit) state" where
  "batch_event r ctx env kind eid err = do {
     t \<leftarrow> now r;
     emit r ctx ((with_job r (en_Job env) (new_event kind eid t))
       \<lparr>ev_DispatchID := en_DispatchID env, ev_BatchID := en_BatchID env, ev_JobID := en_JobID env, ev_Err := err\<rparr>)
   }"

definition dispatchBatchTerminalCallbacks ::
  "('s, 'x) runtime \<Rightarrow> dctx \<Rightarrow> envelope \<Rightarrow> batch_state \<Rightarrow> (('s, 'x) engine, unit) state" where
  "dispatchBatchTerminalCallbacks r ctx env st = do {
     let succeeded = (bs_Completed st \<and> \<not> bs_Cancelled st);
     prepareBatchTerminalCallbacks (en_BatchID env) succeeded (bs_Failed st > 0);
     (if succeeded then dispatchCallback r ctx env ''batch_then'' None else State_Monad.return None);
     dispatchCallback r ctx env ''batch_finally'' None;
     cleanupBatchCallbacks (en_BatchID env)
   }"

definition dispatchBatchTerminal ::
  "('s, 'x) runtime \<Rightarrow> dctx \<Rightarrow> envelope \<Rightarrow> batch_state \<Rightarrow> (('s, 'x) engine, unit) state" where
  "dispatchBatchTerminal r ctx env st = do {
     (if bs_Completed st \<and> \<not> bs_Cancelled st
      then batch_event r ctx env EventBatchCompleted (batchFactID r EventBatchCompleted env) None
      else State_Monad.return ());
     dispatchBatchTerminalCallbacks r ctx env st
   }"

definition as_settlement ::
  "(goerr + batch_state \<times> bool) \<Rightarrow> (bool \<Rightarrow> bool) \<Rightarrow> goerr + batch_settlement_result" where
  "as_settlement res owns = (case res of Inl e \<Rightarrow> Inl e
     | Inr (state, flag) \<Rightarrow> Inr (zero_settlement\<lparr>br_state := state, br_owned := owns flag, br_claimedNow := True\<rparr>))"

definition settleBatchJob ::
  "('s, 'x) runtime \<Rightarrow> string \<Rightarrow> string \<Rightarrow> batch_job_outcome \<Rightarrow> goerr option \<Rightarrow> transition_claim
   \<Rightarrow> (('s, 'x) engine, goerr + batch_settlement_result) state" where
  "settleBatchJob r batchID jobID outcome cause claim =
     (case si_settleBatchOutcome (rt_store r) of Some f \<Rightarrow> on_store (f batchID jobID outcome cause claim)
      | None \<Rightarrow>
        (case si_SettleBatchJob (rt_store r) of
           Some f \<Rightarrow> do { res \<leftarrow> on_store (f batchID jobID outcome cause); State_Monad.return (as_settlement res (\<lambda>owned. owned)) }
         | None \<Rightarrow>
           (case outcome of
              BatchJobSucceeded \<Rightarrow> do {
                res \<leftarrow> on_store (si_MarkBatchJobSucceeded (rt_store r) batchID jobID);
                State_Monad.return (as_settlement res (\<lambda>_. True)) }
            | BatchJobFailed \<Rightarrow> do {
                res \<leftarrow> on_store (si_MarkBatchJobFailed (rt_store r) batchID jobID cause);
                State_Monad.return (as_settlement res (\<lambda>_. True)) }
            | OtherOutcome _ \<Rightarrow> State_Monad.return (Inl (ErrNew ''unsupported batch job outcome'')))))"

definition batchSettlementOwnsTerminal :: "batch_settlement_result \<Rightarrow> batch_job_outcome \<Rightarrow> bool" where
  "batchSettlementOwnsTerminal settled outcome =
     (if \<not> bs_Completed (br_state settled) then False
      else if \<not> br_receiptKnown settled then True
      else receipt_supported (br_receipt settled) \<and> tr_outcome (br_receipt settled) = outcome
        \<and> tr_aggregateCompleted (br_receipt settled)
        \<and> tr_aggregateCancelled (br_receipt settled) = bs_Cancelled (br_state settled))"

definition emitCommittedBatchSuccessFacts ::
  "('s, 'x) runtime \<Rightarrow> dctx \<Rightarrow> envelope \<Rightarrow> stored_job_outcome \<Rightarrow> (('s, 'x) engine, unit) state" where
  "emitCommittedBatchSuccessFacts r ctx env outcome = do {
     emitStoredJobOutcome r ctx (outcome\<lparr>oc_err := None\<rparr>);
     batch_event r ctx env EventBatchProgressed (batchFactID r EventBatchProgressed env) None
   }"

section \<open>Recovery\<close>

definition validateRecoveredBatchState :: "envelope \<Rightarrow> batch_state \<Rightarrow> goerr option" where
  "validateRecoveredBatchState env state =
     (if bs_BatchID state \<noteq> en_BatchID env
      then Some (ErrNew (''requested batch '' @ quote (en_BatchID env) @ '' returned state for '' @ quote (bs_BatchID state)))
      else if bs_DispatchID state \<noteq> [] \<and> en_DispatchID env \<noteq> [] \<and> bs_DispatchID state \<noteq> en_DispatchID env
      then Some (ErrNew (''batch '' @ quote (en_BatchID env) @ '' dispatch mismatch''))
      else if bs_Total state \<le> 0 \<or> bs_Pending state < 0 \<or> bs_Processed state < 0 \<or> bs_Failed state < 0
              \<or> bs_Pending state + bs_Processed state \<noteq> bs_Total state \<or> bs_Failed state > bs_Processed state
      then Some (ErrNew (''batch '' @ quote (en_BatchID env) @ '' has inconsistent counters''))
      else if \<not> bs_Completed state \<and> bs_Pending state = 0
      then Some (ErrNew (''batch '' @ quote (en_BatchID env) @ '' exhausted pending members without completing''))
      else if bs_Completed state \<and> \<not> bs_Cancelled state \<and> bs_Pending state \<noteq> 0
      then Some (ErrNew (''batch '' @ quote (en_BatchID env) @ '' completed with pending members''))
      else None)"

definition validateRecoveredBatchReceiptShape :: "batch_state \<Rightarrow> transition_receipt \<Rightarrow> goerr option" where
  "validateRecoveredBatchReceiptShape state receipt =
     (if tr_aggregateCancelled receipt \<and> \<not> tr_aggregateCompleted receipt
      then Some (ErrNew ''batch transition receipt cancellation is not completed'')
      else if tr_aggregateCancelled receipt \<and> tr_outcome receipt \<noteq> BatchJobFailed
      then Some (ErrNew ''batch transition receipt cancellation does not own failure'')
      else if \<not> tr_aggregateCompleted receipt then None
      else if \<not> bs_Completed state
      then Some (ErrNew ''batch transition receipt owns completion for nonterminal state'')
      else if tr_aggregateCancelled receipt \<noteq> bs_Cancelled state
      then Some (ErrNew ''batch transition receipt cancellation does not match aggregate state'')
      else None)"

text \<open>What recovery does with a receipt of the member.\<close>

definition recover_batch_receipt ::
  "('s, 'x) runtime \<Rightarrow> dctx \<Rightarrow> envelope \<Rightarrow> batch_state \<Rightarrow> delivery_provenance \<Rightarrow> transition_receipt
   \<Rightarrow> (('s, 'x) engine, bool \<times> goerr option) state" where
  "recover_batch_receipt r ctx env state provenance receipt = (let op = ''recover committed batch transition'' in
     if receipt_mismatch BatchTransitionKind (en_BatchID env) (en_JobID env) (bs_DispatchID state) (bs_CreatedAt state) receipt
     then recovery_failure op (ErrNew ''transition receipt does not match batch state'')
     else case validateRecoveredTransitionReceipt r env receipt True of Some e \<Rightarrow> recovery_failure op e
     | None \<Rightarrow> (case validateRecoveredBatchReceiptShape state receipt of Some e \<Rightarrow> recovery_failure op e
       | None \<Rightarrow>
         let exactFactOwner = transitionReceiptOwnsRecoveredFacts env receipt provenance;
             complete = (if exactFactOwner \<and> tr_aggregateCompleted receipt \<and> \<not> tr_aggregateCancelled receipt
                           \<and> bs_Pending state = 0 \<and> bs_Completed state \<and> \<not> bs_Cancelled state
                         then batch_event r ctx env EventBatchCompleted (batchFactID r EventBatchCompleted env) None
                         else State_Monad.return ())
         in (case tr_outcome receipt of
               BatchJobSucceeded \<Rightarrow>
                 if \<not> exactFactOwner then State_Monad.return (True, None)
                 else do {
                   observed \<leftarrow> now r;
                   case recoveredStoredJobSuccess r (zero_outcome env) receipt observed of Inl e \<Rightarrow> recovery_failure op e
                   | Inr committedOutcome \<Rightarrow> do {
                       emitCommittedBatchSuccessFacts r ctx env committedOutcome;
                       complete;
                       State_Monad.return (True, None) } }
             | BatchJobFailed \<Rightarrow> do {
                 complete;
                 State_Monad.return (True, Permanent (Some (ErrNew (''batch '' @ quote (en_BatchID env) @ '' member ''
                   @ quote (en_JobID env) @ '' was already committed as failed; original cause was not persisted'')))) }
             | OtherOutcome s \<Rightarrow> recovery_failure op (ErrNew (''unsupported transition receipt outcome '' @ quote s)))))"

definition recoverCommittedBatchTransition ::
  "('s, 'x) runtime \<Rightarrow> dctx \<Rightarrow> envelope \<Rightarrow> (('s, 'x) engine, bool \<times> goerr option) state" where
  "recoverCommittedBatchTransition r ctx env = (let op = ''recover committed batch transition'' in
     case recoveredDeliveryProvenance ctx of (provenance, recovering) \<Rightarrow>
     if \<not> recovering then State_Monad.return (False, None)
     else do {
       st \<leftarrow> on_store (si_GetBatch (rt_store r) (en_BatchID env));
       case st of Inl e \<Rightarrow> recovery_failure op e
       | Inr state \<Rightarrow>
         (case validateRecoveredBatchState env state of Some e \<Rightarrow> recovery_failure op e
          | None \<Rightarrow>
            (case si_batchTransitionReceipt (rt_store r) of None \<Rightarrow> State_Monad.return (False, None)
             | Some getReceipt \<Rightarrow> do {
                 rc \<leftarrow> on_store (getReceipt (en_BatchID env) (en_JobID env));
                 case rc of Inl e \<Rightarrow> recovery_failure op e
                 | Inr None \<Rightarrow> State_Monad.return (False, None)
                 | Inr (Some receipt) \<Rightarrow> recover_batch_receipt r ctx env state provenance receipt }))
     })"

section \<open>The handler of batch-job deliveries\<close>

definition batchProgressCallback :: "string \<Rightarrow> (('s, 'x) engine, nat option) state" where
  "batchProgressCallback batchID = gets (\<lambda>e. bc_progress (batch_closures batchID e))"

definition invokeBatchProgress ::
  "('s, 'x) runtime \<Rightarrow> dctx \<Rightarrow> batch_state \<Rightarrow> nat option \<Rightarrow> (('s, 'x) engine, unit) state" where
  "invokeBatchProgress r ctx st progress = (case progress of None \<Rightarrow> State_Monad.return ()
     | Some fn \<Rightarrow> do { rt_batchHook r fn ctx st; State_Monad.return () })"

definition batch_failed_attempt ::
  "('s, 'x) runtime \<Rightarrow> dctx \<Rightarrow> envelope \<Rightarrow> nat option \<Rightarrow> stored_job_outcome \<Rightarrow> ('s, 'x) eng" where
  "batch_failed_attempt r ctx env progress outcome = do {
     marked \<leftarrow> settleBatchJob r (en_BatchID env) (en_JobID env) BatchJobFailed (oc_err outcome) (transitionClaimFromOutcome r ctx outcome);
     case marked of Inl markErr \<Rightarrow> State_Monad.return (uncommittedMutationError ''mark batch job failed'' markErr)
     | Inr settled \<Rightarrow> do {
         markDeliveryTransitionCommitted ctx (br_claimedNow settled) (br_receiptKnown settled);
         let recovered = snd (recoveredDeliveryProvenance ctx);
         let ownsTerminal = batchSettlementOwnsTerminal settled BatchJobFailed;
         let st = br_state settled;
         if \<not> br_owned settled then
           (if \<not> recovered then State_Monad.return None
            else do { res \<leftarrow> recoverCommittedBatchTransition r ctx (oc_env outcome); State_Monad.return (snd res) })
         else if \<not> br_claimedNow settled then
           (if recovered then State_Monad.return None
            else do {
              (if bs_Failed st = 1 then dispatchCallback r ctx env ''batch_catch'' (oc_err outcome) else State_Monad.return None);
              (if ownsTerminal then dispatchBatchTerminalCallbacks r ctx env st else State_Monad.return ());
              State_Monad.return None })
         else do {
           emitStoredJobOutcome r ctx outcome;
           batch_event r ctx env EventBatchProgressed (batchFactID r EventBatchProgressed env) (oc_err outcome);
           (if ownsTerminal \<and> bs_Cancelled st then do {
              eid \<leftarrow> newID r ''evt'';
              batch_event r ctx env EventBatchFailed eid (oc_err outcome);
              eid' \<leftarrow> newID r ''evt'';
              batch_event r ctx env EventBatchCancelled eid' None
            } else State_Monad.return ());
           (if bs_Failed st = 1 then dispatchCallback r ctx env ''batch_catch'' (oc_err outcome) else State_Monad.return None);
           invokeBatchProgress r ctx st progress;
           (if ownsTerminal then dispatchBatchTerminal r ctx env st else State_Monad.return ());
           State_Monad.return (oc_err outcome)
         }
       }
   }"

definition batch_succeeded_attempt ::
  "('s, 'x) runtime \<Rightarrow> dctx \<Rightarrow> envelope \<Rightarrow> nat option \<Rightarrow> stored_job_outcome \<Rightarrow> ('s, 'x) eng" where
  "batch_succeeded_attempt r ctx env progress outcome = do {
     marked \<leftarrow> settleBatchJob r (en_BatchID env) (en_JobID env) BatchJobSucceeded None (transitionClaimFromOutcome r ctx outcome);
     case marked of Inl markErr \<Rightarrow> State_Monad.return (uncommittedMutationError ''mark batch job succeeded'' markErr)
     | Inr settled \<Rightarrow> do {
         markDeliveryTransitionCommitted ctx (br_claimedNow settled) (br_receiptKnown settled);
         let ownsTerminal = batchSettlementOwnsTerminal settled BatchJobSucceeded;
         let st = br_state settled;
         if \<not> br_owned settled then State_Monad.return None
         else if \<not> br_claimedNow settled then
           (if snd (recoveredDeliveryProvenance ctx)
            then do { res \<leftarrow> recoverCommittedBatchTransition r ctx (oc_env outcome); State_Monad.return (snd res) }
            else do {
              (if ownsTerminal then dispatchBatchTerminalCallbacks r ctx env st else State_Monad.return ());
              State_Monad.return None })
         else do {
           emitCommittedBatchSuccessFacts r ctx env outcome;
           invokeBatchProgress r ctx st progress;
           (if ownsTerminal then dispatchBatchTerminal r ctx env st else State_Monad.return ());
           State_Monad.return None
         }
       }
   }"

definition batch_attempt :: "('s, 'x) runtime \<Rightarrow> dctx \<Rightarrow> envelope \<Rightarrow> ('s, 'x) eng" where
  "batch_attempt r ctx env = do {
     progress \<leftarrow> batchProgressCallback (en_BatchID env);
     marked \<leftarrow> on_store (si_MarkBatchJobStarted (rt_store r) (en_BatchID env) (en_JobID env));
     case marked of Some markErr \<Rightarrow> State_Monad.return (uncommittedMutationError ''mark batch job started'' markErr)
     | None \<Rightarrow> do {
         outcome \<leftarrow> executeStoredJobAttempt r ctx env;
         case ClassifyAttempt (oc_attempt outcome) (oc_err outcome) of
           AttemptRetry \<Rightarrow> State_Monad.return (oc_err outcome)
         | AttemptRedeliver \<Rightarrow> State_Monad.return (oc_err outcome)
         | AttemptFailed \<Rightarrow> batch_failed_attempt r ctx env progress outcome
         | AttemptSucceeded \<Rightarrow> batch_succeeded_attempt r ctx env progress outcome
       }
   }"

definition handleInternalBatchJob :: "('s, 'x) runtime \<Rightarrow> dctx \<Rightarrow> bytes \<Rightarrow> ('s, 'x) eng" where
  "handleInternalBatchJob r ctx payload =
     (case rt_unmarshal r payload of Inl e \<Rightarrow> State_Monad.return (Some e)
      | Inr env \<Rightarrow>
          if snd (recoveredDeliveryProvenance ctx)
          then (let env' = fst (applyDeliveryAttempt ctx env) in
                unless_handled (recoverCommittedBatchTransition r ctx env') (batch_attempt r ctx env'))
          else batch_attempt r ctx env)"

section \<open>Dispatching a batch\<close>

record 'p batch_builder =
  bb_jobs :: "'p job list"
  bb_name :: string
  bb_queue :: string
  bb_allowFailed :: bool
  bb_progress :: "nat option"
  bb_then :: "nat option"
  bb_catch :: "nat option"
  bb_finally :: "nat option"

primrec build_members ::
  "('s, 'x) runtime \<Rightarrow> ('p \<Rightarrow> goerr + bytes) \<Rightarrow> string \<Rightarrow> 'p job list \<Rightarrow> (('s, 'x) engine, goerr + batch_job list) state" where
  "build_members r marshal queue [] = State_Monad.return (Inr [])"
| "build_members r marshal queue (job # jobs) =
     (case toStoredJob marshal job of Inl e \<Rightarrow> State_Monad.return (Inl e)
      | Inr wj \<Rightarrow> do {
          jid \<leftarrow> newID r ''job'';
          rest \<leftarrow> build_members r marshal queue jobs;
          State_Monad.return (case rest of Inl e \<Rightarrow> Inl e
            | Inr js \<Rightarrow> Inr (\<lparr>bj_JobID = jid, bj_Job = default_queue queue wj\<rparr> # js))
        })"

text \<open>What \<open>Dispatch\<close> does when a member's delivery was rejected.\<close>

definition batch_dispatch_rejected ::
  "('s, 'x) runtime \<Rightarrow> dctx \<Rightarrow> string \<Rightarrow> string \<Rightarrow> batch_job \<Rightarrow> goerr \<Rightarrow> ('s, 'x) eng" where
  "batch_dispatch_rejected r ctx batchID dispatchID job err = do {
     st0 \<leftarrow> on_store (si_GetBatch (rt_store r) batchID);
     if (case st0 of Inl _ \<Rightarrow> False | Inr st \<Rightarrow> bs_Completed st \<or> bs_Processed st > 0 \<or> bs_Failed st > 0)
     then State_Monad.return (Some err)
     else do {
       cancelled \<leftarrow> on_store (si_CancelBatch (rt_store r) batchID);
       case cancelled of
         Some cancelErr \<Rightarrow> State_Monad.return (uncommittedMutationError ''cancel batch after initial dispatch rejection''
             (ErrJoin [err, cancelErr]))
       | None \<Rightarrow> do {
           let base = zero_envelope\<lparr>en_DispatchID := dispatchID, en_BatchID := batchID, en_Job := bj_Job job\<rparr>;
           let named = base\<lparr>en_JobID := bj_JobID job\<rparr>;
           eid \<leftarrow> newID r ''evt'';
           batch_event r ctx named EventBatchFailed eid (Some err);
           eid' \<leftarrow> newID r ''evt'';
           batch_event r ctx named EventBatchCancelled eid' None;
           st \<leftarrow> on_store (si_GetBatch (rt_store r) batchID);
           case st of
             Inl stErr \<Rightarrow> State_Monad.return (errors_join [Some err,
                uncommittedMutationError ''read batch after initial dispatch rejection'' stErr])
           | Inr st \<Rightarrow> do {
               prepareBatchTerminalCallbacks batchID False (bs_Failed st > 0);
               catchErr \<leftarrow> invokeCallbackInline r ctx base ''batch_catch'' (Some err);
               finallyErr \<leftarrow> invokeCallbackInline r ctx base ''batch_finally'' None;
               cleanupBatchCallbacks batchID;
               State_Monad.return (errors_join [Some err, catchErr, finallyErr])
             }
         }
     }
   }"

text \<open>The loop that enqueues the members; \<open>synchronousErr\<close> is its accumulator.\<close>

primrec dispatch_members ::
  "('s, 'x) runtime \<Rightarrow> dctx \<Rightarrow> bool \<Rightarrow> string \<Rightarrow> string \<Rightarrow> goerr option \<Rightarrow> batch_job list \<Rightarrow> ('s, 'x) eng" where
  "dispatch_members r ctx allowFailed batchID dispatchID synchronousErr [] = State_Monad.return synchronousErr"
| "dispatch_members r ctx allowFailed batchID dispatchID synchronousErr (job # jobs) = do {
     err \<leftarrow> dispatchEnvelope r ctx BatchJobDeliveryType (zero_envelope\<lparr>en_SchemaVersion := ProtocolSchemaVersion,
       en_DispatchID := dispatchID, en_Kind := ''batch_job'', en_BatchID := batchID, en_JobID := bj_JobID job,
       en_Job := bj_Job job\<rparr>);
     case err of
       None \<Rightarrow> dispatch_members r ctx allowFailed batchID dispatchID synchronousErr jobs
     | Some e \<Rightarrow>
         (case acceptedDispatchExecutionError err of
            Some executionErr \<Rightarrow>
              if allowFailed \<and> \<not> IsUncommitted (Some executionErr)
              then dispatch_members r ctx allowFailed batchID dispatchID
                     (case synchronousErr of None \<Rightarrow> Some executionErr | Some e' \<Rightarrow> Some e') jobs
              else State_Monad.return (Some executionErr)
          | None \<Rightarrow> batch_dispatch_rejected r ctx batchID dispatchID job e)
   }"

definition batch_Dispatch ::
  "('s, 'x) runtime \<Rightarrow> ('p \<Rightarrow> goerr + bytes) \<Rightarrow> 'p batch_builder \<Rightarrow> dctx \<Rightarrow> (('s, 'x) engine, string \<times> goerr option) state" where
  "batch_Dispatch r marshal b ctx =
     (if bb_jobs b = [] then State_Monad.return ([], Some (ErrNew ''batch requires at least one job''))
      else do {
        batchID \<leftarrow> newID r ''bat'';
        dispatchID \<leftarrow> newID r ''dsp'';
        built \<leftarrow> build_members r marshal (bb_queue b) (bb_jobs b);
        case built of Inl e \<Rightarrow> State_Monad.return ([], Some e)
        | Inr jobs \<Rightarrow> do {
            createdAt \<leftarrow> now r;
            created \<leftarrow> on_store (si_CreateBatch (rt_store r) \<lparr>br_BatchID = batchID, br_DispatchID = dispatchID,
              br_Name = bb_name b, br_Queue = bb_queue b, br_AllowFailed = bb_allowFailed b, br_Jobs = jobs,
              br_CreatedAt = createdAt\<rparr>);
            case created of Some e \<Rightarrow> State_Monad.return ([], Some e)
            | None \<Rightarrow> do {
                (if \<not> rt_ephemeralCallbacksDisabled r
                    \<and> (bb_progress b \<noteq> None \<or> bb_then b \<noteq> None \<or> bb_catch b \<noteq> None \<or> bb_finally b \<noteq> None)
                 then modify (\<lambda>e. e\<lparr>eg_batchCallbacks := (eg_batchCallbacks e)(batchID \<mapsto>
                        \<lparr>bc_progress = bb_progress b, bc_then = bb_then b, bc_catch = bb_catch b, bc_finally = bb_finally b\<rparr>)\<rparr>)
                 else State_Monad.return ());
                eid \<leftarrow> newID r ''evt'';
                t \<leftarrow> now r;
                emit r ctx ((with_job r (bj_Job (hd jobs)) (new_event EventBatchStarted eid t))
                  \<lparr>ev_DispatchID := dispatchID, ev_BatchID := batchID\<rparr>);
                err \<leftarrow> dispatch_members r ctx (bb_allowFailed b) batchID dispatchID None jobs;
                State_Monad.return (batchID, err)
              }
          }
      })"

section \<open>Physical deliveries\<close>

text \<open>The handlers the engine registers on the queue, by delivery type; an application
  type is delivered directly when it has a handler.\<close>

definition deliver :: "('s, 'x) runtime \<Rightarrow> dctx \<Rightarrow> string \<Rightarrow> bytes \<Rightarrow> ('s, 'x) eng option" where
  "deliver r ctx jobType payload =
     (if jobType = DirectDeliveryType then Some (handleInternalJob r ctx payload)
      else if jobType = ChainNodeDeliveryType then Some (handleInternalChainNode r ctx payload)
      else if jobType = BatchJobDeliveryType then Some (handleInternalBatchJob r ctx payload)
      else if jobType = CallbackDeliveryType then Some (handleInternalCallback r ctx payload)
      else if rt_BusDispatchDirect r \<noteq> None \<and> rt_handlers r jobType \<noteq> None
      then Some (handleDirectJob r ctx jobType payload) else None)"

end
