(* ===== verification/Framing.thy ===== *)
theory Framing
  imports BatchEngine
begin

text \<open>
  Injectivity of the identities the engine derives: decimal numbers, length-framed
  values, the stored-job fingerprint of a transition receipt, and the deterministic
  identifiers of workflow facts. The hash function stays a parameter; the theorems say
  that two different identities have different digests as long as the hash does not
  collide on the two framed inputs.
\<close>

section \<open>Decimal numbers\<close>

fun digits_val :: "nat \<Rightarrow> string \<Rightarrow> nat" where
  "digits_val acc [] = acc"
| "digits_val acc (c # cs) = digits_val (10 * acc + (of_char c - 48)) cs"

lemma digits_val_append: "digits_val acc (xs @ ys) = digits_val (digits_val acc xs) ys"
  by (induction acc xs rule: digits_val.induct) simp_all

lemma of_char_digit: "d < 10 \<Longrightarrow> (of_char (char_of (48 + d :: nat)) :: nat) = 48 + d"
  by simp

lemma digits_val_nat_str: "digits_val 0 (nat_str n) = n"
proof (induction n rule: nat_str.induct)
  case (1 n)
  show ?case
  proof (cases "n < 10")
    case True
    then show ?thesis by (subst nat_str.simps) simp
  next
    case False
    then show ?thesis using 1 by (subst nat_str.simps) (simp add: digits_val_append)
  qed
qed

lemma nat_str_inject [simp]: "nat_str m = nat_str n \<longleftrightarrow> m = n"
  by (metis digits_val_nat_str)

lemma nat_str_hd: "\<exists>d < 10. \<exists>cs. nat_str n = char_of (48 + d :: nat) # cs"
proof (induction n rule: nat_str.induct)
  case (1 n)
  show ?case
  proof (cases "n < 10")
    case True
    then show ?thesis by (subst nat_str.simps) auto
  next
    case False
    then obtain d cs where "d < 10" "nat_str (n div 10) = char_of (48 + d :: nat) # cs" using 1 by blast
    then show ?thesis using False by (subst nat_str.simps) auto
  qed
qed

lemma nat_str_not_minus: "nat_str n \<noteq> CHR ''-'' # cs"
proof
  assume "nat_str n = CHR ''-'' # cs"
  then obtain d where d: "d < 10" "char_of (48 + d :: nat) = CHR ''-''" using nat_str_hd [of n] by auto
  then have "(of_char (char_of (48 + d :: nat)) :: nat) = of_char CHR ''-''" by simp
  then have "48 + d = (45 :: nat)" using of_char_digit [OF d(1)] by simp
  then show False by simp
qed

lemma int_str_inject [simp]: "int_str i = int_str j \<longleftrightarrow> i = j"
  using nat_str_not_minus by (auto simp: int_str_def dest: sym split: if_splits)

section \<open>Length framing\<close>

lemma length_put_uint64 [simp]: "length (put_uint64 w) = 8"
  by (simp add: put_uint64_def)

lemma word_byte_bits:
  fixes v w :: "64 word"
  assumes "unat (drop_bit (8 * i) v) mod 256 = unat (drop_bit (8 * i) w) mod 256" "n < 8"
  shows "bit v (8 * i + n) = bit w (8 * i + n)"
proof -
  have b: "bit x (8 * i + n) = bit (unat (drop_bit (8 * i) x) mod 256) n" for x :: "64 word"
  proof -
    have "(unat (drop_bit (8 * i) x)) mod 256 = take_bit 8 (unat (drop_bit (8 * i) x))"
      by (simp add: take_bit_eq_mod)
    then show ?thesis using assms(2) by (simp add: bit_take_bit_iff bit_unsigned_iff bit_drop_bit_eq add.commute)
  qed
  show ?thesis using assms(1) by (simp only: b)
qed

lemma put_uint64_inject [simp]: "put_uint64 v = put_uint64 w \<longleftrightarrow> v = w"
proof
  assume e: "put_uint64 v = put_uint64 w"
  have all: "\<forall>i \<in> set [7, 6, 5, 4, 3, 2, 1, 0].
      (char_of (unat (drop_bit (8 * i) v) mod 256) :: char) = char_of (unat (drop_bit (8 * i) w) mod 256)"
    using e unfolding put_uint64_def map_eq_conv .
  have byte: "unat (drop_bit (8 * i) v) mod 256 = unat (drop_bit (8 * i) w) mod 256" if "i < 8" for i
  proof -
    have "i \<in> set [7, 6, 5, 4, 3, 2, 1, 0]" using that by auto
    from bspec [OF all this] have "(of_char (char_of (unat (drop_bit (8 * i) v) mod 256) :: char) :: nat) =
        of_char (char_of (unat (drop_bit (8 * i) w) mod 256) :: char)" by simp
    then show ?thesis by (simp only: of_char_of mod_mod_trivial)
  qed
  show "v = w"
  proof (rule bit_word_eqI)
    fix n assume "n < LENGTH(64)"
    then have "n div 8 < 8" "n mod 8 < 8" by auto
    from word_byte_bits [OF byte [OF this(1)] this(2)] show "bit v n = bit w n" by simp
  qed
qed simp

lemma frame_cons: "frame_values (v # vs) = put_uint64 (of_nat (length v)) @ v @ frame_values vs"
  by (simp add: frame_values_def)

lemma of_nat_64_inject:
  assumes "m < 2 ^ 64" "n < 2 ^ 64" "(of_nat m :: 64 word) = of_nat n"
  shows "m = n"
proof -
  have u: "unat (of_nat k :: 64 word) = k" if "k < 2 ^ 64" for k
    using that by (simp add: unsigned_of_nat take_bit_nat_eq_self)
  have "unat (of_nat m :: 64 word) = unat (of_nat n :: 64 word)" using assms(3) by simp
  then show ?thesis using u [OF assms(1)] u [OF assms(2)] by simp
qed

lemma frame_values_inject:
  assumes "\<forall>v \<in> set xs. length v < 2 ^ 64" "\<forall>v \<in> set ys. length v < 2 ^ 64" "frame_values xs = frame_values ys"
  shows "xs = ys"
  using assms
proof (induction xs arbitrary: ys)
  case Nil
  then show ?case by (cases ys) (auto simp: frame_values_def dest: arg_cong [where f = length])
next
  case (Cons x xs)
  have "ys \<noteq> []" using Cons.prems(3) by (auto simp: frame_values_def dest: arg_cong [where f = length])
  then obtain y ys' where ys: "ys = y # ys'" by (cases ys) auto
  have e: "put_uint64 (of_nat (length x)) @ x @ frame_values xs = put_uint64 (of_nat (length y)) @ y @ frame_values ys'"
    using Cons.prems(3) ys by (simp add: frame_cons)
  then have h: "put_uint64 (of_nat (length x)) = put_uint64 (of_nat (length y))" "x @ frame_values xs = y @ frame_values ys'"
    by (auto simp: append_eq_append_conv)
  have "length x = length y"
    using h(1) Cons.prems ys by (intro of_nat_64_inject) auto
  then have "x = y" "frame_values xs = frame_values ys'" using h(2) by (auto simp: append_eq_append_conv)
  then show ?case using Cons.IH [of ys'] Cons.prems ys by simp
qed

section \<open>Digests\<close>

lemma hex_digit_inject: "m < 16 \<Longrightarrow> n < 16 \<Longrightarrow> hex_digit m = hex_digit n \<longleftrightarrow> m = n"
proof
  assume h: "m < 16" "n < 16" "hex_digit m = hex_digit n"
  then have "(of_char (hex_digit m) :: nat) = of_char (hex_digit n)" by simp
  then show "m = n" using h(1,2) by (auto simp: hex_digit_def split: if_splits)
qed simp

lemma hex_encode_inject [simp]: "hex_encode xs = hex_encode ys \<longleftrightarrow> xs = ys"
proof
  show "hex_encode xs = hex_encode ys \<Longrightarrow> xs = ys"
  proof (induction xs arbitrary: ys)
    case Nil
    then show ?case by (cases ys) (auto simp: hex_encode_def)
  next
    case (Cons x xs)
    then obtain y ys' where ys: "ys = y # ys'" by (cases ys) (auto simp: hex_encode_def)
    have lt: "(of_char c :: nat) div 16 < 16" "(of_char c :: nat) mod 16 < 16" for c :: char
      using nat_of_char_less_256 [of c] less_mult_imp_div_less [of "of_char c :: nat" 16 16] by linarith+
    have "(of_char x :: nat) div 16 = of_char y div 16" "(of_char x :: nat) mod 16 = of_char y mod 16"
        "hex_encode xs = hex_encode ys'"
      using Cons.prems ys hex_digit_inject [OF lt(1) [of x] lt(1) [of y]] hex_digit_inject [OF lt(2) [of x] lt(2) [of y]]
      by (simp_all add: hex_encode_def)
    moreover have "(of_char x :: nat) = of_char y"
      using calculation(1,2) by (metis div_mod_decomp)
    ultimately show ?case using Cons.IH ys by simp
  qed
qed simp

lemma fingerprint_values_inject [simp]: "fingerprint_values a = fingerprint_values b \<longleftrightarrow> a = b"
proof
  assume "fingerprint_values a = fingerprint_values b"
  then show "a = b"
    by (cases a; cases b; cases "sj_Options a"; cases "sj_Options b") (auto simp: fingerprint_values_def)
qed simp

text \<open>Every Go string is shorter than this bound.\<close>

definition short_values :: "string list \<Rightarrow> bool" where
  "short_values vs \<longleftrightarrow> (\<forall>v \<in> set vs. length v < 2 ^ 64)"

lemma short_valuesI: "list_all (\<lambda>v. length v < 100) vs \<Longrightarrow> short_values vs"
  by (fastforce simp: short_values_def list_all_iff)

text \<open>A configuration with an identity hash and a store in memory, for examples.\<close>

definition sample_runtime :: "(memory_store, unit) runtime" where
  "sample_runtime = \<lparr>rt_store = memory_iface, rt_now = int, rt_ids = nat_str, rt_observer = True,
     rt_handlers = Map.empty, rt_middlewares = [], rt_ephemeralCallbacksDisabled = False,
     rt_BusDispatch = (\<lambda>ctx t p opts. State_Monad.return None), rt_BusDispatchDirect = None,
     rt_marshal = (\<lambda>env. Inr []), rt_unmarshal = (\<lambda>p. Inl (ErrNew ''no envelope'')),
     rt_sha256 = (\<lambda>x. x), rt_sha1 = (\<lambda>x. x),
     rt_chainCatch = (\<lambda>n ctx st err. State_Monad.return (Returned None)),
     rt_chainFinally = (\<lambda>n ctx st. State_Monad.return (Returned None)),
     rt_batchHook = (\<lambda>n ctx st. State_Monad.return (Returned None)),
     rt_batchCatch = (\<lambda>n ctx st err. State_Monad.return (Returned None))\<rparr>"

section \<open>Properties\<close>

text \<open>C10. The fingerprint a transition receipt keeps identifies the stored job: if the
  hash does not collide on the two framed inputs, two jobs have the same fingerprint
  exactly when they agree in type, payload and every delivery option. So recovery never
  accepts the receipt of a different job.\<close>

theorem fingerprint_identifies_job:
  assumes "short_values (fingerprint_values a)" "short_values (fingerprint_values b)"
    "rt_sha256 r (frame_values (fingerprint_values a)) = rt_sha256 r (frame_values (fingerprint_values b))
     \<Longrightarrow> frame_values (fingerprint_values a) = frame_values (fingerprint_values b)"
  shows "storedJobReceiptFingerprint r a = storedJobReceiptFingerprint r b \<longleftrightarrow> a = b"
  using assms frame_values_inject [of "fingerprint_values a" "fingerprint_values b"]
  by (auto simp: storedJobReceiptFingerprint_def short_values_def)

theorem fingerprint_identifies_job_witness:
  "storedJobReceiptFingerprint sample_runtime sample_job
   \<noteq> storedJobReceiptFingerprint sample_runtime (sample_job\<lparr>sj_Payload := ''[]''\<rparr>)"
proof -
  let ?b = "sample_job\<lparr>sj_Payload := ''[]''\<rparr>"
  have "short_values (fingerprint_values sample_job)" "short_values (fingerprint_values ?b)"
    by (rule short_valuesI, code_simp)+
  moreover have "rt_sha256 sample_runtime x = rt_sha256 sample_runtime y \<Longrightarrow> x = y" for x y
    by (simp add: sample_runtime_def)
  ultimately have "storedJobReceiptFingerprint sample_runtime sample_job = storedJobReceiptFingerprint sample_runtime ?b
      \<longleftrightarrow> sample_job = ?b"
    by (intro fingerprint_identifies_job) blast+
  moreover have "sample_job \<noteq> ?b" by code_simp
  ultimately show ?thesis by simp
qed

text \<open>C11. The deterministic identifier of a workflow fact conflates no two facts: if
  the truncated hash does not collide on the two framed inputs, equal identifiers mean
  the same event kind and the same list of identity values, however the values are
  split.\<close>

theorem fact_id_identifies_fact:
  assumes "short_values xs" "short_values ys"
    "take 16 (rt_sha256 r (frame_values (int_str eventSchemaVersion # event_kind_text k # xs))) =
       take 16 (rt_sha256 r (frame_values (int_str eventSchemaVersion # event_kind_text k' # ys)))
     \<Longrightarrow> frame_values (int_str eventSchemaVersion # event_kind_text k # xs) =
         frame_values (int_str eventSchemaVersion # event_kind_text k' # ys)"
  shows "stableWorkflowFactID r k xs = stableWorkflowFactID r k' ys \<longleftrightarrow> k = k' \<and> xs = ys"
proof
  assume "stableWorkflowFactID r k xs = stableWorkflowFactID r k' ys"
  then have e: "frame_values (int_str eventSchemaVersion # event_kind_text k # xs) =
      frame_values (int_str eventSchemaVersion # event_kind_text k' # ys)"
    using assms(3) by (simp add: stableWorkflowFactID_def)
  have s: "length (int_str eventSchemaVersion) < 2 ^ 64"
    by (simp add: eventSchemaVersion_def int_str_def nat_str.simps)
  have t: "length (event_kind_text x) < 2 ^ 64" for x by (cases x) simp_all
  have "int_str eventSchemaVersion # event_kind_text k # xs = int_str eventSchemaVersion # event_kind_text k' # ys"
    using e by (rule frame_values_inject [rotated 2]) (use assms(1,2) s t in \<open>auto simp: short_values_def\<close>)
  then have "event_kind_text k = event_kind_text k'" "xs = ys" by simp_all
  then show "k = k' \<and> xs = ys" by (cases k; cases k') simp_all
qed simp

theorem fact_id_identifies_fact_witness:
  "stableWorkflowFactID (sample_runtime\<lparr>rt_sha256 := rev\<rparr>) EventChainAdvanced [''a'']
   \<noteq> stableWorkflowFactID (sample_runtime\<lparr>rt_sha256 := rev\<rparr>) EventChainAdvanced [''b'']"
proof -
  let ?r = "sample_runtime\<lparr>rt_sha256 := rev\<rparr>"
  have "short_values [''a'']" "short_values [''b'']" by (rule short_valuesI, code_simp)+
  moreover have "take 16 (rt_sha256 ?r (frame_values (int_str eventSchemaVersion # event_kind_text EventChainAdvanced # [''a''])))
      \<noteq> take 16 (rt_sha256 ?r (frame_values (int_str eventSchemaVersion # event_kind_text EventChainAdvanced # [''b''])))"
    by code_simp
  ultimately have "stableWorkflowFactID ?r EventChainAdvanced [''a''] = stableWorkflowFactID ?r EventChainAdvanced [''b'']
      \<longleftrightarrow> EventChainAdvanced = EventChainAdvanced \<and> [''a''] = [''b'']"
    by (intro fact_id_identifies_fact) blast+
  then show ?thesis by simp
qed

end
