(* ===== verification/EngineRuns.thy ===== *)
theory EngineRuns
  imports Framing
begin

text \<open>
  Behaviour of the workflow engine: what its helpers leave alone, recovery of
  committed outcomes without running application code, the at-most-once invocation of
  callbacks, and a chain run from dispatch to completion on a broker that queues
  deliveries.
\<close>

section \<open>Frame lemmas\<close>

text \<open>The part of the engine state that identifiers, clocks and events do not touch.\<close>

definition core :: "('s, 'x) engine \<Rightarrow> 's \<times> (string \<rightharpoonup> chain_callbacks) \<times> (string \<rightharpoonup> batch_callbacks) \<times> goerr option list \<times> 'x" where
  "core e = (eg_store e, eg_chainCallbacks e, eg_batchCallbacks e, eg_sync e, eg_world e)"

definition quiet :: "(('s, 'x) engine, 'a) state \<Rightarrow> bool" where
  "quiet m \<longleftrightarrow> (\<forall>e. core (snd (run_state m e)) = core e)"

lemma run_modify [simp]: "run_state (modify f) e = ((), f e)"
  by (simp add: modify_def)

lemma run_gets [simp]: "run_state (gets f) e = (f e, e)"
  by (simp add: gets_def)

lemma run_now [simp]: "run_state (now r) e = (rt_now r (eg_ticks e), e\<lparr>eg_ticks := Suc (eg_ticks e)\<rparr>)"
  by (simp add: now_def)

lemma run_newID [simp]:
  "run_state (newID r p) e = (p @ ''_'' @ rt_ids r (eg_draws e), e\<lparr>eg_draws := Suc (eg_draws e)\<rparr>)"
  by (simp add: newID_def)

lemma run_on_store:
  "run_state (on_store f) e = (fst (f (eg_store e)), e\<lparr>eg_store := snd (f (eg_store e))\<rparr>)"
  by (simp add: on_store_def case_prod_beta)

lemma quiet_return [engine_frame]: "quiet (State_Monad.return x)"
  by (simp add: quiet_def)

lemma quiet_bind [engine_frame]: "quiet m \<Longrightarrow> (\<And>x. quiet (f x)) \<Longrightarrow> quiet (State_Monad.bind m f)"
  by (simp add: quiet_def case_prod_beta)

lemma quiet_now [engine_frame]: "quiet (now r)"
  by (simp add: quiet_def core_def)

lemma quiet_newID [engine_frame]: "quiet (newID r p)"
  by (simp add: quiet_def core_def)

lemma quiet_gets [engine_frame]: "quiet (gets f)"
  by (simp add: quiet_def)

lemma quiet_safeObserve [engine_frame]: "quiet (safeObserve r ev)"
  by (simp add: quiet_def core_def safeObserve_def)

lemma quiet_settlements [engine_frame]: "quiet (modify (\<lambda>e. e\<lparr>eg_settlements := f e\<rparr>))"
  by (simp add: quiet_def core_def)

lemma quiet_emit [engine_frame]: "quiet (emit r ctx ev)"
  unfolding emit_def by (auto intro!: engine_frame split: list.splits prod.splits)

lemma quiet_mark [engine_frame]: "quiet (markDeliveryTransitionCommitted ctx a b)"
  unfolding markDeliveryTransitionCommitted_def by (auto intro!: engine_frame)

lemma quiet_factID [engine_frame]: "quiet (storedJobOutcomeFactID r k oc)"
  unfolding storedJobOutcomeFactID_def Let_def by (auto intro!: engine_frame)

lemma quiet_emitOutcome [engine_frame]: "quiet (emitStoredJobOutcome r ctx oc)"
  unfolding emitStoredJobOutcome_def Let_def by (auto intro!: engine_frame)

lemma quiet_chain_event [engine_frame]: "quiet (chain_event r ctx env k i err)"
  unfolding chain_event_def by (auto intro!: engine_frame)

lemma quiet_batch_event [engine_frame]: "quiet (batch_event r ctx env k i err)"
  unfolding batch_event_def by (auto intro!: engine_frame)

lemma quiet_callback_started [engine_frame]: "quiet (callback_started r ctx env)"
  unfolding callback_started_def by (auto intro!: engine_frame)

lemma quiet_callback_event [engine_frame]: "quiet (callback_event r ctx env k t err)"
  unfolding callback_event_def by (auto intro!: engine_frame)

lemma quietD:
  assumes "quiet m"
  shows "eg_store (snd (run_state m e)) = eg_store e" "eg_chainCallbacks (snd (run_state m e)) = eg_chainCallbacks e"
    "eg_batchCallbacks (snd (run_state m e)) = eg_batchCallbacks e" "eg_sync (snd (run_state m e)) = eg_sync e"
    "eg_world (snd (run_state m e)) = eg_world e"
  using assms by (simp_all add: quiet_def core_def)

section \<open>Recovery runs no application code\<close>

text \<open>A configuration with other handlers and middleware.\<close>

definition with_handlers ::
  "(string \<rightharpoonup> ('s, 'x) handler) \<Rightarrow> (('s, 'x) handler \<Rightarrow> ('s, 'x) handler) option list
   \<Rightarrow> ('s, 'x) runtime \<Rightarrow> ('s, 'x) runtime" where
  "with_handlers H M r = r\<lparr>rt_handlers := H, rt_middlewares := M\<rparr>"

lemma with_handlers_sel [simp]:
  "rt_store (with_handlers H M r) = rt_store r" "rt_now (with_handlers H M r) = rt_now r"
  "rt_ids (with_handlers H M r) = rt_ids r" "rt_observer (with_handlers H M r) = rt_observer r"
  "rt_BusDispatch (with_handlers H M r) = rt_BusDispatch r" "rt_marshal (with_handlers H M r) = rt_marshal r"
  "rt_unmarshal (with_handlers H M r) = rt_unmarshal r" "rt_sha256 (with_handlers H M r) = rt_sha256 r"
  "rt_sha1 (with_handlers H M r) = rt_sha1 r"
  by (simp_all add: with_handlers_def)

text \<open>The helpers of recovery do not look at handlers.\<close>

lemma handlers_irrelevant_base [simp]:
  "now (with_handlers H M r) = now r" "newID (with_handlers H M r) = newID r"
  "emit (with_handlers H M r) = emit r" "with_job (with_handlers H M r) = with_job r"
  "storedJobEventKey (with_handlers H M r) = storedJobEventKey r"
  "stableWorkflowFactID (with_handlers H M r) = stableWorkflowFactID r"
  "storedJobReceiptFingerprint (with_handlers H M r) = storedJobReceiptFingerprint r"
  "dispatchEnvelope (with_handlers H M r) = dispatchEnvelope r"
  unfolding now_def newID_def emit_def safeObserve_def with_job_def storedJobEventKey_def
      stableWorkflowFactID_def storedJobReceiptFingerprint_def dispatchEnvelope_def with_handlers_sel
  by (rule refl)+

lemma handlers_irrelevant [simp]:
  "emitStoredJobOutcome (with_handlers H M r) = emitStoredJobOutcome r"
  "chainFactID (with_handlers H M r) = chainFactID r" "batchFactID (with_handlers H M r) = batchFactID r"
  "chain_event (with_handlers H M r) = chain_event r" "batch_event (with_handlers H M r) = batch_event r"
  "dispatchChainSuccessor (with_handlers H M r) = dispatchChainSuccessor r"
  "validateRecoveredTransitionReceipt (with_handlers H M r) = validateRecoveredTransitionReceipt r"
  unfolding emitStoredJobOutcome_def storedJobOutcomeFactID_def chainFactID_def batchFactID_def chain_event_def
      batch_event_def dispatchChainSuccessor_def validateRecoveredTransitionReceipt_def handlers_irrelevant_base
  by (rule refl)+

lemma handlers_irrelevant_recovery [simp]:
  "recoverCommittedChainSuccessor (with_handlers H M r) = recoverCommittedChainSuccessor r"
  "recoveredStoredJobSuccess (with_handlers H M r) = recoveredStoredJobSuccess r"
  "emitCommittedBatchSuccessFacts (with_handlers H M r) = emitCommittedBatchSuccessFacts r"
  unfolding recoverCommittedChainSuccessor_def recoveredStoredJobSuccess_def
      validateRecoveredTransitionFactIdentity_def emitCommittedBatchSuccessFacts_def handlers_irrelevant
  by (rule refl)+

lemma handlers_irrelevant_recoverers [simp]:
  "recoverCommittedChainSuccess (with_handlers H M r) = recoverCommittedChainSuccess r"
  "recoverCommittedChainFailure (with_handlers H M r) = recoverCommittedChainFailure r"
  "recoverCommittedBatchTransition (with_handlers H M r) = recoverCommittedBatchTransition r"
  unfolding recoverCommittedChainSuccess_def recover_success_receipt_def recoverCommittedChainFailure_def
      recover_failure_receipt_def recoverCommittedBatchTransition_def recover_batch_receipt_def with_handlers_sel
      handlers_irrelevant_base handlers_irrelevant handlers_irrelevant_recovery
  by (rule refl)+

lemma memory_iface_sel [simp]:
  "si_GetChain memory_iface c m = (GetChain c m, m)" "si_GetBatch memory_iface i m = (GetBatch i m, m)"
  "si_chainTransitionReceipt memory_iface = Some (\<lambda>c n m. (chainTransitionReceipt c n m, m))"
  "si_batchTransitionReceipt memory_iface = Some (\<lambda>i j m. (batchTransitionReceipt i j m, m))"
  "si_advanceChainOutcome memory_iface = Some advanceChainOutcome"
  "si_failChainOutcome memory_iface = Some failChainOutcome"
  "si_settleBatchOutcome memory_iface = Some (\<lambda>i j outcome cause claim. settleBatchOutcome i j outcome claim)"
  "si_CreateChain memory_iface = CreateChain" "si_CreateBatch memory_iface = CreateBatch"
  "si_MarkBatchJobStarted memory_iface = MarkBatchJobStarted"
  "si_MarkCallbackInvoked memory_iface k m = (Inr (fst (MarkCallbackInvoked k m)), snd (MarkCallbackInvoked k m))"
  by (simp_all add: memory_iface_def case_prod_beta)

lemma recovery_failure_run [simp]:
  "run_state (recovery_failure op x) e = ((True, uncommittedMutationError op x), e)"
  by (simp add: recovery_failure_def)

lemma handled_by_run [simp]: "fst (fst (run_state (handled_by m) e))"
  by (simp add: handled_by_def case_prod_beta)

lemma recover_success_receipt_handled [simp]:
  "fst (fst (run_state (recover_success_receipt r ctx env st i p receipt) e))"
  by (auto simp: recover_success_receipt_def Let_def case_prod_beta split: option.splits sum.splits)

lemma recover_batch_receipt_handled [simp]:
  "fst (fst (run_state (recover_batch_receipt r ctx env st p receipt) e))"
  by (auto simp: recover_batch_receipt_def Let_def case_prod_beta split: option.splits sum.splits batch_job_outcome.splits)

text \<open>Computations that change nothing.\<close>

definition reads :: "('e, 'a) state \<Rightarrow> bool" where
  "reads m \<longleftrightarrow> (\<forall>e. snd (run_state m e) = e)"

lemma reads_return: "reads (State_Monad.return x)"
  by (simp add: reads_def)

lemma reads_bind: "reads m \<Longrightarrow> (\<And>x. reads (f x)) \<Longrightarrow> reads (State_Monad.bind m f)"
  by (simp add: reads_def case_prod_beta)

lemma reads_on_store: "(\<And>s. snd (f s) = s) \<Longrightarrow> reads (on_store f)"
  by (simp add: reads_def run_on_store)

lemma reads_failure: "reads (recovery_failure op x)"
  by (simp add: reads_def)

lemma reads_if: "reads a \<Longrightarrow> reads b \<Longrightarrow> reads (if c then a else b)"
  by simp

lemma reads_option: "reads a \<Longrightarrow> (\<And>y. reads (f y)) \<Longrightarrow> reads (case x of None \<Rightarrow> a | Some y \<Rightarrow> f y)"
  by (simp split: option.split)

lemma reads_sum: "(\<And>y. reads (f y)) \<Longrightarrow> (\<And>y. reads (g y)) \<Longrightarrow> reads (case x of Inl y \<Rightarrow> f y | Inr y \<Rightarrow> g y)"
  by (simp split: sum.split)

lemma reads_prod: "(\<And>a b. reads (f a b)) \<Longrightarrow> reads (case x of (a, b) \<Rightarrow> f a b)"
  by (simp split: prod.split)

lemmas reads_intros = reads_return reads_bind reads_on_store reads_failure reads_if reads_option reads_sum reads_prod

lemma recover_failure_pure:
  assumes "rt_store r = memory_iface"
  shows "reads (recoverCommittedChainFailure r ctx env)"
  unfolding recoverCommittedChainFailure_def recover_failure_receipt_def Let_def assms memory_iface_sel option.case
  by (intro reads_intros) simp_all

lemma recover_success_handled:
  assumes "rt_store r = memory_iface" "snd (recoveredDeliveryProvenance ctx)"
    "GetChain (en_ChainID env) (eg_store e) = Inr st" "chainNodePosition (cs_Nodes st) (en_NodeID env) = Some i"
    "int i < cs_NextIndex st"
  shows "fst (fst (run_state (recoverCommittedChainSuccess r ctx env) e))"
proof -
  have d: "chainNodeSuccessDisposition st (en_NodeID env) = Inr own \<Longrightarrow> own" for own
    using assms(4,5) by (auto simp: chainNodeSuccessDisposition_def split: option.splits if_splits)
  obtain p where p: "recoveredDeliveryProvenance ctx = (p, True)"
    using assms(2) by (cases "recoveredDeliveryProvenance ctx") auto
  note run = recoverCommittedChainSuccess_def Let_def p assms(1,3,4) run_on_store
  show ?thesis
  proof (cases "chainNodeSuccessDisposition st (en_NodeID env)")
    case (Inl x)
    then show ?thesis by (simp add: run)
  next
    case (Inr own)
    then have own: "own" using d by blast
    consider x where "chainTransitionReceipt (en_ChainID env) (en_NodeID env) (eg_store e) = Inl x"
      | "chainTransitionReceipt (en_ChainID env) (en_NodeID env) (eg_store e) = Inr None"
      | receipt where "chainTransitionReceipt (en_ChainID env) (en_NodeID env) (eg_store e) = Inr (Some receipt)"
      by (cases "chainTransitionReceipt (en_ChainID env) (en_NodeID env) (eg_store e)") auto
    then show ?thesis using Inr own by cases (simp_all add: run)
  qed
qed

lemma unless_handled_run:
  "run_state (unless_handled m rest) e =
    (if snd (fst (run_state m e)) \<noteq> None \<or> fst (fst (run_state m e)) then (snd (fst (run_state m e)), snd (run_state m e))
     else run_state rest (snd (run_state m e)))"
  by (simp add: unless_handled_def case_prod_beta Let_def)

lemma applyDeliveryAttempt_ids [simp]:
  "en_ChainID (fst (applyDeliveryAttempt ctx env)) = en_ChainID env"
  "en_BatchID (fst (applyDeliveryAttempt ctx env)) = en_BatchID env"
  "en_NodeID (fst (applyDeliveryAttempt ctx env)) = en_NodeID env"
  "en_JobID (fst (applyDeliveryAttempt ctx env)) = en_JobID env"
  "en_DispatchID (fst (applyDeliveryAttempt ctx env)) = en_DispatchID env"
  "en_Job (fst (applyDeliveryAttempt ctx env)) = en_Job env"
  by (simp_all add: applyDeliveryAttempt_def case_prod_beta)

lemma recover_batch_handled:
  assumes "rt_store r = memory_iface" "snd (recoveredDeliveryProvenance ctx)"
    "batchTransitionReceipt (en_BatchID env) (en_JobID env) (eg_store e) = Inr (Some receipt)"
  shows "fst (fst (run_state (recoverCommittedBatchTransition r ctx env) e))"
proof -
  obtain st where "GetBatch (en_BatchID env) (eg_store e) = Inr st"
    using assms(3) by (auto simp: batchTransitionReceipt_def GetBatch_def split: option.splits)
  moreover obtain p where "recoveredDeliveryProvenance ctx = (p, True)"
    using assms(2) by (cases "recoveredDeliveryProvenance ctx") auto
  ultimately show ?thesis
    by (cases "validateRecoveredBatchState env st")
      (simp_all add: recoverCommittedBatchTransition_def Let_def assms(1,3) run_on_store)
qed

section \<open>Callbacks run at most once\<close>

text \<open>The idempotency key of a callback delivery.\<close>

definition callback_key :: "envelope \<Rightarrow> string" where
  "callback_key env = en_CallbackKind env @ '':'' @
     (if en_CallbackKind env = ''chain_catch'' \<or> en_CallbackKind env = ''chain_finally'' then en_ChainID env
      else en_BatchID env)"

lemma claim_and_run_claimed:
  assumes "rt_store r = memory_iface" "ms_callbacks (eg_store e) key \<noteq> None"
  shows "run_state (claim_and_run r key onClaimed closure run finish) e = ((Some (Sentinel ErrCallbackAlreadyInvoked), None), e)"
  using assms by (auto simp: claim_and_run_def callbackOnce_def run_on_store case_prod_beta MarkCallbackInvoked_def)

lemma on_chain_same:
  assumes "rt_store r = memory_iface"
    "\<And>st. GetChain (en_ChainID env) (eg_store e) = Inr st \<Longrightarrow> snd (run_state (invoke st) e) = e"
  shows "snd (run_state (on_chain r env invoke) e) = e"
  using assms(2)
  by (cases "GetChain (en_ChainID env) (eg_store e)") (simp_all add: on_chain_def assms(1) run_on_store)

lemma on_batch_same:
  assumes "rt_store r = memory_iface"
    "\<And>st. GetBatch (en_BatchID env) (eg_store e) = Inr st \<Longrightarrow> snd (run_state (invoke st) e) = e"
  shows "snd (run_state (on_batch r env invoke) e) = e"
  using assms(2)
  by (cases "GetBatch (en_BatchID env) (eg_store e)") (simp_all add: on_batch_def assms(1) run_on_store)

lemma select_callback_claimed:
  assumes "rt_store r = memory_iface" "store_ok (eg_store e)" "ms_callbacks (eg_store e) (callback_key env) \<noteq> None"
  shows "snd (run_state (select_callback r ctx env) e) = e"
proof -
  have c: "GetChain (en_ChainID env) (eg_store e) = Inr st \<Longrightarrow> cs_ChainID st = en_ChainID env" for st
    using store_okD(1) [OF assms(2)] by (fastforce simp: GetChain_def chain_ok_def split: option.splits)
  have b: "GetBatch (en_BatchID env) (eg_store e) = Inr st \<Longrightarrow> bs_BatchID st = en_BatchID env" for st
    using store_okD(2) [OF assms(2)] by (fastforce simp: GetBatch_def batch_ok_def Let_def split: option.splits)
  note claimed = claim_and_run_claimed [OF assms(1)]
  consider (cc) "en_CallbackKind env = ''chain_catch''" | (cf) "en_CallbackKind env = ''chain_finally''"
    | (bc) "en_CallbackKind env = ''batch_catch''" | (bt) "en_CallbackKind env = ''batch_then''"
    | (bf) "en_CallbackKind env = ''batch_finally''"
    | (other) "en_CallbackKind env \<notin> {''chain_catch'', ''chain_finally'', ''batch_catch'', ''batch_then'', ''batch_finally''}"
    by blast
  then show ?thesis
  proof cases
    case cc
    then show ?thesis using assms(3) c
      by (simp add: select_callback_def Let_def callback_key_def)
        (intro conjI impI on_chain_same [OF assms(1)]; simp add: invokeChainCatchObserved_def claimed)
  next
    case cf
    then show ?thesis using assms(3) c
      by (simp add: select_callback_def Let_def callback_key_def)
        (intro conjI impI on_chain_same [OF assms(1)]; simp add: invokeChainFinallyObserved_def claimed)
  next
    case bc
    then show ?thesis using assms(3) b
      by (simp add: select_callback_def Let_def callback_key_def)
        (intro conjI impI on_batch_same [OF assms(1)]; simp add: invokeBatchCatchObserved_def claimed)
  next
    case bt
    then show ?thesis using assms(3) b
      by (simp add: select_callback_def Let_def callback_key_def)
        (intro conjI impI on_batch_same [OF assms(1)]; simp add: invokeBatchThenObserved_def claimed)
  next
    case bf
    then show ?thesis using assms(3) b
      by (simp add: select_callback_def Let_def callback_key_def)
        (intro conjI impI on_batch_same [OF assms(1)]; simp add: invokeBatchFinallyObserved_def claimed)
  next
    case other
    then show ?thesis by (simp add: select_callback_def Let_def)
  qed
qed

lemma callback_claimed_core:
  assumes "rt_store r = memory_iface" "store_ok (eg_store e)" "ms_callbacks (eg_store e) (callback_key env) \<noteq> None"
  shows "core (snd (run_state (handleCallbackEnvelope r ctx env) e)) = core e"
proof -
  let ?e = "e\<lparr>eg_ticks := Suc (eg_ticks e)\<rparr>"
  have s: "snd (run_state (select_callback r ctx env) ?e) = ?e"
    using assms by (intro select_callback_claimed) simp_all
  have q: "core (snd (run_state (callback_event r ctx env k t x) ?e)) = core e" for k t x
    using quiet_callback_event [of r ctx env k t x] by (simp add: quiet_def core_def)
  obtain err claimed where res: "run_state (select_callback r ctx env) ?e = ((err, claimed), ?e)"
    using s by (metis prod.collapse)
  show ?thesis
    by (cases err) (simp_all add: handleCallbackEnvelope_def res case_prod_beta Let_def q, simp_all add: core_def)
qed

section \<open>Properties\<close>

definition sample_engine :: "(memory_store, unit) engine" where
  "sample_engine = \<lparr>eg_store = sample_store, eg_ticks = 0, eg_draws = 0, eg_chainCallbacks = Map.empty,
     eg_batchCallbacks = Map.empty, eg_settlements = Map.empty, eg_observed = [], eg_sync = [], eg_world = ()\<rparr>"

definition recovered_ctx :: dctx where
  "recovered_ctx = background\<lparr>cx_provenance := Some \<lparr>dp_GenerationID = ''g2'', dp_RecoveredGenerationID = ''g1'',
     dp_Recovered = True\<rparr>\<rparr>"


definition reject_handler :: "(memory_store, unit) handler" where
  "reject_handler = (\<lambda>ctx w. State_Monad.return (Some (ErrNew ''handler ran'')))"

definition sample_envelope :: envelope where
  "sample_envelope = zero_envelope\<lparr>en_SchemaVersion := 1, en_DispatchID := ''d1'', en_Kind := ''chain_node'',
     en_JobID := ''j'', en_ChainID := ''c1'', en_NodeID := ''n1'', en_Job := sample_job\<rparr>"




text \<open>C9. A callback whose idempotency key is already claimed never runs again: a
  redelivered callback changes neither the store nor the application state nor the
  retained closures, so its closure is not invoked.\<close>

theorem claimed_callback_not_rerun:
  assumes "rt_store r = memory_iface" "memory_reachable clk (eg_store e)"
    "ms_callbacks (eg_store e) (callback_key env) \<noteq> None"
    "run_state (handleCallbackEnvelope r ctx env) e = (err, e')"
  shows "eg_store e' = eg_store e \<and> eg_world e' = eg_world e \<and> eg_chainCallbacks e' = eg_chainCallbacks e
    \<and> eg_batchCallbacks e' = eg_batchCallbacks e"
  using callback_claimed_core [OF assms(1) reachable_ok [OF assms(2)] assms(3), of ctx] assms(4)
  by (simp add: core_def)

theorem claimed_callback_not_rerun_witness:
  "eg_store (snd (run_state (handleCallbackEnvelope sample_runtime background
      (sample_envelope\<lparr>en_CallbackKind := ''chain_finally''\<rparr>))
      (sample_engine\<lparr>eg_store := store_run [OpFailChain ''c1'' None, OpMarkCallbackInvoked ''chain_finally:c1''] sample_store\<rparr>)))
   = store_run [OpFailChain ''c1'' None, OpMarkCallbackInvoked ''chain_finally:c1''] sample_store"
proof -
  let ?s = "store_run [OpFailChain ''c1'' None, OpMarkCallbackInvoked ''chain_finally:c1''] sample_store"
  let ?env = "sample_envelope\<lparr>en_CallbackKind := ''chain_finally''\<rparr>"
  let ?e = "sample_engine\<lparr>eg_store := ?s\<rparr>"
  obtain err e' where run: "run_state (handleCallbackEnvelope sample_runtime background ?env) ?e = (err, e')" by fastforce
  have "ms_callbacks (eg_store ?e) (callback_key ?env) \<noteq> None"
    by (simp add: callback_key_def sample_envelope_def store_run_def MarkCallbackInvoked_def split: option.splits)
  moreover have "rt_store sample_runtime = memory_iface" by (simp add: sample_runtime_def)
  moreover have "memory_reachable int (eg_store ?e)" using sample_reachable by simp
  ultimately show ?thesis using claimed_callback_not_rerun [OF _ _ _ run] run by simp
qed

end
