(* ===== verification/ChainRuns.thy ===== *)
theory ChainRuns
  imports EngineRuns "HOL-Library.Countable"
begin

text \<open>
  A chain from dispatch to its end on a broker that queues deliveries: every delivery
  the engine makes goes to the end of a queue, a worker takes deliveries from its front
  and hands them to the engine's handlers, and every job handler records that it ran.
\<close>

section \<open>The broker\<close>

record broker =
  bk_queue :: "(string \<times> bytes) list"
  bk_ran :: "(string \<times> bytes) list"

definition enqueue :: "dctx \<Rightarrow> string \<Rightarrow> bytes \<Rightarrow> job_options \<Rightarrow> (memory_store, broker) eng" where
  "enqueue ctx jobType payload opts = State (\<lambda>e. (None,
     e\<lparr>eg_world := (eg_world e)\<lparr>bk_queue := bk_queue (eg_world e) @ [(jobType, payload)]\<rparr>\<rparr>))"

definition logged :: "(string \<times> bytes \<Rightarrow> goerr option) \<Rightarrow> (memory_store, broker) handler" where
  "logged f ctx w = State (\<lambda>e. (f (wc_JobType w, PayloadBytes w),
     e\<lparr>eg_world := (eg_world e)\<lparr>bk_ran := bk_ran (eg_world e) @ [(wc_JobType w, PayloadBytes w)]\<rparr>\<rparr>))"

text \<open>The worker: at most \<open>n\<close> deliveries, first in first out.\<close>

fun drain :: "nat \<Rightarrow> (memory_store, broker) runtime \<Rightarrow> dctx \<Rightarrow> (memory_store, broker) engine \<Rightarrow> (memory_store, broker) engine" where
  "drain 0 r ctx e = e"
| "drain (Suc n) r ctx e = (case bk_queue (eg_world e) of [] \<Rightarrow> e
     | (jobType, payload) # rest \<Rightarrow>
        let e1 = e\<lparr>eg_world := (eg_world e)\<lparr>bk_queue := rest\<rparr>\<rparr>
        in drain n r ctx (case deliver r ctx jobType payload of None \<Rightarrow> e1 | Some m \<Rightarrow> snd (run_state m e1)))"

text \<open>A configuration on this broker: the in-memory store, handlers that record and
  answer \<open>f\<close>, a codec that reads back what it wrote, and identifiers that do not
  repeat.\<close>

definition queued_runtime :: "(string \<times> bytes \<Rightarrow> goerr option) \<Rightarrow> (memory_store, broker) runtime \<Rightarrow> bool" where
  "queued_runtime f r \<longleftrightarrow> rt_store r = memory_iface \<and> rt_BusDispatch r = enqueue
     \<and> rt_handlers r = (\<lambda>t. Some (logged f)) \<and> rt_middlewares r = []
     \<and> (\<forall>env. \<exists>p. rt_marshal r env = Inr p \<and> rt_unmarshal r p = Inr env) \<and> inj (rt_ids r)"

lemma queued_runtimeD:
  assumes "queued_runtime f r"
  shows "rt_store r = memory_iface" "rt_BusDispatch r = enqueue" "rt_handlers r t = Some (logged f)"
    "rt_middlewares r = []" "inj (rt_ids r)"
  using assms by (simp_all add: queued_runtime_def)

lemma codec:
  assumes "queued_runtime f r"
  obtains p where "rt_marshal r env = Inr p" "rt_unmarshal r p = Inr env"
  using assms by (auto simp: queued_runtime_def)

definition job_key :: "stored_job \<Rightarrow> string \<times> bytes" where
  "job_key job = (sj_Type job, sj_Payload job)"

section \<open>Running quiet steps\<close>

lemma quiet_run:
  assumes "quiet m"
  obtains x e' where "run_state m e = (x, e')" "core e' = core e"
  using assms unfolding quiet_def by (metis prod.collapse)

lemma quiet_unit:
  fixes m :: "(('s, 'x) engine, unit) state"
  assumes "quiet m"
  obtains e' where "run_state m e = ((), e')" "core e' = core e"
  using quiet_run [OF assms, of e] by (metis old.unit.exhaust)

lemma core_eq:
  "core e' = core e \<longleftrightarrow> eg_store e' = eg_store e \<and> eg_chainCallbacks e' = eg_chainCallbacks e
     \<and> eg_batchCallbacks e' = eg_batchCallbacks e \<and> eg_sync e' = eg_sync e \<and> eg_world e' = eg_world e"
  by (auto simp: core_def)

text \<open>A quiet step inside a computation: what follows may assume that it changed
  nothing that matters.\<close>

lemma quiet_bindI:
  assumes "quiet m" "\<And>x e'. core e' = core e \<Longrightarrow> P (run_state (f x) e')"
  shows "P (run_state (State_Monad.bind m f) e)"
  using quiet_run [OF assms(1), of e] assms(2) by (metis run_state_bind case_prod_conv)

definition log_job :: "stored_job \<Rightarrow> (memory_store, broker) engine \<Rightarrow> (memory_store, broker) engine" where
  "log_job job e = e\<lparr>eg_world := (eg_world e)\<lparr>bk_ran := bk_ran (eg_world e) @ [job_key job]\<rparr>\<rparr>"

lemma log_job_sel [simp]:
  "eg_store (log_job job e) = eg_store e" "eg_chainCallbacks (log_job job e) = eg_chainCallbacks e"
  "bk_queue (eg_world (log_job job e)) = bk_queue (eg_world e)"
  "bk_ran (eg_world (log_job job e)) = bk_ran (eg_world e) @ [job_key job]"
  by (simp_all add: log_job_def)

lemma execute_logged:
  assumes "queued_runtime f r"
  shows "\<exists>oc e'. run_state (executeStoredJobAttempt r ctx env) e = (oc, e') \<and> oc_err oc = f (job_key (en_Job env))
    \<and> oc_env oc = fst (applyDeliveryAttempt ctx env) \<and> core e' = core (log_job (en_Job env) e)"
proof -
  obtain env' a where env': "applyDeliveryAttempt ctx env = (env', a)" by fastforce
  then have job: "en_Job env' = en_Job env" using applyDeliveryAttempt_ids(6) [of ctx env] by simp
  show ?thesis
    unfolding executeStoredJobAttempt_def env' prod.case
    apply (rule quiet_bindI [OF quiet_now])
    apply (rule quiet_bindI [OF quiet_newID])
    apply (rule quiet_bindI [OF quiet_emit])
    apply (simp add: queued_runtimeD [OF assms] chainMiddleware_def logged_def NewContext_def PayloadBytes_def job
        job_key_def env')
    apply (simp add: core_eq log_job_def job_key_def)
    done
qed

section \<open>One delivery\<close>

text \<open>The chain \<open>cid\<close> waits for its node \<open>k\<close>, whose delivery is the only one queued.\<close>

definition chain_stored ::
  "string \<Rightarrow> string \<Rightarrow> chain_node list \<Rightarrow> nat \<Rightarrow> (memory_store, broker) engine \<Rightarrow> bool" where
  "chain_stored cid did nodes k e \<longleftrightarrow> store_ok (eg_store e) \<and> eg_chainCallbacks e cid = None
     \<and> (\<exists>ch. ms_chains (eg_store e) cid = Some ch \<and> cs_Nodes (mc_state ch) = nodes \<and> cs_NextIndex (mc_state ch) = int k
          \<and> \<not> cs_Failed (mc_state ch) \<and> cs_DispatchID (mc_state ch) = did)"

definition node_envelope :: "string \<Rightarrow> string \<Rightarrow> chain_node \<Rightarrow> envelope \<Rightarrow> bool" where
  "node_envelope cid did n env \<longleftrightarrow>
     en_ChainID env = cid \<and> en_DispatchID env = did \<and> en_NodeID env = cn_NodeID n \<and> en_Job env = cn_Job n"

definition node_queued ::
  "(memory_store, broker) runtime \<Rightarrow> string \<Rightarrow> string \<Rightarrow> chain_node \<Rightarrow> (memory_store, broker) engine \<Rightarrow> bool" where
  "node_queued r cid did n e \<longleftrightarrow> (\<exists>p env. bk_queue (eg_world e) = [(ChainNodeDeliveryType, p)]
     \<and> rt_unmarshal r p = Inr env \<and> node_envelope cid did n env)"

lemma chain_stored_core: "core e' = core e \<Longrightarrow> chain_stored cid did nodes k e' = chain_stored cid did nodes k e"
  by (simp add: chain_stored_def core_eq)

lemma chain_claimable:
  assumes "chain_stored cid did nodes k e" "k < length nodes" "tc_dispatchID claim = did"
  obtains ch where "can_claim (eg_store e) cid (cn_NodeID (nodes ! k)) claim ch k"
    "validateChainState (mc_state ch) = None" "cs_Nodes (mc_state ch) = nodes" "cs_DispatchID (mc_state ch) = did"
    "cs_ChainID (mc_state ch) = cid" "cid \<noteq> []" "nodes_ok nodes"
proof -
  obtain ch where ch: "ms_chains (eg_store e) cid = Some ch" "cs_Nodes (mc_state ch) = nodes"
      "cs_NextIndex (mc_state ch) = int k" "\<not> cs_Failed (mc_state ch)" "cs_DispatchID (mc_state ch) = did"
    and ok: "store_ok (eg_store e)"
    using assms(1) by (auto simp: chain_stored_def)
  have "chain_ok cid ch" using store_okD(1) [OF ok ch(1)] .
  then have v: "validateChainState (mc_state ch) = None" "cs_ChainID (mc_state ch) = cid" by (auto simp: chain_ok_def)
  then have n: "cid \<noteq> []" "nodes_ok nodes" "\<not> cs_Completed (mc_state ch)"
    using ch assms(2) by (auto simp: validateChainState_None)
  then have "can_claim (eg_store e) cid (cn_NodeID (nodes ! k)) claim ch k"
    using ch assms(2,3) by (simp add: can_claim_def dispatch_mismatch_def)
  then show ?thesis using that v ch n by blast
qed

lemma no_callbacks_dispatch [simp]:
  assumes "eg_chainCallbacks e (en_ChainID env) = None"
  shows "run_state (dispatchCallback r ctx env ''chain_catch'' err) e = (None, e)"
    "run_state (dispatchCallback r ctx env ''chain_finally'' err) e = (None, e)"
    "run_state (prepareChainSuccessCallbacks (en_ChainID env)) e = ((), e)"
    "run_state (cleanupChainCallbacks (en_ChainID env)) e = ((), e)"
  using assms by (simp_all add: dispatchCallback_def callbackEnvelope_def callbackConfigured_def chain_closures_def
      map_get_def zero_chain_callbacks_def prepareChainSuccessCallbacks_def cleanupChainCallbacks_def)

lemma successor_queued:
  assumes "queued_runtime f r" "bk_queue (eg_world e) = []"
  shows "\<exists>e'. run_state (dispatchChainSuccessor r ctx env (Some n)) e = (None, e') \<and> eg_store e' = eg_store e
    \<and> eg_chainCallbacks e' = eg_chainCallbacks e \<and> bk_ran (eg_world e') = bk_ran (eg_world e)
    \<and> node_queued r (en_ChainID env) (en_DispatchID env) n e'"
proof -
  let ?env = "zero_envelope\<lparr>en_SchemaVersion := ProtocolSchemaVersion, en_DispatchID := en_DispatchID env,
     en_Kind := ''chain_node'', en_ChainID := en_ChainID env, en_NodeID := cn_NodeID n,
     en_JobID := ''job'' @ ''_'' @ rt_ids r (eg_draws e), en_Job := cn_Job n\<rparr>"
  obtain p where "rt_marshal r ?env = Inr p" "rt_unmarshal r p = Inr ?env" using codec [OF assms(1)] by blast
  then show ?thesis
    by (simp add: dispatchChainSuccessor_def dispatchEnvelope_def queued_runtimeD [OF assms(1)] enqueue_def assms(2)
        acceptedDispatchExecutionError_def node_queued_def node_envelope_def)
qed

text \<open>The effect of a claimed success and of a claimed failure on the stored chain.\<close>

lemma advanced_stored:
  assumes "chain_stored cid did nodes k e" "can_claim (eg_store e) cid n claim ch k"
    "eg_store e' = advanced_store cid n claim ch (eg_store e)" "eg_chainCallbacks e' = eg_chainCallbacks e"
  shows "chain_stored cid did nodes (Suc k) e'"
proof -
  have val: "validateChainState (mc_state ch) = None"
    using assms(1,2) store_okD(1) by (auto simp: chain_stored_def can_claim_def chain_ok_def)
  have "eg_store e' = snd (advanceChainOutcome cid n claim (eg_store e))"
    using assms(3) advance_claim_eq [OF assms(2) val] by (simp add: Let_def)
  moreover have "store_ok (eg_store e)" using assms(1) by (simp add: chain_stored_def)
  ultimately have "store_ok (eg_store e')" using store_step_ok [of "eg_store e" "OpAdvanceChain cid n claim"] by simp
  then show ?thesis
    using assms by (auto simp: chain_stored_def can_claim_def advanced_store_def Let_def)
qed

definition chain_failed_with :: "string \<Rightarrow> nat \<Rightarrow> goerr \<Rightarrow> (memory_store, broker) engine \<Rightarrow> bool" where
  "chain_failed_with cid k err e \<longleftrightarrow> (\<exists>st. GetChain cid (eg_store e) = Inr st \<and> cs_Failed st \<and> \<not> cs_Completed st
     \<and> cs_NextIndex st = int k \<and> cs_Failure st = error_text err)"

lemma failed_stored:
  assumes "can_claim (eg_store e) cid n claim ch k" "eg_store e' = failed_store cid n (Some err) claim ch (eg_store e)"
  shows "chain_failed_with cid k err e'"
  using assms by (simp add: chain_failed_with_def can_claim_def failed_store_def Let_def GetChain_def fail_state_def
      cloneChainNodes_def)

lemma succeeded_attempt:
  assumes r: "queued_runtime f r" and st: "chain_stored cid did nodes k e" "k < length nodes"
    and env: "node_envelope cid did (nodes ! k) env" "en_DispatchID (oc_env oc) = did"
    and q: "bk_queue (eg_world e) = []"
  shows "\<exists>e'. run_state (chain_succeeded_attempt r ctx env oc) e = (None, e') \<and> chain_stored cid did nodes (Suc k) e'
    \<and> bk_ran (eg_world e') = bk_ran (eg_world e)
    \<and> (if Suc k = length nodes then bk_queue (eg_world e') = [] else node_queued r cid did (nodes ! Suc k) e')"
proof -
  let ?claim = "transitionClaimFromOutcome r ctx oc"
  have "tc_dispatchID ?claim = did" using env(2) by (simp add: transitionClaimFromOutcome_def)
  then obtain ch where ch: "can_claim (eg_store e) cid (cn_NodeID (nodes ! k)) ?claim ch k"
      "validateChainState (mc_state ch) = None" "cs_Nodes (mc_state ch) = nodes"
      "cs_ChainID (mc_state ch) = cid" "cid \<noteq> []" "nodes_ok nodes"
    using chain_claimable [OF st] by metis
  let ?s = "advanced_store cid (cn_NodeID (nodes ! k)) ?claim ch (eg_store e)"
  let ?e = "e\<lparr>eg_store := ?s\<rparr>"
  let ?t = "advanced (ms_clock (eg_store e) (ms_ticks (eg_store e))) (mc_state ch)"
  obtain rc kn where adv: "run_state (advanceChainNode r (en_ChainID env) (en_NodeID env) ?claim) e =
      (Inr \<lparr>ca_state = ?t, ca_next = (if cs_Completed ?t then None else Some (nodes ! Suc k)), ca_done = cs_Completed ?t,
         ca_successOwned = True, ca_claimedNow = True, ca_receipt = rc, ca_receiptKnown = kn\<rparr>, ?e)"
    using env(1) advance_claim_eq [OF ch(1,2)] ch(3)
    by (simp add: advanceChainNode_def queued_runtimeD(1) [OF r] run_on_store node_envelope_def Let_def)
  have fin: "cs_Completed ?t \<longleftrightarrow> Suc k = length nodes"
    using ch(1,3) st(2) by (auto simp: can_claim_def)
  have stored: "chain_stored cid did nodes (Suc k) e'" if "core e' = core ?e" for e'
    using advanced_stored [OF st(1) ch(1), of e'] that by (simp add: core_eq)
  have none: "eg_chainCallbacks e cid = None" using st(1) by (simp add: chain_stored_def)
  obtain e1 where e1: "run_state (markDeliveryTransitionCommitted ctx True kn) ?e = ((), e1)" "core e1 = core ?e"
    using quiet_unit [OF quiet_mark] by metis
  obtain e2 where e2: "run_state (emitStoredJobOutcome r ctx oc) e1 = ((), e2)" "core e2 = core ?e"
    using quiet_unit [OF quiet_emitOutcome] e1(2) by metis
  show ?thesis
  proof (cases "Suc k = length nodes")
    case True
    obtain e3 where e3: "run_state (chain_event r ctx env EventChainCompleted (chainFactID r EventChainCompleted env) None) e2 = ((), e3)"
        "core e3 = core ?e"
      using quiet_unit [OF quiet_chain_event] e2(2) by metis
    have "chainNodePosition nodes (en_NodeID env) = Some k" "int k = int (length nodes) - 1"
      using env(1) ch(6) True by (simp_all add: node_envelope_def)
    moreover have "eg_chainCallbacks e2 (en_ChainID env) = None" "eg_chainCallbacks e3 (en_ChainID env) = None"
      using none env(1) e2(2) e3(2) by (simp_all add: core_eq node_envelope_def)
    moreover have "cs_Completed ?t" using fin True by simp
    ultimately have "run_state (chain_succeeded_attempt r ctx env oc) e = (None, e3)"
      using ch(3-5) by (simp add: chain_succeeded_attempt_def adv e1(1) e2(1) e3(1) chain_completed_success_def del: advanced_sel(7))
    then show ?thesis using True stored [OF e3(2)] e3(2) q by (simp add: core_eq)
  next
    case False
    obtain e3 where e3: "run_state (chain_event r ctx env EventChainAdvanced (chainFactID r EventChainAdvanced env) None) e2 = ((), e3)"
        "core e3 = core ?e"
      using quiet_unit [OF quiet_chain_event] e2(2) by metis
    then have "bk_queue (eg_world e3) = []" using q by (simp add: core_eq)
    then obtain e4 where e4: "run_state (dispatchChainSuccessor r ctx env (Some (nodes ! Suc k))) e3 = (None, e4)"
        "eg_store e4 = eg_store e3" "eg_chainCallbacks e4 = eg_chainCallbacks e3"
        "bk_ran (eg_world e4) = bk_ran (eg_world e3)" "node_queued r cid did (nodes ! Suc k) e4"
      using successor_queued [OF r] env(1) by (metis node_envelope_def)
    have "\<not> cs_Completed ?t" using fin False by simp
    then have "run_state (chain_succeeded_attempt r ctx env oc) e = (None, e4)"
      by (simp add: chain_succeeded_attempt_def adv e1(1) e2(1) e3(1) e4(1) del: advanced_sel(7))
    moreover have "chain_stored cid did nodes (Suc k) e4"
      using stored [OF e3(2)] e4(2,3) by (simp add: chain_stored_def)
    ultimately show ?thesis using False e4(4,5) e3(2) by (simp add: core_eq)
  qed
qed

lemma failed_attempt:
  assumes r: "queued_runtime f r" and st: "chain_stored cid did nodes k e" "k < length nodes"
    and env: "node_envelope cid did (nodes ! k) env" "en_DispatchID (oc_env oc) = did" "oc_err oc = Some err"
  shows "\<exists>x e'. run_state (chain_failed_attempt r ctx env oc) e = (x, e') \<and> chain_failed_with cid k err e'
    \<and> eg_world e' = eg_world e"
proof -
  let ?claim = "transitionClaimFromOutcome r ctx oc"
  have "tc_dispatchID ?claim = did" using env(2) by (simp add: transitionClaimFromOutcome_def)
  then obtain ch where ch: "can_claim (eg_store e) cid (cn_NodeID (nodes ! k)) ?claim ch k"
    using chain_claimable [OF st] by metis
  let ?s = "failed_store cid (cn_NodeID (nodes ! k)) (Some err) ?claim ch (eg_store e)"
  let ?e = "e\<lparr>eg_store := ?s\<rparr>"
  let ?t = "fail_state (Some err) (ms_clock (eg_store e) (ms_ticks (eg_store e))) (mc_state ch)"
  obtain rc kn where fl: "run_state (failChainNodeOutcome r (en_ChainID env) (en_NodeID env) (Some err) ?claim) e =
      (Inr \<lparr>cf_state = ?t, cf_owned = True, cf_claimedNow = True, cf_receipt = rc, cf_receiptKnown = kn\<rparr>, ?e)"
    using env(1) fail_claim_eq [OF ch]
    by (simp add: failChainNodeOutcome_def queued_runtimeD(1) [OF r] run_on_store node_envelope_def Let_def)
  let ?obs = "observedChainFailure ?t (Some err)"
  obtain e1 where e1: "run_state (markDeliveryTransitionCommitted ctx True kn) ?e = ((), e1)" "core e1 = core ?e"
    using quiet_unit [OF quiet_mark] by metis
  obtain e2 where e2: "run_state (emitStoredJobOutcome r ctx (oc\<lparr>oc_err := ?obs\<rparr>)) e1 = ((), e2)" "core e2 = core ?e"
    using quiet_unit [OF quiet_emitOutcome] e1(2) by metis
  obtain i e3 where e3: "run_state (newID r ''evt'') e2 = (i, e3)" "core e3 = core ?e"
    using quiet_run [OF quiet_newID] e2(2) by metis
  obtain e4 where e4: "run_state (chain_event r ctx env EventChainFailed i ?obs) e3 = ((), e4)" "core e4 = core ?e"
    using quiet_unit [OF quiet_chain_event] e3(2) by metis
  have "eg_chainCallbacks e4 (en_ChainID env) = None"
    using st(1) env(1) e4(2) by (simp add: core_eq node_envelope_def chain_stored_def)
  moreover have "\<not> cs_Completed ?t" using ch by (simp add: can_claim_def)
  ultimately have "run_state (chain_failed_attempt r ctx env oc) e = (Some err, e4)"
    using e3(1) by (simp add: chain_failed_attempt_def env(3) fl e1(1) e2(1) e4(1) Let_def del: run_newID)
  moreover have "chain_failed_with cid k err e4"
    using failed_stored [OF ch, of e4 err] e4(2) by (simp add: core_eq)
  ultimately show ?thesis using e4(2) by (simp add: core_eq)
qed

text \<open>Handler errors that end the chain at once.\<close>

definition final_errors :: "(string \<times> bytes \<Rightarrow> goerr option) \<Rightarrow> bool" where
  "final_errors f \<longleftrightarrow> (\<forall>j err. f j = Some err \<longrightarrow> IsPermanent (Some err) \<and> \<not> IsUncommitted (Some err))"

definition chain_waits ::
  "(memory_store, broker) runtime \<Rightarrow> string \<Rightarrow> string \<Rightarrow> chain_node list \<Rightarrow> nat \<Rightarrow> (memory_store, broker) engine \<Rightarrow> bool" where
  "chain_waits r cid did nodes k e \<longleftrightarrow> chain_stored cid did nodes k e \<and> k < length nodes \<and> node_queued r cid did (nodes ! k) e"

lemma worker_step:
  assumes r: "queued_runtime f r" and ctx: "\<not> snd (recoveredDeliveryProvenance ctx)"
    and w: "chain_waits r cid did nodes k e"
  obtains e2 oc env where "\<And>n. drain (Suc n) r ctx e = drain n r ctx (snd (run_state
        (case ClassifyAttempt (oc_attempt oc) (oc_err oc) of
           AttemptRetry \<Rightarrow> State_Monad.return (oc_err oc) | AttemptRedeliver \<Rightarrow> State_Monad.return (oc_err oc)
         | AttemptFailed \<Rightarrow> chain_failed_attempt r ctx env oc
         | AttemptSucceeded \<Rightarrow> chain_succeeded_attempt r ctx env oc) e2))"
    "node_envelope cid did (nodes ! k) env" "en_DispatchID (oc_env oc) = did" "oc_err oc = f (job_key (cn_Job (nodes ! k)))"
    "chain_stored cid did nodes k e2" "bk_queue (eg_world e2) = []"
    "bk_ran (eg_world e2) = bk_ran (eg_world e) @ [job_key (cn_Job (nodes ! k))]"
proof -
  obtain p env where q: "bk_queue (eg_world e) = [(ChainNodeDeliveryType, p)]" "rt_unmarshal r p = Inr env"
      "node_envelope cid did (nodes ! k) env"
    using w by (auto simp: chain_waits_def node_queued_def)
  let ?e1 = "e\<lparr>eg_world := (eg_world e)\<lparr>bk_queue := []\<rparr>\<rparr>"
  obtain oc e2 where x: "run_state (executeStoredJobAttempt r ctx env) ?e1 = (oc, e2)" "oc_err oc = f (job_key (en_Job env))"
      "oc_env oc = fst (applyDeliveryAttempt ctx env)" "core e2 = core (log_job (en_Job env) ?e1)"
    using execute_logged [OF r] by blast
  have types: "ChainNodeDeliveryType \<noteq> DirectDeliveryType" by code_simp
  have "drain (Suc n) r ctx e = drain n r ctx (snd (run_state
        (case ClassifyAttempt (oc_attempt oc) (oc_err oc) of
           AttemptRetry \<Rightarrow> State_Monad.return (oc_err oc) | AttemptRedeliver \<Rightarrow> State_Monad.return (oc_err oc)
         | AttemptFailed \<Rightarrow> chain_failed_attempt r ctx env oc
         | AttemptSucceeded \<Rightarrow> chain_succeeded_attempt r ctx env oc) e2))" for n
    using ctx types by (simp add: q(1,2) deliver_def handleInternalChainNode_def chain_attempt_def x(1))
  moreover have "chain_stored cid did nodes k e2"
    using w x(4) by (simp add: chain_waits_def chain_stored_def core_eq)
  ultimately show ?thesis using q(3) x by (intro that [of env oc e2]) (simp_all add: node_envelope_def core_eq)
qed

section \<open>The whole chain\<close>

text \<open>The jobs that run: up to and including the first that fails.\<close>

definition runs_until :: "('j \<Rightarrow> bool) \<Rightarrow> 'j list \<Rightarrow> 'j list" where
  "runs_until fails js = takeWhile (\<lambda>j. \<not> fails j) js @ take 1 (dropWhile (\<lambda>j. \<not> fails j) js)"

lemma runs_until_Cons:
  "runs_until fails (j # js) = (if fails j then [j] else j # runs_until fails js)"
  by (simp add: runs_until_def)

lemma drain_idle: "bk_queue (eg_world e) = [] \<Longrightarrow> drain n r ctx e = e"
  by (cases n) simp_all

definition chain_ends ::
  "(string \<times> bytes \<Rightarrow> goerr option) \<Rightarrow> string \<Rightarrow> (string \<times> bytes) list \<Rightarrow> (memory_store, broker) engine \<Rightarrow> bool" where
  "chain_ends f cid js e \<longleftrightarrow> (\<exists>st. GetChain cid (eg_store e) = Inr st
     \<and> (case find (\<lambda>j. f j \<noteq> None) js of
          None \<Rightarrow> cs_Completed st \<and> \<not> cs_Failed st
        | Some j \<Rightarrow> cs_Failed st \<and> \<not> cs_Completed st \<and> cs_Failure st = error_text (the (f j))))"

lemma chain_stored_completed:
  assumes "chain_stored cid did nodes (length nodes) e" "\<forall>j \<in> set js. f j = None"
  shows "chain_ends f cid js e"
proof -
  obtain ch where ch: "ms_chains (eg_store e) cid = Some ch" "cs_Nodes (mc_state ch) = nodes"
      "cs_NextIndex (mc_state ch) = int (length nodes)" "\<not> cs_Failed (mc_state ch)" "store_ok (eg_store e)"
    using assms(1) by (auto simp: chain_stored_def)
  then have "cs_Completed (mc_state ch)"
    using store_okD(1) by (auto simp: chain_ok_def validateChainState_None)
  moreover have "find (\<lambda>j. f j \<noteq> None) js = None" using assms(2) by (simp add: find_None_iff)
  ultimately show ?thesis using ch by (simp add: chain_ends_def GetChain_def)
qed

definition chain_finishes ::
  "(string \<times> bytes \<Rightarrow> goerr option) \<Rightarrow> string \<Rightarrow> (string \<times> bytes) list \<Rightarrow> (memory_store, broker) engine
   \<Rightarrow> (memory_store, broker) engine \<Rightarrow> bool" where
  "chain_finishes f cid js e e' \<longleftrightarrow> bk_queue (eg_world e') = []
     \<and> bk_ran (eg_world e') = bk_ran (eg_world e) @ runs_until (\<lambda>j. f j \<noteq> None) js \<and> chain_ends f cid js e'"

lemma chain_finishes_failed:
  assumes "f j = Some err" "chain_failed_with cid k err e'" "bk_queue (eg_world e') = []"
    "bk_ran (eg_world e') = bk_ran (eg_world e) @ [j]"
  shows "chain_finishes f cid (j # js) e e'"
  using assms by (auto simp: chain_finishes_def chain_ends_def chain_failed_with_def runs_until_Cons)

lemma chain_finishes_Cons:
  assumes "f j = None" "bk_ran (eg_world e') = bk_ran (eg_world e) @ [j]" "chain_finishes f cid js e' e''"
  shows "chain_finishes f cid (j # js) e e''"
  using assms by (simp add: chain_finishes_def chain_ends_def runs_until_Cons)

abbreviation node_keys :: "chain_node list \<Rightarrow> (string \<times> bytes) list" where
  "node_keys nodes \<equiv> map (\<lambda>n. job_key (cn_Job n)) nodes"

lemma drain_chain:
  assumes r: "queued_runtime f r" "final_errors f" and ctx: "\<not> snd (recoveredDeliveryProvenance ctx)"
    and w: "chain_waits r cid did nodes k e" and n: "length nodes - k \<le> n"
  shows "chain_finishes f cid (node_keys (drop k nodes)) e (drain n r ctx e)"
  using w n
proof (induction n arbitrary: k e)
  case 0
  then show ?case by (simp add: chain_waits_def)
next
  case (Suc n)
  have k: "k < length nodes" using Suc.prems(1) by (simp add: chain_waits_def)
  let ?j = "job_key (cn_Job (nodes ! k))"
  have keys: "node_keys (drop k nodes) = ?j # node_keys (drop (Suc k) nodes)"
    using k by (simp add: Cons_nth_drop_Suc [symmetric])
  from worker_step [OF r(1) ctx Suc.prems(1)] obtain e2 oc env where step:
      "drain (Suc n) r ctx e = drain n r ctx (snd (run_state
        (case ClassifyAttempt (oc_attempt oc) (oc_err oc) of
           AttemptRetry \<Rightarrow> State_Monad.return (oc_err oc) | AttemptRedeliver \<Rightarrow> State_Monad.return (oc_err oc)
         | AttemptFailed \<Rightarrow> chain_failed_attempt r ctx env oc
         | AttemptSucceeded \<Rightarrow> chain_succeeded_attempt r ctx env oc) e2))"
    and env: "node_envelope cid did (nodes ! k) env" "en_DispatchID (oc_env oc) = did" "oc_err oc = f ?j"
    and e2: "chain_stored cid did nodes k e2" "bk_queue (eg_world e2) = []" "bk_ran (eg_world e2) = bk_ran (eg_world e) @ [?j]"
    by metis
  show ?case
  proof (cases "f ?j")
    case (Some err)
    then have "ClassifyAttempt (oc_attempt oc) (oc_err oc) = AttemptFailed"
      using r(2) [unfolded final_errors_def, rule_format, OF Some] env(3) by (simp add: ClassifyAttempt_Failed)
    moreover obtain x e' where e': "run_state (chain_failed_attempt r ctx env oc) e2 = (x, e')"
        "chain_failed_with cid k err e'" "eg_world e' = eg_world e2"
      using failed_attempt [OF r(1) e2(1) k env(1,2)] env(3) Some by metis
    ultimately have "drain (Suc n) r ctx e = e'" using step e2(2) by (simp add: drain_idle del: drain.simps)
    then show ?thesis using chain_finishes_failed [of f ?j err, OF Some e'(2)] e'(3) e2(2,3) by (simp add: keys del: drain.simps)
  next
    case None
    obtain e' where e': "run_state (chain_succeeded_attempt r ctx env oc) e2 = (None, e')"
        "chain_stored cid did nodes (Suc k) e'" "bk_ran (eg_world e') = bk_ran (eg_world e2)"
        "if Suc k = length nodes then bk_queue (eg_world e') = [] else node_queued r cid did (nodes ! Suc k) e'"
      using succeeded_attempt [OF r(1) e2(1) k env(1,2) e2(2)] by metis
    have run: "drain (Suc n) r ctx e = drain n r ctx e'"
      using step env(3) None e'(1) by (simp add: ClassifyAttempt_def del: drain.simps)
    have "chain_finishes f cid (node_keys (drop (Suc k) nodes)) e' (drain n r ctx e')"
    proof (cases "Suc k = length nodes")
      case True
      then have "chain_ends f cid [] e'" using e'(2) by (intro chain_stored_completed [where nodes = nodes and did = did]) simp_all
      then show ?thesis using True e'(4) by (simp add: chain_finishes_def drain_idle runs_until_def)
    next
      case False
      then have "chain_waits r cid did nodes (Suc k) e'" using e' k by (simp add: chain_waits_def)
      from Suc.IH [OF this] Suc.prems(2) show ?thesis by simp
    qed
    then show ?thesis
      using chain_finishes_Cons [of f ?j, OF None] run e'(3) e2(3) keys by metis
  qed
qed

section \<open>Dispatch\<close>

lemma build_nodes_run:
  assumes "map (toStoredJob marshal) jobs = map Inr js"
  shows "run_state (build_nodes r marshal queue c jobs) e =
    (Inr (map2 (\<lambda>i j. \<lparr>cn_NodeID = c @ ''_'' @ ''n'' @ ''_'' @ rt_ids r i, cn_Job = default_queue queue j\<rparr>)
        [eg_draws e..<eg_draws e + length js] js),
     e\<lparr>eg_draws := eg_draws e + length js\<rparr>)"
  using assms
proof (induction jobs arbitrary: js e)
  case (Cons job jobs)
  then obtain j js' where js: "js = j # js'" "toStoredJob marshal job = Inr j" "map (toStoredJob marshal) jobs = map Inr js'"
    by (cases js) auto
  let ?e = "e\<lparr>eg_draws := Suc (eg_draws e)\<rparr>"
  have "[eg_draws e..<eg_draws e + length js] = eg_draws e # [Suc (eg_draws e)..<Suc (eg_draws e) + length js']"
    using js(1) by (subst upt_conv_Cons) simp_all
  then show ?case using Cons.IH [OF js(3), of ?e] js by (simp add: nodeID_def)
qed simp

lemma built_nodes_ok:
  assumes "inj (rt_ids r)" "js \<noteq> []"
  shows "nodes_ok (map2 (\<lambda>i j. \<lparr>cn_NodeID = c @ ''_'' @ ''n'' @ ''_'' @ rt_ids r i, cn_Job = default_queue queue j\<rparr>)
    [d..<d + length js] js)"
proof -
  let ?ns = "map2 (\<lambda>i j. \<lparr>cn_NodeID = c @ ''_'' @ ''n'' @ ''_'' @ rt_ids r i, cn_Job = default_queue queue j\<rparr>)
    [d..<d + length js] js"
  have ids: "map cn_NodeID ?ns = map (\<lambda>i. c @ ''_'' @ ''n'' @ ''_'' @ rt_ids r i) [d..<d + length js]"
    by (rule nth_equalityI) simp_all
  moreover have "inj (\<lambda>i. c @ ''_'' @ ''n'' @ ''_'' @ rt_ids r i)" using assms(1) by (auto simp: inj_def)
  ultimately have "distinct (map cn_NodeID ?ns)"
    using inj_on_subset [of _ UNIV] by (simp only: distinct_map distinct_upt) blast
  moreover have "[] \<notin> set (map cn_NodeID ?ns)" unfolding ids by auto
  moreover have "?ns \<noteq> []" using assms(2) by (cases js) (simp_all add: upt_conv_Cons)
  ultimately show ?thesis unfolding nodes_ok_def by (metis list.set_map)
qed

lemma job_key_default_queue [simp]: "job_key (default_queue q j) = job_key j"
  by (simp add: job_key_def default_queue_def)

lemma built_job_keys:
  "node_keys (map2 (\<lambda>i j. \<lparr>cn_NodeID = g i, cn_Job = default_queue q j\<rparr>) [d..<d + length js] js) = map job_key js"
  by (rule nth_equalityI) simp_all

definition emitted :: "('s, 'x) runtime \<Rightarrow> dctx \<Rightarrow> event \<Rightarrow> ('s, 'x) engine \<Rightarrow> ('s, 'x) engine" where
  "emitted r ctx ev e = snd (run_state (emit r ctx ev) e)"

lemma emit_run: "run_state (emit r ctx ev) e = ((), emitted r ctx ev e)"
  by (simp add: emitted_def prod_eq_iff)

lemma emitted_core: "core (emitted r ctx ev e) = core e"
  using quiet_emit [of r ctx ev] by (simp add: emitted_def quiet_def)

lemma created_chain_stored:
  assumes "store_ok (eg_store e)" "validateChainRecord rec = None" "eg_chainCallbacks e (cr_ChainID rec) = None"
    "eg_store e' = snd (CreateChain rec (eg_store e))" "eg_chainCallbacks e' = eg_chainCallbacks e"
  shows "chain_stored (cr_ChainID rec) (cr_DispatchID rec) (cr_Nodes rec) 0 e'"
proof -
  have "store_ok (eg_store e')" using store_step_ok [OF assms(1), of "OpCreateChain rec"] assms(4) by simp
  then show ?thesis using assms by (simp add: chain_stored_def CreateChain_def)
qed

lemma dispatch_chain_queued:
  assumes r: "queued_runtime f r" and ok: "store_ok (eg_store e)" and q: "bk_queue (eg_world e) = []"
    and js: "map (toStoredJob marshal) (cb_jobs b) = map Inr js" "js \<noteq> []"
    and cb: "cb_catch b = None" "cb_done b = None" "eg_chainCallbacks e = Map.empty"
  shows "\<exists>cid did nodes e'. run_state (chain_Dispatch r marshal b ctx0) e = ((cid, None), e')
    \<and> chain_waits r cid did nodes 0 e' \<and> node_keys nodes = map job_key js \<and> bk_ran (eg_world e') = bk_ran (eg_world e)"
proof -
  let ?d = "eg_draws e"
  let ?cid = "''chn'' @ ''_'' @ rt_ids r ?d" and ?did = "''dsp'' @ ''_'' @ rt_ids r (Suc ?d)"
  define ns where "ns = map2 (\<lambda>i j. \<lparr>cn_NodeID = ?cid @ ''_'' @ ''n'' @ ''_'' @ rt_ids r i,
      cn_Job = default_queue (cb_queue b) j\<rparr>) [Suc (Suc ?d)..<Suc (Suc ?d) + length js] js"
  have nodes: "nodes_ok ns" "node_keys ns = map job_key js"
    unfolding ns_def by (rule built_nodes_ok [OF queued_runtimeD(5) [OF r] js(2)], rule built_job_keys)
  have build: "run_state (build_nodes r marshal (cb_queue b) ?cid (cb_jobs b)) (e\<lparr>eg_sync := eg_sync e @ [None],
      eg_draws := Suc (Suc ?d)\<rparr>) = (Inr ns, e\<lparr>eg_sync := eg_sync e @ [None], eg_draws := Suc (Suc ?d) + length js\<rparr>)"
    unfolding build_nodes_run [OF js(1)] ns_def by simp
  let ?rec = "\<lparr>cr_ChainID = ?cid, cr_DispatchID = ?did, cr_Queue = cb_queue b, cr_Nodes = ns,
      cr_CreatedAt = rt_now r (eg_ticks e)\<rparr>"
  have val: "validateChainRecord ?rec = None" using nodes(1) by (simp add: validateChainRecord_None)
  then have create: "fst (CreateChain ?rec (eg_store e)) = None" by (simp add: CreateChain_def case_prod_beta)
  have ne: "cb_jobs b \<noteq> []" using js by auto
  obtain enc where enc: "\<And>env. rt_marshal r env = Inr (enc env)" "\<And>env. rt_unmarshal r (enc env) = Inr env"
    using r unfolding queued_runtime_def by metis
  have "\<exists>e3. run_state (chain_Dispatch r marshal b ctx0) e = ((?cid, None), e3)
      \<and> eg_store e3 = snd (CreateChain ?rec (eg_store e)) \<and> eg_chainCallbacks e3 = eg_chainCallbacks e
      \<and> bk_ran (eg_world e3) = bk_ran (eg_world e) \<and> node_queued r ?cid ?did (hd ns) e3"
    using ne cb(1,2) create build q
    by (simp add: chain_Dispatch_def withSynchronousChainResult_def run_on_store queued_runtimeD [OF r] emit_run
        emitted_core [unfolded core_eq] dispatchEnvelope_def enc enqueue_def executionError_def Let_def
        node_queued_def node_envelope_def)
  then obtain e3 where e3: "run_state (chain_Dispatch r marshal b ctx0) e = ((?cid, None), e3)"
      "eg_store e3 = snd (CreateChain ?rec (eg_store e))" "eg_chainCallbacks e3 = eg_chainCallbacks e"
      "bk_ran (eg_world e3) = bk_ran (eg_world e)" "node_queued r ?cid ?did (hd ns) e3" by blast
  have "chain_stored ?cid ?did ns 0 e3"
    using created_chain_stored [OF ok val _ _ e3(3)] e3(2) cb(3) by simp
  then have "chain_waits r ?cid ?did ns 0 e3"
    using e3(5) nodes(1) by (simp add: chain_waits_def nodes_ok_def hd_conv_nth)
  then show ?thesis using e3(1,4) nodes(2) by blast
qed

section \<open>Property\<close>


text \<open>A codec that reads back what it wrote: the fields of an envelope, numbered.\<close>

definition envelope_fields where
  "envelope_fields env = (en_SchemaVersion env, en_DispatchID env, en_Kind env, en_JobID env, en_ChainID env,
     en_BatchID env, en_NodeID env, en_CallbackKind env, en_Attempt env, en_Error env, sj_Type (en_Job env),
     sj_Payload (en_Job env), jo_Queue (sj_Options (en_Job env)), jo_Delay (sj_Options (en_Job env)),
     jo_Timeout (sj_Options (en_Job env)), jo_Retry (sj_Options (en_Job env)), jo_Backoff (sj_Options (en_Job env)),
     jo_UniqueFor (sj_Options (en_Job env)))"

definition number_envelope :: "envelope \<Rightarrow> bytes" where
  "number_envelope env = nat_str (to_nat (envelope_fields env))"

lemma number_envelope_inj: "inj number_envelope"
  by (rule injI) (auto simp: number_envelope_def envelope_fields_def intro!: envelope.equality stored_job.equality
      job_options.equality)

definition sample_broker_runtime :: "(memory_store, broker) runtime" where
  "sample_broker_runtime = \<lparr>rt_store = memory_iface, rt_now = int, rt_ids = nat_str, rt_observer = True,
     rt_handlers = (\<lambda>t. Some (logged (\<lambda>j. if j = (''b'', []) then Some (PermanentError (ErrNew ''boom'')) else None))),
     rt_middlewares = [], rt_ephemeralCallbacksDisabled = False, rt_BusDispatch = enqueue, rt_BusDispatchDirect = None,
     rt_marshal = (\<lambda>env. Inr (number_envelope env)), rt_unmarshal = (\<lambda>p. Inr (inv number_envelope p)),
     rt_sha256 = (\<lambda>x. x), rt_sha1 = (\<lambda>x. x),
     rt_chainCatch = (\<lambda>n ctx st err. State_Monad.return (Returned None)),
     rt_chainFinally = (\<lambda>n ctx st. State_Monad.return (Returned None)),
     rt_batchHook = (\<lambda>n ctx st. State_Monad.return (Returned None)),
     rt_batchCatch = (\<lambda>n ctx st err. State_Monad.return (Returned None))\<rparr>"

definition sample_broker_engine :: "(memory_store, broker) engine" where
  "sample_broker_engine = \<lparr>eg_store = sample_store, eg_ticks = 0, eg_draws = 0, eg_chainCallbacks = Map.empty,
     eg_batchCallbacks = Map.empty, eg_settlements = Map.empty, eg_observed = [], eg_sync = [],
     eg_world = \<lparr>bk_queue = [], bk_ran = []\<rparr>\<rparr>"

definition sample_builder :: "bytes chain_builder" where
  "sample_builder = \<lparr>cb_jobs = map (\<lambda>t. \<lparr>jb_Type = t, jb_Payload = [], jb_Options = zero_job_options\<rparr>) [''a'', ''b'', ''c''],
     cb_queue = ''q'', cb_catch = None, cb_done = None\<rparr>"


end
