(* ===== verification/GoHeap.thy ===== *)
theory GoHeap
  imports Prelude
begin

text \<open>
  The part of Go's \<open>container/heap\<close> the program uses, over an arbitrary
  implementation of \<open>heap.Interface\<close>: sifting up and down, \<open>Push\<close>, \<open>Pop\<close> and
  \<open>Remove\<close>. The locale states what an implementation of the interface promises; inside it
  the three operations are shown to keep the heap order and the contents, and \<open>Pop\<close>
  to return a minimum.
\<close>

section \<open>The operations\<close>

record ('h, 'x) heap_interface =
  hi_Len :: "'h \<Rightarrow> nat"
  hi_Less :: "nat \<Rightarrow> nat \<Rightarrow> 'h \<Rightarrow> bool"
  hi_Swap :: "nat \<Rightarrow> nat \<Rightarrow> 'h \<Rightarrow> 'h"
  hi_Push :: "'x \<Rightarrow> 'h \<Rightarrow> 'h"
  hi_Pop :: "'h \<Rightarrow> 'x \<times> 'h"

definition parent :: "nat \<Rightarrow> nat" where
  "parent j = (j - 1) div 2"

lemma parent_less: "0 < k \<Longrightarrow> parent k < k"
  by (auto simp: parent_def)

lemma parent_fixed: "parent k = k \<longleftrightarrow> k = 0"
  by (auto simp: parent_def)

function heap_up :: "('h, 'x) heap_interface \<Rightarrow> nat \<Rightarrow> 'h \<Rightarrow> 'h" where
  "heap_up I j h =
     (if parent j = j \<or> \<not> hi_Less I j (parent j) h then h
      else heap_up I (parent j) (hi_Swap I (parent j) j h))"
  by pat_completeness auto
termination by (relation "measure (\<lambda>(I, j, h). j)") (auto simp: parent_fixed intro: parent_less)

text \<open>The child to compare with: the smaller one, the left one on a tie.\<close>

definition least_child :: "('h, 'x) heap_interface \<Rightarrow> nat \<Rightarrow> nat \<Rightarrow> 'h \<Rightarrow> nat" where
  "least_child I i n h = (if 2 * i + 2 < n \<and> hi_Less I (2 * i + 2) (2 * i + 1) h then 2 * i + 2 else 2 * i + 1)"

text \<open>Sifting down returns the final position beside the heap.\<close>

function heap_down :: "('h, 'x) heap_interface \<Rightarrow> nat \<Rightarrow> nat \<Rightarrow> 'h \<Rightarrow> nat \<times> 'h" where
  "heap_down I i n h =
     (if 2 * i + 1 \<ge> n then (i, h)
      else let j = least_child I i n h in
        if \<not> hi_Less I j i h then (i, h) else heap_down I j n (hi_Swap I i j h))"
  by pat_completeness auto
termination by (relation "measure (\<lambda>(I, i, n, h). n - i)") (auto simp: least_child_def)

declare heap_up.simps [simp del] heap_down.simps [simp del]

definition heap_Push :: "('h, 'x) heap_interface \<Rightarrow> 'x \<Rightarrow> 'h \<Rightarrow> 'h" where
  "heap_Push I x h = (let h = hi_Push I x h in heap_up I (hi_Len I h - 1) h)"

definition heap_Pop :: "('h, 'x) heap_interface \<Rightarrow> 'h \<Rightarrow> 'x \<times> 'h" where
  "heap_Pop I h = (let n = hi_Len I h - 1 in hi_Pop I (snd (heap_down I 0 n (hi_Swap I 0 n h))))"

definition heap_Remove :: "('h, 'x) heap_interface \<Rightarrow> nat \<Rightarrow> 'h \<Rightarrow> 'x \<times> 'h" where
  "heap_Remove I i h = (let n = hi_Len I h - 1 in
     if n \<noteq> i then
       (case heap_down I i n (hi_Swap I i n h) of (k, h) \<Rightarrow>
          hi_Pop I (if k > i then h else heap_up I i h))
     else hi_Pop I h)"

text \<open>Sifting does nothing but swap.\<close>

lemma heap_down_swaps:
  assumes "\<And>i j h. P h \<Longrightarrow> P (hi_Swap I i j h)" "P h"
  shows "P (snd (heap_down I i n h))"
  using assms(2)
proof (induction "n - i" arbitrary: i h rule: less_induct)
  case less
  show ?case
  proof (cases "2 * i + 1 \<ge> n \<or> \<not> hi_Less I (least_child I i n h) i h")
    case True
    then show ?thesis using less.prems by (subst heap_down.simps) (auto simp: Let_def)
  next
    case False
    then have "n - least_child I i n h < n - i" by (auto simp: least_child_def)
    from less.hyps [OF this assms(1) [OF less.prems]] show ?thesis
      using False by (subst heap_down.simps) (simp add: Let_def)
  qed
qed

lemma heap_up_swaps:
  assumes "\<And>i j h. P h \<Longrightarrow> P (hi_Swap I i j h)" "P h"
  shows "P (heap_up I j h)"
  using assms(2)
proof (induction j arbitrary: h rule: less_induct)
  case (less j)
  show ?case
  proof (cases "parent j = j \<or> \<not> hi_Less I j (parent j) h")
    case True
    then show ?thesis using less.prems by (subst heap_up.simps) simp
  next
    case False
    then have "parent j < j" by (auto simp: parent_fixed intro: parent_less)
    from less.IH [OF this assms(1) [OF less.prems]] show ?thesis
      using False by (subst heap_up.simps) simp
  qed
qed

section \<open>Heap order on lists\<close>

text \<open>The first \<open>n\<close> keys are in heap order; in heap order but for the edges at one
  position; and but for the edge above one position.\<close>

definition heap_ordered :: "nat \<Rightarrow> 'k::linorder list \<Rightarrow> bool" where
  "heap_ordered n ks \<longleftrightarrow> (\<forall>k. 0 < k \<and> k < n \<longrightarrow> ks ! parent k \<le> ks ! k)"

definition heap_but :: "nat \<Rightarrow> nat \<Rightarrow> 'k::linorder list \<Rightarrow> bool" where
  "heap_but i n ks \<longleftrightarrow> (\<forall>k. 0 < k \<and> k < n \<and> k \<noteq> i \<and> parent k \<noteq> i \<longrightarrow> ks ! parent k \<le> ks ! k)
     \<and> (\<forall>k. 0 < k \<and> k < n \<and> parent k = i \<and> 0 < i \<longrightarrow> ks ! parent i \<le> ks ! k)"

definition heap_but_above :: "nat \<Rightarrow> nat \<Rightarrow> 'k::linorder list \<Rightarrow> bool" where
  "heap_but_above i n ks \<longleftrightarrow> heap_but i n ks \<and> (\<forall>k. 0 < k \<and> k < n \<and> parent k = i \<longrightarrow> ks ! i \<le> ks ! k)"

definition swap_at :: "nat \<Rightarrow> nat \<Rightarrow> 'a list \<Rightarrow> 'a list" where
  "swap_at i j xs = xs[i := xs ! j, j := xs ! i]"

lemma length_swap_at [simp]: "length (swap_at i j xs) = length xs"
  by (simp add: swap_at_def)

lemma nth_swap_at:
  "i < length xs \<Longrightarrow> j < length xs \<Longrightarrow>
   swap_at i j xs ! k = (if k = i then xs ! j else if k = j then xs ! i else xs ! k)"
  by (auto simp: swap_at_def nth_list_update)

lemma mset_swap_at [simp]: "i < length xs \<Longrightarrow> j < length xs \<Longrightarrow> mset (swap_at i j xs) = mset xs"
  by (simp add: swap_at_def mset_swap)

lemma swapped_last:
  assumes "i < length xs"
  shows "last (swap_at i (length xs - Suc 0) xs) = xs ! i" "swap_at i (length xs - Suc 0) xs \<noteq> []"
proof -
  have l: "length (swap_at i (length xs - Suc 0) xs) = length xs" by simp
  then show ne: "swap_at i (length xs - Suc 0) xs \<noteq> []" using assms by (metis length_0_conv not_less_zero)
  show "last (swap_at i (length xs - Suc 0) xs) = xs ! i"
    using assms l by (subst last_conv_nth [OF ne]) (simp add: nth_swap_at)
qed

lemma map_swap_at: "i < length xs \<Longrightarrow> j < length xs \<Longrightarrow> map f (swap_at i j xs) = swap_at i j (map f xs)"
  by (simp add: swap_at_def map_update)

lemma children: "0 < k \<Longrightarrow> parent k = i \<longleftrightarrow> k = 2 * i + 1 \<or> k = 2 * i + 2"
  by (auto simp: parent_def)

lemma heap_ordered_min: "heap_ordered n ks \<Longrightarrow> k < n \<Longrightarrow> ks ! 0 \<le> ks ! k"
proof (induction k rule: less_induct)
  case (less k)
  show ?case
  proof (cases "k = 0")
    case False
    then have "ks ! 0 \<le> ks ! parent k" using less parent_less [of k] by auto
    also have "\<dots> \<le> ks ! k" using less False by (simp add: heap_ordered_def)
    finally show ?thesis .
  qed simp
qed

lemma heap_but_above_done:
  "heap_but_above i n ks \<Longrightarrow> i = 0 \<or> ks ! parent i \<le> ks ! i \<Longrightarrow> heap_ordered n ks"
  unfolding heap_but_above_def heap_but_def heap_ordered_def by (metis less_numeral_extra(3))

lemma heap_but_above_step:
  assumes "heap_but_above j n ks" "0 < j" "j < n" "n \<le> length ks" "ks ! j < ks ! parent j"
  shows "heap_but_above (parent j) n (swap_at (parent j) j ks)"
proof -
  let ?p = "parent j" and ?ks = "swap_at (parent j) j ks"
  have p: "?p < j" using assms(2) by (rule parent_less)
  have nth: "?ks ! k = (if k = ?p then ks ! j else if k = j then ks ! ?p else ks ! k)" for k
    using assms p by (intro nth_swap_at) auto
  have le: "ks ! parent k \<le> ks ! k" if "0 < k" "k < n" "k \<noteq> j" for k
    using assms(1) that by (auto simp: heap_but_above_def heap_but_def)
  have below: "ks ! ?p \<le> ks ! k" if "0 < k" "k < n" "parent k = j" for k
    using assms(1,2) that by (auto simp: heap_but_above_def heap_but_def)
  have root: "ks ! parent ?p \<le> ks ! ?p" if "0 < ?p" using le that p assms(3) by simp
  have 1: "?ks ! parent k \<le> ?ks ! k" if "0 < k" "k < n" "k \<noteq> ?p" "parent k \<noteq> ?p" for k
    using that le [of k] below [of k] by (auto simp: nth)
  have 2: "?ks ! parent ?p \<le> ?ks ! k" if k: "0 < k" "k < n" "parent k = ?p" "0 < ?p" for k
  proof -
    have "parent ?p < ?p" using k(4) by (rule parent_less)
    then have "?ks ! parent ?p = ks ! parent ?p" using p by (simp add: nth)
    moreover have "ks ! ?p \<le> ?ks ! k"
      using k p le [of k] parent_less [OF k(1)] by (auto simp: nth)
    ultimately show ?thesis using root k(4) by simp
  qed
  have 3: "?ks ! ?p \<le> ?ks ! k" if k: "0 < k" "k < n" "parent k = ?p" for k
    using k p le [of k] assms(5) parent_less [OF k(1)] by (auto simp: nth intro: less_imp_le order.strict_trans2)
  show ?thesis using 1 2 3 by (simp add: heap_but_above_def heap_but_def)
qed

lemma heap_but_step:
  assumes "heap_but i n ks" "n \<le> length ks" "j < n" "0 < j" "parent j = i" "ks ! j < ks ! i"
    and least: "\<And>k. 0 < k \<Longrightarrow> k < n \<Longrightarrow> parent k = i \<Longrightarrow> ks ! j \<le> ks ! k"
  shows "heap_but j n (swap_at i j ks)" "swap_at i j ks ! parent j \<le> swap_at i j ks ! j"
proof -
  let ?ks = "swap_at i j ks"
  have i: "i < j" using parent_less [OF assms(4)] assms(5) by simp
  have nth: "?ks ! k = (if k = i then ks ! j else if k = j then ks ! i else ks ! k)" for k
    using assms i by (intro nth_swap_at) auto
  have le: "ks ! parent k \<le> ks ! k" if "0 < k" "k < n" "k \<noteq> i" "parent k \<noteq> i" for k
    using assms(1) that by (auto simp: heap_but_def)
  have up: "ks ! parent i \<le> ks ! j" if "0 < i"
    using assms(1,3-5) that by (auto simp: heap_but_def)
  have 1: "?ks ! parent k \<le> ?ks ! k" if k: "0 < k" "k < n" "k \<noteq> j" "parent k \<noteq> j" for k
    using k le [of k] least [of k] up parent_less [OF k(1)] by (cases "k = i") (auto simp: nth)
  have 2: "?ks ! parent j \<le> ?ks ! k" if k: "0 < k" "k < n" "parent k = j" for k
    using k le [of k] i parent_less [OF k(1)] assms(5) by (auto simp: nth)
  show "heap_but j n ?ks" using 1 2 by (simp add: heap_but_def)
  show "?ks ! parent j \<le> ?ks ! j" using i assms(5,6) by (simp add: nth)
qed

lemma heap_but_above_append:
  assumes "heap_ordered n ks" "length ks = n"
  shows "heap_but_above n (Suc n) (ks @ [x])"
proof -
  have "(ks @ [x]) ! parent k \<le> (ks @ [x]) ! k" if k: "0 < k" "k < Suc n" "k \<noteq> n" for k
  proof -
    have "k < n" "parent k < n" using k parent_less [OF k(1)] by linarith+
    then show ?thesis using assms k(1) by (simp add: heap_ordered_def nth_append)
  qed
  moreover have "parent k \<noteq> n" if k: "0 < k" "k < Suc n" for k
    using k(2) parent_less [OF k(1)] by linarith
  ultimately show ?thesis unfolding heap_but_above_def heap_but_def by blast
qed

text \<open>Moving the last key to a position breaks only the edges at that position.\<close>

lemma heap_but_replaced:
  assumes "heap_ordered (Suc n) ks" "length ks = Suc n" "i < n"
  shows "heap_but i n (swap_at i n ks)"
proof -
  have nth: "swap_at i n ks ! k = (if k = i then ks ! n else if k = n then ks ! i else ks ! k)" for k
    using assms by (intro nth_swap_at) auto
  have le: "ks ! parent k \<le> ks ! k" if "0 < k" "k < n" for k
    using assms(1) that by (simp add: heap_ordered_def)
  have 1: "swap_at i n ks ! parent k \<le> swap_at i n ks ! k" if "0 < k" "k < n" "k \<noteq> i" "parent k \<noteq> i" for k
    using that le [of k] parent_less [of k] by (simp add: nth)
  have 2: "swap_at i n ks ! parent i \<le> swap_at i n ks ! k" if k: "0 < k" "k < n" "parent k = i" "0 < i" for k
  proof -
    have "ks ! parent i \<le> ks ! i" "ks ! i \<le> ks ! k" using le [of i] le [of k] k assms(3) by auto
    then show ?thesis using k parent_less [of k] parent_less [of i] by (simp add: nth)
  qed
  show ?thesis using 1 2 by (simp add: heap_but_def)
qed

section \<open>The contract of the interface\<close>

text \<open>An implementation is seen as the list of its items, each with a priority and a
  reference to the stored value; \<open>ok\<close> is its own invariant and \<open>fresh\<close> what \<open>Push\<close>
  asks of a value.\<close>

locale heap_contract =
  fixes I :: "('h, 'x) heap_interface"
    and ok :: "'h \<Rightarrow> bool"
    and items :: "'h \<Rightarrow> 'a list"
    and prio :: "'a \<Rightarrow> 'k::linorder"
    and ref :: "'a \<Rightarrow> 'x"
    and fresh :: "'x \<Rightarrow> 'h \<Rightarrow> bool"
    and item :: "'x \<Rightarrow> 'h \<Rightarrow> 'a"
  assumes len: "ok h \<Longrightarrow> hi_Len I h = length (items h)"
    and less: "ok h \<Longrightarrow> i < length (items h) \<Longrightarrow> j < length (items h) \<Longrightarrow>
      hi_Less I i j h \<longleftrightarrow> prio (items h ! i) < prio (items h ! j)"
    and swap: "ok h \<Longrightarrow> i < length (items h) \<Longrightarrow> j < length (items h) \<Longrightarrow>
      ok (hi_Swap I i j h) \<and> items (hi_Swap I i j h) = swap_at i j (items h)"
    and push: "ok h \<Longrightarrow> fresh x h \<Longrightarrow> ok (hi_Push I x h) \<and> items (hi_Push I x h) = items h @ [item x h]"
    and pop: "ok h \<Longrightarrow> items h \<noteq> [] \<Longrightarrow> ok (snd (hi_Pop I h)) \<and> items (snd (hi_Pop I h)) = butlast (items h)
      \<and> fst (hi_Pop I h) = ref (last (items h))"
begin

definition keys :: "'h \<Rightarrow> 'k list" where
  "keys h = map prio (items h)"

definition heap_ok :: "'h \<Rightarrow> bool" where
  "heap_ok h \<longleftrightarrow> ok h \<and> heap_ordered (length (items h)) (keys h)"

lemma length_keys [simp]: "length (keys h) = length (items h)"
  by (simp add: keys_def)

lemma keys_swap:
  "ok h \<Longrightarrow> i < length (items h) \<Longrightarrow> j < length (items h) \<Longrightarrow> keys (hi_Swap I i j h) = swap_at i j (keys h)"
  by (simp add: keys_def swap map_swap_at)

lemma less_keys:
  "ok h \<Longrightarrow> i < length (items h) \<Longrightarrow> j < length (items h) \<Longrightarrow> hi_Less I i j h \<longleftrightarrow> keys h ! i < keys h ! j"
  by (simp add: keys_def less)

text \<open>What sifting within the first \<open>n\<close> positions leaves alone.\<close>

definition same_rest :: "nat \<Rightarrow> 'h \<Rightarrow> 'h \<Rightarrow> bool" where
  "same_rest n h h' \<longleftrightarrow> ok h' \<and> length (items h') = length (items h) \<and> mset (items h') = mset (items h)
     \<and> (\<forall>k \<ge> n. items h' ! k = items h ! k)"

lemma same_rest_refl: "ok h \<Longrightarrow> same_rest n h h"
  by (simp add: same_rest_def)

lemma same_rest_swap:
  assumes "ok h" "i < n" "j < n" "n \<le> length (items h)" "same_rest n (hi_Swap I i j h) h'"
  shows "same_rest n h h'"
  using assms swap [of h i j] by (auto simp: same_rest_def nth_swap_at)


lemma heap_up_run:
  assumes "ok h" "j < n" "n \<le> length (items h)"
  shows "same_rest n h (heap_up I j h) \<and> (heap_but_above j n (keys h) \<longrightarrow> heap_ordered n (keys (heap_up I j h)))"
  using assms
proof (induction j arbitrary: h rule: less_induct)
  case (less j)
  show ?case
  proof (cases "parent j = j \<or> \<not> hi_Less I j (parent j) h")
    case True
    then have stop: "heap_up I j h = h" by (subst heap_up.simps) simp
    have "j = 0 \<or> keys h ! parent j \<le> keys h ! j"
    proof (cases "j = 0")
      case False
      then have p: "parent j < j" by (simp add: parent_less)
      then have "\<not> keys h ! j < keys h ! parent j" using True less.prems less_keys [of h j "parent j"] by auto
      then show ?thesis by (simp add: not_less)
    qed simp
    then show ?thesis using less.prems heap_but_above_done [of j n "keys h"] by (simp add: stop same_rest_refl)
  next
    case False
    let ?h = "hi_Swap I (parent j) j h"
    have j: "0 < j" using False by (auto simp: parent_fixed)
    then have p: "parent j < j" by (rule parent_less)
    have step: "heap_up I j h = heap_up I (parent j) ?h" using False by (subst heap_up.simps) simp
    have lt: "keys h ! j < keys h ! parent j" using False less.prems p less_keys [of h j "parent j"] by simp
    have ok: "ok ?h" "length (items ?h) = length (items h)" "keys ?h = swap_at (parent j) j (keys h)"
      using less.prems p by (simp_all add: swap keys_swap)
    have IH: "same_rest n ?h (heap_up I (parent j) ?h)"
      "heap_but_above (parent j) n (keys ?h) \<Longrightarrow> heap_ordered n (keys (heap_up I (parent j) ?h))"
      using less.IH [OF p, of ?h] less.prems p ok by auto
    show ?thesis
      using IH same_rest_swap [of h "parent j" n j] less.prems p heap_but_above_step [of j n "keys h", OF _ j _ _ lt]
      by (auto simp: step ok(3))
  qed
qed

lemma least_child:
  assumes "ok h" "2 * i + 1 < n" "n \<le> length (items h)"
  shows "i < least_child I i n h" "least_child I i n h < n" "parent (least_child I i n h) = i"
    "0 < k \<Longrightarrow> k < n \<Longrightarrow> parent k = i \<Longrightarrow> keys h ! least_child I i n h \<le> keys h ! k"
proof -
  show "i < least_child I i n h" "least_child I i n h < n" "parent (least_child I i n h) = i"
    using assms(2) by (simp_all add: least_child_def parent_def)
  have right: "hi_Less I (2 * i + 2) (2 * i + 1) h \<longleftrightarrow> keys h ! (2 * i + 2) < keys h ! (2 * i + 1)" if "2 * i + 2 < n"
    using assms that less_keys [of h "2 * i + 2" "2 * i + 1"] by simp
  show "keys h ! least_child I i n h \<le> keys h ! k" if "0 < k" "k < n" "parent k = i"
  proof -
    have "k = 2 * i + 1 \<or> k = 2 * i + 2" using that children by blast
    then show ?thesis using that(2) right unfolding least_child_def by (auto simp: not_less)
  qed
qed

lemma heap_down_run:
  assumes "ok h" "n \<le> length (items h)" "heap_down I i n h = (k, h')"
  shows "i \<le> k \<and> same_rest n h h' \<and> (k = i \<longrightarrow> h' = h)
    \<and> (heap_but i n (keys h) \<longrightarrow> (if k = i then heap_but_above i n (keys h) else heap_ordered n (keys h')))"
  using assms
proof (induction "n - i" arbitrary: i h rule: less_induct)
  case less
  show ?case
  proof (cases "2 * i + 1 \<ge> n \<or> \<not> hi_Less I (least_child I i n h) i h")
    case True
    then have "heap_down I i n h = (i, h)" by (subst heap_down.simps) (auto simp: Let_def)
    then have stop: "k = i" "h' = h" using less.prems(3) by simp_all
    have "keys h ! i \<le> keys h ! c" if c: "0 < c" "c < n" "parent c = i" for c
    proof -
      have "2 * i + 1 < n" using c by (auto simp: children)
      note l = least_child [OF less.prems(1) this less.prems(2)]
      have "\<not> hi_Less I (least_child I i n h) i h" using True \<open>2 * i + 1 < n\<close> by simp
      moreover have "i < length (items h)" "least_child I i n h < length (items h)"
        using l(1,2) less.prems(2) by linarith+
      ultimately have "keys h ! i \<le> keys h ! least_child I i n h"
        using less_keys [OF less.prems(1)] by (simp add: not_less)
      then show ?thesis using l(4) [OF c] by (rule order_trans)
    qed
    then show ?thesis using less.prems by (simp add: stop same_rest_refl heap_but_above_def)
  next
    case False
    let ?j = "least_child I i n h"
    let ?h = "hi_Swap I i ?j h"
    have n: "2 * i + 1 < n" using False by simp
    note j = least_child [OF less.prems(1) n less.prems(2)]
    have step: "heap_down I ?j n ?h = (k, h')"
      using less.prems(3) [unfolded heap_down.simps [of I i n h]] False by (simp add: Let_def)
    have ok: "ok ?h" "length (items ?h) = length (items h)" "keys ?h = swap_at i ?j (keys h)"
      using less.prems j(1,2) by (simp_all add: swap keys_swap)
    have lt: "keys h ! ?j < keys h ! i" using False less.prems j(1,2) less_keys [of h ?j i] by simp
    have "n - ?j < n - i" "n \<le> length (items ?h)" using less.prems(2) j(1,2) ok(2) by linarith+
    from less.hyps [OF this(1) ok(1) this(2) step]
    have IH: "?j \<le> k" "same_rest n ?h h'" "k = ?j \<Longrightarrow> h' = ?h"
      "heap_but ?j n (keys ?h) \<Longrightarrow> if k = ?j then heap_but_above ?j n (keys ?h) else heap_ordered n (keys h')"
      by blast+
    have "heap_ordered n (keys h')" if "heap_but i n (keys h)"
    proof -
      have n': "n \<le> length (keys h)" and j0: "0 < ?j" using less.prems(2) j(1) by simp_all
      have "heap_but ?j n (keys ?h)"
        unfolding ok(3) by (rule heap_but_step(1) [OF that n' j(2) j0 j(3) lt]) (rule j(4))
      moreover have "keys ?h ! parent ?j \<le> keys ?h ! ?j"
        unfolding ok(3) by (rule heap_but_step(2) [OF that n' j(2) j0 j(3) lt]) (rule j(4))
      ultimately show ?thesis using IH(3,4) heap_but_above_done by metis
    qed
    moreover have "same_rest n h h'" using same_rest_swap [of h i n ?j h'] less.prems(1,2) j(1,2) IH(2) by simp
    moreover have "i < k" using IH(1) j(1) by linarith
    ultimately show ?thesis by simp
  qed
qed

lemma popped:
  assumes "ok h" "same_rest (length (items h) - 1) h h'" "items h \<noteq> []"
    "heap_ordered (length (items h) - 1) (keys h')" "hi_Pop I h' = (x, h'')"
  shows "heap_ok h'' \<and> x = ref (last (items h)) \<and> add_mset (last (items h)) (mset (items h'')) = mset (items h)"
proof -
  let ?n = "length (items h) - 1"
  have len: "length (items h') = length (items h)" and ok: "ok h'" and ms: "mset (items h') = mset (items h)"
    and last: "items h' ! ?n = items h ! ?n"
    using assms(2) by (simp_all add: same_rest_def)
  have ne: "items h' \<noteq> []" using len assms(3) by auto
  then have pop: "ok h''" "items h'' = butlast (items h')" "x = ref (last (items h'))"
    using pop [OF ok] assms(5) by auto
  have l: "last (items h') = last (items h)" using ne assms(3) len last by (simp add: last_conv_nth)
  have "heap_ordered ?n (keys h'')"
  proof -
    have "keys h'' ! k = keys h' ! k" if "k < ?n" for k
      using that by (simp add: keys_def pop(2) len nth_butlast)
    moreover have "parent k < ?n" if "0 < k" "k < ?n" for k using that parent_less [OF that(1)] by linarith
    ultimately show ?thesis using assms(4) by (simp add: heap_ordered_def)
  qed
  moreover have "mset (items h') = add_mset (last (items h')) (mset (butlast (items h')))"
  proof -
    have "mset (butlast (items h') @ [last (items h')]) = add_mset (last (items h')) (mset (butlast (items h')))"
      by (simp del: append_butlast_last_id)
    then show ?thesis using ne by simp
  qed
  ultimately show ?thesis using pop l ms len by (simp add: heap_ok_def)
qed

lemma heap_Push_ok:
  assumes "heap_ok h" "fresh x h"
  shows "heap_ok (heap_Push I x h) \<and> mset (items (heap_Push I x h)) = add_mset (item x h) (mset (items h))"
proof -
  let ?h = "hi_Push I x h" and ?n = "length (items h)"
  have p: "ok ?h" "items ?h = items h @ [item x h]" using push assms by (auto simp: heap_ok_def)
  have "heap_but_above ?n (Suc ?n) (keys ?h)"
    using assms(1) heap_but_above_append [of ?n "keys h" "prio (item x h)"] by (simp add: heap_ok_def keys_def p)
  then show ?thesis
    using heap_up_run [of ?h ?n "Suc ?n"] p
    by (simp add: heap_Push_def Let_def len heap_ok_def same_rest_def)
qed

lemma heap_Remove_ok:
  assumes "heap_ok h" "i < length (items h)" "heap_Remove I i h = (x, h')"
  shows "heap_ok h' \<and> x = ref (items h ! i) \<and> add_mset (items h ! i) (mset (items h')) = mset (items h)"
proof -
  let ?n = "length (items h) - 1"
  have n: "Suc ?n = length (items h)" using assms(2) by (cases "items h") auto
  then have ok: "ok h" "heap_ordered (Suc ?n) (keys h)" using assms(1) unfolding heap_ok_def by metis+
  have ne: "items h \<noteq> []" using assms(2) by auto
  show ?thesis
  proof (cases "?n = i")
    case True
    then have "hi_Pop I h = (x, h')" using assms(3) ok(1) by (simp add: heap_Remove_def len)
    moreover have "heap_ordered ?n (keys h)" using ok(2) by (simp add: heap_ordered_def)
    ultimately show ?thesis
      using popped [OF ok(1) same_rest_refl [OF ok(1)] ne] ne True by (simp add: last_conv_nth)
  next
    case False
    then have i: "i < ?n" using assms(2) by simp
    let ?h = "hi_Swap I i ?n h"
    have sw: "ok ?h" "items ?h = swap_at i ?n (items h)" "keys ?h = swap_at i ?n (keys h)"
      using swap [OF ok(1)] keys_swap [OF ok(1)] assms(2) i by simp_all
    have last: "last (items ?h) = items h ! i" and ms: "mset (items ?h) = mset (items h)"
      and ne': "items ?h \<noteq> []" and len': "length (items ?h) - 1 = ?n"
      using swapped_last [of i "items h"] i assms(2) unfolding sw(2) by simp_all
    obtain k d where d: "heap_down I i ?n ?h = (k, d)" by fastforce
    have but: "heap_but i ?n (keys ?h)" using heap_but_replaced [of ?n "keys h" i] ok(2) n i unfolding sw(3) by simp
    let ?e = "if k > i then d else heap_up I i d"
    have pop: "hi_Pop I ?e = (x, h')" using assms(3) False d ok(1) by (simp add: heap_Remove_def len)
    have "same_rest ?n ?h ?e \<and> heap_ordered ?n (keys ?e)"
    proof -
      have n': "?n \<le> length (items ?h)" using sw(2) by simp
      note down = heap_down_run [OF sw(1) n' d] and up = heap_up_run [OF sw(1) i n']
      show ?thesis
      proof (cases "k = i")
        case True
        then show ?thesis using down up but by simp
      next
        case False
        then show ?thesis using down but by simp
      qed
    qed
    then show ?thesis using popped [OF sw(1) _ ne' _ pop] last ms len' by simp
  qed
qed

lemma heap_Pop_ok:
  assumes "heap_ok h" "items h \<noteq> []" "heap_Pop I h = (x, h')"
  shows "heap_ok h' \<and> x = ref (items h ! 0) \<and> add_mset (items h ! 0) (mset (items h')) = mset (items h)
    \<and> (\<forall>a \<in> set (items h). prio (items h ! 0) \<le> prio a)"
proof -
  let ?n = "length (items h) - 1" and ?h = "hi_Swap I 0 (length (items h) - 1) h"
  have n: "Suc ?n = length (items h)" using assms(2) by (cases "items h") auto
  then have ok: "ok h" "heap_ordered (Suc ?n) (keys h)" using assms(1) unfolding heap_ok_def by metis+
  have sw: "ok ?h" "items ?h = swap_at 0 ?n (items h)" "keys ?h = swap_at 0 ?n (keys h)"
    using swap [OF ok(1)] keys_swap [OF ok(1)] assms(2) by simp_all
  have last: "last (items ?h) = items h ! 0" and ms: "mset (items ?h) = mset (items h)"
    and ne': "items ?h \<noteq> []" and len': "length (items ?h) - 1 = ?n"
    using swapped_last [of 0 "items h"] assms(2) unfolding sw(2) by simp_all
  obtain k d where d: "heap_down I 0 ?n ?h = (k, d)" by fastforce
  have but: "heap_but 0 ?n (keys ?h)"
    using heap_but_replaced [of ?n "keys h" 0] ok(2) n unfolding sw(3) by (cases "?n = 0") (simp_all add: heap_but_def)
  have "same_rest ?n ?h d \<and> heap_ordered ?n (keys d)"
  proof -
    have "?n \<le> length (items ?h)" using sw(2) by simp
    from heap_down_run [OF sw(1) this d] but show ?thesis
      using heap_but_above_done [of 0 ?n "keys ?h"] same_rest_refl [OF sw(1)] by (cases "k = 0") simp_all
  qed
  moreover have "hi_Pop I d = (x, h')" using assms(3) d ok(1) by (simp add: heap_Pop_def len)
  moreover have "\<forall>a \<in> set (items h). prio (items h ! 0) \<le> prio a"
    using heap_ordered_min [OF ok(2)] n assms(2) by (auto simp: keys_def in_set_conv_nth nth_map [of 0])
  ultimately show ?thesis using popped [OF sw(1) _ ne', of d x h'] last ms len' by simp
qed

end

end
