(* ===== verification/Simulation.thy ===== *)
theory Simulation
  imports Prelude
begin

text \<open>
  Sequences of operations on a state, and what it means that a component implements a
  specification: a function from its states to the specification's states, defined on
  the states of an invariant, commutes with every operation. Runs then agree in every
  result.
\<close>

primrec run_ops :: "('o \<Rightarrow> 's \<Rightarrow> 'r \<times> 's) \<Rightarrow> 'o list \<Rightarrow> 's \<Rightarrow> 'r list \<times> 's" where
  "run_ops step [] s = ([], s)"
| "run_ops step (op # ops) s =
     (let (r, s1) = step op s; (rs, s2) = run_ops step ops s1 in (r # rs, s2))"

lemma run_ops_append:
  "run_ops step (ops @ ops') s =
    (let (rs, s1) = run_ops step ops s; (rs', s2) = run_ops step ops' s1 in (rs @ rs', s2))"
  by (induction ops arbitrary: s) (simp_all add: Let_def case_prod_beta)

lemma run_ops_invariant:
  assumes "\<And>op s. op \<in> set ops \<Longrightarrow> P s \<Longrightarrow> P (snd (step op s))" "P s"
  shows "P (snd (run_ops step ops s))"
  using assms by (induction ops arbitrary: s) (simp_all add: Let_def case_prod_beta)

locale functional_refinement =
  fixes step :: "'o \<Rightarrow> 's \<Rightarrow> 'r \<times> 's"
    and spec :: "'o \<Rightarrow> 'a \<Rightarrow> 'r \<times> 'a"
    and inv :: "'s \<Rightarrow> bool"
    and abs :: "'s \<Rightarrow> 'a"
  assumes step_refines: "inv s \<Longrightarrow> inv (snd (step op s)) \<and> spec op (abs s) = (fst (step op s), abs (snd (step op s)))"
begin

lemma run_refines:
  assumes "inv s"
  shows "inv (snd (run_ops step ops s))
    \<and> run_ops spec ops (abs s) = (fst (run_ops step ops s), abs (snd (run_ops step ops s)))"
  using assms by (induction ops arbitrary: s) (simp_all add: Let_def case_prod_beta step_refines)

end

end
