(* ===== verification/Uniqueness.thy ===== *)
theory Uniqueness
  imports GoHeap Simulation
begin

text \<open>
  Claims on job identities (\<open>internal/uniqueness/memory.go\<close>): a map from keys to the
  current claim and a binary heap of expirations. A \<open>*memoryExpiry\<close> is an address; the
  queue holds the objects it points to, whose \<open>index\<close> fields follow every swap. The
  time an operation reads is its first argument.
\<close>

section \<open>The expiration queue\<close>

record memory_expiry =
  ex_key :: string
  ex_token :: "64 word"
  ex_expiresAt :: time
  ex_index :: int

record expiry_queue =
  eq_obj :: "nat \<Rightarrow> memory_expiry"
  eq_slots :: "nat list"

definition queue_Len :: "expiry_queue \<Rightarrow> nat" where
  "queue_Len q = length (eq_slots q)"

definition queue_Less :: "nat \<Rightarrow> nat \<Rightarrow> expiry_queue \<Rightarrow> bool" where
  "queue_Less i j q \<longleftrightarrow> ex_expiresAt (eq_obj q (eq_slots q ! i)) < ex_expiresAt (eq_obj q (eq_slots q ! j))"

definition set_index :: "nat \<Rightarrow> int \<Rightarrow> expiry_queue \<Rightarrow> expiry_queue" where
  "set_index a i q = q\<lparr>eq_obj := (eq_obj q)(a := (eq_obj q a)\<lparr>ex_index := i\<rparr>)\<rparr>"

definition queue_Swap :: "nat \<Rightarrow> nat \<Rightarrow> expiry_queue \<Rightarrow> expiry_queue" where
  "queue_Swap i j q =
     (let q = q\<lparr>eq_slots := (eq_slots q)[i := eq_slots q ! j, j := eq_slots q ! i]\<rparr>;
          q = set_index (eq_slots q ! i) (int i) q
      in set_index (eq_slots q ! j) (int j) q)"

definition queue_Push :: "nat \<Rightarrow> expiry_queue \<Rightarrow> expiry_queue" where
  "queue_Push expiry q =
     (let q = set_index expiry (int (length (eq_slots q))) q in q\<lparr>eq_slots := eq_slots q @ [expiry]\<rparr>)"

definition queue_Pop :: "expiry_queue \<Rightarrow> nat \<times> expiry_queue" where
  "queue_Pop q =
     (let expiry = last (eq_slots q); q = set_index expiry (-1) q in (expiry, q\<lparr>eq_slots := butlast (eq_slots q)\<rparr>))"

definition expiry_iface :: "(expiry_queue, nat) heap_interface" where
  "expiry_iface = \<lparr>hi_Len = queue_Len, hi_Less = queue_Less, hi_Swap = queue_Swap, hi_Push = queue_Push, hi_Pop = queue_Pop\<rparr>"

section \<open>Claims\<close>

record memory_claim =
  uc_token :: "64 word"
  uc_expiresAt :: time
  uc_expiry :: nat

text \<open>The address of the next object allocated is part of the state.\<close>

record claim_store =
  us_next :: "64 word"
  us_entries :: "string \<rightharpoonup> memory_claim"
  us_expires :: expiry_queue
  us_alloc :: nat

definition zero_claims :: claim_store where
  "zero_claims = \<lparr>us_next = 0, us_entries = Map.empty,
     us_expires = \<lparr>eq_obj = (\<lambda>_. \<lparr>ex_key = [], ex_token = 0, ex_expiresAt = 0, ex_index = 0\<rparr>), eq_slots = []\<rparr>, us_alloc = 0\<rparr>"

text \<open>One round of the pruning loop.\<close>

definition prune_one :: "claim_store \<Rightarrow> claim_store" where
  "prune_one s =
     (let (expiry, q) = heap_Pop expiry_iface (us_expires s); obj = eq_obj q expiry; s = s\<lparr>us_expires := q\<rparr>
      in case us_entries s (ex_key obj) of
           Some current \<Rightarrow> if uc_token current = ex_token obj
             then s\<lparr>us_entries := (us_entries s)(ex_key obj := None)\<rparr> else s
         | None \<Rightarrow> s)"

text \<open>Sifting and popping keep the number of slots or lower it by one, whatever the queue.\<close>

lemma length_Swap [simp]: "length (eq_slots (queue_Swap i j q)) = length (eq_slots q)"
  by (simp add: queue_Swap_def set_index_def Let_def)

lemma length_down [simp]: "length (eq_slots (snd (heap_down expiry_iface i n q))) = length (eq_slots q)"
  by (rule heap_down_swaps) (simp_all add: expiry_iface_def)

lemma length_heap_Pop [simp]:
  "length (eq_slots (snd (heap_Pop expiry_iface q))) = length (eq_slots q) - 1"
proof -
  have pop: "length (eq_slots (snd (hi_Pop expiry_iface q'))) = length (eq_slots q') - 1" for q'
    by (simp add: expiry_iface_def queue_Pop_def set_index_def Let_def)
  show ?thesis unfolding heap_Pop_def Let_def pop length_down by (simp add: expiry_iface_def)
qed

lemma prune_one_expires: "us_expires (prune_one s) = snd (heap_Pop expiry_iface (us_expires s))"
  by (simp add: prune_one_def Let_def case_prod_beta split: option.split)

lemma length_prune_one:
  "eq_slots (us_expires s) \<noteq> [] \<Longrightarrow> length (eq_slots (us_expires (prune_one s))) < length (eq_slots (us_expires s))"
  by (simp add: prune_one_expires)

function pruneExpiredLocked :: "time \<Rightarrow> claim_store \<Rightarrow> claim_store" where
  "pruneExpiredLocked now s =
     (if eq_slots (us_expires s) \<noteq> []
         \<and> \<not> ex_expiresAt (eq_obj (us_expires s) (eq_slots (us_expires s) ! 0)) > now
      then pruneExpiredLocked now (prune_one s) else s)"
  by pat_completeness auto
termination
  by (relation "measure (\<lambda>(now, s). length (eq_slots (us_expires s)))") (simp_all add: length_prune_one)

declare pruneExpiredLocked.simps [simp del]

definition next_token :: "64 word \<Rightarrow> 64 word" where
  "next_token n = (if n + 1 = 0 then n + 1 + 1 else n + 1)"

definition new_claim :: "time \<Rightarrow> string \<Rightarrow> duration \<Rightarrow> claim_store \<Rightarrow> claim_store" where
  "new_claim now key ttl s =
     (let token = next_token (us_next s); expiry = us_alloc s;
          q = (us_expires s)\<lparr>eq_obj := (eq_obj (us_expires s))(expiry :=
                 \<lparr>ex_key = key, ex_token = token, ex_expiresAt = now + ttl, ex_index = 0\<rparr>)\<rparr>
      in s\<lparr>us_next := token, us_alloc := Suc expiry, us_expires := heap_Push expiry_iface expiry q,
           us_entries := (us_entries s)(key \<mapsto> \<lparr>uc_token = token, uc_expiresAt = now + ttl, uc_expiry = expiry\<rparr>)\<rparr>)"

definition Acquire :: "time \<Rightarrow> string \<Rightarrow> duration \<Rightarrow> claim_store \<Rightarrow> (64 word \<times> bool) \<times> claim_store" where
  "Acquire now key ttl s =
     (if key = [] \<or> ttl \<le> 0 then ((0, False), s)
      else let s = pruneExpiredLocked now s in
        if (case us_entries s key of Some current \<Rightarrow> uc_expiresAt current > now | None \<Rightarrow> False) then ((0, False), s)
        else ((next_token (us_next s), True), new_claim now key ttl s))"

definition Release :: "string \<Rightarrow> 64 word \<Rightarrow> claim_store \<Rightarrow> claim_store" where
  "Release key token s =
     (if key = [] \<or> token = 0 then s
      else case us_entries s key of
        Some current \<Rightarrow> if uc_token current = token
          then s\<lparr>us_expires := snd (heap_Remove expiry_iface (nat (ex_index (eq_obj (us_expires s) (uc_expiry current)))) (us_expires s)),
                 us_entries := (us_entries s)(key := None)\<rparr>
          else s
      | None \<Rightarrow> s)"

section \<open>The queue implements the heap interface\<close>

text \<open>An item of the queue: address, key, token and expiration.\<close>

type_synonym expiry_item = "nat \<times> string \<times> 64 word \<times> time"

definition expiry_item :: "nat \<Rightarrow> expiry_queue \<Rightarrow> expiry_item" where
  "expiry_item a q = (a, ex_key (eq_obj q a), ex_token (eq_obj q a), ex_expiresAt (eq_obj q a))"

definition expiry_items :: "expiry_queue \<Rightarrow> expiry_item list" where
  "expiry_items q = map (\<lambda>a. expiry_item a q) (eq_slots q)"

definition item_expiry :: "expiry_item \<Rightarrow> time" where
  "item_expiry it = (case it of (a, k, t, x) \<Rightarrow> x)"

definition indexed :: "expiry_queue \<Rightarrow> bool" where
  "indexed q \<longleftrightarrow> distinct (eq_slots q) \<and> (\<forall>i < length (eq_slots q). ex_index (eq_obj q (eq_slots q ! i)) = int i)"

lemma expiry_items_nth [simp]:
  "length (expiry_items q) = length (eq_slots q)"
  "i < length (eq_slots q) \<Longrightarrow> expiry_items q ! i = expiry_item (eq_slots q ! i) q"
  by (simp_all add: expiry_items_def)

lemma set_index_sel [simp]:
  "eq_slots (set_index a i q) = eq_slots q"
  "expiry_item b (set_index a i q) = expiry_item b q"
  "ex_index (eq_obj (set_index a i q) b) = (if b = a then i else ex_index (eq_obj q b))"
  by (simp_all add: set_index_def expiry_item_def)

lemma slots_update_sel [simp]:
  "expiry_item b (q\<lparr>eq_slots := xs\<rparr>) = expiry_item b q" "eq_obj (q\<lparr>eq_slots := xs\<rparr>) = eq_obj q"
  by (simp_all add: expiry_item_def)

lemma expiry_item_fst [simp]: "fst (expiry_item a q) = a"
  by (simp add: expiry_item_def)

lemma queue_Swap_slots: "eq_slots (queue_Swap i j q) = swap_at i j (eq_slots q)"
  by (simp add: queue_Swap_def swap_at_def Let_def)

lemma queue_Swap_item: "expiry_item a (queue_Swap i j q) = expiry_item a q"
  by (simp add: queue_Swap_def Let_def)

lemma queue_Swap_indexed:
  assumes "indexed q" "i < length (eq_slots q)" "j < length (eq_slots q)"
  shows "indexed (queue_Swap i j q)"
proof -
  let ?s = "swap_at i j (eq_slots q)"
  have d: "distinct ?s" using assms by (simp add: indexed_def swap_at_def distinct_swap)
  have nth: "?s ! k = (if k = i then eq_slots q ! j else if k = j then eq_slots q ! i else eq_slots q ! k)" for k
    using assms by (simp add: nth_swap_at)
  have "ex_index (eq_obj (queue_Swap i j q) (?s ! k)) = int k" if k: "k < length ?s" for k
  proof -
    have "ex_index (eq_obj (queue_Swap i j q) b) =
        (if b = ?s ! j then int j else if b = ?s ! i then int i else ex_index (eq_obj q b))" for b
      by (simp add: queue_Swap_def Let_def swap_at_def)
    moreover have "?s ! k = ?s ! j \<longleftrightarrow> k = j" "?s ! k = ?s ! i \<longleftrightarrow> k = i"
      using d k assms by (simp_all add: nth_eq_iff_index_eq)
    ultimately show ?thesis using k assms(1) by (auto simp: nth indexed_def)
  qed
  then show ?thesis using d by (simp add: indexed_def queue_Swap_slots)
qed

lemma queue_Push_indexed: "indexed q \<Longrightarrow> a \<notin> set (eq_slots q) \<Longrightarrow> indexed (queue_Push a q)"
  by (auto simp: indexed_def queue_Push_def Let_def nth_append less_Suc_eq)

lemma queue_Pop_indexed: "indexed q \<Longrightarrow> eq_slots q \<noteq> [] \<Longrightarrow> indexed (snd (queue_Pop q))"
proof -
  assume q: "indexed q" "eq_slots q \<noteq> []"
  have "eq_slots q ! i \<noteq> last (eq_slots q)" if "i < length (eq_slots q) - 1" for i
    using q that by (auto simp: indexed_def last_conv_nth nth_eq_iff_index_eq)
  then show "indexed (snd (queue_Pop q))"
    using q by (auto simp: indexed_def queue_Pop_def Let_def nth_butlast distinct_butlast)
qed

interpretation eh: heap_contract expiry_iface indexed expiry_items item_expiry fst
  "\<lambda>a q. a \<notin> set (eq_slots q)" expiry_item
proof (unfold_locales, goal_cases)
  case (3 q i j)
  then have "expiry_items (queue_Swap i j q) = swap_at i j (expiry_items q)"
    by (simp add: expiry_items_def queue_Swap_slots queue_Swap_item map_swap_at)
  then show ?case using 3 queue_Swap_indexed by (simp add: expiry_iface_def)
next
  case (4 q a)
  then show ?case
    using queue_Push_indexed [of q a] by (simp add: expiry_iface_def) (simp add: queue_Push_def expiry_items_def Let_def)
next
  case (5 q)
  then have ne: "eq_slots q \<noteq> []" by (auto simp: expiry_items_def)
  then show ?case using 5 queue_Pop_indexed [OF 5(1) ne]
    by (simp add: expiry_iface_def) (simp add: queue_Pop_def Let_def expiry_items_def map_butlast last_map)
qed (simp_all add: expiry_iface_def queue_Len_def queue_Less_def item_expiry_def expiry_item_def)

section \<open>Invariant\<close>

text \<open>Entries and queued expirations are in one-to-one correspondence, the queue is a
  heap, and its addresses were allocated.\<close>

definition claims_ok :: "claim_store \<Rightarrow> bool" where
  "claims_ok s \<longleftrightarrow> eh.heap_ok (us_expires s) \<and> (\<forall>a \<in> set (eq_slots (us_expires s)). a < us_alloc s)
     \<and> (\<forall>k c. us_entries s k = Some c \<longrightarrow>
          (uc_expiry c, k, uc_token c, uc_expiresAt c) \<in> set (expiry_items (us_expires s)))
     \<and> (\<forall>a k t x. (a, k, t, x) \<in> set (expiry_items (us_expires s)) \<longrightarrow>
          us_entries s k = Some \<lparr>uc_token = t, uc_expiresAt = x, uc_expiry = a\<rparr>)"

lemma claims_okD:
  assumes "claims_ok s"
  shows "eh.heap_ok (us_expires s)" "a \<in> set (eq_slots (us_expires s)) \<Longrightarrow> a < us_alloc s"
    "us_entries s k = Some c \<Longrightarrow> (uc_expiry c, k, uc_token c, uc_expiresAt c) \<in> set (expiry_items (us_expires s))"
    "(a, k, t, x) \<in> set (expiry_items (us_expires s)) \<Longrightarrow>
      us_entries s k = Some \<lparr>uc_token = t, uc_expiresAt = x, uc_expiry = a\<rparr>"
  using assms by (simp_all add: claims_ok_def)

lemma slots_items: "eq_slots q = map fst (expiry_items q)"
  by (rule nth_equalityI) simp_all

lemma heap_Pop_item: "expiry_item b (snd (heap_Pop expiry_iface q)) = expiry_item b q"
proof -
  have swap: "expiry_item b (hi_Swap expiry_iface i j q') = expiry_item b q'" for i j q'
    by (simp add: expiry_iface_def queue_Swap_item)
  have pop: "expiry_item b (snd (hi_Pop expiry_iface q')) = expiry_item b q'" for q'
    by (simp add: expiry_iface_def queue_Pop_def Let_def)
  show ?thesis
    unfolding heap_Pop_def Let_def pop by (rule heap_down_swaps) (simp_all add: swap)
qed

lemma items_distinct: "indexed q \<Longrightarrow> distinct (expiry_items q)"
  by (metis distinct_map indexed_def slots_items)

text \<open>Taking one item out of the queue and its entry out of the map.\<close>

lemma claims_ok_remove:
  assumes "claims_ok s" "(a, k, t, x) \<in> set (expiry_items (us_expires s))" "eh.heap_ok q"
    "add_mset (a, k, t, x) (mset (expiry_items q)) = mset (expiry_items (us_expires s))"
  shows "claims_ok (s\<lparr>us_expires := q, us_entries := (us_entries s)(k := None)\<rparr>)"
proof -
  let ?old = "expiry_items (us_expires s)"
  have "distinct ?old" using claims_okD(1) [OF assms(1)] by (simp add: eh.heap_ok_def items_distinct)
  then have "mset ?old = mset_set (set ?old)" by (metis mset_set_set)
  then have set: "set (expiry_items q) = set ?old - {(a, k, t, x)}"
    using assms(4) \<open>distinct ?old\<close>
    by (metis (no_types, lifting) Diff_insert_absorb distinct.simps(2) list.simps(15) mset.simps(2) mset_eq_imp_distinct_iff mset_eq_setD)
  have only: "(a', k', t', x') = (a, k, t, x)" if "(a', k', t', x') \<in> set ?old" "k' = k" for a' k' t' x'
    using claims_okD(4) [OF assms(1) that(1)] claims_okD(4) [OF assms(1,2)] that(2) by simp
  have slots: "set (eq_slots q) \<subseteq> set (eq_slots (us_expires s))"
    using set by (auto simp: slots_items)
  show ?thesis
    unfolding claims_ok_def
    using assms(3) claims_okD(2-4) [OF assms(1)] slots set only by auto
qed

lemma prune_one_ok:
  assumes "claims_ok s" "eq_slots (us_expires s) \<noteq> []"
  shows "claims_ok (prune_one s) \<and>
    us_entries (prune_one s) = (us_entries s)(ex_key (eq_obj (us_expires s) (eq_slots (us_expires s) ! 0)) := None)"
proof -
  let ?q = "us_expires s"
  obtain a q where pop: "heap_Pop expiry_iface ?q = (a, q)" by fastforce
  obtain k t x where it: "expiry_items ?q ! 0 = (eq_slots ?q ! 0, k, t, x)" "k = ex_key (eq_obj ?q (eq_slots ?q ! 0))"
    using assms(2) by (simp add: expiry_item_def)
  have ne: "expiry_items ?q \<noteq> []" using assms(2) by (simp add: expiry_items_def)
  have r: "eh.heap_ok q" "a = eq_slots ?q ! 0"
      "add_mset (a, k, t, x) (mset (expiry_items q)) = mset (expiry_items ?q)"
    using eh.heap_Pop_ok [OF claims_okD(1) [OF assms(1)] ne pop] it by auto
  have mem: "(a, k, t, x) \<in> set (expiry_items ?q)" using it ne r(2) by (metis length_greater_0_conv nth_mem)
  have obj: "ex_key (eq_obj q a) = k" "ex_token (eq_obj q a) = t"
    using heap_Pop_item [of a ?q] it r(2) assms(2) by (simp_all add: pop expiry_item_def)
  have entry: "us_entries s k = Some \<lparr>uc_token = t, uc_expiresAt = x, uc_expiry = a\<rparr>"
    using claims_okD(4) [OF assms(1) mem] .
  have "prune_one s = s\<lparr>us_expires := q, us_entries := (us_entries s)(k := None)\<rparr>"
    by (simp add: prune_one_def pop obj entry)
  then show ?thesis using claims_ok_remove [OF assms(1) mem r(1,3)] it(2) by simp
qed

lemma heap_min:
  assumes "eh.heap_ok q" "it \<in> set (expiry_items q)"
  shows "item_expiry (expiry_items q ! 0) \<le> item_expiry it"
proof -
  have "expiry_items q \<noteq> []" using assms(2) by (metis empty_iff list.set(1))
  then show ?thesis using eh.heap_Pop_ok [OF assms(1) _ prod.collapse [symmetric]] assms(2) by blast
qed

lemma prune_ok:
  assumes "claims_ok s"
  shows "claims_ok (pruneExpiredLocked now s) \<and> us_next (pruneExpiredLocked now s) = us_next s
    \<and> us_entries (pruneExpiredLocked now s) = delete_where (\<lambda>k c. uc_expiresAt c \<le> now) (us_entries s)"
  using assms
proof (induction now s rule: pruneExpiredLocked.induct)
  case (1 now s)
  let ?q = "us_expires s"
  have heap: "eh.heap_ok ?q" using claims_okD(1) [OF "1.prems"] .
  show ?case
  proof (cases "eq_slots ?q \<noteq> [] \<and> \<not> ex_expiresAt (eq_obj ?q (eq_slots ?q ! 0)) > now")
    case True
    let ?k = "ex_key (eq_obj ?q (eq_slots ?q ! 0))"
    have p: "claims_ok (prune_one s)" "us_entries (prune_one s) = (us_entries s)(?k := None)"
      using prune_one_ok [OF "1.prems"] True by blast+
    have n: "us_next (prune_one s) = us_next s"
      by (simp add: prune_one_def Let_def case_prod_beta split: option.split)
    have "expiry_item (eq_slots ?q ! 0) ?q \<in> set (expiry_items ?q)"
      using True by (simp add: expiry_items_def)
    then have "us_entries s ?k = Some \<lparr>uc_token = ex_token (eq_obj ?q (eq_slots ?q ! 0)),
        uc_expiresAt = ex_expiresAt (eq_obj ?q (eq_slots ?q ! 0)), uc_expiry = eq_slots ?q ! 0\<rparr>"
      using claims_okD(4) [OF "1.prems"] by (simp add: expiry_item_def)
    then have "delete_where (\<lambda>k c. uc_expiresAt c \<le> now) ((us_entries s)(?k := None)) =
        delete_where (\<lambda>k c. uc_expiresAt c \<le> now) (us_entries s)"
      using True by (auto simp: delete_where_def fun_eq_iff)
    moreover have "pruneExpiredLocked now s = pruneExpiredLocked now (prune_one s)"
      using True by (subst pruneExpiredLocked.simps) simp
    ultimately show ?thesis using "1.IH" [OF True p(1)] unfolding p(2) n by metis
  next
    case False
    have "uc_expiresAt c > now" if c: "us_entries s k = Some c" for k c
    proof -
      have mem: "(uc_expiry c, k, uc_token c, uc_expiresAt c) \<in> set (expiry_items ?q)"
        using claims_okD(3) [OF "1.prems" c] .
      then have ne: "eq_slots ?q \<noteq> []" by (auto simp: expiry_items_def)
      have "item_expiry (expiry_items ?q ! 0) \<le> item_expiry (uc_expiry c, k, uc_token c, uc_expiresAt c)"
        using heap_min [OF heap mem] .
      then show ?thesis using False ne by (simp add: item_expiry_def expiry_item_def)
    qed
    then have "delete_where (\<lambda>k c. uc_expiresAt c \<le> now) (us_entries s) = us_entries s"
      by (intro delete_where_id) (simp add: not_le)
    moreover have "pruneExpiredLocked now s = s" using False by (subst pruneExpiredLocked.simps) auto
    ultimately show ?thesis using "1.prems" by simp
  qed
qed

lemma new_claim_ok:
  assumes "claims_ok s" "us_entries s key = None"
  shows "claims_ok (new_claim now key ttl s)"
proof -
  let ?t = "next_token (us_next s)" and ?a = "us_alloc s"
  let ?o = "\<lparr>ex_key = key, ex_token = ?t, ex_expiresAt = now + ttl, ex_index = 0\<rparr>"
  let ?q = "(us_expires s)\<lparr>eq_obj := (eq_obj (us_expires s))(?a := ?o)\<rparr>"
  have fresh: "?a \<notin> set (eq_slots (us_expires s))" using claims_okD(2) [OF assms(1)] by blast
  have items: "expiry_items ?q = expiry_items (us_expires s)"
    using fresh by (auto simp: expiry_items_def expiry_item_def)
  have "\<forall>i < length (eq_slots (us_expires s)). eq_slots (us_expires s) ! i \<noteq> ?a"
    using fresh by (metis nth_mem)
  then have "indexed ?q = indexed (us_expires s)" by (simp add: indexed_def)
  then have "eh.heap_ok ?q" using claims_okD(1) [OF assms(1)] items by (simp add: eh.heap_ok_def eh.keys_def)
  from eh.heap_Push_ok [OF this, of ?a] fresh have p: "eh.heap_ok (heap_Push expiry_iface ?a ?q)"
      "mset (expiry_items (heap_Push expiry_iface ?a ?q)) = add_mset (?a, key, ?t, now + ttl) (mset (expiry_items (us_expires s)))"
    by (simp_all add: items expiry_item_def)
  then have set: "set (expiry_items (heap_Push expiry_iface ?a ?q)) = insert (?a, key, ?t, now + ttl) (set (expiry_items (us_expires s)))"
    by (metis set_mset_add_mset_insert set_mset_mset)
  have slots: "set (eq_slots (heap_Push expiry_iface ?a ?q)) = insert ?a (set (eq_slots (us_expires s)))"
    unfolding slots_items set_map set by (simp add: image_iff)
  have none: "(b, key, t, x) \<notin> set (expiry_items (us_expires s))" for b t x
    using claims_okD(4) [OF assms(1)] assms(2) by fastforce
  show ?thesis
    using p(1) claims_okD(2-4) [OF assms(1)] none
    by (auto simp: claims_ok_def new_claim_def Let_def set slots less_Suc_eq)
qed

lemma Release_ok:
  assumes "claims_ok s"
  shows "claims_ok (Release key token s)"
proof (cases "key \<noteq> [] \<and> token \<noteq> 0 \<and> (\<exists>c. us_entries s key = Some c \<and> uc_token c = token)")
  case True
  then obtain c where c: "us_entries s key = Some c" "uc_token c = token" by blast
  let ?q = "us_expires s" and ?it = "(uc_expiry c, key, uc_token c, uc_expiresAt c)"
  have mem: "?it \<in> set (expiry_items ?q)" using claims_okD(3) [OF assms c(1)] .
  then obtain i where i: "i < length (eq_slots ?q)" "expiry_items ?q ! i = ?it"
    by (metis expiry_items_nth(1) in_set_conv_nth)
  then have "ex_index (eq_obj ?q (uc_expiry c)) = int i"
    using claims_okD(1) [OF assms] by (auto simp: eh.heap_ok_def indexed_def expiry_item_def)
  moreover obtain x q where r: "heap_Remove expiry_iface i ?q = (x, q)" by fastforce
  ultimately have "Release key token s = s\<lparr>us_expires := q, us_entries := (us_entries s)(key := None)\<rparr>"
    using True c by (simp add: Release_def)
  moreover have "eh.heap_ok q" "add_mset ?it (mset (expiry_items q)) = mset (expiry_items ?q)"
    using eh.heap_Remove_ok [OF claims_okD(1) [OF assms] _ r] i by auto
  ultimately show ?thesis using claims_ok_remove [OF assms mem] by simp
next
  case False
  then have "Release key token s = s" by (auto simp: Release_def split: option.splits)
  then show ?thesis using assms by simp
qed

section \<open>The claim registry, abstractly\<close>

text \<open>What the drivers rely on: who holds a key, until when. A claim is granted when
  nobody holds the key and refused otherwise, only the holder's token releases it, and
  nothing but release and expiry ends a claim.\<close>

type_synonym holders = "string \<rightharpoonup> 64 word \<times> time"

definition live :: "time \<Rightarrow> holders \<Rightarrow> holders" where
  "live now h = delete_where (\<lambda>k (t, x). x \<le> now) h"

definition spec_Acquire :: "time \<Rightarrow> string \<Rightarrow> duration \<Rightarrow> 64 word \<times> holders \<Rightarrow> (64 word \<times> bool) \<times> (64 word \<times> holders)" where
  "spec_Acquire now key ttl = (\<lambda>(n, h).
     if key = [] \<or> ttl \<le> 0 then ((0, False), (n, h))
     else if live now h key \<noteq> None then ((0, False), (n, live now h))
     else ((next_token n, True), (next_token n, (live now h)(key \<mapsto> (next_token n, now + ttl)))))"

definition spec_Release :: "string \<Rightarrow> 64 word \<Rightarrow> 64 word \<times> holders \<Rightarrow> 64 word \<times> holders" where
  "spec_Release key token = (\<lambda>(n, h).
     if key \<noteq> [] \<and> token \<noteq> 0 \<and> (\<exists>x. h key = Some (token, x)) then (n, h(key := None)) else (n, h))"

definition holders_of :: "claim_store \<Rightarrow> 64 word \<times> holders" where
  "holders_of s = (us_next s, \<lambda>k. map_option (\<lambda>c. (uc_token c, uc_expiresAt c)) (us_entries s k))"

lemma holders_prune:
  assumes "claims_ok s"
  shows "holders_of (pruneExpiredLocked now s) = (us_next s, live now (snd (holders_of s)))"
  using prune_ok [OF assms, of now]
  by (auto simp: holders_of_def live_def delete_where_def fun_eq_iff split: option.splits)

lemma Acquire_refines:
  assumes "claims_ok s" "Acquire now key ttl s = (r, s')"
  shows "claims_ok s' \<and> spec_Acquire now key ttl (holders_of s) = (r, holders_of s')"
proof (cases "key = [] \<or> ttl \<le> 0")
  case True
  then show ?thesis using assms by (auto simp: Acquire_def spec_Acquire_def holders_of_def)
next
  case False
  let ?p = "pruneExpiredLocked now s"
  note p = prune_ok [OF assms(1), of now] and h = holders_prune [OF assms(1), of now]
  have fresh: "(case us_entries ?p key of Some c \<Rightarrow> uc_expiresAt c > now | None \<Rightarrow> False) \<longleftrightarrow> us_entries ?p key \<noteq> None"
    using p by (auto simp: delete_where_def split: option.splits if_splits)
  have "live now (snd (holders_of s)) key = map_option (\<lambda>c. (uc_token c, uc_expiresAt c)) (us_entries ?p key)"
    using fun_cong [OF arg_cong [OF h, of snd], of key] by (simp add: holders_of_def)
  then have held: "live now (snd (holders_of s)) key \<noteq> None \<longleftrightarrow> us_entries ?p key \<noteq> None" by simp
  have sp: "spec_Acquire now key ttl (holders_of s) =
      (if us_entries ?p key \<noteq> None then ((0, False), holders_of ?p)
       else ((next_token (us_next s), True),
             (next_token (us_next s), (snd (holders_of ?p))(key \<mapsto> (next_token (us_next s), now + ttl)))))"
    using False held h by (simp add: spec_Acquire_def) (simp add: holders_of_def)
  show ?thesis
  proof (cases "us_entries ?p key = None")
    case True
    then have "s' = new_claim now key ttl ?p" "r = (next_token (us_next s), True)"
      using assms(2) False fresh p by (auto simp: Acquire_def Let_def)
    then show ?thesis
      using new_claim_ok [OF _ True] p sp True
      by (auto simp: new_claim_def Let_def holders_of_def fun_eq_iff)
  next
    case False
    then have "s' = ?p" "r = (0, False)"
      using assms(2) \<open>\<not> (key = [] \<or> ttl \<le> 0)\<close> fresh by (auto simp: Acquire_def Let_def)
    then show ?thesis using p sp False by simp
  qed
qed

lemma Release_refines:
  assumes "claims_ok s"
  shows "claims_ok (Release key token s) \<and> holders_of (Release key token s) = spec_Release key token (holders_of s)"
  using Release_ok [OF assms]
  by (auto simp: Release_def spec_Release_def holders_of_def fun_eq_iff split: option.splits)

section \<open>Runs\<close>

datatype claim_op = AcquireOp time string duration | ReleaseOp string "64 word"

fun claim_step :: "claim_op \<Rightarrow> claim_store \<Rightarrow> (64 word \<times> bool) option \<times> claim_store" where
  "claim_step (AcquireOp now key ttl) s = (case Acquire now key ttl s of (r, s') \<Rightarrow> (Some r, s'))"
| "claim_step (ReleaseOp key token) s = (None, Release key token s)"

fun holder_step :: "claim_op \<Rightarrow> 64 word \<times> holders \<Rightarrow> (64 word \<times> bool) option \<times> (64 word \<times> holders)" where
  "holder_step (AcquireOp now key ttl) s = (case spec_Acquire now key ttl s of (r, s') \<Rightarrow> (Some r, s'))"
| "holder_step (ReleaseOp key token) s = (None, spec_Release key token s)"

interpretation claims: functional_refinement claim_step holder_step claims_ok holders_of
proof
  fix s op assume "claims_ok s"
  then show "claims_ok (snd (claim_step op s))
      \<and> holder_step op (holders_of s) = (fst (claim_step op s), holders_of (snd (claim_step op s)))"
    using Release_refines Acquire_refines [OF _ prod.collapse [symmetric]]
    by (cases op) (simp_all add: case_prod_beta)
qed

lemma zero_claims_ok: "claims_ok zero_claims"
  by (simp add: claims_ok_def zero_claims_def expiry_items_def eh.heap_ok_def indexed_def heap_ordered_def)

lemma holders_zero: "holders_of zero_claims = (0, Map.empty)"
  by (simp add: holders_of_def zero_claims_def)

text \<open>A held key stays held while nobody releases it with its token and no acquisition
  reads a time at or after its expiry.\<close>

fun spares :: "string \<Rightarrow> 64 word \<Rightarrow> time \<Rightarrow> claim_op \<Rightarrow> bool" where
  "spares key token x (AcquireOp now _ _) \<longleftrightarrow> now < x"
| "spares key token x (ReleaseOp k t) \<longleftrightarrow> \<not> (k = key \<and> t = token)"

lemma live_held: "h k = Some (t, x) \<Longrightarrow> now < x \<Longrightarrow> live now h k = Some (t, x)"
  by (simp add: live_def)

lemma held_step:
  assumes "spares key token x op" "snd s key = Some (token, x)"
  shows "snd (snd (holder_step op s)) key = Some (token, x)"
  using assms by (cases s; cases op) (auto simp: spec_Acquire_def spec_Release_def live_held)

lemma held_run:
  "list_all (spares key token x) ops \<Longrightarrow> snd s key = Some (token, x) \<Longrightarrow>
   snd (snd (run_ops holder_step ops s)) key = Some (token, x)"
  by (rule run_ops_invariant) (auto simp: list_all_iff intro: held_step)

lemma granted: "spec_Acquire t key ttl h = ((token, True), h') \<Longrightarrow> snd h' key = Some (token, t + ttl)"
  by (cases h) (auto simp: spec_Acquire_def split: if_splits)

lemma claims_count:
  assumes "claims_ok s"
  shows "length (eq_slots (us_expires s)) = card (dom (us_entries s))"
proof -
  let ?its = "expiry_items (us_expires s)" and ?key = "\<lambda>(a, k, t, x). k"
  have same: "it = it'" if its: "it \<in> set ?its" "it' \<in> set ?its" "?key it = ?key it'" for it it'
  proof -
    obtain a k t x where it: "it = (a, k, t, x)" by (cases it rule: prod_cases4)
    moreover obtain a' k' t' x' where "it' = (a', k', t', x')" by (cases it' rule: prod_cases4)
    moreover from this it its(3) have "k' = k" by simp
    ultimately show ?thesis using claims_okD(4) [OF assms, of a k t x] claims_okD(4) [OF assms, of a' k t' x'] its(1,2) by simp
  qed
  then have "inj_on ?key (set ?its)" by (simp add: inj_on_def)
  moreover have "distinct ?its" using claims_okD(1) [OF assms] by (simp add: eh.heap_ok_def items_distinct)
  ultimately have "distinct (map ?key ?its)" by (simp add: distinct_map)
  then have "length ?its = card (set (map ?key ?its))" by (metis distinct_card length_map)
  moreover have "set (map ?key ?its) = dom (us_entries s)"
  proof (intro set_eqI iffI)
    fix k assume "k \<in> set (map ?key ?its)"
    then obtain a t x where "(a, k, t, x) \<in> set ?its" by auto
    then show "k \<in> dom (us_entries s)" using claims_okD(4) [OF assms] by blast
  next
    fix k assume "k \<in> dom (us_entries s)"
    then obtain c where "us_entries s k = Some c" by blast
    then have "(uc_expiry c, k, uc_token c, uc_expiresAt c) \<in> set ?its" by (rule claims_okD(3) [OF assms])
    then show "k \<in> set (map ?key ?its)" by (auto intro: rev_image_eqI)
  qed
  ultimately show ?thesis by simp
qed

lemma next_token_nonzero: "next_token n \<noteq> 0"
  by (auto simp: next_token_def)

section \<open>Properties\<close>

text \<open>C19. The heap-backed claim store implements the registry it stands for: from the
  zero value, any sequence of acquisitions and releases gives the results of the plain
  map from keys to holders, in which a claim is granted exactly when no live claim
  exists, and leaves the store representing that map.\<close>

theorem claim_store_refines_registry:
  "run_ops holder_step ops (0, Map.empty) =
     (fst (run_ops claim_step ops zero_claims), holders_of (snd (run_ops claim_step ops zero_claims)))"
  using claims.run_refines [OF zero_claims_ok, of ops] by (simp add: holders_zero)

text \<open>C20. A claim is exclusive: once a key was acquired at t for ttl, every later
  acquisition of the key that reads a time before t + ttl is refused, whatever other
  acquisitions (at times before the expiry) and releases (of other keys or with other
  tokens) happen in between.\<close>

theorem claim_exclusive:
  assumes "Acquire t key ttl (snd (run_ops claim_step before zero_claims)) = ((token, True), s)"
    "list_all (spares key token (t + ttl)) between" "now < t + ttl"
  shows "fst (Acquire now key ttl' (snd (run_ops claim_step between s))) = (0, False)"
proof -
  let ?pre = "snd (run_ops claim_step before zero_claims)" and ?s = "snd (run_ops claim_step between s)"
  have ok0: "claims_ok ?pre" using claims.run_refines [OF zero_claims_ok] by blast
  have a: "claims_ok s" "spec_Acquire t key ttl (holders_of ?pre) = ((token, True), holders_of s)"
    using Acquire_refines [OF ok0 assms(1)] by auto
  then have "snd (holders_of s) key = Some (token, t + ttl)"
    using granted by blast
  then have "snd (snd (run_ops holder_step between (holders_of s))) key = Some (token, t + ttl)"
    by (rule held_run [OF assms(2)])
  moreover have r: "claims_ok ?s" "run_ops holder_step between (holders_of s) = (fst (run_ops claim_step between s), holders_of ?s)"
    using claims.run_refines [OF a(1)] by blast+
  ultimately have "live now (snd (holders_of ?s)) key \<noteq> None" using live_held assms(3) by fastforce
  then have "fst (spec_Acquire now key ttl' (holders_of ?s)) = (0, False)"
    by (cases "holders_of ?s") (auto simp: spec_Acquire_def)
  then show ?thesis using Acquire_refines [OF r(1) prod.collapse [symmetric]] by simp
qed

theorem claim_exclusive_witness:
  "fst (Acquire 14 ''k'' 3 (snd (run_ops claim_step [AcquireOp 12 ''other'' 9, ReleaseOp ''k'' 7]
     (snd (Acquire 10 ''k'' 5 (snd (run_ops claim_step [] zero_claims))))))) = (0, False)"
proof -
  have "Acquire 10 ''k'' 5 (snd (run_ops claim_step [] zero_claims)) =
      ((1, True), snd (Acquire 10 ''k'' 5 (snd (run_ops claim_step [] zero_claims))))"
    by (simp add: prod_eq_iff) (simp add: Acquire_def zero_claims_def pruneExpiredLocked.simps next_token_def)
  from claim_exclusive [OF this, of "[AcquireOp 12 ''other'' 9, ReleaseOp ''k'' 7]" 14 3] show ?thesis by simp
qed

text \<open>C21. After every acquisition that gets past its argument check, the expiration
  queue is exactly as long as there are live claims: expired claims are reclaimed and
  released ones leave no residue.\<close>


theorem claims_bounded_by_live:
  assumes "key \<noteq> []" "0 < ttl" "Acquire now key ttl (snd (run_ops claim_step ops zero_claims)) = (r, s)"
  shows "length (eq_slots (us_expires s)) = card (dom (us_entries s))
    \<and> (\<forall>k c. us_entries s k = Some c \<longrightarrow> now < uc_expiresAt c)"
proof -
  let ?pre = "snd (run_ops claim_step ops zero_claims)"
  have ok: "claims_ok ?pre" using claims.run_refines [OF zero_claims_ok] by blast
  note p = prune_ok [OF ok, of now]
  have "now < uc_expiresAt c" if "us_entries (pruneExpiredLocked now ?pre) k = Some c" for k c
    using that p by simp
  then have "now < uc_expiresAt c" if "us_entries s k = Some c" for k c
    using that assms by (auto simp: Acquire_def Let_def new_claim_def split: if_splits option.splits)
  then show ?thesis using claims_count Acquire_refines [OF ok assms(3)] by blast
qed

theorem claims_bounded_by_live_witness:
  "length (eq_slots (us_expires (snd (Acquire 9 ''b'' 5 (snd (run_ops claim_step [AcquireOp 1 ''a'' 5] zero_claims)))))) =
   card (dom (us_entries (snd (Acquire 9 ''b'' 5 (snd (run_ops claim_step [AcquireOp 1 ''a'' 5] zero_claims))))))"
  using claims_bounded_by_live [of "''b''" 5 9 "[AcquireOp 1 ''a'' 5]", OF _ _ prod.collapse [symmetric]] by simp

end
