(* ===== verification/Jobs.thy ===== *)
theory Jobs
  imports Framing
begin

text \<open>
  The low-level job value drivers receive (\<open>job.go\<close>), its identity for
  deduplication and telemetry (\<open>job_identity.go\<close>, \<open>logical_job.go\<close>,
  \<open>observability_job_type.go\<close>) and the driver-facing helpers of \<open>queuecore\<close>.
  Its constructors carry the prefix \<open>q_\<close>, since the workflow package has a job type of
  its own.
\<close>

section \<open>The value\<close>

record qjob_options =
  qo_queueName :: string
  qo_timeout :: "duration option"
  qo_maxRetry :: "int option"
  qo_attempt :: int
  qo_backoff :: "duration option"
  qo_delay :: duration
  qo_uniqueTTL :: duration
  qo_logicalType :: string
  qo_logicalPayload :: bytes
  qo_logicalSet :: bool
  qo_metadata :: delivery_metadata

record qjob =
  qj_Type :: string
  qj_payload :: bytes
  qj_options :: qjob_options
  qj_buildErr :: "goerr option"

definition zero_qoptions :: qjob_options where
  "zero_qoptions = \<lparr>qo_queueName = [], qo_timeout = None, qo_maxRetry = None, qo_attempt = 0, qo_backoff = None,
     qo_delay = 0, qo_uniqueTTL = 0, qo_logicalType = [], qo_logicalPayload = [], qo_logicalSet = False,
     qo_metadata = zero_metadata\<rparr>"

definition q_NewJob :: "string \<Rightarrow> qjob" where
  "q_NewJob jobType = \<lparr>qj_Type = jobType, qj_payload = [], qj_options = zero_qoptions, qj_buildErr = None\<rparr>"

text \<open>The payload argument: the cases \<open>encodePayload\<close> tells apart. A value with a
  \<open>MarshalJSON\<close> method carries what the method returns; the encoder of every other value is
  \<open>json.Marshal\<close>, a parameter.\<close>

datatype 'v payload_arg = PNil | PBytes bytes | PString string | PRaw bytes | PMarshaler "goerr + bytes" | PValue 'v

definition marshal_failed :: "goerr \<Rightarrow> goerr" where
  "marshal_failed e = ErrWrap ''marshal payload json: '' e []"

fun encodePayload :: "('v \<Rightarrow> goerr + bytes) \<Rightarrow> 'v payload_arg \<Rightarrow> goerr + bytes" where
  "encodePayload marshal PNil = Inr []"
| "encodePayload marshal (PBytes b) = Inr b"
| "encodePayload marshal (PString s) = Inr s"
| "encodePayload marshal (PRaw b) = Inr b"
| "encodePayload marshal (PMarshaler r) = (case r of Inl e \<Rightarrow> Inl (marshal_failed e) | Inr b \<Rightarrow> Inr b)"
| "encodePayload marshal (PValue v) = (case marshal v of Inl e \<Rightarrow> Inl (marshal_failed e) | Inr b \<Rightarrow> Inr b)"

definition q_Payload :: "('v \<Rightarrow> goerr + bytes) \<Rightarrow> 'v payload_arg \<Rightarrow> qjob \<Rightarrow> qjob" where
  "q_Payload marshal payload t = (case encodePayload marshal payload of
     Inl err \<Rightarrow> t\<lparr>qj_buildErr := Some err\<rparr> | Inr encoded \<Rightarrow> t\<lparr>qj_payload := encoded\<rparr>)"

definition q_PayloadJSON :: "('v \<Rightarrow> goerr + bytes) \<Rightarrow> 'v payload_arg \<Rightarrow> qjob \<Rightarrow> qjob" where
  "q_PayloadJSON marshal v t = (case encodePayload marshal v of
     Inl err \<Rightarrow> t\<lparr>qj_buildErr := Some err\<rparr> | Inr payload \<Rightarrow> t\<lparr>qj_payload := payload\<rparr>)"

definition withBuildErr :: "goerr \<Rightarrow> qjob \<Rightarrow> qjob" where
  "withBuildErr err t = (if qj_buildErr t = None then t\<lparr>qj_buildErr := Some err\<rparr> else t)"

abbreviation with_options :: "(qjob_options \<Rightarrow> qjob_options) \<Rightarrow> qjob \<Rightarrow> qjob" where
  "with_options f t \<equiv> t\<lparr>qj_options := f (qj_options t)\<rparr>"

definition q_OnQueue :: "string \<Rightarrow> qjob \<Rightarrow> qjob" where
  "q_OnQueue name t = with_options (qo_queueName_update (\<lambda>_. name)) t"

definition q_Timeout :: "duration \<Rightarrow> qjob \<Rightarrow> qjob" where
  "q_Timeout timeout t = (if timeout < 0 then withBuildErr (ErrNew ''timeout must be >= 0'') t
     else with_options (qo_timeout_update (\<lambda>_. Some timeout)) t)"

definition q_Retry :: "int \<Rightarrow> qjob \<Rightarrow> qjob" where
  "q_Retry maxRetry t = (if maxRetry < 0 then withBuildErr (ErrNew ''retry must be >= 0'') t
     else with_options (qo_maxRetry_update (\<lambda>_. Some maxRetry)) t)"

definition q_Backoff :: "duration \<Rightarrow> qjob \<Rightarrow> qjob" where
  "q_Backoff backoff t = (if backoff < 0 then withBuildErr (ErrNew ''backoff must be >= 0'') t
     else with_options (qo_backoff_update (\<lambda>_. Some backoff)) t)"

definition q_Delay :: "duration \<Rightarrow> qjob \<Rightarrow> qjob" where
  "q_Delay delay t = (if delay < 0 then withBuildErr (ErrNew ''delay must be >= 0'') t
     else with_options (qo_delay_update (\<lambda>_. delay)) t)"

definition q_UniqueFor :: "duration \<Rightarrow> qjob \<Rightarrow> qjob" where
  "q_UniqueFor ttl t = (if ttl < 0 then withBuildErr (ErrNew ''unique ttl must be >= 0'') t
     else with_options (qo_uniqueTTL_update (\<lambda>_. ttl)) t)"

definition withAttempt :: "int \<Rightarrow> qjob \<Rightarrow> qjob" where
  "withAttempt attempt t = with_options (qo_attempt_update (\<lambda>_. attempt)) t"

definition withLogicalIdentity :: "string \<Rightarrow> bytes \<Rightarrow> qjob \<Rightarrow> qjob" where
  "withLogicalIdentity jobType payload t = with_options (\<lambda>opts. opts\<lparr>qo_logicalType := jobType,
     qo_logicalPayload := payload, qo_logicalSet := True\<rparr>) t"

definition job_validate :: "qjob \<Rightarrow> goerr option" where
  "job_validate t = (if qj_buildErr t \<noteq> None then qj_buildErr t
     else if qj_Type t = [] then Some (ErrNew ''job type is required'') else None)"

text \<open>Reading a payload back: the destination is absent, no usable pointer, or a pointer to
  a value \<open>json.Unmarshal\<close> fills.\<close>

datatype bind_dst = DstNil | DstNotPointer | DstPointer

fun q_Bind :: "(bytes \<Rightarrow> goerr + 'v) \<Rightarrow> bind_dst \<Rightarrow> qjob \<Rightarrow> goerr + 'v" where
  "q_Bind unmarshal DstNil t = Inl (ErrNew ''bind destination is required'')"
| "q_Bind unmarshal DstNotPointer t = Inl (ErrNew ''bind destination must be a non-nil pointer'')"
| "q_Bind unmarshal DstPointer t = (case unmarshal (qj_payload t) of
     Inl err \<Rightarrow> Inl (ErrWrap ''bind payload: '' err []) | Inr v \<Rightarrow> Inr v)"

section \<open>Driver metadata\<close>

record driver_job_options =
  do_QueueName :: string
  do_Timeout :: "duration option"
  do_MaxRetry :: "int option"
  do_Attempt :: int
  do_Backoff :: "duration option"
  do_Delay :: duration
  do_UniqueTTL :: duration

definition DriverOptions :: "qjob \<Rightarrow> driver_job_options" where
  "DriverOptions job = (let opts = qj_options job in
     \<lparr>do_QueueName = qo_queueName opts, do_Timeout = qo_timeout opts, do_MaxRetry = qo_maxRetry opts,
      do_Attempt = qo_attempt opts, do_Backoff = qo_backoff opts, do_Delay = qo_delay opts,
      do_UniqueTTL = qo_uniqueTTL opts\<rparr>)"

definition DriverMetadata :: "qjob \<Rightarrow> delivery_metadata" where
  "DriverMetadata job = (let metadata = qo_metadata (qj_options job) in
     if dm_SchemaVersion metadata \<noteq> DeliveryMetadataVersion then zero_metadata else metadata)"

definition DriverWithMetadata :: "qjob \<Rightarrow> delivery_metadata \<Rightarrow> qjob" where
  "DriverWithMetadata job metadata = (if dm_SchemaVersion metadata \<noteq> DeliveryMetadataVersion then job
     else with_options (qo_metadata_update (\<lambda>_. metadata)) job)"

definition NormalizeQueueName :: "string \<Rightarrow> string" where
  "NormalizeQueueName name = (if name = [] then ''default'' else name)"

section \<open>Identity\<close>

definition driverUniqueKeyVersion :: string where
  "driverUniqueKeyVersion = ''goforj:queue:unique:v1''"

definition appendUniqueIdentityPart :: "bytes \<Rightarrow> bytes \<Rightarrow> bytes" where
  "appendUniqueIdentityPart dst value = (dst @ put_uint64 (of_nat (length value))) @ value"

text \<open>The logical type and payload a key is made of.\<close>

definition logical_identity :: "(bytes \<Rightarrow> delivery_envelope option) \<Rightarrow> qjob \<Rightarrow> string \<times> bytes" where
  "logical_identity unmarshal job = (let opts = qj_options job in
     if qo_logicalSet opts then (qo_logicalType opts, CanonicalPayload (qo_logicalPayload opts))
     else let logical = ResolveDelivery unmarshal (qj_Type job) (qj_payload job)
          in (rd_JobType logical, CanonicalPayload (rd_Payload logical)))"

definition unique_identity :: "(bytes \<Rightarrow> delivery_envelope option) \<Rightarrow> qjob \<Rightarrow> string \<Rightarrow> bytes" where
  "unique_identity unmarshal job queueName = (case logical_identity unmarshal job of (jobType, payload) \<Rightarrow>
     let identity = driverUniqueKeyVersion;
         identity = appendUniqueIdentityPart identity queueName;
         identity = appendUniqueIdentityPart identity jobType
     in appendUniqueIdentityPart identity payload)"

definition DriverUniqueKey ::
  "(bytes \<Rightarrow> bytes) \<Rightarrow> (bytes \<Rightarrow> delivery_envelope option) \<Rightarrow> qjob \<Rightarrow> string \<Rightarrow> string" where
  "DriverUniqueKey sha256 unmarshal job queueName =
     ''v1:'' @ hex_encode (sha256 (unique_identity unmarshal job queueName))"

record observed_job_metadata =
  om_JobType :: string
  om_JobKey :: string
  om_DispatchID :: string
  om_JobID :: string
  om_ChainID :: string
  om_BatchID :: string

definition ResolveObservedJobMetadata ::
  "(bytes \<Rightarrow> bytes) \<Rightarrow> (bytes \<Rightarrow> delivery_envelope option) \<Rightarrow> string \<Rightarrow> bytes \<Rightarrow> observed_job_metadata" where
  "ResolveObservedJobMetadata sha1 unmarshal rawType payload =
    (let logical = ResolveDelivery unmarshal rawType payload in
     \<lparr>om_JobType = rd_JobType logical, om_JobKey = ObservedKey sha1 (rd_JobType logical) (rd_Payload logical),
      om_DispatchID = rd_DispatchID logical, om_JobID = rd_JobID logical, om_ChainID = rd_ChainID logical,
      om_BatchID = rd_BatchID logical\<rparr>)"

definition ResolveObservedJobMetadataFromJob ::
  "(bytes \<Rightarrow> bytes) \<Rightarrow> (bytes \<Rightarrow> delivery_envelope option) \<Rightarrow> qjob \<Rightarrow> observed_job_metadata" where
  "ResolveObservedJobMetadataFromJob sha1 unmarshal job =
    (let metadata = ResolveObservedJobMetadata sha1 unmarshal (qj_Type job) (qj_payload job);
         direct = DriverMetadata job
     in if dm_SchemaVersion direct = 0 then metadata
        else metadata\<lparr>om_DispatchID := dm_DispatchID direct, om_JobID := dm_JobID direct,
               om_ChainID := dm_ChainID direct, om_BatchID := dm_BatchID direct\<rparr>)"

section \<open>Building\<close>

datatype 'v builder_op = OpPayload "'v payload_arg" | OpOnQueue string | OpTimeout duration | OpRetry int
  | OpBackoff duration | OpDelay duration | OpUniqueFor duration

fun build_step :: "('v \<Rightarrow> goerr + bytes) \<Rightarrow> 'v builder_op \<Rightarrow> qjob \<Rightarrow> qjob" where
  "build_step marshal (OpPayload p) = q_Payload marshal p"
| "build_step marshal (OpOnQueue n) = q_OnQueue n"
| "build_step marshal (OpTimeout d) = q_Timeout d"
| "build_step marshal (OpRetry n) = q_Retry n"
| "build_step marshal (OpBackoff d) = q_Backoff d"
| "build_step marshal (OpDelay d) = q_Delay d"
| "build_step marshal (OpUniqueFor d) = q_UniqueFor d"

definition build :: "('v \<Rightarrow> goerr + bytes) \<Rightarrow> string \<Rightarrow> 'v builder_op list \<Rightarrow> qjob" where
  "build marshal jobType ops = foldl (\<lambda>t op. build_step marshal op t) (q_NewJob jobType) ops"

text \<open>The calls that are in error.\<close>

fun bad_op :: "('v \<Rightarrow> goerr + bytes) \<Rightarrow> 'v builder_op \<Rightarrow> bool" where
  "bad_op marshal (OpPayload p) \<longleftrightarrow> isl (encodePayload marshal p)"
| "bad_op marshal (OpOnQueue n) \<longleftrightarrow> False"
| "bad_op marshal (OpTimeout d) \<longleftrightarrow> d < 0"
| "bad_op marshal (OpRetry n) \<longleftrightarrow> n < 0"
| "bad_op marshal (OpBackoff d) \<longleftrightarrow> d < 0"
| "bad_op marshal (OpDelay d) \<longleftrightarrow> d < 0"
| "bad_op marshal (OpUniqueFor d) \<longleftrightarrow> d < 0"

lemmas builder_defs = q_Payload_def q_OnQueue_def q_Timeout_def q_Retry_def q_Backoff_def q_Delay_def q_UniqueFor_def
  withBuildErr_def

lemma build_step_err: "qj_buildErr (build_step marshal op t) \<noteq> None \<longleftrightarrow> qj_buildErr t \<noteq> None \<or> bad_op marshal op"
  by (cases op) (auto simp: builder_defs split: sum.splits)

lemma build_step_type [simp]: "qj_Type (build_step marshal op t) = qj_Type t"
  by (cases op) (auto simp: builder_defs split: sum.splits)

text \<open>The options a driver may see are never negative.\<close>

definition options_ok :: "qjob \<Rightarrow> bool" where
  "options_ok t \<longleftrightarrow> (\<forall>d. qo_timeout (qj_options t) = Some d \<longrightarrow> 0 \<le> d) \<and> (\<forall>n. qo_maxRetry (qj_options t) = Some n \<longrightarrow> 0 \<le> n)
     \<and> (\<forall>d. qo_backoff (qj_options t) = Some d \<longrightarrow> 0 \<le> d) \<and> 0 \<le> qo_delay (qj_options t) \<and> 0 \<le> qo_uniqueTTL (qj_options t)"

lemma build_step_options: "options_ok t \<Longrightarrow> options_ok (build_step marshal op t)"
  by (cases op) (auto simp: builder_defs options_ok_def split: sum.splits)

lemma build_fold:
  "qj_Type (foldl (\<lambda>t op. build_step marshal op t) t ops) = qj_Type t"
  "qj_buildErr (foldl (\<lambda>t op. build_step marshal op t) t ops) \<noteq> None \<longleftrightarrow> qj_buildErr t \<noteq> None \<or> list_ex (bad_op marshal) ops"
  "options_ok t \<Longrightarrow> options_ok (foldl (\<lambda>t op. build_step marshal op t) t ops)"
  by (induction ops arbitrary: t) (simp_all only: foldl.simps build_step_type build_step_err build_step_options list_ex_iff list.set bex_simps ball_simps simp_thms, blast+)

section \<open>Properties\<close>

text \<open>C22. A job validates exactly when it has a type and no builder call was in error: a
  negative duration or retry limit, or a payload that does not encode, is reported when
  the job is dispatched however many valid calls follow, and no builder sequence leaves a
  negative option behind.\<close>

theorem builder_rejects_bad_calls:
  "(job_validate (build marshal jobType ops) = None \<longleftrightarrow> jobType \<noteq> [] \<and> \<not> list_ex (bad_op marshal) ops)
   \<and> options_ok (build marshal jobType ops)"
proof -
  have "options_ok (q_NewJob jobType)" by (simp add: options_ok_def q_NewJob_def zero_qoptions_def)
  then show ?thesis
    using build_fold(2) [of marshal "q_NewJob jobType" ops] build_fold(3)
    by (auto simp: job_validate_def build_def build_fold(1)) (auto simp: q_NewJob_def)
qed

lemma identity_frames:
  "appendUniqueIdentityPart (appendUniqueIdentityPart (appendUniqueIdentityPart v a) b) c = v @ frame_values [a, b, c]"
  by (simp add: appendUniqueIdentityPart_def frame_values_def)

lemma unique_identity_inject:
  assumes "short_values [q, fst (logical_identity u j), snd (logical_identity u j)]"
    "short_values [q', fst (logical_identity u j'), snd (logical_identity u j')]"
  shows "unique_identity u j q = unique_identity u j' q' \<longleftrightarrow> q = q' \<and> logical_identity u j = logical_identity u j'"
proof -
  let ?parts = "\<lambda>q j. [q, fst (logical_identity u j), snd (logical_identity u j)]"
  have "unique_identity u j q = driverUniqueKeyVersion @ frame_values (?parts q j)" for q j
    by (simp add: unique_identity_def case_prod_beta Let_def identity_frames)
  then show ?thesis using frame_values_inject [of "?parts q j" "?parts q' j'"] assms
    by (auto simp: prod_eq_iff short_values_def)
qed

text \<open>C23. Two jobs share a uniqueness key exactly when they agree in queue, logical type
  and canonical payload, unless the hash collides on their two identities: delimiters
  inside names or payloads cannot make different jobs collide, and the envelope of a
  workflow delivery does not change the key of the job inside.\<close>

theorem unique_key_identifies_job:
  assumes "short_values [q, fst (logical_identity u j), snd (logical_identity u j)]"
    "short_values [q', fst (logical_identity u j'), snd (logical_identity u j')]"
    "sha256 (unique_identity u j q) = sha256 (unique_identity u j' q') \<Longrightarrow> unique_identity u j q = unique_identity u j' q'"
  shows "DriverUniqueKey sha256 u j q = DriverUniqueKey sha256 u j' q' \<longleftrightarrow> q = q' \<and> logical_identity u j = logical_identity u j'"
proof -
  have "DriverUniqueKey sha256 u j q = DriverUniqueKey sha256 u j' q' \<longleftrightarrow> unique_identity u j q = unique_identity u j' q'"
    unfolding DriverUniqueKey_def using assms(3) by (auto simp del: append.simps)
  then show ?thesis using unique_identity_inject [OF assms(1,2)] by simp
qed

theorem unique_key_identifies_job_witness:
  "DriverUniqueKey (\<lambda>x. x) (\<lambda>_. None) (q_NewJob ''a:b'') ''q'' \<noteq> DriverUniqueKey (\<lambda>x. x) (\<lambda>_. None) (q_NewJob ''b'') ''q:a''"
proof -
  let ?u = "\<lambda>_. None" and ?j = "q_NewJob ''a:b''" and ?j' = "q_NewJob ''b''"
  have "short_values [''q'', fst (logical_identity ?u ?j), snd (logical_identity ?u ?j)]"
    "short_values [''q:a'', fst (logical_identity ?u ?j'), snd (logical_identity ?u ?j')]"
    by (rule short_valuesI, code_simp)+
  from unique_key_identifies_job [OF this, of "\<lambda>x. x"] show ?thesis by simp
qed

end
