(* ===== verification/Observability.thy ===== *)
theory Observability
  imports Jobs "HOL-Library.Signed_Division"
begin

text \<open>
  The public event model of \<open>observability.go\<close>: events, how they are normalised and
  handed to an observer, and the wrappers that observe a backend's dispatches and its
  handlers. An observer is modelled by what it receives: the list of contexts and events
  \<open>SafeObserve\<close> delivered, in order. A panic of the observer is recovered there and
  changes nothing else.
\<close>

section \<open>Events\<close>

datatype event_layer = EventLayerQueue | EventLayerWorker | EventLayerWorkflow

text \<open>The kinds the workflow package shares are its own.\<close>

datatype queue_event_kind =
    EventEnqueueAccepted | EventEnqueueRejected | EventEnqueueDuplicate | EventEnqueueCanceled
  | EventProcessStarted | EventProcessSucceeded | EventProcessFailed | EventProcessRetried | EventProcessArchived
  | EventQueuePaused | EventQueueResumed | EventProcessRecovered | EventRepublishFailed | EventSettlementFailed
  | WorkflowKind event_kind

record qevent =
  qe_SchemaVersion :: int
  qe_EventID :: string
  qe_Layer :: "event_layer option"
  qe_Kind :: queue_event_kind
  qe_Driver :: string
  qe_Queue :: string
  qe_JobType :: string
  qe_JobKey :: string
  qe_DispatchID :: string
  qe_JobID :: string
  qe_ChainID :: string
  qe_BatchID :: string
  qe_Attempt :: int
  qe_MaxRetry :: int
  qe_Scheduled :: bool
  qe_Duration :: duration
  qe_Err :: "goerr option"
  qe_Time :: time

text \<open>The zero \<open>time.Time\<close>, January 1 of the year 1.\<close>

definition zero_time :: time where
  "zero_time = - 62135596800000000000"

definition zero_qevent :: "queue_event_kind \<Rightarrow> qevent" where
  "zero_qevent kind = \<lparr>qe_SchemaVersion = 0, qe_EventID = [], qe_Layer = None, qe_Kind = kind, qe_Driver = [], qe_Queue = [],
     qe_JobType = [], qe_JobKey = [], qe_DispatchID = [], qe_JobID = [], qe_ChainID = [], qe_BatchID = [],
     qe_Attempt = 0, qe_MaxRetry = 0, qe_Scheduled = False, qe_Duration = 0, qe_Err = None, qe_Time = zero_time\<rparr>"

fun eventLayerForKind :: "queue_event_kind \<Rightarrow> event_layer" where
  "eventLayerForKind EventProcessStarted = EventLayerWorker"
| "eventLayerForKind EventProcessSucceeded = EventLayerWorker"
| "eventLayerForKind EventProcessFailed = EventLayerWorker"
| "eventLayerForKind EventProcessRetried = EventLayerWorker"
| "eventLayerForKind EventProcessArchived = EventLayerWorker"
| "eventLayerForKind EventProcessRecovered = EventLayerWorker"
| "eventLayerForKind EventRepublishFailed = EventLayerWorker"
| "eventLayerForKind EventSettlementFailed = EventLayerWorker"
| "eventLayerForKind (WorkflowKind k) =
     (if k = EventDispatchStarted \<or> k = EventDispatchSucceeded \<or> k = EventDispatchFailed
      then EventLayerQueue else EventLayerWorkflow)"
| "eventLayerForKind _ = EventLayerQueue"

section \<open>What the code reads from outside\<close>

text \<open>The readings of the clock, the draws of \<open>crypto/rand\<close> of a given size, whether an
  observer is installed, the hash functions and the decoder of workflow envelopes are the
  environment. The counters of earlier readings, the log of delivered events and the
  acceptance and settlement gates are the part of the state every runtime extends. A
  callback held by a gate is one of two closures of this file.\<close>

record obs_env =
  oe_clock :: clock
  oe_rand :: "nat \<Rightarrow> nat \<Rightarrow> goerr + bytes"
  oe_observed :: bool
  oe_sha1 :: "bytes \<Rightarrow> bytes"
  oe_sha256 :: "bytes \<Rightarrow> bytes"
  oe_decode :: "bytes \<Rightarrow> delivery_envelope option"

datatype deferred = ObserveAccepted dctx qevent | ObserveFinished dctx qevent

record obs =
  ob_reads :: nat
  ob_draws :: nat
  ob_events :: "(dctx \<times> qevent) list"
  ob_gates :: "nat \<rightharpoonup> deferred dispatch_acceptance"
  ob_nextGate :: nat
  ob_settlements :: "nat \<rightharpoonup> deferred settlement"
  ob_nextSettlement :: nat

definition new_obs :: obs where
  "new_obs = \<lparr>ob_reads = 0, ob_draws = 0, ob_events = [], ob_gates = Map.empty, ob_nextGate = 0,
     ob_settlements = Map.empty, ob_nextSettlement = 0\<rparr>"

definition time_Now :: "'e obs_env_scheme \<Rightarrow> 'w obs_scheme \<Rightarrow> time \<times> 'w obs_scheme" where
  "time_Now env w = (oe_clock env (ob_reads w), w\<lparr>ob_reads := Suc (ob_reads w)\<rparr>)"

definition rand_Read :: "'e obs_env_scheme \<Rightarrow> nat \<Rightarrow> 'w obs_scheme \<Rightarrow> (goerr + bytes) \<times> 'w obs_scheme" where
  "rand_Read env n w = (oe_rand env (ob_draws w) n, w\<lparr>ob_draws := Suc (ob_draws w)\<rparr>)"

section \<open>Delivery of events\<close>

definition newEventID :: "'e obs_env_scheme \<Rightarrow> 'w obs_scheme \<Rightarrow> string \<times> 'w obs_scheme" where
  "newEventID env w = (case rand_Read env 8 w of
     (Inr value, w) \<Rightarrow> (''evt_'' @ hex_encode value, w)
   | (Inl err, w) \<Rightarrow> (case time_Now env w of (t, w) \<Rightarrow> (''evt_'' @ int_str t, w)))"

definition normalizeObservedEvent :: "'e obs_env_scheme \<Rightarrow> qevent \<Rightarrow> 'w obs_scheme \<Rightarrow> qevent \<times> 'w obs_scheme" where
  "normalizeObservedEvent env event w =
    (let event = (if qe_SchemaVersion event = 0 then event\<lparr>qe_SchemaVersion := eventSchemaVersion\<rparr> else event);
         (event, w) = (if qe_EventID event = [] then (case newEventID env w of (i, w) \<Rightarrow> (event\<lparr>qe_EventID := i\<rparr>, w)) else (event, w));
         event = (if qe_Layer event = None then event\<lparr>qe_Layer := Some (eventLayerForKind (qe_Kind event))\<rparr> else event)
     in if qe_Time event = zero_time then (case time_Now env w of (t, w) \<Rightarrow> (event\<lparr>qe_Time := t\<rparr>, w)) else (event, w))"

definition SafeObserve :: "'e obs_env_scheme \<Rightarrow> dctx option \<Rightarrow> qevent \<Rightarrow> 'w obs_scheme \<Rightarrow> 'w obs_scheme" where
  "SafeObserve env ctx event w = (if \<not> oe_observed env then w
     else case normalizeObservedEvent env event w of
       (event, w) \<Rightarrow> w\<lparr>ob_events := ob_events w @ [(ctx_or_background ctx, event)]\<rparr>)"

fun run_deferred :: "'e obs_env_scheme \<Rightarrow> deferred \<Rightarrow> 'w obs_scheme \<Rightarrow> 'w obs_scheme" where
  "run_deferred env (ObserveAccepted ctx base) w = (case time_Now env w of
     (t, w) \<Rightarrow> SafeObserve env (Some ctx) (base\<lparr>qe_Kind := EventEnqueueAccepted, qe_Time := t\<rparr>) w)"
| "run_deferred env (ObserveFinished ctx finish) w = SafeObserve env (Some ctx) finish w"

definition run_all :: "'e obs_env_scheme \<Rightarrow> deferred list \<Rightarrow> 'w obs_scheme \<Rightarrow> 'w obs_scheme" where
  "run_all env cs w = fold (run_deferred env) cs w"

section \<open>Gates in the heap\<close>

definition ensureDispatchAcceptance :: "dctx option \<Rightarrow> 'w obs_scheme \<Rightarrow> dctx \<times> nat \<times> 'w obs_scheme" where
  "ensureDispatchAcceptance ctx w = (let c = ctx_or_background ctx in
     case cx_acceptance c of Some a \<Rightarrow> (c, a, w)
     | None \<Rightarrow> (let a = ob_nextGate w in
         (c\<lparr>cx_acceptance := Some a\<rparr>, a, w\<lparr>ob_gates := (ob_gates w)(a \<mapsto> new_acceptance), ob_nextGate := Suc a\<rparr>)))"

definition gate_onAccepted :: "'e obs_env_scheme \<Rightarrow> nat \<Rightarrow> deferred \<Rightarrow> 'w obs_scheme \<Rightarrow> 'w obs_scheme" where
  "gate_onAccepted env a fn w = (case ob_gates w a of None \<Rightarrow> w
     | Some g \<Rightarrow> (case onAccepted fn g of (cs, g) \<Rightarrow> run_all env cs (w\<lparr>ob_gates := (ob_gates w)(a \<mapsto> g)\<rparr>)))"

definition gate_markAccepted :: "'e obs_env_scheme \<Rightarrow> nat \<Rightarrow> 'w obs_scheme \<Rightarrow> 'w obs_scheme" where
  "gate_markAccepted env a w = (case ob_gates w a of None \<Rightarrow> w
     | Some g \<Rightarrow> (case markAccepted g of (cs, g) \<Rightarrow> run_all env cs (w\<lparr>ob_gates := (ob_gates w)(a \<mapsto> g)\<rparr>)))"

definition gate_isAccepted :: "nat \<Rightarrow> 'w obs_scheme \<Rightarrow> bool" where
  "gate_isAccepted a w = (case ob_gates w a of None \<Rightarrow> False | Some g \<Rightarrow> isAccepted g)"

text \<open>A driver opens the settlement of a delivery and commits it once the delivery is
  durably finished.\<close>

definition begin_settlement :: "dctx option \<Rightarrow> 'w obs_scheme \<Rightarrow> dctx \<times> nat \<times> 'w obs_scheme" where
  "begin_settlement ctx w = (let a = ob_nextSettlement w in
     case WithDeliverySettlement ctx a (ob_settlements w) of
       (c, H) \<Rightarrow> (c, a, w\<lparr>ob_settlements := H, ob_nextSettlement := Suc a\<rparr>))"

definition settlement_Commit :: "'e obs_env_scheme \<Rightarrow> nat \<Rightarrow> 'w obs_scheme \<Rightarrow> 'w obs_scheme" where
  "settlement_Commit env a w = (case ob_settlements w a of None \<Rightarrow> w
     | Some s \<Rightarrow> (case Commit s of (cs, s) \<Rightarrow> run_all env cs (w\<lparr>ob_settlements := (ob_settlements w)(a \<mapsto> s)\<rparr>)))"

definition settlement_applied :: "nat \<Rightarrow> 'w obs_scheme \<Rightarrow> bool" where
  "settlement_applied a w = (case ob_settlements w a of None \<Rightarrow> False | Some s \<Rightarrow> ApplicationStateCommitted s)"

section \<open>Observed dispatch\<close>

definition jobQueueName :: "qjob \<Rightarrow> string" where
  "jobQueueName job = (if qo_queueName (qj_options job) = [] then ''default'' else qo_queueName (qj_options job))"

definition optionInt :: "int option \<Rightarrow> int" where
  "optionInt v = (case v of None \<Rightarrow> 0 | Some n \<Rightarrow> n)"

definition with_metadata :: "observed_job_metadata \<Rightarrow> qevent \<Rightarrow> qevent" where
  "with_metadata metadata event = event\<lparr>qe_JobType := om_JobType metadata, qe_JobKey := om_JobKey metadata,
     qe_DispatchID := om_DispatchID metadata, qe_JobID := om_JobID metadata, qe_ChainID := om_ChainID metadata,
     qe_BatchID := om_BatchID metadata\<rparr>"

definition env_metadata :: "'e obs_env_scheme \<Rightarrow> qjob \<Rightarrow> observed_job_metadata" where
  "env_metadata env job = ResolveObservedJobMetadataFromJob (oe_sha1 env) (oe_decode env) job"

definition dispatch_base :: "'e obs_env_scheme \<Rightarrow> string \<Rightarrow> qjob \<Rightarrow> qevent" where
  "dispatch_base env driver job = (with_metadata (env_metadata env job) (zero_qevent EventEnqueueAccepted))
     \<lparr>qe_Layer := Some EventLayerQueue, qe_Driver := driver, qe_Queue := jobQueueName job,
      qe_MaxRetry := optionInt (qo_maxRetry (qj_options job)), qe_Scheduled := 0 < qo_delay (qj_options job)\<rparr>"

definition rejection_kind :: "goerr option \<Rightarrow> queue_event_kind" where
  "rejection_kind err = (if errors_is err ErrDuplicate then EventEnqueueDuplicate
     else if errors_is err ContextCanceled \<or> errors_is err ContextDeadlineExceeded then EventEnqueueCanceled
     else EventEnqueueRejected)"

type_synonym 'w backend_dispatch = "dctx option \<Rightarrow> qjob \<Rightarrow> 'w obs_scheme \<Rightarrow> goerr option \<times> 'w obs_scheme"

definition observed_Dispatch :: "'e obs_env_scheme \<Rightarrow> string \<Rightarrow> 'w backend_dispatch \<Rightarrow> 'w backend_dispatch" where
  "observed_Dispatch env driver inner ctx job w =
    (case ensureDispatchAcceptance ctx w of (ctx, a, w) \<Rightarrow>
       let base = dispatch_base env driver job;
           w = gate_onAccepted env a (ObserveAccepted ctx base) w
       in case inner (Some ctx) job w of (err, w) \<Rightarrow>
         let w = (if err = None then gate_markAccepted env a w else w)
         in if gate_isAccepted a w then (err, w)
            else case time_Now env w of (t, w) \<Rightarrow>
              (err, SafeObserve env (Some ctx) (base\<lparr>qe_Time := t, qe_Kind := rejection_kind err, qe_Err := err\<rparr>) w))"

section \<open>Observed handlers\<close>

type_synonym 'w qhandler = "dctx option \<Rightarrow> qjob \<Rightarrow> 'w obs_scheme \<Rightarrow> callback_result \<times> 'w obs_scheme"

fun handlerPanicError :: "callback_result \<Rightarrow> goerr option" where
  "handlerPanicError (PanickedError err) = Some (ErrWrap ''handler panicked: '' err [])"
| "handlerPanicError (PanickedValue v) = Some (ErrNew (''handler panicked: '' @ v))"
| "handlerPanicError (Returned err) = err"

definition process_base :: "'e obs_env_scheme \<Rightarrow> string \<Rightarrow> string \<Rightarrow> qjob \<Rightarrow> time \<Rightarrow> qevent" where
  "process_base env driver queueName job start =
    (with_metadata (env_metadata env job) (zero_qevent EventProcessStarted))
     \<lparr>qe_Layer := Some EventLayerWorker, qe_Driver := driver,
      qe_Queue := (if queueName = [] then jobQueueName job else queueName),
      qe_Attempt := qo_attempt (qj_options job), qe_MaxRetry := optionInt (qo_maxRetry (qj_options job)),
      qe_Scheduled := 0 < qo_delay (qj_options job), qe_Time := start\<rparr>"

text \<open>Deferring a fact until the settlement of the delivery in the context commits.\<close>

definition defer_observation :: "'e obs_env_scheme \<Rightarrow> dctx option \<Rightarrow> deferred \<Rightarrow> 'w obs_scheme \<Rightarrow> bool \<times> 'w obs_scheme" where
  "defer_observation env ctx fn w = (case DeferUntilDeliveryCommitted ctx fn (ob_settlements w) of
     (ok, cs, H) \<Rightarrow> (ok, run_all env cs (w\<lparr>ob_settlements := H\<rparr>)))"

definition decorate :: "(dctx option \<Rightarrow> dctx option) option \<Rightarrow> dctx option \<Rightarrow> dctx option" where
  "decorate ctxDecorator ctx = (case ctxDecorator of None \<Rightarrow> ctx | Some f \<Rightarrow>
     (case f ctx of None \<Rightarrow> ctx | Some d \<Rightarrow> Some (PreserveDeliveryContext ctx (Some d))))"

definition finish_observed :: "'e obs_env_scheme \<Rightarrow> dctx option \<Rightarrow> qevent \<Rightarrow> time \<Rightarrow> callback_result \<Rightarrow> 'w obs_scheme \<Rightarrow> 'w obs_scheme" where
  "finish_observed env ctx base start r w =
    (case time_Now env w of (t1, w) \<Rightarrow> case time_Now env w of (t2, w) \<Rightarrow>
      let finish = base\<lparr>qe_Duration := t1 - start, qe_Time := t2, qe_Err := handlerPanicError r\<rparr> in
      if r = Returned None
      then (let finish = finish\<lparr>qe_Kind := EventProcessSucceeded\<rparr> in
         case defer_observation env ctx (ObserveFinished (ctx_or_background ctx) finish) w of
           (ok, w) \<Rightarrow> if ok then w else SafeObserve env ctx finish w)
      else SafeObserve env ctx (finish\<lparr>qe_Kind := EventProcessFailed\<rparr>) w)"

definition wrapObservedHandler ::
  "'e obs_env_scheme \<Rightarrow> string \<Rightarrow> string \<Rightarrow> (dctx option \<Rightarrow> dctx option) option \<Rightarrow> 'w qhandler \<Rightarrow> 'w qhandler" where
  "wrapObservedHandler env driver queueName ctxDecorator handler ctx job w =
    (let ctx = decorate ctxDecorator ctx in
     case time_Now env w of (start, w) \<Rightarrow>
       let base = process_base env driver queueName job start;
           w = (if 0 < qe_Attempt base then SafeObserve env ctx (base\<lparr>qe_Kind := EventProcessRetried\<rparr>) w else w);
           w = SafeObserve env ctx base w
       in case handler ctx job w of (r, w) \<Rightarrow> (r, finish_observed env ctx base start r w))"

section \<open>What observation leaves alone\<close>

text \<open>Observing appends to the log and reads clocks; the gates and what a runtime adds to
  the state stay as they are.\<close>

lemma time_Now_frame [frame]:
  "time_Now env w = (t, w') \<Longrightarrow> ob_events w' = ob_events w \<and> ob_gates w' = ob_gates w \<and> ob_nextGate w' = ob_nextGate w
     \<and> ob_settlements w' = ob_settlements w \<and> ob_nextSettlement w' = ob_nextSettlement w \<and> obs.more w' = obs.more w"
  by (auto simp: time_Now_def)

lemma rand_Read_frame [frame]:
  "rand_Read env n w = (t, w') \<Longrightarrow> ob_events w' = ob_events w \<and> ob_gates w' = ob_gates w \<and> ob_nextGate w' = ob_nextGate w
     \<and> ob_settlements w' = ob_settlements w \<and> ob_nextSettlement w' = ob_nextSettlement w \<and> obs.more w' = obs.more w"
  by (auto simp: rand_Read_def)

lemma normalizeObservedEvent_frame:
  "normalizeObservedEvent env event w = (event', w') \<Longrightarrow> ob_events w' = ob_events w \<and> ob_gates w' = ob_gates w \<and> ob_nextGate w' = ob_nextGate w
     \<and> ob_settlements w' = ob_settlements w \<and> ob_nextSettlement w' = ob_nextSettlement w \<and> obs.more w' = obs.more w
     \<and> qe_Kind event' = qe_Kind event"
  by (auto simp: normalizeObservedEvent_def newEventID_def time_Now_def rand_Read_def Let_def
      split: if_splits prod.splits sum.splits)

text \<open>The kinds of the delivered events.\<close>

definition kinds :: "'w obs_scheme \<Rightarrow> queue_event_kind list" where
  "kinds w = map (qe_Kind \<circ> snd) (ob_events w)"

lemma kinds_update [simp]:
  "kinds (w\<lparr>ob_gates := G\<rparr>) = kinds w" "kinds (w\<lparr>ob_nextGate := n\<rparr>) = kinds w"
  "kinds (w\<lparr>ob_settlements := S\<rparr>) = kinds w" "kinds (w\<lparr>ob_nextSettlement := n\<rparr>) = kinds w"
  "kinds (w\<lparr>ob_reads := n\<rparr>) = kinds w" "kinds (w\<lparr>ob_draws := n\<rparr>) = kinds w"
  by (simp_all add: kinds_def)

lemma SafeObserve_frame [simp]:
  "ob_gates (SafeObserve env ctx event w) = ob_gates w"
  "ob_nextGate (SafeObserve env ctx event w) = ob_nextGate w"
  "ob_settlements (SafeObserve env ctx event w) = ob_settlements w"
  "ob_nextSettlement (SafeObserve env ctx event w) = ob_nextSettlement w"
  "obs.more (SafeObserve env ctx event w) = obs.more w"
  by (auto simp: SafeObserve_def split: prod.splits dest: normalizeObservedEvent_frame)

lemma SafeObserve_kinds [simp]:
  "kinds (SafeObserve env ctx event w) = kinds w @ (if oe_observed env then [qe_Kind event] else [])"
  by (auto simp: SafeObserve_def kinds_def split: prod.splits dest: normalizeObservedEvent_frame)

lemma run_deferred_frame [simp]:
  "ob_gates (run_deferred env c w) = ob_gates w"
  "ob_nextGate (run_deferred env c w) = ob_nextGate w"
  "ob_settlements (run_deferred env c w) = ob_settlements w"
  "ob_nextSettlement (run_deferred env c w) = ob_nextSettlement w"
  "obs.more (run_deferred env c w) = obs.more w"
  by (cases c; auto split: prod.splits dest: time_Now_frame)+

declare run_deferred.simps [simp del]

lemma run_all_simps [simp]:
  "run_all env [] w = w" "run_all env (c # cs) w = run_all env cs (run_deferred env c w)"
  by (simp_all add: run_all_def)

lemma run_all_frame [simp]:
  "ob_gates (run_all env cs w) = ob_gates w"
  "ob_nextGate (run_all env cs w) = ob_nextGate w"
  "ob_settlements (run_all env cs w) = ob_settlements w"
  "ob_nextSettlement (run_all env cs w) = ob_nextSettlement w"
  "obs.more (run_all env cs w) = obs.more w"
  by (induction cs arbitrary: w) simp_all

fun deferred_kind :: "deferred \<Rightarrow> queue_event_kind" where
  "deferred_kind (ObserveAccepted _ _) = EventEnqueueAccepted"
| "deferred_kind (ObserveFinished _ finish) = qe_Kind finish"

lemma run_deferred_kinds [simp]:
  "kinds (run_deferred env c w) = kinds w @ (if oe_observed env then [deferred_kind c] else [])"
  by (cases c) (simp_all add: run_deferred.simps time_Now_def)

lemma run_all_kinds [simp]:
  "kinds (run_all env cs w) = kinds w @ (if oe_observed env then map deferred_kind cs else [])"
  by (induction cs arbitrary: w) simp_all

section \<open>Backends\<close>

text \<open>
  What an observed dispatch relies on: a backend either leaves the acceptance gate of its
  context alone and reports nothing about enqueueing, or opens the gate, which runs the
  callbacks the gate held.
\<close>

fun is_enqueue :: "queue_event_kind \<Rightarrow> bool" where
  "is_enqueue EventEnqueueAccepted = True"
| "is_enqueue EventEnqueueRejected = True"
| "is_enqueue EventEnqueueDuplicate = True"
| "is_enqueue EventEnqueueCanceled = True"
| "is_enqueue _ = False"

definition enqueue_log :: "'w obs_scheme \<Rightarrow> queue_event_kind list" where
  "enqueue_log w = filter is_enqueue (kinds w)"

lemma rejection_kind_enqueue [simp]: "is_enqueue (rejection_kind err)"
  by (simp add: rejection_kind_def)

locale accepting_backend =
  fixes env :: "'e obs_env_scheme" and inner :: "'w backend_dispatch"
  assumes gate_protocol: "\<lbrakk>inner (Some c) job w = (err, w'); cx_acceptance c = Some a; ob_gates w a = Some g; \<not> ac_accepted g\<rbrakk>
    \<Longrightarrow> ob_gates w' a = Some g \<and> enqueue_log w' = enqueue_log w
      \<or> ob_gates w' a = Some \<lparr>ac_accepted = True, ac_callbacks = []\<rparr>
        \<and> enqueue_log w' = enqueue_log w @ (if oe_observed env then filter is_enqueue (map deferred_kind (ac_callbacks g)) else [])"
begin

text \<open>Observed with a boundary of its own, one dispatch is reported by exactly one event:
  the acceptance when the backend returned no error or had accepted before it failed, and
  otherwise the rejection that describes the error.\<close>

lemma dispatch_reported_once:
  assumes run: "observed_Dispatch env driver inner ctx job w = (err, w')"
    and obs: "oe_observed env" and fresh: "cx_acceptance (ctx_or_background ctx) = None"
  shows "enqueue_log w' = enqueue_log w @ [EventEnqueueAccepted]
    \<or> err \<noteq> None \<and> enqueue_log w' = enqueue_log w @ [rejection_kind err]"
proof -
  let ?a = "ob_nextGate w" and ?c = "(ctx_or_background ctx)\<lparr>cx_acceptance := Some (ob_nextGate w)\<rparr>"
  let ?fn = "ObserveAccepted ?c (dispatch_base env driver job)"
  let ?g = "\<lparr>ac_accepted = False, ac_callbacks = [?fn]\<rparr> :: deferred dispatch_acceptance"
  let ?w1 = "w\<lparr>ob_nextGate := Suc ?a, ob_gates := (ob_gates w)(?a \<mapsto> ?g)\<rparr>"
  obtain err1 w2 where inner: "inner (Some ?c) job ?w1 = (err1, w2)" by fastforce
  have w1: "gate_onAccepted env ?a ?fn (w\<lparr>ob_gates := (ob_gates w)(?a \<mapsto> new_acceptance), ob_nextGate := Suc ?a\<rparr>) = ?w1"
    by (simp add: gate_onAccepted_def onAccepted_def new_acceptance_def)
  have log1: "enqueue_log ?w1 = enqueue_log w" by (simp add: enqueue_log_def)
  let ?w3 = "if err1 = None then gate_markAccepted env ?a w2 else w2"
  have ends: "(err, w') = (if gate_isAccepted ?a ?w3 then (err1, ?w3) else case time_Now env ?w3 of (t, w) \<Rightarrow>
      (err1, SafeObserve env (Some ?c) ((dispatch_base env driver job)\<lparr>qe_Time := t, qe_Kind := rejection_kind err1, qe_Err := err1\<rparr>) w))"
    using run fresh inner w1 unfolding observed_Dispatch_def ensureDispatchAcceptance_def by (simp add: Let_def split: prod.splits)
  consider (closed) "ob_gates w2 ?a = Some ?g" "enqueue_log w2 = enqueue_log w"
    | (opened) "ob_gates w2 ?a = Some \<lparr>ac_accepted = True, ac_callbacks = []\<rparr>" "enqueue_log w2 = enqueue_log w @ [EventEnqueueAccepted]"
    using gate_protocol [OF inner, of ?a ?g] obs log1 by auto
  then show ?thesis
  proof cases
    case closed
    have keep: "gate_isAccepted ?a w2 = False" using closed by (simp add: gate_isAccepted_def isAccepted_def)
    show ?thesis
    proof (cases "err1 = None")
      case True
      then have "gate_isAccepted ?a ?w3" "enqueue_log ?w3 = enqueue_log w @ [EventEnqueueAccepted]"
        using closed obs
        by (simp_all add: gate_markAccepted_def markAccepted_def gate_isAccepted_def isAccepted_def enqueue_log_def)
      with ends show ?thesis by simp
    next
      case False
      with ends keep have "err = err1" "w' = SafeObserve env (Some ?c) ((dispatch_base env driver job)
          \<lparr>qe_Time := fst (time_Now env w2), qe_Kind := rejection_kind err1, qe_Err := err1\<rparr>) (snd (time_Now env w2))"
        by (simp_all add: case_prod_beta)
      with False closed obs show ?thesis by (simp add: enqueue_log_def time_Now_def)
    qed
  next
    case opened
    then have "gate_isAccepted ?a ?w3" "enqueue_log ?w3 = enqueue_log w @ [EventEnqueueAccepted]"
      by (auto simp: gate_markAccepted_def markAccepted_def gate_isAccepted_def isAccepted_def enqueue_log_def)
    with ends show ?thesis by simp
  qed
qed

end

end
