(* ===== verification/Collector.thy ===== *)
theory Collector
  imports Observability
begin

text \<open>
  The statistics collector of \<open>observability.go\<close>: an observer that keeps, per queue,
  counters, the open executions and the times of recent outcomes. The throughput it reports
  counts the observed outcomes of the window although old times are pruned.
\<close>

section \<open>Counters\<close>

record queue_counters =
  qc_Pending :: int
  qc_Active :: int
  qc_Scheduled :: int
  qc_Retry :: int
  qc_Archived :: int
  qc_Processed :: int
  qc_Failed :: int
  qc_Paused :: int
  qc_AvgWait :: duration
  qc_AvgRun :: duration

definition zero_counters :: queue_counters where
  "zero_counters = \<lparr>qc_Pending = 0, qc_Active = 0, qc_Scheduled = 0, qc_Retry = 0, qc_Archived = 0, qc_Processed = 0,
     qc_Failed = 0, qc_Paused = 0, qc_AvgWait = 0, qc_AvgRun = 0\<rparr>"

record throughput_window =
  tw_Processed :: int
  tw_Failed :: int

record queue_throughput =
  qt_Hour :: throughput_window
  qt_Day :: throughput_window
  qt_Week :: throughput_window

record stats_snapshot =
  ss_ByQueue :: "string \<rightharpoonup> queue_counters"
  ss_ThroughputByQueue :: "string \<rightharpoonup> queue_throughput"

record collector_state =
  cs_counters :: queue_counters
  cs_processedAt :: "time list"
  cs_failedAt :: "time list"
  cs_pendingByKey :: "string \<rightharpoonup> time list"
  cs_activeSettlements :: "nat \<rightharpoonup> unit"
  cs_activeByKey :: "string \<rightharpoonup> int"
  cs_uncorrelatedActive :: int
  cs_waitSum :: duration
  cs_waitCount :: int
  cs_runSum :: duration
  cs_runCount :: int

type_synonym collector = "string \<rightharpoonup> collector_state"

definition new_state :: collector_state where
  "new_state = \<lparr>cs_counters = zero_counters, cs_processedAt = [], cs_failedAt = [], cs_pendingByKey = Map.empty,
     cs_activeSettlements = Map.empty, cs_activeByKey = Map.empty, cs_uncorrelatedActive = 0, cs_waitSum = 0,
     cs_waitCount = 0, cs_runSum = 0, cs_runCount = 0\<rparr>"

definition NewStatsCollector :: collector where
  "NewStatsCollector = Map.empty"

abbreviation count_up :: "((int \<Rightarrow> int) \<Rightarrow> queue_counters \<Rightarrow> queue_counters) \<Rightarrow> collector_state \<Rightarrow> collector_state" where
  "count_up field s \<equiv> s\<lparr>cs_counters := field (\<lambda>n. n + 1) (cs_counters s)\<rparr>"

text \<open>A counter is only lowered when it is positive.\<close>

abbreviation count_down :: "((int \<Rightarrow> int) \<Rightarrow> queue_counters \<Rightarrow> queue_counters) \<Rightarrow> collector_state \<Rightarrow> collector_state" where
  "count_down field s \<equiv> s\<lparr>cs_counters := field (\<lambda>n. if 0 < n then n - 1 else n) (cs_counters s)\<rparr>"

section \<open>Open executions\<close>

definition collectorExecutionKey :: "qevent \<Rightarrow> string" where
  "collectorExecutionKey event = (if qe_JobID event = [] then []
     else qe_DispatchID event @ [char_of (0::nat)] @ qe_JobID event @ [char_of (0::nat)] @ int_str (qe_Attempt event))"

definition openActive :: "dctx option \<Rightarrow> qevent \<Rightarrow> collector_state \<Rightarrow> collector_state" where
  "openActive ctx event s = (case deliverySettlementFromContext ctx of
     Some settlement \<Rightarrow>
       if cs_activeSettlements s settlement \<noteq> None then s
       else count_up qc_Active_update (s\<lparr>cs_activeSettlements := (cs_activeSettlements s)(settlement \<mapsto> ())\<rparr>)
   | None \<Rightarrow>
       let key = collectorExecutionKey event;
           s = (if key \<noteq> [] then s\<lparr>cs_activeByKey := (cs_activeByKey s)(key \<mapsto> map_get 0 (cs_activeByKey s) key + 1)\<rparr>
                else s\<lparr>cs_uncorrelatedActive := cs_uncorrelatedActive s + 1\<rparr>)
       in count_up qc_Active_update s)"

definition removeSettlement :: "nat \<Rightarrow> collector_state \<Rightarrow> bool \<times> collector_state" where
  "removeSettlement settlement s = (if cs_activeSettlements s settlement = None then (False, s)
     else (True, s\<lparr>cs_activeSettlements := (cs_activeSettlements s)(settlement := None)\<rparr>))"

definition closeByKey :: "string \<Rightarrow> collector_state \<Rightarrow> bool \<times> collector_state" where
  "closeByKey key s =
    (let (removed, s) =
       (if key = [] \<and> 0 < cs_uncorrelatedActive s then (True, s\<lparr>cs_uncorrelatedActive := cs_uncorrelatedActive s - 1\<rparr>)
        else if key \<noteq> [] \<and> 0 < map_get 0 (cs_activeByKey s) key
        then (let n = map_get 0 (cs_activeByKey s) key - 1 in
          (True, s\<lparr>cs_activeByKey := (cs_activeByKey s)(key := if n = 0 then None else Some n)\<rparr>))
        else (False, s))
     in if \<not> removed then (False, s) else (True, count_down qc_Active_update s))"

definition closeActive :: "dctx option \<Rightarrow> qevent \<Rightarrow> collector_state \<Rightarrow> bool \<times> collector_state" where
  "closeActive ctx event s = (case deliverySettlementFromContext ctx of
     Some settlement \<Rightarrow> (case removeSettlement settlement s of (removed, s) \<Rightarrow>
       if \<not> removed then (False, s) else (True, count_down qc_Active_update s))
   | None \<Rightarrow> closeByKey (collectorExecutionKey event) s)"

definition closeSettlementActive :: "dctx option \<Rightarrow> qevent \<Rightarrow> collector_state \<Rightarrow> bool \<times> collector_state" where
  "closeSettlementActive ctx event s =
     (if deliverySettlementFromContext ctx = None then (False, s) else closeActive ctx event s)"

section \<open>Observing\<close>

definition hour :: duration where "hour = 3600000000000"

definition pruneBefore :: "time list \<Rightarrow> time \<Rightarrow> time list" where
  "pruneBefore ts cutoff = dropWhile (\<lambda>t. t < cutoff) ts"

definition countSince :: "time list \<Rightarrow> time \<Rightarrow> int" where
  "countSince ts cutoff = foldl (\<lambda>total t. if \<not> t < cutoff then total + 1 else total) 0 ts"

definition pruneThroughputLocked :: "time \<Rightarrow> collector_state \<Rightarrow> collector_state" where
  "pruneThroughputLocked tnow s = (let cutoff = tnow - 7 * 24 * hour in
     s\<lparr>cs_processedAt := pruneBefore (cs_processedAt s) cutoff, cs_failedAt := pruneBefore (cs_failedAt s) cutoff\<rparr>)"

definition take_pending :: "qevent \<Rightarrow> time \<Rightarrow> collector_state \<Rightarrow> collector_state" where
  "take_pending event tnow s = (if qe_JobKey event = [] then s else
     case cs_pendingByKey s (qe_JobKey event) of
       None \<Rightarrow> s | Some [] \<Rightarrow> s
     | Some (enqueuedAt # rest) \<Rightarrow>
         let s = s\<lparr>cs_pendingByKey := (cs_pendingByKey s)(qe_JobKey event := if rest = [] then None else Some rest)\<rparr>
         in if tnow > enqueuedAt
            then let waitSum = cs_waitSum s + (tnow - enqueuedAt); waitCount = cs_waitCount s + 1 in
              s\<lparr>cs_waitSum := waitSum, cs_waitCount := waitCount,
                cs_counters := (cs_counters s)\<lparr>qc_AvgWait := waitSum sdiv waitCount\<rparr>\<rparr>
            else s)"

definition add_run :: "qevent \<Rightarrow> collector_state \<Rightarrow> collector_state" where
  "add_run event s = (let runSum = cs_runSum s + qe_Duration event; runCount = cs_runCount s + 1 in
     s\<lparr>cs_runSum := runSum, cs_runCount := runCount, cs_counters := (cs_counters s)\<lparr>qc_AvgRun := runSum sdiv runCount\<rparr>\<rparr>)"

fun observe_kind :: "queue_event_kind \<Rightarrow> dctx option \<Rightarrow> qevent \<Rightarrow> time \<Rightarrow> collector_state \<Rightarrow> collector_state" where
  "observe_kind EventEnqueueAccepted ctx event tnow s =
    (let s = count_up qc_Pending_update s;
         s = (if qe_Scheduled event then count_up qc_Scheduled_update s else s)
     in if qe_JobKey event = [] then s
        else s\<lparr>cs_pendingByKey := (cs_pendingByKey s)(qe_JobKey event \<mapsto> map_get [] (cs_pendingByKey s) (qe_JobKey event) @ [tnow])\<rparr>)"
| "observe_kind EventProcessStarted ctx event tnow s =
    (let s = count_down qc_Pending_update s;
         s = (if qe_Scheduled event then count_down qc_Scheduled_update s else s)
     in take_pending event tnow (openActive ctx event s))"
| "observe_kind EventProcessRetried ctx event tnow s = count_up qc_Retry_update s"
| "observe_kind EventProcessArchived ctx event tnow s = count_up qc_Archived_update s"
| "observe_kind EventQueuePaused ctx event tnow s = s\<lparr>cs_counters := (cs_counters s)\<lparr>qc_Paused := 1\<rparr>\<rparr>"
| "observe_kind EventQueueResumed ctx event tnow s = s\<lparr>cs_counters := (cs_counters s)\<lparr>qc_Paused := 0\<rparr>\<rparr>"
| "observe_kind EventProcessSucceeded ctx event tnow s =
    (let s = count_up qc_Processed_update (snd (closeActive ctx event s))
     in add_run event (s\<lparr>cs_processedAt := cs_processedAt s @ [tnow]\<rparr>))"
| "observe_kind EventProcessFailed ctx event tnow s =
    (let s = count_up qc_Failed_update (snd (closeActive ctx event s))
     in add_run event (s\<lparr>cs_failedAt := cs_failedAt s @ [tnow]\<rparr>))"
| "observe_kind EventSettlementFailed ctx event tnow s = snd (closeSettlementActive ctx event s)"
| "observe_kind _ ctx event tnow s = s"

definition event_queue :: "qevent \<Rightarrow> string" where
  "event_queue event = (if qe_Queue event = [] then ''default'' else qe_Queue event)"

text \<open>\<open>wall\<close> is what \<open>time.Now()\<close> returns, read when the event carries no time.\<close>

definition event_time :: "time \<Rightarrow> qevent \<Rightarrow> time" where
  "event_time wall event = (if qe_Time event = zero_time then wall else qe_Time event)"

definition collector_Observe :: "time \<Rightarrow> dctx option \<Rightarrow> qevent \<Rightarrow> collector \<Rightarrow> collector" where
  "collector_Observe wall ctx event c =
    (let q = event_queue event; tnow = event_time wall event;
         state = map_get new_state c q
     in c(q \<mapsto> pruneThroughputLocked tnow (observe_kind (qe_Kind event) ctx event tnow state)))"

definition collector_window :: "time \<Rightarrow> collector_state \<Rightarrow> throughput_window" where
  "collector_window cutoff s = \<lparr>tw_Processed = countSince (cs_processedAt s) cutoff, tw_Failed = countSince (cs_failedAt s) cutoff\<rparr>"

definition collector_Snapshot :: "time \<Rightarrow> collector \<Rightarrow> stats_snapshot" where
  "collector_Snapshot tnow c = \<lparr>ss_ByQueue = (\<lambda>q. map_option cs_counters (c q)),
     ss_ThroughputByQueue = (\<lambda>q. map_option (\<lambda>s. \<lparr>qt_Hour = collector_window (tnow - hour) s,
       qt_Day = collector_window (tnow - 24 * hour) s, qt_Week = collector_window (tnow - 7 * 24 * hour) s\<rparr>) (c q))\<rparr>"

section \<open>Throughput\<close>

lemma countSince_filter: "countSince ts cutoff = int (length (filter (\<lambda>t. cutoff \<le> t) ts))"
proof -
  have "foldl (\<lambda>total t. if \<not> t < cutoff then total + 1 else total) n ts = n + int (length (filter (\<lambda>t. cutoff \<le> t) ts))" for n
    by (induction ts arbitrary: n) auto
  then show ?thesis by (simp add: countSince_def)
qed

lemma pruneBefore_filter: "c \<le> c' \<Longrightarrow> filter (\<lambda>t. c' \<le> t) (pruneBefore ts c) = filter (\<lambda>t. c' \<le> t) ts"
  by (induction ts) (auto simp: pruneBefore_def)

lemma times_frame [simp]:
  "cs_processedAt (openActive ctx event s) = cs_processedAt s" "cs_failedAt (openActive ctx event s) = cs_failedAt s"
  "cs_processedAt (take_pending event t s) = cs_processedAt s" "cs_failedAt (take_pending event t s) = cs_failedAt s"
  "cs_processedAt (add_run event s) = cs_processedAt s" "cs_failedAt (add_run event s) = cs_failedAt s"
  by (simp_all add: openActive_def take_pending_def add_run_def Let_def split: option.split list.split)

lemma times_frame_close [simp]:
  "cs_processedAt (snd (closeActive ctx event s)) = cs_processedAt s"
  "cs_failedAt (snd (closeActive ctx event s)) = cs_failedAt s"
  "cs_processedAt (snd (closeSettlementActive ctx event s)) = cs_processedAt s"
  "cs_failedAt (snd (closeSettlementActive ctx event s)) = cs_failedAt s"
  by (auto simp: closeSettlementActive_def closeActive_def removeSettlement_def closeByKey_def Let_def split: option.split)

lemma observe_kind_times:
  "cs_processedAt (observe_kind k ctx event t s) = cs_processedAt s @ (if k = EventProcessSucceeded then [t] else [])"
  "cs_failedAt (observe_kind k ctx event t s) = cs_failedAt s @ (if k = EventProcessFailed then [t] else [])"
  by (cases k; simp add: Let_def)+

text \<open>An observation is a clock reading, a context and an event.\<close>

type_synonym observation = "time \<times> dctx option \<times> qevent"

definition observe_all :: "observation list \<Rightarrow> collector \<Rightarrow> collector" where
  "observe_all os c = foldl (\<lambda>c (wall, ctx, event). collector_Observe wall ctx event c) c os"

definition outcome_times :: "queue_event_kind \<Rightarrow> string \<Rightarrow> observation list \<Rightarrow> time list" where
  "outcome_times k q os = map (\<lambda>(wall, ctx, event). event_time wall event)
     (filter (\<lambda>(wall, ctx, event). event_queue event = q \<and> qe_Kind event = k) os)"

lemma observe_all_simps [simp]:
  "observe_all [] c = c"
  "observe_all (os @ [(wall, ctx, event)]) c = collector_Observe wall ctx event (observe_all os c)"
  by (simp_all add: observe_all_def)

lemma observed_state:
  "map_get new_state (collector_Observe wall ctx event c) q = (if q = event_queue event
     then pruneThroughputLocked (event_time wall event) (observe_kind (qe_Kind event) ctx event (event_time wall event) (map_get new_state c q))
     else map_get new_state c q)"
  unfolding collector_Observe_def Let_def map_get_upd by simp

lemma observed_queue: "q = event_queue event \<Longrightarrow> \<exists>s. collector_Observe wall ctx event c q = Some s"
  unfolding collector_Observe_def Let_def by simp

lemma pruned_times [simp]:
  "cs_processedAt (pruneThroughputLocked t s) = pruneBefore (cs_processedAt s) (t - 7 * 24 * hour)"
  "cs_failedAt (pruneThroughputLocked t s) = pruneBefore (cs_failedAt s) (t - 7 * 24 * hour)"
  by (simp_all add: pruneThroughputLocked_def Let_def)

lemma outcome_times_snoc:
  "outcome_times k q (os @ [(wall, ctx, event)]) =
     outcome_times k q os @ (if event_queue event = q \<and> qe_Kind event = k then [event_time wall event] else [])"
  by (simp add: outcome_times_def)

lemma collector_times:
  assumes "\<forall>(wall, ctx, event) \<in> set os. event_time wall event \<le> t" "t - 7 * 24 * hour \<le> cutoff"
  shows "filter (\<lambda>t. cutoff \<le> t) (cs_processedAt (map_get new_state (observe_all os NewStatsCollector) q))
      = filter (\<lambda>t. cutoff \<le> t) (outcome_times EventProcessSucceeded q os)
    \<and> filter (\<lambda>t. cutoff \<le> t) (cs_failedAt (map_get new_state (observe_all os NewStatsCollector) q))
      = filter (\<lambda>t. cutoff \<le> t) (outcome_times EventProcessFailed q os)"
  using assms(1)
proof (induction os rule: rev_induct)
  case Nil
  then show ?case by (simp add: NewStatsCollector_def map_get_def new_state_def outcome_times_def)
next
  case (snoc ob os)
  obtain wall ctx event where ob: "ob = (wall, ctx, event)" by (cases ob)
  with snoc.prems have "event_time wall event - 7 * 24 * hour \<le> cutoff" using assms(2) by simp
  note prune = pruneBefore_filter [OF this]
  from snoc have IH: "filter (\<lambda>t. cutoff \<le> t) (cs_processedAt (map_get new_state (observe_all os NewStatsCollector) q))
      = filter (\<lambda>t. cutoff \<le> t) (outcome_times EventProcessSucceeded q os)"
    "filter (\<lambda>t. cutoff \<le> t) (cs_failedAt (map_get new_state (observe_all os NewStatsCollector) q))
      = filter (\<lambda>t. cutoff \<le> t) (outcome_times EventProcessFailed q os)" by simp_all
  show ?case
  proof (cases "event_queue event = q")
    case True
    then show ?thesis using IH
      unfolding ob observe_all_simps observed_state outcome_times_snoc if_P [OF True [symmetric]] pruned_times prune observe_kind_times
      by simp
  next
    case False
    then show ?thesis using IH unfolding ob observe_all_simps observed_state outcome_times_snoc by simp
  qed
qed

text \<open>C24. The throughput the collector reports for the last hour, day and week is the
  number of successful and failed attempts it observed in that window, although it prunes
  old times as it goes and whatever order the events carried.\<close>

theorem throughput_counts_window:
  assumes "\<forall>(wall, ctx, event) \<in> set os. event_time wall event \<le> t"
    and "ss_ThroughputByQueue (collector_Snapshot t (observe_all os NewStatsCollector)) q = Some r"
    and "(w, span) \<in> {(qt_Hour r, hour), (qt_Day r, 24 * hour), (qt_Week r, 7 * 24 * hour)}"
  shows "tw_Processed w = int (length (filter (\<lambda>x. t - span \<le> x) (outcome_times EventProcessSucceeded q os)))
    \<and> tw_Failed w = int (length (filter (\<lambda>x. t - span \<le> x) (outcome_times EventProcessFailed q os)))"
proof -
  obtain s where s: "observe_all os NewStatsCollector q = Some s" "qt_Hour r = collector_window (t - hour) s"
      "qt_Day r = collector_window (t - 24 * hour) s" "qt_Week r = collector_window (t - 7 * 24 * hour) s"
    using assms(2) unfolding collector_Snapshot_def by auto
  have "w = collector_window (t - span) s" "t - 7 * 24 * hour \<le> t - span"
    using assms(3) s(2-4) by (auto simp: hour_def)
  note w = this
  have "map_get new_state (observe_all os NewStatsCollector) q = s" using s(1) by (simp add: map_get_def)
  with collector_times [OF assms(1) w(2), of q] w(1) show ?thesis
    by (simp add: collector_window_def countSince_filter)
qed

definition sample_event :: "queue_event_kind \<Rightarrow> time \<Rightarrow> qevent" where
  "sample_event k t = (zero_qevent k)\<lparr>qe_JobID := ''j'', qe_Time := t\<rparr>"

theorem throughput_counts_window_witness:
  "\<exists>r. ss_ThroughputByQueue (collector_Snapshot (9 * hour) (observe_all
      [(0, None, sample_event EventProcessSucceeded hour), (0, None, sample_event EventProcessSucceeded (9 * hour))]
      NewStatsCollector)) ''default'' = Some r \<and> tw_Processed (qt_Hour r) = 1 \<and> tw_Processed (qt_Day r) = 2"
proof -
  let ?os = "[(0, None, sample_event EventProcessSucceeded hour), (0, None, sample_event EventProcessSucceeded (9 * hour))]"
  have ok: "\<forall>(wall, ctx, event) \<in> set ?os. event_time wall event \<le> 9 * hour"
    by (simp add: sample_event_def event_time_def hour_def zero_time_def)
  have q: "''default'' = event_queue (sample_event EventProcessSucceeded (9 * hour))"
    by (simp add: event_queue_def sample_event_def zero_qevent_def)
  obtain z where z: "observe_all ?os NewStatsCollector ''default'' = Some z"
    using observed_queue [OF q, of 0 None "collector_Observe 0 None (sample_event EventProcessSucceeded hour) NewStatsCollector"]
    by (auto simp: observe_all_def)
  then obtain r where r: "ss_ThroughputByQueue (collector_Snapshot (9 * hour) (observe_all ?os NewStatsCollector)) ''default'' = Some r"
    unfolding collector_Snapshot_def by simp
  have times: "outcome_times EventProcessSucceeded ''default'' ?os = [hour, 9 * hour]"
    by (simp add: outcome_times_def sample_event_def event_time_def event_queue_def zero_qevent_def hour_def zero_time_def)
  have "filter (\<lambda>x. 9 * hour - hour \<le> x) [hour, 9 * hour] = [9 * hour]"
    "filter (\<lambda>x. 9 * hour - 24 * hour \<le> x) [hour, 9 * hour] = [hour, 9 * hour]" by (simp_all add: hour_def)
  note window = this
  have "tw_Processed (qt_Hour r) = 1"
    using conjunct1 [OF throughput_counts_window [OF ok r, of "qt_Hour r" hour]] unfolding times window by simp
  moreover have "tw_Processed (qt_Day r) = 2"
    using conjunct1 [OF throughput_counts_window [OF ok r, of "qt_Day r" "24 * hour"]] unfolding times window by simp
  ultimately show ?thesis using r by blast
qed

end
