(* ===== verification/ActiveGauge.thy ===== *)
theory ActiveGauge
  imports Collector Simulation
begin

text \<open>
  The gauge of active executions of the statistics collector (\<open>observability.go\<close>)
  refines a count of the open executions: what is open is exactly what was started and
  not yet closed under the strongest identity the events carry, whatever else is observed.
\<close>

section \<open>The specification\<close>

text \<open>An execution is known by the settlement of its delivery, or by the key of its event,
  which is empty when the event names no job.\<close>

datatype execution = Exact nat | Keyed string

definition execution_of :: "dctx option \<Rightarrow> qevent \<Rightarrow> execution" where
  "execution_of ctx event = (case deliverySettlementFromContext ctx of Some a \<Rightarrow> Exact a
     | None \<Rightarrow> Keyed (collectorExecutionKey event))"

definition is_exact :: "execution \<Rightarrow> bool" where
  "is_exact x = (case x of Exact _ \<Rightarrow> True | Keyed _ \<Rightarrow> False)"

text \<open>The specification: how often each execution is open. Starting opens, finishing closes
  one that is open; an exact execution is open at most once, and a settlement failure only
  closes exact executions.\<close>

type_synonym open_executions = "execution \<Rightarrow> nat"

definition spec_open :: "execution \<Rightarrow> open_executions \<Rightarrow> open_executions" where
  "spec_open x f = (if is_exact x \<and> f x \<noteq> 0 then f else f(x := Suc (f x)))"

definition spec_close :: "execution \<Rightarrow> open_executions \<Rightarrow> open_executions" where
  "spec_close x f = f(x := f x - 1)"

definition spec_gauge :: "queue_event_kind \<Rightarrow> execution \<Rightarrow> open_executions \<Rightarrow> open_executions" where
  "spec_gauge k x f = (if k = EventProcessStarted then spec_open x f
     else if k = EventProcessSucceeded \<or> k = EventProcessFailed then spec_close x f
     else if k = EventSettlementFailed \<and> is_exact x then spec_close x f else f)"

definition total_open :: "open_executions \<Rightarrow> int" where
  "total_open f = (\<Sum>x | f x \<noteq> 0. int (f x))"

definition opens :: "collector_state \<Rightarrow> open_executions" where
  "opens s = (\<lambda>x. case x of Exact a \<Rightarrow> if cs_activeSettlements s a = None then 0 else 1
     | Keyed k \<Rightarrow> if k = [] then nat (cs_uncorrelatedActive s) else nat (map_get 0 (cs_activeByKey s) k))"

definition tallies_ok :: "collector_state \<Rightarrow> bool" where
  "tallies_ok s \<longleftrightarrow> 0 \<le> cs_uncorrelatedActive s \<and> (\<forall>k. 0 \<le> map_get 0 (cs_activeByKey s) k)"

definition gauge_ok :: "collector_state \<Rightarrow> bool" where
  "gauge_ok s \<longleftrightarrow> tallies_ok s \<and> finite {x. opens s x \<noteq> 0} \<and> qc_Active (cs_counters s) = total_open (opens s)"

lemma total_open_superset:
  assumes "finite A" "{x. f x \<noteq> 0} \<subseteq> A"
  shows "total_open f = (\<Sum>x\<in>A. int (f x))"
  unfolding total_open_def by (rule sum.mono_neutral_left [OF assms]) simp

lemma total_open_upd:
  assumes "finite {x. f x \<noteq> 0}"
  shows "finite {y. (f(x := n)) y \<noteq> 0} \<and> total_open (f(x := n)) = total_open f - int (f x) + int n"
proof -
  let ?A = "insert x {y. f y \<noteq> 0}" and ?g = "f(x := n)"
  have fin: "finite ?A" using assms by simp
  have sub: "{y. ?g y \<noteq> 0} \<subseteq> ?A" by (rule subsetI) (simp split: if_splits)
  have "(\<Sum>y\<in>?A - {x}. int (?g y)) = (\<Sum>y\<in>?A - {x}. int (f y))" by (rule sum.cong) simp_all
  moreover have "(\<Sum>y\<in>?A. int (?g y)) = int (?g x) + (\<Sum>y\<in>?A - {x}. int (?g y))" by (rule sum.remove [OF fin]) simp
  moreover have "(\<Sum>y\<in>?A. int (f y)) = int (f x) + (\<Sum>y\<in>?A - {x}. int (f y))" by (rule sum.remove [OF fin]) simp
  moreover have "total_open f = (\<Sum>y\<in>?A. int (f y))" by (rule total_open_superset [OF fin subset_insertI])
  moreover have "total_open ?g = (\<Sum>y\<in>?A. int (?g y))" by (rule total_open_superset [OF fin sub])
  ultimately have "total_open ?g = total_open f - int (f x) + int n" by simp
  with finite_subset [OF sub fin] show ?thesis by simp
qed

lemma total_open_member: "finite {x. f x \<noteq> 0} \<Longrightarrow> f x \<noteq> 0 \<Longrightarrow> 0 < total_open f"
  unfolding total_open_def by (rule sum_pos2 [of _ x]) auto

lemma map_get_clear [simp]: "map_get z (m(k := None)) k' = (if k' = k then z else map_get z m k')"
  by (simp add: map_get_def)

lemma openActive_opens:
  assumes "tallies_ok s"
  shows "tallies_ok (openActive ctx event s) \<and> opens (openActive ctx event s) = spec_open (execution_of ctx event) (opens s)"
proof (cases "deliverySettlementFromContext ctx")
  case None
  with assms show ?thesis
    by (auto simp: fun_eq_iff opens_def openActive_def spec_open_def execution_of_def is_exact_def tallies_ok_def Let_def nat_add_distrib
        split: execution.split)
next
  case (Some a)
  with assms show ?thesis
    by (auto simp: fun_eq_iff opens_def openActive_def spec_open_def execution_of_def is_exact_def tallies_ok_def split: execution.split)
qed

lemma closeByKey_opens:
  assumes "tallies_ok s"
  shows "tallies_ok (snd (closeByKey k s)) \<and> opens (snd (closeByKey k s)) = spec_close (Keyed k) (opens s)"
  using assms
  by (auto simp: fun_eq_iff opens_def closeByKey_def spec_close_def tallies_ok_def Let_def nat_diff_distrib split: execution.split)

lemma closeActive_opens:
  assumes "tallies_ok s"
  shows "tallies_ok (snd (closeActive ctx event s))
    \<and> opens (snd (closeActive ctx event s)) = spec_close (execution_of ctx event) (opens s)"
proof (cases "deliverySettlementFromContext ctx")
  case None
  with closeByKey_opens [OF assms] show ?thesis by (simp add: closeActive_def execution_of_def)
next
  case (Some a)
  with assms show ?thesis
    by (auto simp: fun_eq_iff opens_def closeActive_def removeSettlement_def spec_close_def execution_of_def tallies_ok_def split: execution.split)
qed

lemma openActive_active:
  "qc_Active (cs_counters (openActive ctx event s)) = qc_Active (cs_counters s)
     + (if is_exact (execution_of ctx event) \<and> opens s (execution_of ctx event) \<noteq> 0 then 0 else 1)"
  by (auto simp: opens_def openActive_def execution_of_def is_exact_def Let_def split: option.split)

lemma closeActive_active:
  "qc_Active (cs_counters (snd (closeActive ctx event s))) = (let a = qc_Active (cs_counters s) in
     if opens s (execution_of ctx event) \<noteq> 0 \<and> 0 < a then a - 1 else a)"
  by (auto simp: opens_def closeActive_def removeSettlement_def closeByKey_def execution_of_def Let_def split: option.split)

lemma openActive_gauge:
  assumes "gauge_ok s"
  shows "gauge_ok (openActive ctx event s) \<and> opens (openActive ctx event s) = spec_open (execution_of ctx event) (opens s)"
proof -
  let ?x = "execution_of ctx event"
  from assms have s: "tallies_ok s" "finite {x. opens s x \<noteq> 0}" "qc_Active (cs_counters s) = total_open (opens s)"
    by (simp_all add: gauge_ok_def)
  note o = openActive_opens [OF s(1), of ctx event]
  show ?thesis unfolding gauge_ok_def openActive_active using o s total_open_upd [OF s(2), of ?x "Suc (opens s ?x)"]
    by (auto simp: spec_open_def)
qed

lemma closeActive_gauge:
  assumes "gauge_ok s"
  shows "gauge_ok (snd (closeActive ctx event s)) \<and> opens (snd (closeActive ctx event s)) = spec_close (execution_of ctx event) (opens s)"
proof -
  let ?x = "execution_of ctx event"
  from assms have s: "tallies_ok s" "finite {x. opens s x \<noteq> 0}" "qc_Active (cs_counters s) = total_open (opens s)"
    by (simp_all add: gauge_ok_def)
  note c = closeActive_opens [OF s(1), of ctx event]
  show ?thesis
  proof (cases "opens s ?x = 0")
    case True
    then have "spec_close ?x (opens s) = opens s" by (simp add: spec_close_def fun_eq_iff)
    with True c s show ?thesis unfolding gauge_ok_def closeActive_active by (simp add: Let_def)
  next
    case False
    with c s total_open_member [OF s(2), of ?x] total_open_upd [OF s(2), of ?x "opens s ?x - 1"]
    show ?thesis unfolding gauge_ok_def closeActive_active by (simp add: spec_close_def Let_def of_nat_diff)
  qed
qed

text \<open>Everything else an observation does leaves the gauge alone.\<close>

definition gauge_view :: "collector_state \<Rightarrow> int \<times> (nat \<rightharpoonup> unit) \<times> (string \<rightharpoonup> int) \<times> int" where
  "gauge_view s = (qc_Active (cs_counters s), cs_activeSettlements s, cs_activeByKey s, cs_uncorrelatedActive s)"

lemma gauge_view_cong:
  assumes "gauge_view s' = gauge_view s"
  shows "opens s' = opens s" "gauge_ok s' = gauge_ok s"
proof -
  from assms have "cs_activeSettlements s' = cs_activeSettlements s" "cs_activeByKey s' = cs_activeByKey s"
    "cs_uncorrelatedActive s' = cs_uncorrelatedActive s" by (simp_all add: gauge_view_def)
  then show "opens s' = opens s" unfolding opens_def by presburger
  then show "gauge_ok s' = gauge_ok s" using assms by (auto simp: gauge_view_def gauge_ok_def tallies_ok_def)
qed

lemma gauge_view_frame [simp]:
  "gauge_view (take_pending event t s) = gauge_view s" "gauge_view (add_run event s) = gauge_view s"
  "gauge_view (pruneThroughputLocked t s) = gauge_view s"
  by (simp_all add: gauge_view_def take_pending_def add_run_def pruneThroughputLocked_def Let_def split: option.split list.split)

lemma pruned_active [simp]: "cs_counters (pruneThroughputLocked t s) = cs_counters s"
  by (simp add: pruneThroughputLocked_def Let_def)

lemma observe_kind_gauge:
  assumes "gauge_ok s"
  shows "gauge_ok (observe_kind k ctx event t s) \<and> opens (observe_kind k ctx event t s) = spec_gauge k (execution_of ctx event) (opens s)"
proof (cases k)
  case EventProcessStarted
  define s1 where "s1 = (let s = count_down qc_Pending_update s in if qe_Scheduled event then count_down qc_Scheduled_update s else s)"
  have "gauge_view s1 = gauge_view s" by (simp add: s1_def gauge_view_def Let_def)
  note s1 = gauge_view_cong [OF this]
  have "observe_kind k ctx event t s = take_pending event t (openActive ctx event s1)"
    by (simp add: EventProcessStarted s1_def Let_def)
  then have "gauge_view (observe_kind k ctx event t s) = gauge_view (openActive ctx event s1)" by simp
  note v = gauge_view_cong [OF this]
  show ?thesis using openActive_gauge [of s1 ctx event] assms unfolding v by (simp add: s1 EventProcessStarted spec_gauge_def)
next
  case EventProcessSucceeded
  then have "gauge_view (observe_kind k ctx event t s) = gauge_view (snd (closeActive ctx event s))"
    by (simp add: Let_def) (simp add: gauge_view_def)
  note v = gauge_view_cong [OF this]
  show ?thesis using closeActive_gauge [OF assms, of ctx event] unfolding v by (simp add: EventProcessSucceeded spec_gauge_def)
next
  case EventProcessFailed
  then have "gauge_view (observe_kind k ctx event t s) = gauge_view (snd (closeActive ctx event s))"
    by (simp add: Let_def) (simp add: gauge_view_def)
  note v = gauge_view_cong [OF this]
  show ?thesis using closeActive_gauge [OF assms, of ctx event] unfolding v by (simp add: EventProcessFailed spec_gauge_def)
next
  case EventSettlementFailed
  show ?thesis using closeActive_gauge [OF assms, of ctx event] assms
    by (auto simp: EventSettlementFailed spec_gauge_def closeSettlementActive_def execution_of_def is_exact_def split: option.split)
qed (use assms gauge_view_cong [of "observe_kind k ctx event t s" s] in \<open>simp add: gauge_view_def spec_gauge_def Let_def\<close>)+

section \<open>Refinement\<close>

text \<open>An observation reports the gauge of its queue.\<close>

definition gauge_step :: "observation \<Rightarrow> collector \<Rightarrow> int \<times> collector" where
  "gauge_step ob c = (case ob of (wall, ctx, event) \<Rightarrow>
     let c' = collector_Observe wall ctx event c
     in (qc_Active (cs_counters (map_get new_state c' (event_queue event))), c'))"

definition spec_step :: "observation \<Rightarrow> (string \<Rightarrow> open_executions) \<Rightarrow> int \<times> (string \<Rightarrow> open_executions)" where
  "spec_step ob F = (case ob of (wall, ctx, event) \<Rightarrow>
     let f = spec_gauge (qe_Kind event) (execution_of ctx event) (F (event_queue event))
     in (total_open f, F(event_queue event := f)))"

definition gauges_ok :: "collector \<Rightarrow> bool" where
  "gauges_ok c \<longleftrightarrow> (\<forall>q. gauge_ok (map_get new_state c q))"

definition opens_of :: "collector \<Rightarrow> string \<Rightarrow> open_executions" where
  "opens_of c = (\<lambda>q. opens (map_get new_state c q))"

interpretation gauge: functional_refinement gauge_step spec_step gauges_ok opens_of
proof
  fix ob :: observation and c assume ok: "gauges_ok c"
  obtain wall ctx event where ob: "ob = (wall, ctx, event)" by (cases ob)
  let ?q = "event_queue event" and ?s = "map_get new_state c (event_queue event)"
  let ?s' = "observe_kind (qe_Kind event) ctx event (event_time wall event) ?s"
  have "gauge_ok ?s" using ok by (simp add: gauges_ok_def)
  note s' = observe_kind_gauge [OF this, of "qe_Kind event" ctx event "event_time wall event"]
  note p = gauge_view_cong [OF gauge_view_frame(3) [of "event_time wall event" ?s']]
  have new: "map_get new_state (collector_Observe wall ctx event c) q
      = (if q = ?q then pruneThroughputLocked (event_time wall event) ?s' else map_get new_state c q)" for q
    by (simp add: observed_state)
  have "gauges_ok (snd (gauge_step ob c))" using ok s' by (simp add: ob gauge_step_def gauges_ok_def new p Let_def)
  moreover have "opens_of (snd (gauge_step ob c)) = (opens_of c)(?q := spec_gauge (qe_Kind event) (execution_of ctx event) (opens ?s))"
    using s' by (simp add: ob gauge_step_def opens_of_def new p Let_def fun_eq_iff)
  moreover have "fst (gauge_step ob c) = total_open (spec_gauge (qe_Kind event) (execution_of ctx event) (opens ?s))"
    using s' by (simp add: ob gauge_step_def new Let_def gauge_ok_def)
  ultimately show "gauges_ok (snd (gauge_step ob c)) \<and> spec_step ob (opens_of c) = (fst (gauge_step ob c), opens_of (snd (gauge_step ob c)))"
    by (simp add: ob spec_step_def Let_def opens_of_def)
qed

text \<open>C25. The gauge of active executions is exact after every observation: it is the number of
  executions opened and not yet closed, where a delivery with a settlement boundary is
  open at most once however often it is reported, a fact about an execution that is not
  open closes nothing, and a settlement failure without a boundary closes nothing.\<close>

theorem active_gauge_exact:
  "fst (run_ops gauge_step os NewStatsCollector) = fst (run_ops spec_step os (\<lambda>q x. 0))"
proof -
  have start: "map_get new_state NewStatsCollector q = new_state" for q by (simp add: NewStatsCollector_def map_get_def)
  have zero: "opens new_state = (\<lambda>x. 0)" by (simp add: opens_def new_state_def map_get_def fun_eq_iff split: execution.split)
  then have "gauges_ok NewStatsCollector"
    by (simp add: gauges_ok_def start gauge_ok_def tallies_ok_def total_open_def) (simp add: new_state_def zero_counters_def map_get_def)
  moreover have "opens_of NewStatsCollector = (\<lambda>q x. 0)" by (simp add: opens_of_def start zero)
  ultimately show ?thesis using gauge.run_refines [of NewStatsCollector os] by simp
qed

end
