(* ===== verification/SqlTables.thy ===== *)
theory SqlTables
  imports Observability
begin

text \<open>
  The database the SQL queue of \<open>driver/sqlqueuecore\<close> works on: its two tables, the
  statements the driver issues, and how a call can end. The database itself is not part of
  the program, so what it may do is a parameter: every call has a number, and the
  environment says for each number whether the call is refused, whether it takes effect but
  its reply is lost, or whether only the row count is unknown; which changes other
  sessions committed since the previous call; and which rows other transactions hold
  locked. The JSON encoding of delivery metadata is a parameter as well. A statement is applied atomically, and the statements of a transaction are
  applied together or not at all.
\<close>

section \<open>Tables\<close>

record job_row =
  jr_id :: int
  jr_queue_name :: string
  jr_job_type :: string
  jr_payload :: bytes
  jr_metadata_json :: "string option"
  jr_timeout_seconds :: "int option"
  jr_max_retry :: int
  jr_backoff_millis :: int
  jr_attempt :: int
  jr_available_at :: int
  jr_processing_started_at :: "int option"
  jr_processing_token :: "string option"
  jr_last_error :: "string option"
  jr_state :: string
  jr_created_at :: int
  jr_updated_at :: int

text \<open>The rows of \<open>queue_jobs\<close> in the order of their ids, the next id, the locks of
  \<open>queue_unique_locks\<close> and the catalogue: the columns of the tables that exist and the
  indexes.\<close>

record sql_tables =
  tb_jobs :: "job_row list"
  tb_next_id :: int
  tb_locks :: "string \<rightharpoonup> int"
  tb_columns :: "string \<rightharpoonup> string list"
  tb_indexes :: "string list"

definition empty_tables :: sql_tables where
  "empty_tables = \<lparr>tb_jobs = [], tb_next_id = 1, tb_locks = Map.empty, tb_columns = Map.empty, tb_indexes = []\<rparr>"

section \<open>Calls\<close>

datatype fault = Healthy | Refused goerr | ReplyLost goerr | Uncounted goerr

record sql_env = obs_env +
  se_fault :: "nat \<Rightarrow> fault"
  se_reject :: "nat \<Rightarrow> goerr"
  se_peer :: "nat \<Rightarrow> sql_tables \<Rightarrow> sql_tables"
  se_locked :: "nat \<Rightarrow> int \<Rightarrow> bool"
  se_dbclock :: "nat \<Rightarrow> int"
  se_marshalMetadata :: "delivery_metadata \<Rightarrow> goerr + string"
  se_unmarshalMetadata :: "string \<Rightarrow> delivery_metadata option"

record sql_world = obs +
  sw_tables :: sql_tables
  sw_calls :: nat
  sw_started :: bool
  sw_shuttingDown :: bool
  sw_workers :: int
  sw_uniqueClaims :: "64 word"
  sw_permits :: permit_heap

text \<open>A statement maps the tables to the new tables and the number of affected rows, or is
  rejected. Its reply is an error, or a result whose row count may be unavailable.\<close>

type_synonym statement = "sql_tables \<Rightarrow> (sql_tables \<times> int) option"
type_synonym reply = "goerr + (goerr + int)"

definition tx_exec :: "sql_env \<Rightarrow> statement \<Rightarrow> sql_world \<Rightarrow> reply \<times> sql_world" where
  "tx_exec env stmt w =
    (let n = sw_calls w; w' = w\<lparr>sw_calls := Suc n\<rparr> in
     case stmt (sw_tables w) of
       None \<Rightarrow> (Inl (se_reject env n), w')
     | Some (tb, rows) \<Rightarrow> (case se_fault env n of
         Healthy \<Rightarrow> (Inr (Inr rows), w'\<lparr>sw_tables := tb\<rparr>)
       | Refused err \<Rightarrow> (Inl err, w')
       | ReplyLost err \<Rightarrow> (Inl err, w'\<lparr>sw_tables := tb\<rparr>)
       | Uncounted err \<Rightarrow> (Inr (Inl err), w'\<lparr>sw_tables := tb\<rparr>)))"

definition peers :: "sql_env \<Rightarrow> sql_world \<Rightarrow> sql_world" where
  "peers env w = w\<lparr>sw_tables := se_peer env (sw_calls w) (sw_tables w)\<rparr>"

definition exec :: "sql_env \<Rightarrow> statement \<Rightarrow> sql_world \<Rightarrow> reply \<times> sql_world" where
  "exec env stmt w = tx_exec env stmt (peers env w)"

text \<open>A query has no effect; any fault makes it fail.\<close>

definition tx_query :: "sql_env \<Rightarrow> (sql_tables \<Rightarrow> 'a) \<Rightarrow> sql_world \<Rightarrow> (goerr + 'a) \<times> sql_world" where
  "tx_query env q w = (let n = sw_calls w; w' = w\<lparr>sw_calls := Suc n\<rparr> in
     case se_fault env n of Healthy \<Rightarrow> (Inr (q (sw_tables w)), w')
     | Refused err \<Rightarrow> (Inl err, w') | ReplyLost err \<Rightarrow> (Inl err, w') | Uncounted err \<Rightarrow> (Inl err, w'))"

definition query :: "sql_env \<Rightarrow> (sql_tables \<Rightarrow> 'a) \<Rightarrow> sql_world \<Rightarrow> (goerr + 'a) \<times> sql_world" where
  "query env q w = tx_query env q (peers env w)"

text \<open>A transaction remembers the tables it began with; rolling back restores them. A commit
  may fail before or after it took effect.\<close>

definition beginTx :: "sql_env \<Rightarrow> sql_world \<Rightarrow> (goerr + sql_tables) \<times> sql_world" where
  "beginTx env w = query env (\<lambda>tb. tb) w"

definition rollback :: "sql_tables \<Rightarrow> sql_world \<Rightarrow> sql_world" where
  "rollback snapshot w = w\<lparr>sw_tables := snapshot\<rparr>"

definition commit :: "sql_env \<Rightarrow> sql_tables \<Rightarrow> sql_world \<Rightarrow> goerr option \<times> sql_world" where
  "commit env snapshot w = (let n = sw_calls w; w' = w\<lparr>sw_calls := Suc n\<rparr> in
     case se_fault env n of Healthy \<Rightarrow> (None, w')
     | Refused err \<Rightarrow> (Some err, rollback snapshot w')
     | ReplyLost err \<Rightarrow> (Some err, w') | Uncounted err \<Rightarrow> (Some err, w'))"

section \<open>Statements on rows\<close>

definition update_jobs :: "(job_row \<Rightarrow> bool) \<Rightarrow> (job_row \<Rightarrow> job_row) \<Rightarrow> statement" where
  "update_jobs P f tb = Some (tb\<lparr>tb_jobs := map (\<lambda>r. if P r then f r else r) (tb_jobs tb)\<rparr>,
     int (length (filter P (tb_jobs tb))))"

definition delete_jobs :: "(job_row \<Rightarrow> bool) \<Rightarrow> statement" where
  "delete_jobs P tb = Some (tb\<lparr>tb_jobs := filter (\<lambda>r. \<not> P r) (tb_jobs tb)\<rparr>, int (length (filter P (tb_jobs tb))))"

definition insert_job :: "job_row \<Rightarrow> statement" where
  "insert_job r tb = Some (tb\<lparr>tb_jobs := tb_jobs tb @ [r\<lparr>jr_id := tb_next_id tb\<rparr>], tb_next_id := tb_next_id tb + 1\<rparr>, 1)"

text \<open>\<open>INSERT ... ON CONFLICT DO NOTHING\<close>, the conditional update and the pruning of locks.\<close>

definition insert_lock :: "string \<Rightarrow> int \<Rightarrow> statement" where
  "insert_lock key expires tb = Some (case tb_locks tb key of
     None \<Rightarrow> (tb\<lparr>tb_locks := (tb_locks tb)(key \<mapsto> expires)\<rparr>, 1) | Some _ \<Rightarrow> (tb, 0))"

definition update_lock :: "string \<Rightarrow> int \<Rightarrow> int \<Rightarrow> statement" where
  "update_lock key expires t tb = Some (case tb_locks tb key of
     None \<Rightarrow> (tb, 0)
   | Some e \<Rightarrow> if e \<le> t then (tb\<lparr>tb_locks := (tb_locks tb)(key \<mapsto> expires)\<rparr>, 1) else (tb, 0))"

text \<open>The driver ignores how many locks were pruned.\<close>

definition delete_locks :: "int \<Rightarrow> statement" where
  "delete_locks t tb = Some (tb\<lparr>tb_locks := delete_where (\<lambda>k e. e \<le> t) (tb_locks tb)\<rparr>, 0)"

text \<open>The token of the continuation scope a queue creates.\<close>

definition queue_scope :: scope where
  "queue_scope = Some 0"

section \<open>Time\<close>

definition unix_milli :: "time \<Rightarrow> int" where
  "unix_milli t = t div 1000000"

definition milliseconds :: "duration \<Rightarrow> int" where
  "milliseconds d = d sdiv 1000000"

section \<open>Configuration\<close>

record db_config =
  dc_DriverName :: string
  dc_Workers :: int
  dc_PollInterval :: duration
  dc_DefaultQueue :: string
  dc_AutoMigrate :: bool
  dc_DisableAutoMigrate :: bool
  dc_ProcessingRecoveryGrace :: duration
  dc_ProcessingLeaseNoTimeout :: duration

definition millisecond :: duration where "millisecond = 1000000"

definition defaultWorkerCount :: "int \<Rightarrow> int" where
  "defaultWorkerCount n = (if n \<le> 0 then 1 else n)"

definition config_normalize :: "db_config \<Rightarrow> db_config" where
  "config_normalize c =
    (let c = c\<lparr>dc_Workers := defaultWorkerCount (dc_Workers c)\<rparr>;
         c = (if dc_PollInterval c \<le> 0 then c\<lparr>dc_PollInterval := 50 * millisecond\<rparr> else c);
         c = (if dc_DefaultQueue c = [] then c\<lparr>dc_DefaultQueue := ''default''\<rparr> else c);
         c = (if dc_DisableAutoMigrate c then c\<lparr>dc_AutoMigrate := False\<rparr>
              else if \<not> dc_AutoMigrate c then c\<lparr>dc_AutoMigrate := True\<rparr> else c);
         c = (if dc_ProcessingRecoveryGrace c \<le> 0 then c\<lparr>dc_ProcessingRecoveryGrace := 2000 * millisecond\<rparr> else c)
     in if dc_ProcessingLeaseNoTimeout c \<le> 0 then c\<lparr>dc_ProcessingLeaseNoTimeout := 300000 * millisecond\<rparr> else c)"

definition usesOptimisticClaimLoop :: "db_config \<Rightarrow> bool" where
  "usesOptimisticClaimLoop cfg \<longleftrightarrow> dc_DriverName cfg = ''sqlite''"

definition is_postgres :: "db_config \<Rightarrow> bool" where
  "is_postgres cfg \<longleftrightarrow> dc_DriverName cfg = ''pgx'' \<or> dc_DriverName cfg = ''postgres''"

section \<open>Invariant\<close>

text \<open>Ids are positive, ascending and below the next one.\<close>

definition tables_ok :: "sql_tables \<Rightarrow> bool" where
  "tables_ok tb \<longleftrightarrow> sorted_wrt (<) (map jr_id (tb_jobs tb)) \<and> (\<forall>r \<in> set (tb_jobs tb). 0 < jr_id r \<and> jr_id r < tb_next_id tb)
     \<and> 0 < tb_next_id tb"

definition keeps_id :: "(job_row \<Rightarrow> job_row) \<Rightarrow> bool" where
  "keeps_id f \<longleftrightarrow> (\<forall>r. jr_id (f r) = jr_id r)"

lemma empty_tables_ok [simp]: "tables_ok empty_tables"
  by (simp add: tables_ok_def empty_tables_def)

lemma update_jobs_ok: "tables_ok tb \<Longrightarrow> keeps_id f \<Longrightarrow> update_jobs P f tb = Some (tb', n) \<Longrightarrow> tables_ok tb'"
proof -
  assume ok: "tables_ok tb" and k: "keeps_id f" and u: "update_jobs P f tb = Some (tb', n)"
  have "map jr_id (map (\<lambda>r. if P r then f r else r) (tb_jobs tb)) = map jr_id (tb_jobs tb)"
    using k by (auto simp: keeps_id_def)
  then have ids: "map jr_id (tb_jobs tb') = map jr_id (tb_jobs tb)" and nid: "tb_next_id tb' = tb_next_id tb"
    using u by (auto simp: update_jobs_def)
  have "jr_id ` set (tb_jobs tb') = jr_id ` set (tb_jobs tb)" using ids by (metis set_map)
  then show ?thesis using ok ids nid unfolding tables_ok_def by (metis (no_types, lifting) image_iff)
qed

lemma delete_jobs_ok: "tables_ok tb \<Longrightarrow> delete_jobs P tb = Some (tb', n) \<Longrightarrow> tables_ok tb'"
  by (auto simp: tables_ok_def delete_jobs_def sorted_wrt_map intro: sorted_wrt_filter)

lemma insert_job_ok: "tables_ok tb \<Longrightarrow> insert_job r tb = Some (tb', n) \<Longrightarrow> tables_ok tb'"
  by (fastforce simp: tables_ok_def insert_job_def sorted_wrt_append)

lemma locks_ok:
  "tables_ok tb \<Longrightarrow> insert_lock k e tb = Some (tb', n) \<Longrightarrow> tables_ok tb'"
  "tables_ok tb \<Longrightarrow> update_lock k e t tb = Some (tb', n) \<Longrightarrow> tables_ok tb'"
  "tables_ok tb \<Longrightarrow> delete_locks t tb = Some (tb', n) \<Longrightarrow> tables_ok tb'"
  by (auto simp: tables_ok_def insert_lock_def update_lock_def delete_locks_def split: option.splits if_splits)

text \<open>A row is determined by its id.\<close>

lemma tables_ok_unique: "tables_ok tb \<Longrightarrow> r \<in> set (tb_jobs tb) \<Longrightarrow> r' \<in> set (tb_jobs tb) \<Longrightarrow> jr_id r = jr_id r' \<Longrightarrow> r = r'"
proof -
  assume ok: "tables_ok tb" and r: "r \<in> set (tb_jobs tb)" "r' \<in> set (tb_jobs tb)" "jr_id r = jr_id r'"
  have "distinct (map jr_id (tb_jobs tb))"
    using ok strict_sorted_iff [of "map jr_id (tb_jobs tb)"] by (simp add: tables_ok_def)
  with r show ?thesis by (simp add: distinct_map inj_on_def)
qed

lemma filter_by_id_length:
  assumes "tables_ok tb"
  shows "length (filter (\<lambda>r. jr_id r = i \<and> P r) (tb_jobs tb)) = (if \<exists>r \<in> set (tb_jobs tb). jr_id r = i \<and> P r then 1 else 0)"
proof (cases "\<exists>r \<in> set (tb_jobs tb). jr_id r = i \<and> P r")
  case True
  then obtain r where r: "r \<in> set (tb_jobs tb)" "jr_id r = i" "P r" by blast
  have "distinct (tb_jobs tb)" using assms strict_sorted_iff [of "map jr_id (tb_jobs tb)"]
    by (auto simp: tables_ok_def distinct_map)
  then have d: "distinct (filter (\<lambda>r. jr_id r = i \<and> P r) (tb_jobs tb))" by simp
  have "set (filter (\<lambda>r. jr_id r = i \<and> P r) (tb_jobs tb)) = {r}"
    using r tables_ok_unique [OF assms] by auto
  with distinct_card [OF d] have "length (filter (\<lambda>r. jr_id r = i \<and> P r) (tb_jobs tb)) = 1" by simp
  with True show ?thesis by simp
qed (auto simp: filter_empty_conv)

section \<open>A quiet environment\<close>

text \<open>A concrete environment in which every call succeeds and no other session acts.\<close>

definition quiet_env :: sql_env where
  "quiet_env = \<lparr>oe_clock = (\<lambda>n. 1000000 * int n), oe_rand = (\<lambda>n k. Inr (replicate k (char_of n))), oe_observed = True,
     oe_sha1 = (\<lambda>x. x), oe_sha256 = (\<lambda>x. x), oe_decode = (\<lambda>_. None), se_fault = (\<lambda>_. Healthy), se_reject = (\<lambda>_. ErrNew ''rejected''),
     se_peer = (\<lambda>_ tb. tb), se_locked = (\<lambda>_ _. False), se_dbclock = (\<lambda>n. int n),
     se_marshalMetadata = (\<lambda>_. Inr ''{}''), se_unmarshalMetadata = (\<lambda>_. None)\<rparr>"

definition new_world :: "sql_tables \<Rightarrow> sql_world" where
  "new_world tb = \<lparr>ob_reads = 0, ob_draws = 0, ob_events = [], ob_gates = Map.empty, ob_nextGate = 0, ob_settlements = Map.empty,
     ob_nextSettlement = 0, sw_tables = tb, sw_calls = 0, sw_started = False, sw_shuttingDown = False, sw_workers = 0,
     sw_uniqueClaims = 0, sw_permits = \<lparr>ph_next = 0, ph_permits = Map.empty\<rparr>\<rparr>"

definition sample_config :: "string \<Rightarrow> db_config" where
  "sample_config driver = config_normalize \<lparr>dc_DriverName = driver, dc_Workers = 0, dc_PollInterval = 0, dc_DefaultQueue = [],
     dc_AutoMigrate = False, dc_DisableAutoMigrate = False, dc_ProcessingRecoveryGrace = 0, dc_ProcessingLeaseNoTimeout = 0\<rparr>"

end
