(* ===== verification/SqlSchema.thy ===== *)
theory SqlSchema
  imports SqlTables
begin

text \<open>
  Schema management of the SQL queue (\<open>driver/sqlqueuecore/queue_database_impl.go\<close>):
  the statements an automatically migrating queue issues, the additive upgrades of
  older tables, and the validation a queue with a caller-managed schema performs. The
  catalogue only records which columns and indexes exist; column types are the
  database's business.
\<close>

section \<open>Data definition\<close>

datatype ddl = CreateTable string "string list" | CreateIndex string string "string list"
  | AddColumn string string | AddIndex string string "string list"

definition columns_of :: "sql_tables \<Rightarrow> string \<Rightarrow> string list" where
  "columns_of tb t = map_get [] (tb_columns tb) t"

fun ddl_statement :: "ddl \<Rightarrow> statement" where
  "ddl_statement (CreateTable t cs) tb =
     (case tb_columns tb t of None \<Rightarrow> Some (tb\<lparr>tb_columns := (tb_columns tb)(t \<mapsto> cs)\<rparr>, 0) | Some _ \<Rightarrow> Some (tb, 0))"
| "ddl_statement (CreateIndex i t cs) tb = (if i \<in> set (tb_indexes tb) then Some (tb, 0)
     else if set cs \<subseteq> set (columns_of tb t) then Some (tb\<lparr>tb_indexes := i # tb_indexes tb\<rparr>, 0) else None)"
| "ddl_statement (AddColumn t c) tb = (case tb_columns tb t of None \<Rightarrow> None
     | Some cs \<Rightarrow> if c \<in> set cs then None else Some (tb\<lparr>tb_columns := (tb_columns tb)(t \<mapsto> cs @ [c])\<rparr>, 0))"
| "ddl_statement (AddIndex i t cs) tb = (if i \<in> set (tb_indexes tb) \<or> \<not> set cs \<subseteq> set (columns_of tb t) then None
     else Some (tb\<lparr>tb_indexes := i # tb_indexes tb\<rparr>, 0))"

definition managedQueueJobColumns :: "string list" where
  "managedQueueJobColumns = [''id'', ''queue_name'', ''job_type'', ''payload'', ''metadata_json'', ''timeout_seconds'', ''max_retry'',
     ''backoff_millis'', ''attempt'', ''available_at'', ''processing_started_at'', ''processing_token'', ''last_error'', ''state'',
     ''created_at'', ''updated_at'']"

definition managedQueueUniqueLockColumns :: "string list" where
  "managedQueueUniqueLockColumns = [''lock_key'', ''expires_at'']"

definition managedQueueJobsTable :: string where "managedQueueJobsTable = ''queue_jobs''"
definition managedQueueUniqueLocksTable :: string where "managedQueueUniqueLocksTable = ''queue_unique_locks''"

definition schemaStatements :: "db_config \<Rightarrow> ddl list" where
  "schemaStatements cfg =
    (if is_postgres cfg \<or> dc_DriverName cfg = ''sqlite'' then
       [CreateTable ''queue_jobs'' [''id'', ''queue_name'', ''job_type'', ''payload'', ''metadata_json'', ''timeout_seconds'', ''max_retry'',
          ''backoff_millis'', ''attempt'', ''available_at'', ''processing_started_at'', ''processing_token'', ''last_error'', ''state'',
          ''created_at'', ''updated_at''],
        CreateIndex ''idx_queue_jobs_ready'' ''queue_jobs'' [''state'', ''available_at'', ''id''],
        CreateTable ''queue_unique_locks'' [''lock_key'', ''expires_at''],
        CreateIndex ''idx_queue_unique_locks_expires'' ''queue_unique_locks'' [''expires_at'']]
     else
       [CreateTable ''queue_jobs'' [''id'', ''queue_name'', ''job_type'', ''payload'', ''metadata_json'', ''timeout_seconds'', ''max_retry'',
          ''backoff_millis'', ''attempt'', ''available_at'', ''processing_started_at'', ''processing_token'', ''last_error'', ''state'',
          ''created_at'', ''updated_at''],
        CreateTable ''queue_unique_locks'' [''lock_key'', ''expires_at'']])"

section \<open>Inspection\<close>

definition queueJobColumnExists :: "db_config \<Rightarrow> sql_env \<Rightarrow> string \<Rightarrow> sql_world \<Rightarrow> (goerr + bool) \<times> sql_world" where
  "queueJobColumnExists cfg env columnName w =
    (case query env (\<lambda>tb. columnName \<in> set (columns_of tb ''queue_jobs'')) w of
       (Inl err, w) \<Rightarrow> (Inl (ErrWrap ((if dc_DriverName cfg = ''sqlite'' then ''inspect sqlite queue job column ''
          else ''inspect database queue job column '') @ quote columnName @ '': '') err []), w)
     | (Inr b, w) \<Rightarrow> (Inr b, w))"

definition mysqlIndexExists :: "sql_env \<Rightarrow> string \<Rightarrow> sql_world \<Rightarrow> (goerr + bool) \<times> sql_world" where
  "mysqlIndexExists env indexName w = (case query env (\<lambda>tb. indexName \<in> set (tb_indexes tb)) w of
     (Inl err, w) \<Rightarrow> (Inl (ErrWrap ''inspect mysql uniqueness expiry index: '' err []), w)
   | (Inr b, w) \<Rightarrow> (Inr b, w))"

definition managedQueueTableExists :: "sql_env \<Rightarrow> string \<Rightarrow> sql_world \<Rightarrow> (goerr + bool) \<times> sql_world" where
  "managedQueueTableExists env tableName w = query env (\<lambda>tb. tb_columns tb tableName \<noteq> None) w"

definition managedQueueTableColumns :: "sql_env \<Rightarrow> string \<Rightarrow> sql_world \<Rightarrow> (goerr + string list) \<times> sql_world" where
  "managedQueueTableColumns env tableName w = (case query env (\<lambda>tb. columns_of tb tableName) w of
     (Inl err, w) \<Rightarrow> (Inl (ErrWrap (''inspect '' @ tableName @ '' columns: '') err []), w)
   | (Inr cs, w) \<Rightarrow> (Inr cs, w))"

definition missing_column :: "string list \<Rightarrow> string list \<Rightarrow> string option" where
  "missing_column required present = List.find (\<lambda>c. c \<notin> set present) required"

text \<open>The validation of one table.\<close>

definition require_table :: "sql_env \<Rightarrow> string \<Rightarrow> string list \<Rightarrow> sql_world \<Rightarrow> goerr option \<times> sql_world" where
  "require_table env t required w = (case managedQueueTableExists env t w of
     (Inl err, w) \<Rightarrow> (Some (ErrWrap (''validate caller-managed '' @ t @ '' table: '') err []), w)
   | (Inr ok, w) \<Rightarrow> if \<not> ok then (Some (ErrNew (''caller-managed schema is missing required '' @ t @ '' table'')), w)
       else (case managedQueueTableColumns env t w of
          (Inl err, w) \<Rightarrow> (Some (ErrWrap (''validate caller-managed '' @ t @ '' columns: '') err []), w)
        | (Inr cs, w) \<Rightarrow> (case missing_column required cs of
            Some c \<Rightarrow> (Some (ErrNew (''caller-managed '' @ t @ '' schema is missing required '' @ c @ '' column'')), w)
          | None \<Rightarrow> (None, w))))"

definition requireManagedQueueSchema :: "sql_env \<Rightarrow> sql_world \<Rightarrow> goerr option \<times> sql_world" where
  "requireManagedQueueSchema env w =
    (case require_table env managedQueueJobsTable managedQueueJobColumns w of
       (Some err, w) \<Rightarrow> (Some err, w)
     | (None, w) \<Rightarrow> require_table env managedQueueUniqueLocksTable managedQueueUniqueLockColumns w)"

section \<open>Migration\<close>

text \<open>An additive upgrade: look, change, and look again when the change failed, since a
  concurrent start may have made it.\<close>

definition ensure_added ::
  "(sql_world \<Rightarrow> (goerr + bool) \<times> sql_world) \<Rightarrow> sql_env \<Rightarrow> ddl \<Rightarrow> string \<Rightarrow> sql_world \<Rightarrow> goerr option \<times> sql_world" where
  "ensure_added exists env stmt what w = (case exists w of
     (Inl err, w) \<Rightarrow> (Some err, w)
   | (Inr True, w) \<Rightarrow> (None, w)
   | (Inr False, w) \<Rightarrow> (case exec env (ddl_statement stmt) w of
       (Inr _, w) \<Rightarrow> (None, w)
     | (Inl err, w) \<Rightarrow> (case exists w of
         (Inr True, w) \<Rightarrow> (None, w)
       | (_, w) \<Rightarrow> (Some (ErrWrap what err []), w))))"

definition ensureProcessingTokenColumn :: "db_config \<Rightarrow> sql_env \<Rightarrow> sql_world \<Rightarrow> goerr option \<times> sql_world" where
  "ensureProcessingTokenColumn cfg env w = ensure_added (queueJobColumnExists cfg env ''processing_token'') env
     (AddColumn ''queue_jobs'' ''processing_token'') ''ensure database processing token column: '' w"

definition ensureMetadataJSONColumn :: "db_config \<Rightarrow> sql_env \<Rightarrow> sql_world \<Rightarrow> goerr option \<times> sql_world" where
  "ensureMetadataJSONColumn cfg env w = ensure_added (queueJobColumnExists cfg env ''metadata_json'') env
     (AddColumn ''queue_jobs'' ''metadata_json'') ''ensure database job metadata column: '' w"

definition ensureMySQLUniqueExpiryIndex :: "sql_env \<Rightarrow> sql_world \<Rightarrow> goerr option \<times> sql_world" where
  "ensureMySQLUniqueExpiryIndex env w = ensure_added (mysqlIndexExists env ''idx_queue_unique_locks_expires'') env
     (AddIndex ''idx_queue_unique_locks_expires'' ''queue_unique_locks'' [''expires_at''])
     ''ensure mysql uniqueness expiry index: '' w"

text \<open>The database's own clock, read in or outside a transaction.\<close>

definition databaseNowMillis ::
  "((sql_tables \<Rightarrow> int) \<Rightarrow> sql_world \<Rightarrow> (goerr + int) \<times> sql_world) \<Rightarrow> sql_env \<Rightarrow> sql_world \<Rightarrow> (goerr + int) \<times> sql_world" where
  "databaseNowMillis queryer env w = (case queryer (\<lambda>tb. se_dbclock env (sw_calls w)) w of
     (Inl err, w) \<Rightarrow> (Inl (ErrWrap ''read database time for uniqueness: '' err []), w)
   | (Inr t, w) \<Rightarrow> (Inr t, w))"

definition pruneExpiredUniqueLocks ::
  "(statement \<Rightarrow> sql_world \<Rightarrow> reply \<times> sql_world) \<Rightarrow> int \<Rightarrow> sql_world \<Rightarrow> goerr option \<times> sql_world" where
  "pruneExpiredUniqueLocks execer t w = (case execer (delete_locks t) w of
     (Inl err, w) \<Rightarrow> (Some (ErrWrap ''prune expired uniqueness claims: '' err []), w)
   | (Inr _, w) \<Rightarrow> (None, w))"

primrec exec_all :: "sql_env \<Rightarrow> ddl list \<Rightarrow> sql_world \<Rightarrow> goerr option \<times> sql_world" where
  "exec_all env [] w = (None, w)"
| "exec_all env (stmt # stmts) w = (case exec env (ddl_statement stmt) w of
     (Inl err, w) \<Rightarrow> (Some (ErrWrap ''ensure queue schema failed: '' err []), w)
   | (Inr _, w) \<Rightarrow> exec_all env stmts w)"

definition and_then ::
  "(sql_world \<Rightarrow> goerr option \<times> sql_world) \<Rightarrow> (sql_world \<Rightarrow> goerr option \<times> sql_world) \<Rightarrow> sql_world \<Rightarrow> goerr option \<times> sql_world" where
  "and_then f g w = (case f w of (Some err, w) \<Rightarrow> (Some err, w) | (None, w) \<Rightarrow> g w)"

definition prune_at_start :: "sql_env \<Rightarrow> sql_world \<Rightarrow> goerr option \<times> sql_world" where
  "prune_at_start env w = (case databaseNowMillis (query env) env w of
     (Inl err, w) \<Rightarrow> (Some err, w) | (Inr t, w) \<Rightarrow> pruneExpiredUniqueLocks (exec env) t w)"

definition ensureSchema :: "db_config \<Rightarrow> sql_env \<Rightarrow> sql_world \<Rightarrow> goerr option \<times> sql_world" where
  "ensureSchema cfg env = and_then (exec_all env (schemaStatements cfg))
     (and_then (ensureProcessingTokenColumn cfg env)
     (and_then (ensureMetadataJSONColumn cfg env)
     (and_then (\<lambda>w. if dc_DriverName cfg = ''mysql'' then ensureMySQLUniqueExpiryIndex env w else (None, w))
       (prune_at_start env))))"

text \<open>Starting and checking readiness.\<close>

definition Preflight :: "db_config \<Rightarrow> sql_env \<Rightarrow> goerr option \<Rightarrow> sql_world \<Rightarrow> goerr option \<times> sql_world" where
  "Preflight cfg env ctxErr w = (if ctxErr \<noteq> None then (ctxErr, w) else
     case query env (\<lambda>tb. ()) w of (Inl err, w) \<Rightarrow> (Some err, w)
     | (Inr _, w) \<Rightarrow> if dc_AutoMigrate cfg \<and> \<not> dc_DisableAutoMigrate cfg then (None, w)
         else requireManagedQueueSchema env w)"

definition StartWorkers :: "db_config \<Rightarrow> sql_env \<Rightarrow> goerr option \<Rightarrow> sql_world \<Rightarrow> goerr option \<times> sql_world" where
  "StartWorkers cfg env ctxErr w = (if ctxErr \<noteq> None then (ctxErr, w)
     else if sw_shuttingDown w then (Some (Sentinel ErrQueuerShuttingDown), w)
     else if sw_started w then (None, w)
     else case (if dc_AutoMigrate cfg \<and> \<not> dc_DisableAutoMigrate cfg then ensureSchema cfg env w
                else requireManagedQueueSchema env w) of
       (Some err, w) \<Rightarrow> (Some err, w)
     | (None, w) \<Rightarrow> (None, w\<lparr>sw_workers := sw_workers w + max 0 (dc_Workers cfg), sw_started := True\<rparr>))"

end
