(* ===== verification/SqlMigration.thy ===== *)
theory SqlMigration
  imports SqlSchema
begin

text \<open>
  What automatic migration achieves: when it reports success, every table and column the
  validation of a caller-managed schema asks for exists, although calls may fail, replies may
  be lost and other sessions may be migrating the same database.
\<close>

section \<open>Growing schemas\<close>

definition grows :: "sql_tables \<Rightarrow> sql_tables \<Rightarrow> bool" where
  "grows tb tb' \<longleftrightarrow> (\<forall>t cs. tb_columns tb t = Some cs \<longrightarrow> (\<exists>cs'. tb_columns tb' t = Some cs' \<and> set cs \<subseteq> set cs'))"

text \<open>A table that exists has the columns of its first release: all but the two that were
  added later.\<close>

definition legacy_columns :: "string \<Rightarrow> string set" where
  "legacy_columns t = (if t = managedQueueJobsTable then set managedQueueJobColumns - {''processing_token'', ''metadata_json''}
     else if t = managedQueueUniqueLocksTable then set managedQueueUniqueLockColumns else {})"

definition legacy_ok :: "sql_tables \<Rightarrow> bool" where
  "legacy_ok tb \<longleftrightarrow> (\<forall>t cs. tb_columns tb t = Some cs \<longrightarrow> legacy_columns t \<subseteq> set cs)"

definition schema_ready :: "sql_tables \<Rightarrow> bool" where
  "schema_ready tb \<longleftrightarrow> set managedQueueJobColumns \<subseteq> set (columns_of tb managedQueueJobsTable)
     \<and> set managedQueueUniqueLockColumns \<subseteq> set (columns_of tb managedQueueUniqueLocksTable)"

text \<open>Other sessions only add tables and columns.\<close>

definition additive_peers :: "sql_env \<Rightarrow> bool" where
  "additive_peers env \<longleftrightarrow> (\<forall>n tb. grows tb (se_peer env n tb) \<and> (legacy_ok tb \<longrightarrow> legacy_ok (se_peer env n tb)))"

definition evolves :: "sql_world \<Rightarrow> sql_world \<Rightarrow> bool" where
  "evolves w w' \<longleftrightarrow> grows (sw_tables w) (sw_tables w') \<and> (legacy_ok (sw_tables w) \<longrightarrow> legacy_ok (sw_tables w'))"

lemma grows_refl [simp]: "grows tb tb"
  by (simp add: grows_def)

lemma grows_trans: "grows a b \<Longrightarrow> grows b c \<Longrightarrow> grows a c"
  unfolding grows_def by (meson order_trans)

lemma evolves_refl [simp]: "evolves w w"
  by (simp add: evolves_def)

lemma evolves_trans [trans]: "evolves a b \<Longrightarrow> evolves b c \<Longrightarrow> evolves a c"
  unfolding evolves_def using grows_trans by blast

lemma evolves_exists: "evolves w w' \<Longrightarrow> tb_columns (sw_tables w) t \<noteq> None \<Longrightarrow> tb_columns (sw_tables w') t \<noteq> None"
  unfolding evolves_def grows_def by blast

lemma grows_columns: "grows tb tb' \<Longrightarrow> set (columns_of tb t) \<subseteq> set (columns_of tb' t)"
proof (cases "tb_columns tb t")
  case (Some cs)
  moreover assume "grows tb tb'"
  ultimately obtain cs' where "tb_columns tb' t = Some cs'" "set cs \<subseteq> set cs'" unfolding grows_def by blast
  with Some show ?thesis by (simp add: columns_of_def map_get_def)
qed (simp add: columns_of_def map_get_def)

text \<open>Statements that keep what exists.\<close>

definition additive :: "statement \<Rightarrow> bool" where
  "additive stmt \<longleftrightarrow> (\<forall>tb tb' n. stmt tb = Some (tb', n) \<longrightarrow> grows tb tb' \<and> (legacy_ok tb \<longrightarrow> legacy_ok tb'))"

lemma additive_ddl: "(\<And>t cs. stmt = CreateTable t cs \<Longrightarrow> legacy_columns t \<subseteq> set cs) \<Longrightarrow> additive (ddl_statement stmt)"
  by (cases stmt) (fastforce simp: additive_def grows_def legacy_ok_def split: option.splits if_splits)+

lemma additive_delete_locks [simp]: "additive (delete_locks t)"
  by (simp add: additive_def delete_locks_def grows_def legacy_ok_def)

lemma exec_evolves:
  assumes "additive_peers env" "additive stmt" "exec env stmt w = (r, w')"
  shows "evolves w w'"
proof -
  let ?tb = "se_peer env (sw_calls w) (sw_tables w)"
  have peer: "grows (sw_tables w) ?tb" "legacy_ok (sw_tables w) \<longrightarrow> legacy_ok ?tb"
    using assms(1) by (auto simp: additive_peers_def)
  have "sw_tables w' = ?tb \<or> (\<exists>n. stmt ?tb = Some (sw_tables w', n))"
    using assms(3) by (auto simp: exec_def tx_exec_def peers_def Let_def split: option.splits prod.splits fault.splits)
  then show ?thesis using peer assms(2) grows_trans [OF peer(1)] unfolding evolves_def additive_def by auto
qed

lemma exec_applied:
  "exec env stmt w = (Inr r, w') \<Longrightarrow> \<exists>n. stmt (se_peer env (sw_calls w) (sw_tables w)) = Some (sw_tables w', n)"
  by (auto simp: exec_def tx_exec_def peers_def Let_def split: option.splits prod.splits fault.splits)

lemma query_result:
  assumes "additive_peers env" "query env q w = (r, w')"
  shows "evolves w w'" "r = Inr x \<Longrightarrow> x = q (sw_tables w')"
proof -
  have "sw_tables w' = se_peer env (sw_calls w) (sw_tables w)" "r = Inr x \<Longrightarrow> x = q (sw_tables w')" for x
    using assms(2) by (auto simp: query_def tx_query_def peers_def Let_def split: fault.splits)
  then show "evolves w w'" "r = Inr x \<Longrightarrow> x = q (sw_tables w')"
    using assms(1) by (auto simp: evolves_def additive_peers_def)
qed

lemma column_exists:
  assumes "additive_peers env" "queueJobColumnExists cfg env c w = (r, w')"
  shows "evolves w w' \<and> (\<forall>b. r = Inr b \<longrightarrow> b = (c \<in> set (columns_of (sw_tables w') ''queue_jobs'')))"
proof -
  obtain r0 w0 where q: "query env (\<lambda>tb. c \<in> set (columns_of tb ''queue_jobs'')) w = (r0, w0)" by fastforce
  with assms(2) have "w' = w0" "\<And>b. r = Inr b \<Longrightarrow> r0 = Inr b"
    by (auto simp: queueJobColumnExists_def split: sum.splits)
  then show ?thesis using query_result [OF assms(1) q] by auto
qed

lemma index_exists: "additive_peers env \<Longrightarrow> mysqlIndexExists env i w = (r, w') \<Longrightarrow> evolves w w'"
  using query_result(1) unfolding mysqlIndexExists_def by (auto split: prod.splits sum.splits)

lemma ensure_added_evolves:
  assumes rely: "additive_peers env" and add: "additive (ddl_statement stmt)"
    and look: "\<And>w r w'. exists w = (r, w') \<Longrightarrow> evolves w w'"
    and run: "ensure_added exists env stmt what w = (e, w')"
  shows "evolves w w'"
  using run unfolding ensure_added_def
  by (auto split: prod.splits sum.splits bool.splits dest!: look exec_evolves [OF rely add] intro: evolves_trans)

lemma column_evolves:
  assumes "additive_peers env" "ensure_added (queueJobColumnExists cfg env c) env (AddColumn t c) what w = (e, w')"
  shows "evolves w w'"
proof (rule ensure_added_evolves [OF assms(1) _ _ assms(2)])
  show "additive (ddl_statement (AddColumn t c))" by (rule additive_ddl) simp
  show "queueJobColumnExists cfg env c w = (r, w') \<Longrightarrow> evolves w w'" for w r w'
    using column_exists [OF assms(1)] by blast
qed

lemma index_evolves:
  assumes "additive_peers env" "ensure_added (mysqlIndexExists env i) env (AddIndex i t cs) what w = (e, w')"
  shows "evolves w w'"
proof (rule ensure_added_evolves [OF assms(1) _ _ assms(2)])
  show "additive (ddl_statement (AddIndex i t cs))" by (rule additive_ddl) simp
qed (rule index_exists [OF assms(1)])

lemma ddl_made:
  "ddl_statement (CreateTable t cs) tb = Some (tb', n) \<Longrightarrow> tb_columns tb' t \<noteq> None"
  "ddl_statement (AddColumn t c) tb = Some (tb', n) \<Longrightarrow> c \<in> set (columns_of tb' t)"
  by (auto simp: columns_of_def split: option.splits if_splits)

lemma column_added:
  assumes rely: "additive_peers env"
    and run: "ensure_added (queueJobColumnExists cfg env c) env (AddColumn ''queue_jobs'' c) what w = (None, w')"
  shows "c \<in> set (columns_of (sw_tables w') ''queue_jobs'')"
proof -
  let ?ex = "queueJobColumnExists cfg env c"
  obtain r1 w1 where 1: "?ex w = (r1, w1)" by fastforce
  obtain r2 w2 where 2: "exec env (ddl_statement (AddColumn ''queue_jobs'' c)) w1 = (r2, w2)" by fastforce
  obtain r3 w3 where 3: "?ex w2 = (r3, w3)" by fastforce
  consider "r1 = Inr True" "w' = w1" | x where "r2 = Inr x" "w' = w2" | "r3 = Inr True" "w' = w3"
    using run 1 2 3 unfolding ensure_added_def by (auto split: sum.splits bool.splits)
  then show ?thesis
  proof cases
    case 1
    then show ?thesis using column_exists [OF rely \<open>?ex w = (r1, w1)\<close>] by blast
  next
    case 2
    with \<open>exec _ _ w1 = (r2, w2)\<close> obtain n where
      "ddl_statement (AddColumn ''queue_jobs'' c) (se_peer env (sw_calls w1) (sw_tables w1)) = Some (sw_tables w2, n)"
      using exec_applied by blast
    from ddl_made(2) [OF this] 2 show ?thesis by simp
  next
    case 3
    then show ?thesis using column_exists [OF rely \<open>?ex w2 = (r3, w3)\<close>] by blast
  qed
qed

lemma tables_differ [simp]: "managedQueueJobsTable \<noteq> managedQueueUniqueLocksTable" "managedQueueUniqueLocksTable \<noteq> managedQueueJobsTable"
  by (simp_all add: managedQueueJobsTable_def managedQueueUniqueLocksTable_def)

lemma schemaStatements_tables:
  "CreateTable t cs \<in> set (schemaStatements cfg) \<longleftrightarrow>
     t = managedQueueJobsTable \<and> cs = managedQueueJobColumns \<or> t = managedQueueUniqueLocksTable \<and> cs = managedQueueUniqueLockColumns"
  unfolding schemaStatements_def managedQueueJobsTable_def managedQueueJobColumns_def managedQueueUniqueLocksTable_def
    managedQueueUniqueLockColumns_def
  by (cases "is_postgres cfg \<or> dc_DriverName cfg = ''sqlite''") simp_all

lemma schemaStatements_additive: "stmt \<in> set (schemaStatements cfg) \<Longrightarrow> additive (ddl_statement stmt)"
proof (rule additive_ddl)
  fix t cs assume "stmt \<in> set (schemaStatements cfg)" "stmt = CreateTable t cs"
  then show "legacy_columns t \<subseteq> set cs" using schemaStatements_tables [of t cs cfg] unfolding legacy_columns_def by (auto split: if_splits)
qed

lemma exec_all_tables:
  assumes rely: "additive_peers env" and "\<And>stmt. stmt \<in> set stmts \<Longrightarrow> additive (ddl_statement stmt)"
    and "exec_all env stmts w = (e, w')"
  shows "evolves w w' \<and> (e = None \<longrightarrow> (\<forall>t cs. CreateTable t cs \<in> set stmts \<longrightarrow> tb_columns (sw_tables w') t \<noteq> None))"
  using assms(2,3)
proof (induction stmts arbitrary: w)
  case (Cons stmt stmts)
  obtain r w1 where x: "exec env (ddl_statement stmt) w = (r, w1)" by fastforce
  have ev: "evolves w w1" using exec_evolves [OF rely _ x] Cons.prems(1) by simp
  show ?case
  proof (cases r)
    case (Inl err)
    then show ?thesis using Cons.prems(2) x ev by auto
  next
    case (Inr y)
    with Cons.prems x have rest: "exec_all env stmts w1 = (e, w')" by simp
    have made: "tb_columns (sw_tables w1) t \<noteq> None" if "stmt = CreateTable t cs" for t cs
      using exec_applied [of env "ddl_statement stmt" w y w1] x Inr that ddl_made(1) by blast
    have IH: "evolves w1 w' \<and> (e = None \<longrightarrow> (\<forall>t cs. CreateTable t cs \<in> set stmts \<longrightarrow> tb_columns (sw_tables w') t \<noteq> None))"
      by (rule Cons.IH [OF _ rest]) (use Cons.prems(1) in simp)
    have "tb_columns (sw_tables w') t \<noteq> None" if "stmt = CreateTable t cs" for t cs
      using made [OF that] IH evolves_exists by blast
    then show ?thesis using IH evolves_trans [OF ev] by auto
  qed
qed simp

lemma ensureSchema_ready:
  assumes rely: "additive_peers env" and legacy: "legacy_ok (sw_tables w)" and run: "ensureSchema cfg env w = (None, w')"
  shows "schema_ready (sw_tables w')"
proof -
  let ?idx = "\<lambda>w. if dc_DriverName cfg = ''mysql'' then ensureMySQLUniqueExpiryIndex env w else (None, w)"
  obtain w1 w2 w3 w4 where 1: "exec_all env (schemaStatements cfg) w = (None, w1)"
    and 2: "ensureProcessingTokenColumn cfg env w1 = (None, w2)" and 3: "ensureMetadataJSONColumn cfg env w2 = (None, w3)"
    and 4: "?idx w3 = (None, w4)" and 5: "prune_at_start env w4 = (None, w')"
    using run unfolding ensureSchema_def and_then_def by (auto split: prod.splits option.splits)
  note tables = exec_all_tables [OF rely schemaStatements_additive 1]
  have e2: "evolves w1 w2" using column_evolves [OF rely] 2 unfolding ensureProcessingTokenColumn_def by blast
  have e3: "evolves w2 w3" using column_evolves [OF rely] 3 unfolding ensureMetadataJSONColumn_def by blast
  have e4: "evolves w3 w4"
    using 4 index_evolves [OF rely] unfolding ensureMySQLUniqueExpiryIndex_def by (auto split: if_splits)
  have e5: "evolves w4 w'"
    using 5 unfolding prune_at_start_def databaseNowMillis_def pruneExpiredUniqueLocks_def
    by (auto split: prod.splits sum.splits dest!: query_result(1) [OF rely] exec_evolves [OF rely additive_delete_locks]
        intro: evolves_trans)
  have token: "''processing_token'' \<in> set (columns_of (sw_tables w2) ''queue_jobs'')"
    using column_added [OF rely] 2 unfolding ensureProcessingTokenColumn_def by blast
  have meta: "''metadata_json'' \<in> set (columns_of (sw_tables w3) ''queue_jobs'')"
    using column_added [OF rely] 3 unfolding ensureMetadataJSONColumn_def by blast
  have grow: "set (columns_of (sw_tables v) t) \<subseteq> set (columns_of (sw_tables v') t)" if "evolves v v'" for v v' t
    using that grows_columns by (simp add: evolves_def)
  have "evolves w1 w'" using e2 e3 e4 e5 by (meson evolves_trans)
  have cols: "legacy_columns t \<subseteq> set (columns_of (sw_tables w1) t)" if "t \<in> {managedQueueJobsTable, managedQueueUniqueLocksTable}" for t
  proof -
    have "tb_columns (sw_tables w1) t \<noteq> None" using tables that by (auto simp: schemaStatements_tables)
    moreover have "legacy_ok (sw_tables w1)" using tables legacy by (simp add: evolves_def)
    ultimately show ?thesis unfolding legacy_ok_def columns_of_def map_get_def by fastforce
  qed
  have t: "''processing_token'' \<in> set (columns_of (sw_tables w') managedQueueJobsTable)"
    using token grow [of w2 w' "''queue_jobs''"] evolves_trans [OF e3 evolves_trans [OF e4 e5]] by (auto simp: managedQueueJobsTable_def)
  have m: "''metadata_json'' \<in> set (columns_of (sw_tables w') managedQueueJobsTable)"
    using meta grow [of w3 w' "''queue_jobs''"] evolves_trans [OF e4 e5] by (auto simp: managedQueueJobsTable_def)
  have "set managedQueueJobColumns - {''processing_token'', ''metadata_json''} \<subseteq> set (columns_of (sw_tables w') managedQueueJobsTable)"
    "set managedQueueUniqueLockColumns \<subseteq> set (columns_of (sw_tables w') managedQueueUniqueLocksTable)"
    using cols [of managedQueueJobsTable] cols [of managedQueueUniqueLocksTable] grow [OF \<open>evolves w1 w'\<close>]
    by (auto simp: legacy_columns_def)
  with t m show ?thesis unfolding schema_ready_def by blast
qed

section \<open>Validation\<close>

lemma require_table_passes:
  assumes rely: "additive_peers env" and healthy: "\<And>n. se_fault env n = Healthy"
    and has: "set required \<subseteq> set (columns_of (sw_tables w) t)" "required \<noteq> []"
  shows "\<exists>w'. require_table env t required w = (None, w') \<and> evolves w w'"
proof -
  obtain r1 w1 where q1: "query env (\<lambda>tb. tb_columns tb t \<noteq> None) w = (r1, w1)" by fastforce
  obtain r2 w2 where q2: "query env (\<lambda>tb. columns_of tb t) w1 = (r2, w2)" by fastforce
  have r: "r1 = Inr (tb_columns (sw_tables w1) t \<noteq> None)" "r2 = Inr (columns_of (sw_tables w2) t)"
    using q1 q2 by (auto simp: query_def tx_query_def peers_def healthy)
  have e: "evolves w w1" "evolves w1 w2" using query_result(1) [OF rely q1] query_result(1) [OF rely q2] by simp_all
  have "tb_columns (sw_tables w) t \<noteq> None" using has by (cases "tb_columns (sw_tables w) t") (simp_all add: columns_of_def map_get_def)
  then have "tb_columns (sw_tables w1) t \<noteq> None" using evolves_exists [OF e(1)] by blast
  with q1 r(1) have 1: "managedQueueTableExists env t w = (Inr True, w1)" by (simp add: managedQueueTableExists_def)
  have 2: "managedQueueTableColumns env t w1 = (Inr (columns_of (sw_tables w2) t), w2)"
    unfolding managedQueueTableColumns_def q2 r(2) by simp
  have "set required \<subseteq> set (columns_of (sw_tables w2) t)"
    using has(1) e grows_columns unfolding evolves_def by (meson order_trans)
  then have "missing_column required (columns_of (sw_tables w2) t) = None"
    unfolding missing_column_def by (auto simp: find_None_iff)
  then have "require_table env t required w = (None, w2)" by (simp add: require_table_def 1 2)
  then show ?thesis using evolves_trans [OF e] by blast
qed

text \<open>C26. A database that automatic migration reports as ready passes the validation of a
  queue with a caller-managed schema, although calls of the migration may have failed or
  lost their replies and other sessions were adding tables and columns all the time. Tables
  of earlier releases may lack the two columns that were added later.\<close>

theorem migration_passes_validation:
  assumes "additive_peers env" "legacy_ok (sw_tables w)" "ensureSchema cfg env w = (None, w')"
    and "additive_peers env'" "\<And>n. se_fault env' n = Healthy" "sw_tables v = sw_tables w'"
  shows "fst (requireManagedQueueSchema env' v) = None"
proof -
  have ready: "schema_ready (sw_tables v)" using ensureSchema_ready [OF assms(1-3)] assms(6) by simp
  obtain v1 where 1: "require_table env' managedQueueJobsTable managedQueueJobColumns v = (None, v1)" "evolves v v1"
    using require_table_passes [OF assms(4,5)] ready unfolding schema_ready_def
    by (metis managedQueueJobColumns_def list.distinct(1))
  have "set managedQueueUniqueLockColumns \<subseteq> set (columns_of (sw_tables v1) managedQueueUniqueLocksTable)"
    using ready 1(2) grows_columns unfolding schema_ready_def evolves_def by blast
  then obtain v2 where "require_table env' managedQueueUniqueLocksTable managedQueueUniqueLockColumns v1 = (None, v2)"
    using require_table_passes [OF assms(4,5)] by (metis managedQueueUniqueLockColumns_def list.distinct(1))
  with 1 show ?thesis by (simp add: requireManagedQueueSchema_def)
qed

definition legacy_tables :: sql_tables where
  "legacy_tables = empty_tables\<lparr>tb_columns := [''queue_jobs'' \<mapsto> [''id'', ''queue_name'', ''job_type'', ''payload'', ''timeout_seconds'',
     ''max_retry'', ''backoff_millis'', ''attempt'', ''available_at'', ''processing_started_at'', ''last_error'', ''state'',
     ''created_at'', ''updated_at'']]\<rparr>"

theorem migration_passes_validation_witness:
  "fst (requireManagedQueueSchema quiet_env (snd (ensureSchema (sample_config ''mysql'') quiet_env (new_world legacy_tables)))) = None
   \<and> fst (requireManagedQueueSchema quiet_env (new_world legacy_tables)) \<noteq> None"
proof
  let ?w = "new_world legacy_tables"
  have peers: "additive_peers quiet_env" by (simp add: additive_peers_def quiet_env_def)
  have "legacy_ok (sw_tables ?w)"
    by (auto simp: legacy_ok_def legacy_columns_def new_world_def legacy_tables_def managedQueueJobsTable_def
        managedQueueJobColumns_def empty_tables_def managedQueueUniqueLocksTable_def)
  moreover have "fst (ensureSchema (sample_config ''mysql'') quiet_env ?w) = None" by code_simp
  then have "ensureSchema (sample_config ''mysql'') quiet_env ?w = (None, snd (ensureSchema (sample_config ''mysql'') quiet_env ?w))"
    by (simp add: prod_eq_iff)
  ultimately show "fst (requireManagedQueueSchema quiet_env (snd (ensureSchema (sample_config ''mysql'') quiet_env ?w))) = None"
    by (rule migration_passes_validation [OF peers _ _ peers]) (simp_all add: quiet_env_def)
  show "fst (requireManagedQueueSchema quiet_env ?w) \<noteq> None" by code_simp
qed

end
