(* ===== verification/SqlQueue.thy ===== *)
theory SqlQueue
  imports SqlSchema "HOL-Library.AList"
begin

text \<open>
  The SQL queue of \<open>driver/sqlqueuecore/queue_database_impl.go\<close>: dispatch with its
  uniqueness claims, claiming with recovery of stale deliveries, settlement of a delivery
  and the worker's processing of one job.
\<close>

section \<open>Claimed jobs\<close>

record db_job =
  dj_id :: int
  dj_processingToken :: string
  dj_queueName :: string
  dj_jobType :: string
  dj_payload :: bytes
  dj_metadataJSON :: "string option"
  dj_timeoutSeconds :: "int option"
  dj_maxRetry :: int
  dj_backoffMillis :: int
  dj_attempt :: int
  dj_recovered :: bool
  dj_recoveryToken :: string
  dj_applicationStateCommitted :: bool

record failure_settlement =
  fs_state :: string
  fs_attempt :: int
  fs_availableAt :: int

definition databaseRecoveryMarker :: string where
  "databaseRecoveryMarker = ''queue:internal:stale-processing-recovery:v1''"

definition databaseRecoveryDiagnostic :: string where
  "databaseRecoveryDiagnostic = ''recovered stale processing job''"

text \<open>Tokens are sixteen random bytes in lower-case hexadecimal. \<open>hex.DecodeString\<close> accepts
  digits of both cases, so the comparison with the lower-case string is what rejects the
  others.\<close>

definition to_lower :: "string \<Rightarrow> string" where
  "to_lower s = map (\<lambda>c. let n = of_char c :: nat in if 65 \<le> n \<and> n \<le> 90 then char_of (n + 32) else c) s"

definition is_hex_char :: "char \<Rightarrow> bool" where
  "is_hex_char c \<longleftrightarrow> (let n = of_char c :: nat in 48 \<le> n \<and> n \<le> 57 \<or> 97 \<le> n \<and> n \<le> 102 \<or> 65 \<le> n \<and> n \<le> 70)"

definition databaseProcessingTokenValid :: "string \<Rightarrow> bool" where
  "databaseProcessingTokenValid token \<longleftrightarrow> length token = 32 \<and> token = to_lower token \<and> list_all is_hex_char token"

definition newDatabaseProcessingToken :: "sql_env \<Rightarrow> sql_world \<Rightarrow> (goerr + string) \<times> sql_world" where
  "newDatabaseProcessingToken env w = (case rand_Read env 16 w of
     (Inl err, w) \<Rightarrow> (Inl (ErrWrap ''create database processing token: '' err []), w)
   | (Inr token, w) \<Rightarrow> (Inr (hex_encode token), w))"

definition databaseRecoveryProof :: "string option \<Rightarrow> string \<times> bool" where
  "databaseRecoveryProof processingToken = (case processingToken of None \<Rightarrow> ([], False)
     | Some token \<Rightarrow> if token = databaseRecoveryMarker then ([], True)
         else if \<not> databaseProcessingTokenValid token then ([], False) else (token, True))"

definition databaseProcessingClaim :: "db_job option \<Rightarrow> goerr + int \<times> string" where
  "databaseProcessingClaim job = (case job of None \<Rightarrow> Inl (ErrNew ''database settlement job is nil'')
     | Some job \<Rightarrow> if dj_id job \<le> 0 then Inl (ErrNew ''database settlement job id must be positive'')
         else if dj_processingToken job = [] then Inl (ErrNew ''database settlement processing token is empty'')
         else Inr (dj_id job, dj_processingToken job))"

definition requireDatabaseSettlementRow :: "goerr + int \<Rightarrow> goerr option" where
  "requireDatabaseSettlementRow result = (case result of
     Inl err \<Rightarrow> Some (ErrWrap ''read database settlement rows: '' err [])
   | Inr rows \<Rightarrow> if rows \<noteq> 1 then Some (ErrNew (''database settlement affected '' @ int_str rows @ '' rows, want 1'')) else None)"

section \<open>Claiming\<close>

text \<open>The rows whose lease has expired.\<close>

definition stale_row :: "db_config \<Rightarrow> int \<Rightarrow> job_row \<Rightarrow> bool" where
  "stale_row cfg nowMillis r \<longleftrightarrow>
    (let graceMillis = milliseconds (dc_ProcessingRecoveryGrace cfg);
         cutoff = max 0 (nowMillis - milliseconds (dc_ProcessingLeaseNoTimeout cfg))
     in jr_state r = ''processing'' \<and> (case jr_processing_started_at r of None \<Rightarrow> False | Some started \<Rightarrow>
          (case jr_timeout_seconds r of None \<Rightarrow> started \<le> cutoff
           | Some secs \<Rightarrow> if 0 < secs then started + secs * 1000 + graceMillis \<le> nowMillis else started \<le> cutoff)))"

definition recovered_row :: "int \<Rightarrow> job_row \<Rightarrow> job_row" where
  "recovered_row nowMillis r = r\<lparr>jr_state := ''pending'', jr_available_at := nowMillis, jr_processing_started_at := None,
     jr_processing_token := (case jr_processing_token r of None \<Rightarrow> Some databaseRecoveryMarker
       | Some token \<Rightarrow> if token \<noteq> [] then Some token else Some databaseRecoveryMarker),
     jr_updated_at := nowMillis, jr_last_error := Some databaseRecoveryDiagnostic\<rparr>"

definition recovered_event :: "sql_env \<Rightarrow> sql_world \<Rightarrow> sql_world" where
  "recovered_event env w = (case time_Now env w of (t, w) \<Rightarrow>
     SafeObserve env None ((zero_qevent EventProcessRecovered)\<lparr>qe_Driver := ''database'', qe_Time := t\<rparr>) w)"

definition recoverStaleProcessing :: "db_config \<Rightarrow> sql_env \<Rightarrow> int \<Rightarrow> sql_world \<Rightarrow> goerr option \<times> sql_world" where
  "recoverStaleProcessing cfg env nowMillis w =
    (case exec env (update_jobs (stale_row cfg nowMillis) (recovered_row nowMillis)) w of
       (Inl err, w) \<Rightarrow> (Some err, w)
     | (Inr (Inl _), w) \<Rightarrow> (None, w)
     | (Inr (Inr rows), w) \<Rightarrow> (None, if oe_observed env \<and> 0 < rows then (recovered_event env ^^ nat rows) w else w))"

definition ready_row :: "db_config \<Rightarrow> int \<Rightarrow> job_row \<Rightarrow> bool" where
  "ready_row cfg t r \<longleftrightarrow> jr_queue_name r = dc_DefaultQueue cfg \<and> jr_state r = ''pending'' \<and> jr_available_at r \<le> t"

definition claimed_job :: "job_row \<Rightarrow> db_job" where
  "claimed_job r = (case databaseRecoveryProof (jr_processing_token r) of (token, recovered) \<Rightarrow>
     \<lparr>dj_id = jr_id r, dj_processingToken = [], dj_queueName = jr_queue_name r, dj_jobType = jr_job_type r,
      dj_payload = jr_payload r, dj_metadataJSON = jr_metadata_json r, dj_timeoutSeconds = jr_timeout_seconds r,
      dj_maxRetry = jr_max_retry r, dj_backoffMillis = jr_backoff_millis r, dj_attempt = jr_attempt r,
      dj_recovered = recovered, dj_recoveryToken = token, dj_applicationStateCommitted = False\<rparr>)"

text \<open>Rows are kept in the order of their ids, so the first match is the one \<open>ORDER BY id
  LIMIT 1\<close> returns; \<open>SKIP LOCKED\<close> passes over the rows other transactions hold.\<close>

definition selectPendingJob :: "db_config \<Rightarrow> sql_env \<Rightarrow> int \<Rightarrow> sql_world \<Rightarrow> (goerr + db_job option) \<times> sql_world" where
  "selectPendingJob cfg env t w =
    (let skip = (\<lambda>r. \<not> usesOptimisticClaimLoop cfg \<and> se_locked env (sw_calls w) (jr_id r)) in
     case tx_query env (\<lambda>tb. List.find (\<lambda>r. ready_row cfg t r \<and> \<not> skip r) (tb_jobs tb)) w of
       (Inl err, w) \<Rightarrow> (Inl err, w) | (Inr r, w) \<Rightarrow> (Inr (map_option claimed_job r), w))"

definition claim_statement :: "int \<Rightarrow> string \<Rightarrow> int \<Rightarrow> statement" where
  "claim_statement t token i = update_jobs (\<lambda>r. jr_id r = i \<and> jr_state r = ''pending'')
     (\<lambda>r. r\<lparr>jr_state := ''processing'', jr_processing_started_at := Some t, jr_processing_token := Some token, jr_updated_at := t\<rparr>)"

text \<open>The claim loop, over the number of attempts left.\<close>

primrec claim_loop :: "nat \<Rightarrow> db_config \<Rightarrow> sql_env \<Rightarrow> int \<Rightarrow> sql_world \<Rightarrow> (goerr + db_job option) \<times> sql_world" where
  "claim_loop 0 cfg env t w = (Inr None, w)"
| "claim_loop (Suc n) cfg env t w = (case beginTx env w of (Inl err, w) \<Rightarrow> (Inl err, w)
   | (Inr snapshot, w) \<Rightarrow> (case selectPendingJob cfg env t w of
       (Inl err, w) \<Rightarrow> (Inl err, rollback snapshot w)
     | (Inr None, w) \<Rightarrow> (Inr None, rollback snapshot w)
     | (Inr (Some job), w) \<Rightarrow> (case newDatabaseProcessingToken env w of
         (Inl err, w) \<Rightarrow> (Inl err, rollback snapshot w)
       | (Inr token, w) \<Rightarrow> (case tx_exec env (claim_statement t token (dj_id job)) w of
           (Inl err, w) \<Rightarrow> (Inl err, rollback snapshot w)
         | (Inr (Inl err), w) \<Rightarrow> (Inl (ErrWrap ''read database claim rows: '' err []), rollback snapshot w)
         | (Inr (Inr rows), w) \<Rightarrow>
             if rows = 0 then claim_loop n cfg env t (rollback snapshot w)
             else if rows \<noteq> 1 then (Inl (ErrNew (''database claim affected '' @ int_str rows @ '' rows, want 1'')), rollback snapshot w)
             else (case commit env snapshot w of
                 (Some err, w) \<Rightarrow> (Inl err, w)
               | (None, w) \<Rightarrow> (Inr (Some (job\<lparr>dj_processingToken := token\<rparr>)), w))))))"

definition claimOne :: "db_config \<Rightarrow> sql_env \<Rightarrow> sql_world \<Rightarrow> (goerr + db_job option) \<times> sql_world" where
  "claimOne cfg env w = (case time_Now env w of (t, w) \<Rightarrow>
     let tm = unix_milli t in
     case recoverStaleProcessing cfg env tm w of (Some err, w) \<Rightarrow> (Inl err, w)
     | (None, w) \<Rightarrow> claim_loop (if usesOptimisticClaimLoop cfg then 5 else 1) cfg env tm w)"

section \<open>Settlement\<close>

definition owned :: "int \<Rightarrow> string \<Rightarrow> job_row \<Rightarrow> bool" where
  "owned i token r \<longleftrightarrow> jr_id r = i \<and> jr_state r = ''processing'' \<and> jr_processing_token r = Some token"

definition settle :: "sql_env \<Rightarrow> statement \<Rightarrow> sql_world \<Rightarrow> goerr option \<times> sql_world" where
  "settle env stmt w = (case exec env stmt w of (Inl err, w) \<Rightarrow> (Some err, w)
     | (Inr result, w) \<Rightarrow> (requireDatabaseSettlementRow result, w))"

definition markDone :: "sql_env \<Rightarrow> db_job \<Rightarrow> sql_world \<Rightarrow> goerr option \<times> sql_world" where
  "markDone env job w = (case databaseProcessingClaim (Some job) of Inl err \<Rightarrow> (Some err, w)
     | Inr (i, token) \<Rightarrow> settle env (delete_jobs (owned i token)) w)"

definition databasePendingSettlement :: "db_job \<Rightarrow> int \<Rightarrow> int \<Rightarrow> failure_settlement" where
  "databasePendingSettlement job attempt t = \<lparr>fs_state = ''pending'', fs_attempt = attempt,
     fs_availableAt = (if 0 < dj_backoffMillis job then t + dj_backoffMillis job else t)\<rparr>"

definition job_attempt :: "db_job \<Rightarrow> delivery_attempt" where
  "job_attempt job = \<lparr>da_Number = dj_attempt job, da_MaxRetry = dj_maxRetry job\<rparr>"

definition classifyDatabaseFailure :: "db_job \<Rightarrow> goerr option \<Rightarrow> int \<Rightarrow> goerr + failure_settlement" where
  "classifyDatabaseFailure job runErr t = (case ClassifyAttempt (job_attempt job) runErr of
     AttemptRetry \<Rightarrow> Inr (databasePendingSettlement job (dj_attempt job + 1) t)
   | AttemptFailed \<Rightarrow> Inr \<lparr>fs_state = ''dead'', fs_attempt = dj_attempt job + 1, fs_availableAt = 0\<rparr>
   | AttemptRedeliver \<Rightarrow> Inr (databasePendingSettlement job (dj_attempt job) t)
   | AttemptSucceeded \<Rightarrow> Inl (ErrNew ''cannot persist a successful attempt as failed''))"

definition databasePendingRecoveryToken :: "db_job option \<Rightarrow> failure_settlement \<Rightarrow> string option" where
  "databasePendingRecoveryToken job settlement = (case job of None \<Rightarrow> None
     | Some job \<Rightarrow> if fs_state settlement \<noteq> ''pending'' \<or> fs_attempt settlement \<noteq> dj_attempt job then None
         else if dj_applicationStateCommitted job then
           (if \<not> databaseProcessingTokenValid (dj_processingToken job) then None else Some (dj_processingToken job))
         else if \<not> dj_recovered job then None
         else if dj_recoveryToken job = [] then Some databaseRecoveryMarker
         else if \<not> databaseProcessingTokenValid (dj_recoveryToken job) then None
         else Some (dj_recoveryToken job))"

definition dead_statement :: "int \<Rightarrow> string \<Rightarrow> failure_settlement \<Rightarrow> string \<Rightarrow> int \<Rightarrow> statement" where
  "dead_statement i token settlement msg t = update_jobs (owned i token)
     (\<lambda>r. r\<lparr>jr_state := ''dead'', jr_attempt := fs_attempt settlement, jr_processing_started_at := None,
        jr_processing_token := None, jr_last_error := Some msg, jr_updated_at := t\<rparr>)"

definition retry_statement :: "int \<Rightarrow> string \<Rightarrow> failure_settlement \<Rightarrow> string \<Rightarrow> string option \<Rightarrow> int \<Rightarrow> statement" where
  "retry_statement i token settlement msg recovery t = update_jobs (owned i token)
     (\<lambda>r. r\<lparr>jr_state := ''pending'', jr_attempt := fs_attempt settlement, jr_available_at := fs_availableAt settlement,
        jr_last_error := Some msg, jr_processing_started_at := None, jr_processing_token := recovery, jr_updated_at := t\<rparr>)"

definition markFailed :: "sql_env \<Rightarrow> db_job \<Rightarrow> goerr \<Rightarrow> sql_world \<Rightarrow> goerr option \<times> sql_world" where
  "markFailed env job runErr w = (case databaseProcessingClaim (Some job) of Inl err \<Rightarrow> (Some err, w)
     | Inr (i, token) \<Rightarrow> (case time_Now env w of (t, w) \<Rightarrow>
         let tm = unix_milli t in
         case classifyDatabaseFailure job (Some runErr) tm of Inl err \<Rightarrow> (Some err, w)
         | Inr settlement \<Rightarrow>
             if fs_state settlement = ''dead'' then settle env (dead_statement i token settlement (error_text runErr) tm) w
             else settle env (retry_statement i token settlement (error_text runErr)
                    (databasePendingRecoveryToken (Some job) settlement) tm) w))"

text \<open>Each finalisation is tried three times.\<close>

primrec settle_retries :: "nat \<Rightarrow> (sql_world \<Rightarrow> goerr option \<times> sql_world) \<Rightarrow> goerr option \<Rightarrow> sql_world \<Rightarrow> goerr option \<times> sql_world" where
  "settle_retries 0 f lastErr w = (lastErr, w)"
| "settle_retries (Suc n) f lastErr w = (case f w of (None, w) \<Rightarrow> (None, w) | (Some err, w) \<Rightarrow> settle_retries n f (Some err) w)"

definition databaseFinalizeRetryCount :: nat where "databaseFinalizeRetryCount = 3"

definition markDoneWithRetry :: "sql_env \<Rightarrow> db_job \<Rightarrow> sql_world \<Rightarrow> goerr option \<times> sql_world" where
  "markDoneWithRetry env job w = (case settle_retries databaseFinalizeRetryCount (markDone env job) None w of
     (None, w) \<Rightarrow> (None, w) | (Some err, w) \<Rightarrow> (Some (ErrWrap ''finalize successful database job: '' err []), w))"

definition markFailedWithRetry :: "sql_env \<Rightarrow> db_job \<Rightarrow> goerr \<Rightarrow> sql_world \<Rightarrow> goerr option \<times> sql_world" where
  "markFailedWithRetry env job runErr w = (case settle_retries databaseFinalizeRetryCount (markFailed env job runErr) None w of
     (None, w) \<Rightarrow> (None, w) | (Some err, w) \<Rightarrow> (Some (ErrWrap ''finalize failed database job: '' err []), w))"

section \<open>Repair after a failed settlement\<close>

definition databaseSettlementRecoveryDelay :: "duration \<Rightarrow> duration" where
  "databaseSettlementRecoveryDelay pollInterval = (if pollInterval > 25 * millisecond then pollInterval else 25 * millisecond)"

text \<open>The result is an error, or the token to write when there is something to repair.\<close>

definition databaseSettlementRecoveryToken :: "db_job option \<Rightarrow> goerr + string option" where
  "databaseSettlementRecoveryToken job = (case job of None \<Rightarrow> Inr None
     | Some job \<Rightarrow> if \<not> dj_recovered job \<or> dj_applicationStateCommitted job then Inr None
         else if dj_recoveryToken job = [] then Inr (Some databaseRecoveryMarker)
         else if \<not> databaseProcessingTokenValid (dj_recoveryToken job)
         then Inl (ErrNew (''recovered database settlement generation '' @ quote (dj_recoveryToken job) @ '' is invalid''))
         else Inr (Some (dj_recoveryToken job)))"

definition restore_statement :: "int \<Rightarrow> string \<Rightarrow> int \<Rightarrow> int \<Rightarrow> string \<Rightarrow> string \<Rightarrow> int \<Rightarrow> statement" where
  "restore_statement i token attempt availableAt recovery msg t = update_jobs (\<lambda>r. owned i token r \<and> jr_attempt r = attempt)
     (\<lambda>r. r\<lparr>jr_state := ''pending'', jr_available_at := availableAt, jr_processing_started_at := None,
        jr_processing_token := Some recovery, jr_last_error := Some msg, jr_updated_at := t\<rparr>)"

definition restoreDatabaseSettlementLineage :: "sql_env \<Rightarrow> db_job \<Rightarrow> goerr \<Rightarrow> int \<Rightarrow> int \<Rightarrow> sql_world \<Rightarrow> goerr option \<times> sql_world" where
  "restoreDatabaseSettlementLineage env job settlementErr availableAt t w =
    (case databaseSettlementRecoveryToken (Some job) of Inl err \<Rightarrow> (Some err, w) | Inr None \<Rightarrow> (None, w)
     | Inr (Some recovery) \<Rightarrow> (case databaseProcessingClaim (Some job) of Inl err \<Rightarrow> (Some err, w)
         | Inr (i, token) \<Rightarrow>
             settle env (restore_statement i token (dj_attempt job) availableAt recovery (error_text settlementErr) t) w))"

definition restoreRecoveredSettlementLineage :: "db_config \<Rightarrow> sql_env \<Rightarrow> db_job \<Rightarrow> goerr \<Rightarrow> sql_world \<Rightarrow> goerr option \<times> sql_world" where
  "restoreRecoveredSettlementLineage cfg env job settlementErr w = (case time_Now env w of (t, w) \<Rightarrow>
     restoreDatabaseSettlementLineage env job settlementErr
       (unix_milli (t + databaseSettlementRecoveryDelay (dc_PollInterval cfg))) (unix_milli t) w)"

section \<open>Deliveries\<close>

text \<open>White space of \<open>strings.TrimSpace\<close> among the ASCII characters.\<close>

definition is_space :: "char \<Rightarrow> bool" where
  "is_space c \<longleftrightarrow> (let n = of_char c :: nat in n = 32 \<or> 9 \<le> n \<and> n \<le> 13)"

definition trim_space :: "string \<Rightarrow> string" where
  "trim_space s = rev (dropWhile is_space (rev (dropWhile is_space s)))"

definition databaseMetadataJSON :: "sql_env \<Rightarrow> qjob \<Rightarrow> goerr + string option" where
  "databaseMetadataJSON env job = (let metadata = DriverMetadata job in
     if dm_SchemaVersion metadata = 0 then Inr None
     else case se_marshalMetadata env metadata of
       Inl err \<Rightarrow> Inl (ErrWrap ''marshal database job metadata: '' err []) | Inr encoded \<Rightarrow> Inr (Some encoded))"

definition databaseJobMetadata :: "sql_env \<Rightarrow> string option \<Rightarrow> delivery_metadata" where
  "databaseJobMetadata env raw = (case raw of None \<Rightarrow> zero_metadata
     | Some s \<Rightarrow> if trim_space s = [] then zero_metadata
         else (case se_unmarshalMetadata env s of None \<Rightarrow> zero_metadata
           | Some metadata \<Rightarrow> if dm_SchemaVersion metadata \<noteq> DeliveryMetadataVersion then zero_metadata else metadata))"

definition databaseDeliveryJob :: "sql_env \<Rightarrow> db_job \<Rightarrow> qjob" where
  "databaseDeliveryJob env job =
    (let delivery = withAttempt (dj_attempt job) (q_Retry (dj_maxRetry job) (q_OnQueue (dj_queueName job)
           (q_Payload (\<lambda>u::unit. Inl (ErrNew [])) (PBytes (dj_payload job)) (q_NewJob (dj_jobType job)))))
     in DriverWithMetadata delivery (databaseJobMetadata env (dj_metadataJSON job)))"

definition databaseSettlementContext :: "db_job option \<Rightarrow> sql_world \<Rightarrow> dctx \<times> nat \<times> sql_world" where
  "databaseSettlementContext job w = (case begin_settlement None w of (ctx, a, w) \<Rightarrow>
     ((case job of None \<Rightarrow> ctx | Some job \<Rightarrow> WithDeliveryProvenance (Some ctx) \<lparr>dp_GenerationID = dj_processingToken job,
        dp_RecoveredGenerationID = dj_recoveryToken job, dp_Recovered = dj_recovered job\<rparr>), a, w))"

definition delivery_event :: "sql_env \<Rightarrow> queue_event_kind \<Rightarrow> db_job \<Rightarrow> goerr \<Rightarrow> time \<Rightarrow> qevent" where
  "delivery_event env kind job err t = (with_metadata (env_metadata env (databaseDeliveryJob env job)) (zero_qevent kind))
     \<lparr>qe_Driver := ''database'', qe_Queue := NormalizeQueueName (dj_queueName job), qe_Attempt := dj_attempt job,
      qe_MaxRetry := dj_maxRetry job, qe_Err := Some err, qe_Time := t\<rparr>"

definition observeSettlementFailure :: "sql_env \<Rightarrow> dctx option \<Rightarrow> db_job \<Rightarrow> goerr \<Rightarrow> sql_world \<Rightarrow> sql_world" where
  "observeSettlementFailure env ctx job err w = (case time_Now env w of (t, w) \<Rightarrow>
     SafeObserve env ctx (delivery_event env EventSettlementFailed job err t) w)"

definition observeConfirmedProcessArchive :: "sql_env \<Rightarrow> dctx option \<Rightarrow> db_job \<Rightarrow> goerr \<Rightarrow> sql_world \<Rightarrow> sql_world" where
  "observeConfirmedProcessArchive env ctx job runErr w =
    (if ClassifyAttempt (job_attempt job) (Some runErr) \<noteq> AttemptFailed then w
     else case time_Now env w of (t, w) \<Rightarrow> SafeObserve env ctx (delivery_event env EventProcessArchived job runErr t) w)"

definition handleSettlementFailure :: "db_config \<Rightarrow> sql_env \<Rightarrow> dctx option \<Rightarrow> db_job \<Rightarrow> goerr \<Rightarrow> sql_world \<Rightarrow> sql_world" where
  "handleSettlementFailure cfg env ctx job settlementErr w =
    (case restoreRecoveredSettlementLineage cfg env job settlementErr w of (repairErr, w) \<Rightarrow>
       let err = (case repairErr of None \<Rightarrow> settlementErr
         | Some e \<Rightarrow> ErrJoin [settlementErr, ErrWrap ''restore recovered database settlement lineage: '' e []])
       in observeSettlementFailure env ctx job err w)"

section \<open>The worker\<close>

type_synonym sql_handler = "dctx option \<Rightarrow> qjob \<Rightarrow> sql_world \<Rightarrow> callback_result \<times> sql_world"
type_synonym sql_handlers = "(string \<times> sql_handler) list"

definition queue_Register :: "string \<Rightarrow> sql_handler option \<Rightarrow> sql_handlers \<Rightarrow> sql_handlers" where
  "queue_Register jobType handler hs = (case handler of None \<Rightarrow> hs
     | Some h \<Rightarrow> if jobType = [] then hs else AList.update jobType h hs)"

definition runHandlerWithContinuationPermit :: "dctx \<Rightarrow> sql_handler \<Rightarrow> qjob \<Rightarrow> sql_world \<Rightarrow> callback_result \<times> sql_world" where
  "runHandlerWithContinuationPermit ctx handler job w =
    (case Permit queue_scope (Some ctx) (sw_permits w) of (handlerCtx, release, h) \<Rightarrow>
     case handler (Some handlerCtx) job (w\<lparr>sw_permits := h\<rparr>) of (r, w) \<Rightarrow>
       (r, w\<lparr>sw_permits := release_permit release (sw_permits w)\<rparr>))"

text \<open>Settling a delivery whose handler returned. The result says whether the durable
  row reached its final state.\<close>

definition settle_delivery :: "db_config \<Rightarrow> sql_env \<Rightarrow> dctx \<Rightarrow> nat \<Rightarrow> db_job \<Rightarrow> goerr option \<Rightarrow> sql_world \<Rightarrow> bool \<times> sql_world" where
  "settle_delivery cfg env ctx a job err w =
    (case (case err of None \<Rightarrow> markDoneWithRetry env job w | Some e \<Rightarrow> markFailedWithRetry env job e w) of
       (Some settlementErr, w) \<Rightarrow> (False, handleSettlementFailure cfg env (Some ctx) job settlementErr w)
     | (None, w) \<Rightarrow> (True, let w = settlement_Commit env a w in
         case err of None \<Rightarrow> w | Some e \<Rightarrow> observeConfirmedProcessArchive env (Some ctx) job e w))"

text \<open>The outcome of processing: the row was settled, the settlement failed, or the handler
  panicked, which nothing recovers: the process ends.\<close>

datatype process_outcome = Settled | Unsettled | Crashed

definition processJob :: "db_config \<Rightarrow> sql_env \<Rightarrow> sql_handlers \<Rightarrow> db_job \<Rightarrow> sql_world \<Rightarrow> process_outcome \<times> sql_world" where
  "processJob cfg env handlers job w = (case map_of handlers (dj_jobType job) of
     None \<Rightarrow>
       let runErr = ErrNew (''no handler registered for job type '' @ quote (dj_jobType job)) in
       (case markFailedWithRetry env job runErr w of
          (Some err, w) \<Rightarrow> (Unsettled, handleSettlementFailure cfg env (Some background) job err w)
        | (None, w) \<Rightarrow> (Settled, observeConfirmedProcessArchive env (Some background) job runErr w))
   | Some handler \<Rightarrow> (case databaseSettlementContext (Some job) w of (ctx, a, w) \<Rightarrow>
       (case runHandlerWithContinuationPermit ctx handler (databaseDeliveryJob env job) w of
          (Returned err, w) \<Rightarrow>
            (case settle_delivery cfg env ctx a (job\<lparr>dj_applicationStateCommitted := settlement_applied a w\<rparr>) err w of
               (ok, w) \<Rightarrow> (if ok then Settled else Unsettled, w))
        | (_, w) \<Rightarrow> (Crashed, w))))"

section \<open>Dispatch\<close>

definition legacyUniqueJobKey :: "sql_env \<Rightarrow> qjob \<Rightarrow> string \<Rightarrow> string" where
  "legacyUniqueJobKey env job queueName =
     hex_encode (oe_sha256 env ((queueName @ '':'' @ qj_Type job @ '':'') @ qj_payload job))"

definition uniqueJobKey :: "sql_env \<Rightarrow> qjob \<Rightarrow> string \<Rightarrow> string" where
  "uniqueJobKey env job queueName = DriverUniqueKey (oe_sha256 env) (oe_decode env) job queueName"

definition acquireUniqueKey :: "sql_env \<Rightarrow> string \<Rightarrow> int \<Rightarrow> int \<Rightarrow> sql_world \<Rightarrow> (goerr + bool) \<times> sql_world" where
  "acquireUniqueKey env key t expiresAt w = (case tx_exec env (insert_lock key expiresAt) w of
     (Inl err, w) \<Rightarrow> (Inl err, w)
   | (Inr result, w) \<Rightarrow> if result = Inr 1 then (Inr True, w)
       else (case tx_exec env (update_lock key expiresAt t) w of
          (Inl err, w) \<Rightarrow> (Inl err, w)
        | (Inr (Inl err), w) \<Rightarrow> (Inl err, w)
        | (Inr (Inr rows), w) \<Rightarrow> (Inr (rows = 1), w)))"

primrec acquire_keys :: "sql_env \<Rightarrow> string list \<Rightarrow> int \<Rightarrow> int \<Rightarrow> sql_world \<Rightarrow> (goerr + bool) \<times> sql_world" where
  "acquire_keys env [] t expiresAt w = (Inr True, w)"
| "acquire_keys env (key # keys) t expiresAt w = (case acquireUniqueKey env key t expiresAt w of
     (Inr True, w) \<Rightarrow> acquire_keys env keys t expiresAt w
   | (r, w) \<Rightarrow> (r, w))"

definition acquireUnique :: "sql_env \<Rightarrow> qjob \<Rightarrow> string \<Rightarrow> duration \<Rightarrow> sql_world \<Rightarrow> (goerr + bool) \<times> sql_world" where
  "acquireUnique env job queueName ttl w = (case databaseNowMillis (tx_query env) env w of
     (Inl err, w) \<Rightarrow> (Inl err, w)
   | (Inr t, w) \<Rightarrow>
       let n = sw_uniqueClaims w + 1; w = w\<lparr>sw_uniqueClaims := n\<rparr> in
       (case (if n mod 256 = 0 then pruneExpiredUniqueLocks (tx_exec env) t w else (None, w)) of
          (Some err, w) \<Rightarrow> (Inl err, w)
        | (None, w) \<Rightarrow> acquire_keys env [legacyUniqueJobKey env job queueName, uniqueJobKey env job queueName]
            t (t + max 1 (milliseconds ttl)) w))"

text \<open>A timeout is stored in whole seconds, rounded up and at least one.\<close>

definition timeout_seconds :: "duration option \<Rightarrow> int option" where
  "timeout_seconds timeout = map_option (\<lambda>d. max 1 (- ((- d) div (1000 * millisecond)))) timeout"

definition dispatched_row :: "qjob \<Rightarrow> string option \<Rightarrow> time \<Rightarrow> job_row" where
  "dispatched_row job metadata t = (let parsed = DriverOptions job in
     \<lparr>jr_id = 0, jr_queue_name = do_QueueName parsed, jr_job_type = qj_Type job, jr_payload = qj_payload job,
      jr_metadata_json = metadata, jr_timeout_seconds = timeout_seconds (do_Timeout parsed),
      jr_max_retry = optionInt (do_MaxRetry parsed),
      jr_backoff_millis = (case do_Backoff parsed of None \<Rightarrow> 0 | Some b \<Rightarrow> if 0 < b then milliseconds b else 0),
      jr_attempt = 0, jr_available_at = unix_milli (if 0 < do_Delay parsed then t + do_Delay parsed else t),
      jr_processing_started_at = None, jr_processing_token = None, jr_last_error = None, jr_state = ''pending'',
      jr_created_at = unix_milli t, jr_updated_at = unix_milli t\<rparr>)"

definition dispatch_unique :: "sql_env \<Rightarrow> qjob \<Rightarrow> job_row \<Rightarrow> sql_world \<Rightarrow> goerr option \<times> sql_world" where
  "dispatch_unique env job row w = (case beginTx env w of (Inl err, w) \<Rightarrow> (Some err, w)
     | (Inr snapshot, w) \<Rightarrow> (case acquireUnique env job (do_QueueName (DriverOptions job)) (do_UniqueTTL (DriverOptions job)) w of
         (Inl err, w) \<Rightarrow> (Some err, rollback snapshot w)
       | (Inr False, w) \<Rightarrow> (Some (Sentinel ErrDuplicate), rollback snapshot w)
       | (Inr True, w) \<Rightarrow> (case tx_exec env (insert_job row) w of
           (Inl err, w) \<Rightarrow> (Some err, rollback snapshot w)
         | (Inr _, w) \<Rightarrow> commit env snapshot w)))"

definition sql_Dispatch :: "db_config \<Rightarrow> sql_env \<Rightarrow> sql_handlers \<Rightarrow> dctx option \<Rightarrow> qjob \<Rightarrow> sql_world \<Rightarrow> goerr option \<times> sql_world" where
  "sql_Dispatch cfg env handlers ctx job w =
    (if sw_shuttingDown w \<and> \<not> Owns queue_scope ctx (sw_permits w) then (Some (Sentinel ErrQueuerShuttingDown), w)
     else case job_validate job of Some err \<Rightarrow> (Some err, w)
     | None \<Rightarrow> (case (if \<not> sw_started w \<and> handlers \<noteq> [] then StartWorkers cfg env None w else (None, w)) of
         (Some err, w) \<Rightarrow> (Some err, w)
       | (None, w) \<Rightarrow>
           if do_QueueName (DriverOptions job) = [] then (Some (ErrNew ''job queue is required''), w)
           else (case time_Now env w of (t, w) \<Rightarrow>
             case databaseMetadataJSON env job of Inl err \<Rightarrow> (Some err, w)
             | Inr metadata \<Rightarrow>
                 let row = dispatched_row job metadata t in
                 if do_UniqueTTL (DriverOptions job) \<le> 0
                 then (case exec env (insert_job row) w of (Inl err, w) \<Rightarrow> (Some err, w) | (Inr _, w) \<Rightarrow> (None, w))
                 else dispatch_unique env job row w)))"

end
