(* ===== verification/SqlEffects.thy ===== *)
theory SqlEffects
  imports SqlQueue
begin

text \<open>
  What the operations of the SQL queue do to the tables, whatever faults their calls meet:
  each either leaves the tables alone or applies one of its statements completely, and a
  result without error means the statement was applied. Other sessions act between the
  operations, not inside them, so the lemmas are for an environment without peers.
\<close>

definition no_peers :: "sql_env \<Rightarrow> bool" where
  "no_peers env \<longleftrightarrow> (\<forall>n tb. se_peer env n tb = tb)"

section \<open>Calls\<close>

lemma time_Now_tables [simp]: "sw_tables (snd (time_Now env w)) = sw_tables w"
  by (simp add: time_Now_def)

lemma normalizeObservedEvent_tables: "normalizeObservedEvent env event w = (event', w') \<Longrightarrow> sw_tables w' = sw_tables (w :: sql_world)"
  by (auto simp: normalizeObservedEvent_def newEventID_def time_Now_def rand_Read_def Let_def
      split: if_splits prod.splits sum.splits)

lemma SafeObserve_tables [simp]: "sw_tables (SafeObserve env ctx event w) = sw_tables (w :: sql_world)"
  by (auto simp: SafeObserve_def split: prod.split dest: normalizeObservedEvent_tables)

lemma tx_exec_cases:
  assumes "tx_exec env stmt w = (r, w')"
  obtains (kept) err where "r = Inl err" "sw_tables w' = sw_tables w"
    | (applied) n where "stmt (sw_tables w) = Some (sw_tables w', n)" "r = Inr (Inr n) \<or> (\<exists>err. r = Inl err \<or> r = Inr (Inl err))"
  using assms by (auto simp: tx_exec_def Let_def split: option.splits prod.splits fault.splits)

lemma exec_cases:
  assumes "no_peers env" "exec env stmt w = (r, w')"
  obtains (kept) err where "r = Inl err" "sw_tables w' = sw_tables w"
    | (applied) n where "stmt (sw_tables w) = Some (sw_tables w', n)" "r = Inr (Inr n) \<or> (\<exists>err. r = Inl err \<or> r = Inr (Inl err))"
proof -
  have "sw_tables (peers env w) = sw_tables w" using assms(1) by (simp add: peers_def no_peers_def)
  with tx_exec_cases [of env stmt "peers env w" r w'] assms(2) that show thesis by (metis exec_def)
qed

lemma tx_query_tables: "tx_query env q w = (r, w') \<Longrightarrow> sw_tables w' = sw_tables w \<and> (\<forall>x. r = Inr x \<longrightarrow> x = q (sw_tables w))"
  by (auto simp: tx_query_def Let_def split: fault.splits)

lemma query_tables: "no_peers env \<Longrightarrow> query env q w = (r, w') \<Longrightarrow> sw_tables w' = sw_tables w \<and> (\<forall>x. r = Inr x \<longrightarrow> x = q (sw_tables w))"
  unfolding query_def by (drule tx_query_tables) (simp add: peers_def no_peers_def)

lemma beginTx_tables: "no_peers env \<Longrightarrow> beginTx env w = (r, w') \<Longrightarrow> sw_tables w' = sw_tables w \<and> (\<forall>x. r = Inr x \<longrightarrow> x = sw_tables w)"
  unfolding beginTx_def by (rule query_tables)

lemma commit_tables: "commit env snapshot w = (e, w') \<Longrightarrow> (sw_tables w' = sw_tables w \<or> e \<noteq> None \<and> sw_tables w' = snapshot)"
  by (auto simp: commit_def rollback_def Let_def split: fault.splits)

lemma rollback_tables [simp]: "sw_tables (rollback snapshot w) = snapshot"
  by (simp add: rollback_def)

lemma settle_cases:
  assumes "no_peers env" "settle env stmt w = (e, w')"
  obtains (kept) err where "e = Some err" "sw_tables w' = sw_tables w"
    | (applied) n where "stmt (sw_tables w) = Some (sw_tables w', n)" "e = None \<longrightarrow> n = 1"
proof -
  obtain r w1 where x: "exec env stmt w = (r, w1)" by fastforce
  with assms(2) have w: "w' = w1" by (auto simp: settle_def split: sum.splits)
  show thesis using assms(1) x
  proof (cases rule: exec_cases)
    case (kept err)
    then show ?thesis using that(1) [of err] assms(2) x w by (simp add: settle_def)
  next
    case (applied n)
    then have "e = None \<longrightarrow> n = 1" using assms(2) x by (auto simp: settle_def requireDatabaseSettlementRow_def split: if_splits)
    with applied(1) w that(2) show ?thesis by blast
  qed
qed

section \<open>Settlement\<close>

text \<open>A settlement statement changes at most the row its generation owns.\<close>

lemma markDone_cases:
  assumes "no_peers env" "markDone env job w = (e, w')"
  obtains (kept) err where "e = Some err" "sw_tables w' = sw_tables w"
    | (applied) n where "delete_jobs (owned (dj_id job) (dj_processingToken job)) (sw_tables w) = Some (sw_tables w', n)" "e = None \<longrightarrow> n = 1"
proof (cases "databaseProcessingClaim (Some job)")
  case (Inl err)
  with assms(2) that(1) show thesis by (auto simp: markDone_def)
next
  case (Inr c)
  then have "settle env (delete_jobs (owned (dj_id job) (dj_processingToken job))) w = (e, w')"
    using assms(2) by (auto simp: markDone_def databaseProcessingClaim_def split: if_splits)
  from settle_cases [OF assms(1) this] that show thesis by metis
qed

definition failure_update :: "db_job \<Rightarrow> goerr \<Rightarrow> int \<Rightarrow> failure_settlement \<Rightarrow> job_row \<Rightarrow> job_row" where
  "failure_update job runErr t st r = (if fs_state st = ''dead''
     then r\<lparr>jr_state := ''dead'', jr_attempt := fs_attempt st, jr_processing_started_at := None, jr_processing_token := None,
        jr_last_error := Some (error_text runErr), jr_updated_at := t\<rparr>
     else r\<lparr>jr_state := ''pending'', jr_attempt := fs_attempt st, jr_available_at := fs_availableAt st,
        jr_last_error := Some (error_text runErr), jr_processing_started_at := None,
        jr_processing_token := databasePendingRecoveryToken (Some job) st, jr_updated_at := t\<rparr>)"

lemma markFailed_cases:
  assumes "no_peers env" "markFailed env job runErr w = (e, w')"
  obtains (kept) err where "e = Some err" "sw_tables w' = sw_tables w"
    | (applied) n t st where "classifyDatabaseFailure job (Some runErr) t = Inr st"
        "update_jobs (owned (dj_id job) (dj_processingToken job)) (failure_update job runErr t st) (sw_tables w) = Some (sw_tables w', n)"
        "e = None \<longrightarrow> n = 1"
proof (cases "databaseProcessingClaim (Some job)")
  case (Inl err)
  with assms(2) that(1) show thesis by (auto simp: markFailed_def)
next
  case (Inr c)
  then have c: "c = (dj_id job, dj_processingToken job)" by (auto simp: databaseProcessingClaim_def split: if_splits)
  let ?t = "unix_milli (fst (time_Now env w))" and ?w1 = "snd (time_Now env w)"
  show thesis
  proof (cases "classifyDatabaseFailure job (Some runErr) ?t")
    case (Inl err)
    with assms(2) Inr c that(1) [of err] show thesis by (simp add: markFailed_def case_prod_beta Let_def) (metis time_Now_tables)
  next
    case st: (Inr st)
    then have run: "settle env (update_jobs (owned (dj_id job) (dj_processingToken job)) (failure_update job runErr ?t st)) ?w1 = (e, w')"
      using assms(2) Inr c
      by (auto simp: markFailed_def case_prod_beta Let_def dead_statement_def retry_statement_def failure_update_def [abs_def] cong: if_cong split: if_splits)
    from assms(1) run show thesis
    proof (cases rule: settle_cases)
      case (kept err)
      then show thesis using that(1) by simp
    next
      case (applied n)
      then show thesis using that(2) [OF st] by simp
    qed
  qed
qed

lemma restore_cases:
  assumes "no_peers env" "restoreRecoveredSettlementLineage cfg env job settlementErr w = (e, w')"
  obtains (kept) "sw_tables w' = sw_tables w"
    | (applied) n availableAt recovery msg t where "databaseSettlementRecoveryToken (Some job) = Inr (Some recovery)"
        "restore_statement (dj_id job) (dj_processingToken job) (dj_attempt job) availableAt recovery msg t (sw_tables w) = Some (sw_tables w', n)"
proof -
  let ?w1 = "snd (time_Now env w)" and ?t = "fst (time_Now env w)"
  let ?at = "unix_milli (?t + databaseSettlementRecoveryDelay (dc_PollInterval cfg))"
  have run: "restoreDatabaseSettlementLineage env job settlementErr ?at (unix_milli ?t) ?w1 = (e, w')"
    using assms(2) by (simp add: restoreRecoveredSettlementLineage_def case_prod_beta)
  consider "sw_tables w' = sw_tables w" | recovery where "databaseSettlementRecoveryToken (Some job) = Inr (Some recovery)"
      "settle env (restore_statement (dj_id job) (dj_processingToken job) (dj_attempt job) ?at recovery (error_text settlementErr) (unix_milli ?t)) ?w1 = (e, w')"
    using run by (auto simp: restoreDatabaseSettlementLineage_def databaseProcessingClaim_def split: sum.splits option.splits if_splits)
  then show thesis
  proof cases
    case 1
    then show thesis by (rule that(1))
  next
    case (2 recovery)
    from assms(1) 2(2) show thesis
    proof (cases rule: settle_cases)
      case (kept err)
      then show thesis using that(1) by simp
    next
      case (applied n)
      then show thesis using that(2) [OF 2(1)] by simp
    qed
  qed
qed

section \<open>Claiming\<close>

lemma recovered_events_tables [simp]: "sw_tables ((recovered_event env ^^ n) w) = sw_tables w"
  by (induction n) (simp_all add: recovered_event_def case_prod_beta)

lemma recover_cases:
  assumes "no_peers env" "recoverStaleProcessing cfg env t w = (e, w')"
  obtains (kept) err where "e = Some err" "sw_tables w' = sw_tables w"
    | (applied) n where "update_jobs (stale_row cfg t) (recovered_row t) (sw_tables w) = Some (sw_tables w', n)"
proof -
  obtain r w1 where x: "exec env (update_jobs (stale_row cfg t) (recovered_row t)) w = (r, w1)" by fastforce
  with assms(2) have w: "sw_tables w' = sw_tables w1" "\<And>err. r = Inl err \<Longrightarrow> e = Some err"
    by (auto simp: recoverStaleProcessing_def split: sum.splits)
  from assms(1) x show thesis by (cases rule: exec_cases) (use w that in auto)
qed

text \<open>The row a claim takes: the first ready one that no other transaction holds locked.\<close>

definition first_ready :: "db_config \<Rightarrow> sql_env \<Rightarrow> int \<Rightarrow> sql_tables \<Rightarrow> job_row \<Rightarrow> bool" where
  "first_ready cfg env t tb r \<longleftrightarrow> (\<exists>c. List.find (\<lambda>r. ready_row cfg t r
     \<and> \<not> (\<not> usesOptimisticClaimLoop cfg \<and> se_locked env c (jr_id r))) (tb_jobs tb) = Some r)"

definition drawn :: "sql_env \<Rightarrow> string \<Rightarrow> bool" where
  "drawn env token \<longleftrightarrow> (\<exists>n b. oe_rand env n 16 = Inr b \<and> token = hex_encode b)"

lemma first_ready_row: "first_ready cfg env t tb r \<Longrightarrow> r \<in> set (tb_jobs tb) \<and> ready_row cfg t r"
  by (auto simp: first_ready_def find_Some_iff)

lemma selectPendingJob_result:
  assumes "selectPendingJob cfg env t w = (x, w')"
  shows "sw_tables w' = sw_tables w" "x = Inr (Some job) \<Longrightarrow> \<exists>r. first_ready cfg env t (sw_tables w) r \<and> job = claimed_job r"
proof -
  let ?P = "\<lambda>r. ready_row cfg t r \<and> \<not> (\<not> usesOptimisticClaimLoop cfg \<and> se_locked env (sw_calls w) (jr_id r))"
  obtain y w1 where q: "tx_query env (\<lambda>tb. List.find ?P (tb_jobs tb)) w = (y, w1)" by fastforce
  with assms have w: "w' = w1" "\<And>job. x = Inr (Some job) \<Longrightarrow> \<exists>r. y = Inr (Some r) \<and> job = claimed_job r"
    by (auto simp: selectPendingJob_def split: sum.splits)
  then show "sw_tables w' = sw_tables w" using tx_query_tables [OF q] by simp
  assume "x = Inr (Some job)"
  with w(2) obtain r where "y = Inr (Some r)" "job = claimed_job r" by blast
  moreover from this(1) tx_query_tables [OF q] have "List.find ?P (tb_jobs (sw_tables w)) = Some r" by auto
  then have "first_ready cfg env t (sw_tables w) r" unfolding first_ready_def by blast
  ultimately show "\<exists>r. first_ready cfg env t (sw_tables w) r \<and> job = claimed_job r" by blast
qed

lemma newToken_result:
  "newDatabaseProcessingToken env w = (x, w') \<Longrightarrow> sw_tables w' = sw_tables w \<and> (\<forall>token. x = Inr token \<longrightarrow> drawn env token)"
  by (auto simp: newDatabaseProcessingToken_def rand_Read_def drawn_def split: sum.splits)

text \<open>What a claim leaves behind: nothing, or one row moved to a fresh generation. When the
  claim returns a job, the row was moved; when only the reply of the commit was lost, it
  may have been.\<close>

definition claim_applied :: "db_config \<Rightarrow> sql_env \<Rightarrow> int \<Rightarrow> sql_tables \<Rightarrow> sql_tables \<Rightarrow> job_row \<Rightarrow> string \<Rightarrow> bool" where
  "claim_applied cfg env t tb tb' r token \<longleftrightarrow> first_ready cfg env t tb r \<and> drawn env token
     \<and> claim_statement t token (jr_id r) tb = Some (tb', 1)"

lemma claimed_job_id [simp]: "dj_id (claimed_job r) = jr_id r"
  by (simp add: claimed_job_def split: prod.split)

lemma claim_loop_cases:
  assumes "no_peers env" "claim_loop n cfg env t w = (x, w')"
  shows "sw_tables w' = sw_tables w \<and> (\<forall>job. x \<noteq> Inr (Some job))
    \<or> (\<exists>r token. claim_applied cfg env t (sw_tables w) (sw_tables w') r token
        \<and> (x = Inr (Some ((claimed_job r)\<lparr>dj_processingToken := token\<rparr>)) \<or> (\<exists>err. x = Inl err)))"
  using assms(2)
proof (induction n arbitrary: w)
  case (Suc n)
  obtain b w1 where 1: "beginTx env w = (b, w1)" by fastforce
  note t1 = beginTx_tables [OF assms(1) 1]
  obtain s w2 where 2: "selectPendingJob cfg env t w1 = (s, w2)" by fastforce
  note t2 = selectPendingJob_result [OF 2]
  obtain k w3 where 3: "newDatabaseProcessingToken env w2 = (k, w3)" by fastforce
  note t3 = newToken_result [OF 3]
  show ?case
  proof (cases "\<exists>snap job token. b = Inr snap \<and> s = Inr (Some job) \<and> k = Inr token")
    case False
    then show ?thesis using Suc.prems 1 2 3 t1 by (auto split: sum.splits option.splits)
  next
    case True
    then obtain job token where eqs: "b = Inr (sw_tables w)" "s = Inr (Some job)" "k = Inr token" using t1 by blast
    from t2(2) [OF eqs(2)] t1 obtain r where r: "first_ready cfg env t (sw_tables w) r" "job = claimed_job r" by auto
    obtain y w4 where 4: "tx_exec env (claim_statement t token (jr_id r)) w3 = (y, w4)" by fastforce
    have same: "sw_tables w3 = sw_tables w" using t1 t2(1) t3 by simp
    from 4 show ?thesis
    proof (cases rule: tx_exec_cases)
      case (kept err)
      then show ?thesis using Suc.prems 1 2 3 4 eqs r by auto
    next
      case (applied m)
      show ?thesis
      proof (cases "y = Inr (Inr m)")
        case False
        then show ?thesis using Suc.prems 1 2 3 4 eqs r applied(2) by auto
      next
        case y: True
        show ?thesis
        proof (cases "m = 1")
          case False
          then show ?thesis using Suc.prems Suc.IH [of "rollback (sw_tables w) w4"] 1 2 3 4 eqs r y by (auto split: if_splits)
        next
          case True
          obtain e w5 where 5: "commit env (sw_tables w) w4 = (e, w5)" by fastforce
          have run: "(x, w') = (case e of Some err \<Rightarrow> (Inl err, w5) | None \<Rightarrow> (Inr (Some (job\<lparr>dj_processingToken := token\<rparr>)), w5))"
            using Suc.prems 1 2 3 4 5 eqs r y True by (simp split: option.splits)
          have "claim_applied cfg env t (sw_tables w) (sw_tables w4) r token"
            unfolding claim_applied_def using r(1) applied(1) t3 eqs(3) True same by auto
          then show ?thesis using commit_tables [OF 5] run r(2) by (auto split: option.splits)
        qed
      qed
    qed
  qed
qed auto

lemma claimOne_cases:
  assumes "no_peers env" "claimOne cfg env w = (x, w')"
  obtains (kept) err where "x = Inl err" "sw_tables w' = sw_tables w"
    | (recovered) t tb n where "t = unix_milli (fst (time_Now env w))"
        "update_jobs (stale_row cfg t) (recovered_row t) (sw_tables w) = Some (tb, n)"
        "sw_tables w' = tb \<and> (\<forall>job. x \<noteq> Inr (Some job))
          \<or> (\<exists>r token. claim_applied cfg env t tb (sw_tables w') r token
              \<and> (x = Inr (Some ((claimed_job r)\<lparr>dj_processingToken := token\<rparr>)) \<or> (\<exists>err. x = Inl err)))"
proof -
  let ?w1 = "snd (time_Now env w)" and ?t = "unix_milli (fst (time_Now env w))"
  obtain e w2 where 1: "recoverStaleProcessing cfg env ?t ?w1 = (e, w2)" by fastforce
  from assms(1) 1 show thesis
  proof (cases rule: recover_cases)
    case (kept err)
    then show thesis using that(1) assms(2) 1 by (simp add: claimOne_def case_prod_beta Let_def) metis
  next
    case (applied n)
    show thesis
    proof (cases e)
      case None
      then have "claim_loop (if usesOptimisticClaimLoop cfg then 5 else 1) cfg env ?t w2 = (x, w')"
        using assms(2) 1 by (simp add: claimOne_def case_prod_beta Let_def)
      from claim_loop_cases [OF assms(1) this] applied show thesis using that(2) by simp
    next
      case (Some err)
      then have "x = Inl err" "w' = w2" using assms(2) 1 by (simp_all add: claimOne_def case_prod_beta Let_def)
      with applied show thesis using that(2) by simp
    qed
  qed
qed

section \<open>Dispatch\<close>

text \<open>Schema statements and locks leave the rows alone.\<close>

definition same_rows :: "sql_tables \<Rightarrow> sql_tables \<Rightarrow> bool" where
  "same_rows tb tb' \<longleftrightarrow> tb_jobs tb' = tb_jobs tb \<and> tb_next_id tb' = tb_next_id tb"

definition keeps_rows :: "statement \<Rightarrow> bool" where
  "keeps_rows stmt \<longleftrightarrow> (\<forall>tb tb' n. stmt tb = Some (tb', n) \<longrightarrow> same_rows tb tb')"

lemma same_rows_refl [simp]: "same_rows tb tb"
  by (simp add: same_rows_def)

lemma same_rows_trans: "same_rows a b \<Longrightarrow> same_rows b c \<Longrightarrow> same_rows a c"
  by (simp add: same_rows_def)

lemma keeps_rows_statements [simp]:
  "keeps_rows (ddl_statement d)" "keeps_rows (insert_lock k e)" "keeps_rows (update_lock k e t)" "keeps_rows (delete_locks t)"
  by (cases d; auto simp: keeps_rows_def same_rows_def split: option.splits if_splits)
    (auto simp: keeps_rows_def same_rows_def insert_lock_def update_lock_def delete_locks_def split: option.splits if_splits)

lemma tx_exec_rows: "keeps_rows stmt \<Longrightarrow> tx_exec env stmt w = (r, w') \<Longrightarrow> same_rows (sw_tables w) (sw_tables w')"
  by (erule tx_exec_cases) (auto simp: keeps_rows_def)

lemma exec_rows: "no_peers env \<Longrightarrow> keeps_rows stmt \<Longrightarrow> exec env stmt w = (r, w') \<Longrightarrow> same_rows (sw_tables w) (sw_tables w')"
  by (erule (1) exec_cases) (auto simp: keeps_rows_def)

lemma acquire_keys_rows: "acquire_keys env ks t e w = (r, w') \<Longrightarrow> same_rows (sw_tables w) (sw_tables w')"
proof (induction ks arbitrary: w)
  case (Cons k ks)
  obtain x w1 where 1: "acquireUniqueKey env k t e w = (x, w1)" by fastforce
  have "same_rows (sw_tables w) (sw_tables w1)" using 1 unfolding acquireUniqueKey_def
    by (auto split: prod.splits sum.splits if_splits dest!: tx_exec_rows [rotated] intro: same_rows_trans)
  moreover have "w' = w1 \<or> acquire_keys env ks t e w1 = (r, w')" using Cons.prems 1 by (auto split: sum.splits bool.splits)
  ultimately show ?case using Cons.IH same_rows_trans by blast
qed simp

lemma acquireUnique_rows:
  assumes "acquireUnique env job q ttl w = (r, w')"
  shows "same_rows (sw_tables w) (sw_tables w')"
proof -
  obtain x w1 where 1: "databaseNowMillis (tx_query env) env w = (x, w1)" by fastforce
  have s1: "sw_tables w1 = sw_tables w"
    using 1 unfolding databaseNowMillis_def by (auto split: prod.splits sum.splits dest!: tx_query_tables)
  show ?thesis
  proof (cases x)
    case (Inl err)
    then show ?thesis using assms 1 s1 by (simp add: acquireUnique_def)
  next
    case (Inr t)
    let ?w = "w1\<lparr>sw_uniqueClaims := sw_uniqueClaims w1 + 1\<rparr>"
    obtain e w2 where 2: "(if (sw_uniqueClaims w1 + 1) mod 256 = 0 then pruneExpiredUniqueLocks (tx_exec env) t ?w else (None, ?w)) = (e, w2)"
      by fastforce
    have "same_rows (sw_tables w1) (sw_tables w2)" using 2 unfolding pruneExpiredUniqueLocks_def
      by (auto split: if_splits prod.splits sum.splits dest!: tx_exec_rows [rotated])
    moreover have "same_rows (sw_tables w2) (sw_tables w')"
      using assms 1 2 Inr unfolding acquireUnique_def
      by (auto simp: Let_def simp del: acquire_keys.simps split: option.splits dest!: acquire_keys_rows)
    ultimately show ?thesis using s1 same_rows_trans by auto
  qed
qed

lemma ensure_added_rows:
  assumes "no_peers env" "\<And>w r w'. exists w = (r, w') \<Longrightarrow> sw_tables w' = sw_tables w" "ensure_added exists env d what w = (e, w')"
  shows "same_rows (sw_tables w) (sw_tables w')"
proof -
  obtain r1 w1 where 1: "exists w = (r1, w1)" by fastforce
  obtain r2 w2 where 2: "exec env (ddl_statement d) w1 = (r2, w2)" by fastforce
  obtain r3 w3 where 3: "exists w2 = (r3, w3)" by fastforce
  have "w' = w1 \<or> w' = w2 \<or> w' = w3" using assms(3) 1 2 3 unfolding ensure_added_def by (auto split: sum.splits bool.splits)
  then show ?thesis using assms(2) [OF 1] assms(2) [OF 3] exec_rows [OF assms(1) _ 2] by auto
qed

lemma exists_tables:
  assumes "no_peers env"
  shows "queueJobColumnExists cfg env c w = (r, w') \<Longrightarrow> sw_tables w' = sw_tables w"
    "mysqlIndexExists env i w = (r, w') \<Longrightarrow> sw_tables w' = sw_tables w"
  unfolding queueJobColumnExists_def mysqlIndexExists_def
  by (auto split: prod.splits sum.splits dest!: query_tables [OF assms])

lemma exec_all_rows: "no_peers env \<Longrightarrow> exec_all env ds w = (e, w') \<Longrightarrow> same_rows (sw_tables w) (sw_tables w')"
proof (induction ds arbitrary: w)
  case (Cons d ds)
  obtain r w1 where 1: "exec env (ddl_statement d) w = (r, w1)" by fastforce
  have "w' = w1 \<or> exec_all env ds w1 = (e, w')" using Cons.prems 1 by (auto split: sum.splits)
  then show ?case using exec_rows [OF Cons.prems(1) _ 1] Cons.IH [OF Cons.prems(1)] same_rows_trans by auto
qed simp

definition rows_kept :: "(sql_world \<Rightarrow> goerr option \<times> sql_world) \<Rightarrow> bool" where
  "rows_kept f \<longleftrightarrow> (\<forall>w e w'. f w = (e, w') \<longrightarrow> same_rows (sw_tables w) (sw_tables w'))"

lemma and_then_rows: "rows_kept f \<Longrightarrow> rows_kept g \<Longrightarrow> rows_kept (and_then f g)"
  unfolding rows_kept_def and_then_def by (auto split: prod.splits option.splits) (metis same_rows_trans)

lemma prune_at_start_rows:
  assumes np: "no_peers env" and run: "prune_at_start env w = (e, w')"
  shows "same_rows (sw_tables w) (sw_tables w')"
proof -
  obtain r1 w1 where 1: "query env (\<lambda>tb. se_dbclock env (sw_calls w)) w = (r1, w1)" by fastforce
  have "w' = w1 \<or> (\<exists>t r. exec env (delete_locks t) w1 = (r, w'))"
    using run 1 unfolding prune_at_start_def databaseNowMillis_def pruneExpiredUniqueLocks_def
    by (auto split: prod.splits sum.splits)
  then show ?thesis using query_tables [OF np 1] exec_rows [OF np keeps_rows_statements(4)] by (metis same_rows_refl)
qed

lemma ensureSchema_rows:
  assumes np: "no_peers env" and run: "ensureSchema cfg env w = (e, w')"
  shows "same_rows (sw_tables w) (sw_tables w')"
proof -
  have column_rows: "ensure_added (queueJobColumnExists cfg env c) env d what w = (e, w') \<Longrightarrow> same_rows (sw_tables w) (sw_tables w')" for c d what w e w'
    by (rule ensure_added_rows [OF np, of "queueJobColumnExists cfg env c"]) (rule exists_tables(1) [OF np])
  have index_rows: "ensure_added (mysqlIndexExists env i) env d what w = (e, w') \<Longrightarrow> same_rows (sw_tables w) (sw_tables w')" for i d what w e w'
    by (rule ensure_added_rows [OF np, of "mysqlIndexExists env i"]) (rule exists_tables(2) [OF np])
  have "rows_kept (exec_all env (schemaStatements cfg))" "rows_kept (prune_at_start env)"
    using exec_all_rows [OF np] prune_at_start_rows [OF np] by (auto simp: rows_kept_def)
  moreover have "rows_kept (ensureProcessingTokenColumn cfg env)" "rows_kept (ensureMetadataJSONColumn cfg env)"
    unfolding rows_kept_def ensureProcessingTokenColumn_def ensureMetadataJSONColumn_def using column_rows by blast+
  moreover have "rows_kept (\<lambda>w. if dc_DriverName cfg = ''mysql'' then ensureMySQLUniqueExpiryIndex env w else (None, w))"
    unfolding rows_kept_def ensureMySQLUniqueExpiryIndex_def using index_rows by auto
  ultimately have "rows_kept (ensureSchema cfg env)" unfolding ensureSchema_def by (intro and_then_rows)
  then show ?thesis using run by (simp add: rows_kept_def)
qed

lemma require_table_rows:
  assumes np: "no_peers env" and run: "require_table env t cs w = (e, w')"
  shows "sw_tables w' = sw_tables w"
proof -
  obtain r1 w1 where 1: "query env (\<lambda>tb. tb_columns tb t \<noteq> None) w = (r1, w1)" by fastforce
  obtain r2 w2 where 2: "query env (\<lambda>tb. columns_of tb t) w1 = (r2, w2)" by fastforce
  have "w' = w1 \<or> w' = w2"
    using run 1 2 unfolding require_table_def managedQueueTableExists_def managedQueueTableColumns_def
    by (auto split: sum.splits option.splits if_splits)
  then show ?thesis using query_tables [OF np 1] query_tables [OF np 2] by auto
qed

lemma require_rows: "no_peers env \<Longrightarrow> requireManagedQueueSchema env w = (e, w') \<Longrightarrow> sw_tables w' = sw_tables w"
  unfolding requireManagedQueueSchema_def by (auto split: prod.splits option.splits) (metis require_table_rows)+

lemma StartWorkers_rows:
  assumes "no_peers env" "StartWorkers cfg env ctxErr w = (e, w')"
  shows "same_rows (sw_tables w) (sw_tables w')"
proof -
  obtain e1 w1 where 1: "(if dc_AutoMigrate cfg \<and> \<not> dc_DisableAutoMigrate cfg then ensureSchema cfg env w
      else requireManagedQueueSchema env w) = (e1, w1)" by fastforce
  then have "same_rows (sw_tables w) (sw_tables w1)"
    using ensureSchema_rows [OF assms(1)] require_rows [OF assms(1)] by (auto split: if_splits)
  moreover have "sw_tables w' = sw_tables w \<or> sw_tables w' = sw_tables w1"
    using assms(2) unfolding StartWorkers_def 1 by (auto split: if_splits option.splits)
  ultimately show ?thesis by auto
qed

text \<open>A dispatch adds at most its own row, and adds it whenever it reports success.\<close>

definition row_added :: "job_row \<Rightarrow> sql_tables \<Rightarrow> sql_tables \<Rightarrow> bool" where
  "row_added row tb tb' \<longleftrightarrow> tb_jobs tb' = tb_jobs tb @ [row\<lparr>jr_id := tb_next_id tb\<rparr>] \<and> tb_next_id tb' = tb_next_id tb + 1"

lemma insert_job_added: "insert_job row tb = Some (tb', n) \<Longrightarrow> row_added row tb tb'"
  by (auto simp: insert_job_def row_added_def)

lemma row_added_same: "row_added row tb tb' \<Longrightarrow> same_rows tb0 tb \<Longrightarrow> row_added row tb0 tb'"
  by (simp add: row_added_def same_rows_def)

lemma dispatch_unique_cases:
  assumes "no_peers env" "dispatch_unique env job row w = (e, w')"
  shows "same_rows (sw_tables w) (sw_tables w') \<and> e \<noteq> None \<or> row_added row (sw_tables w) (sw_tables w')"
proof -
  obtain b w1 where 1: "beginTx env w = (b, w1)" by fastforce
  note t1 = beginTx_tables [OF assms(1) 1]
  obtain a w2 where 2: "acquireUnique env job (do_QueueName (DriverOptions job)) (do_UniqueTTL (DriverOptions job)) w1 = (a, w2)" by fastforce
  have t2: "same_rows (sw_tables w) (sw_tables w2)" using acquireUnique_rows [OF 2] t1 by simp
  obtain r w3 where 3: "tx_exec env (insert_job row) w2 = (r, w3)" by fastforce
  show ?thesis
  proof (cases "\<exists>snap x. b = Inr snap \<and> a = Inr True \<and> r = Inr x")
    case False
    then show ?thesis using assms(2) 1 2 3 t1 unfolding dispatch_unique_def by (auto split: sum.splits bool.splits)
  next
    case True
    then obtain x where eqs: "b = Inr (sw_tables w)" "a = Inr True" "r = Inr x" using t1 by blast
    have "row_added row (sw_tables w) (sw_tables w3)"
      using 3 eqs(3) row_added_same [OF insert_job_added t2] by (auto elim!: tx_exec_cases)
    moreover have "commit env (sw_tables w) w3 = (e, w')" using assms(2) 1 2 3 eqs unfolding dispatch_unique_def by simp
    ultimately show ?thesis using commit_tables same_rows_refl by metis
  qed
qed

lemma sql_Dispatch_cases:
  assumes np: "no_peers env" and run: "sql_Dispatch cfg env handlers ctx job w = (e, w')"
  shows "same_rows (sw_tables w) (sw_tables w') \<and> e \<noteq> None
    \<or> (\<exists>metadata t. row_added (dispatched_row job metadata t) (sw_tables w) (sw_tables w'))"
proof -
  obtain e1 w1 where 1: "(if \<not> sw_started w \<and> handlers \<noteq> [] then StartWorkers cfg env None w else (None, w)) = (e1, w1)" by fastforce
  have t1: "same_rows (sw_tables w) (sw_tables w1)" using 1 StartWorkers_rows [OF np] by (auto split: if_splits)
  let ?t = "fst (time_Now env w1)" and ?w2 = "snd (time_Now env w1)"
  show ?thesis
  proof (cases "sw_shuttingDown w \<and> \<not> Owns queue_scope ctx (sw_permits w) \<or> job_validate job \<noteq> None \<or> e1 \<noteq> None
      \<or> do_QueueName (DriverOptions job) = [] \<or> isl (databaseMetadataJSON env job)")
    case True
    then show ?thesis using run 1 t1 unfolding sql_Dispatch_def by (auto simp: case_prod_beta split: if_splits option.splits sum.splits)
  next
    case False
    then obtain metadata where m: "databaseMetadataJSON env job = Inr metadata" by (cases "databaseMetadataJSON env job") auto
    let ?row = "dispatched_row job metadata ?t"
    have rest: "(e, w') = (if do_UniqueTTL (DriverOptions job) \<le> 0
        then (case exec env (insert_job ?row) ?w2 of (Inl err, w) \<Rightarrow> (Some err, w) | (Inr _, w) \<Rightarrow> (None, w))
        else dispatch_unique env job ?row ?w2)"
      using run 1 False m unfolding sql_Dispatch_def by (auto simp: case_prod_beta Let_def)
    have "same_rows (sw_tables ?w2) (sw_tables w') \<and> e \<noteq> None \<or> row_added ?row (sw_tables ?w2) (sw_tables w')"
    proof (cases "do_UniqueTTL (DriverOptions job) \<le> 0")
      case True
      obtain r w3 where 3: "exec env (insert_job ?row) ?w2 = (r, w3)" by fastforce
      with rest True have "w' = w3" "r = Inl x \<Longrightarrow> e = Some x" for x by (auto split: sum.splits)
      then show ?thesis using exec_cases [OF np 3] insert_job_added by (metis option.distinct(1) same_rows_refl)
    next
      case False
      then show ?thesis using rest dispatch_unique_cases [OF np, of job ?row ?w2 e w'] by simp
    qed
    then have "same_rows (sw_tables w) (sw_tables w') \<and> e \<noteq> None \<or> row_added ?row (sw_tables w) (sw_tables w')"
      using same_rows_trans [OF t1] row_added_same [OF _ t1] by simp blast
    then show ?thesis by blast
  qed
qed

end
