(* ===== verification/SqlAdmin.thy ===== *)
theory SqlAdmin
  imports SqlQueue Collector
begin

text \<open>
  Administration of the SQL queue: statistics, job listings by state and the commands of
  the queue admin interface (\<open>admin.go\<close> and
  \<open>driver/sqlqueuecore/queue_database_impl.go\<close>). The filters of the listing agree with
  the state the listing shows, and the statistics count every row once.
\<close>

section \<open>Options\<close>

type_synonym job_state = string

definition JobStatePending :: job_state where "JobStatePending = ''pending''"
definition JobStateActive :: job_state where "JobStateActive = ''active''"
definition JobStateScheduled :: job_state where "JobStateScheduled = ''scheduled''"
definition JobStateRetry :: job_state where "JobStateRetry = ''retry''"
definition JobStateArchived :: job_state where "JobStateArchived = ''archived''"
definition JobStateCompleted :: job_state where "JobStateCompleted = ''completed''"

lemmas job_state_defs = JobStatePending_def JobStateActive_def JobStateScheduled_def JobStateRetry_def JobStateArchived_def
  JobStateCompleted_def

record list_jobs_options =
  lo_Queue :: string
  lo_State :: job_state
  lo_Page :: int
  lo_PageSize :: int

definition options_Normalize :: "list_jobs_options \<Rightarrow> list_jobs_options" where
  "options_Normalize opts =
    (let opts = (if lo_Queue opts = [] then opts\<lparr>lo_Queue := ''default''\<rparr> else opts);
         opts = (if lo_State opts = [] then opts\<lparr>lo_State := JobStatePending\<rparr> else opts);
         opts = (if lo_Page opts \<le> 0 then opts\<lparr>lo_Page := 1\<rparr> else opts);
         opts = (if lo_PageSize opts \<le> 0 then opts\<lparr>lo_PageSize := 50\<rparr> else opts)
     in if lo_PageSize opts > 500 then opts\<lparr>lo_PageSize := 500\<rparr> else opts)"

record job_snapshot =
  js_ID :: string
  js_Queue :: string
  js_State :: job_state
  js_Type :: string
  js_Payload :: string
  js_Attempt :: int
  js_MaxRetry :: int
  js_LastError :: string
  js_NextProcessAt :: "time option"

record list_jobs_result =
  lr_Jobs :: "job_snapshot list"
  lr_Total :: int

section \<open>Listing\<close>

definition databaseJobState :: "string \<Rightarrow> int \<Rightarrow> int \<Rightarrow> int \<Rightarrow> job_state" where
  "databaseJobState state attempt availableAt t =
    (if state = ''processing'' then JobStateActive
     else if state = ''dead'' then JobStateArchived
     else if state = ''pending'' then
       (if 0 < attempt then JobStateRetry else if availableAt > t then JobStateScheduled else JobStatePending)
     else JobStatePending)"

text \<open>The condition the listing selects by, as a predicate on rows.\<close>

definition jobsWhereClause :: "list_jobs_options \<Rightarrow> int \<Rightarrow> goerr + (job_row \<Rightarrow> bool)" where
  "jobsWhereClause opts t =
    (let queueName = NormalizeQueueName (lo_Queue opts);
         sel = (\<lambda>P. Inr (\<lambda>r. jr_queue_name r = queueName \<and> P r))
     in if lo_State opts = JobStatePending then sel (\<lambda>r. jr_state r = ''pending'' \<and> jr_attempt r = 0 \<and> jr_available_at r \<le> t)
        else if lo_State opts = JobStateActive then sel (\<lambda>r. jr_state r = ''processing'')
        else if lo_State opts = JobStateScheduled then sel (\<lambda>r. jr_state r = ''pending'' \<and> jr_attempt r = 0 \<and> jr_available_at r > t)
        else if lo_State opts = JobStateRetry then sel (\<lambda>r. jr_state r = ''pending'' \<and> jr_attempt r > 0)
        else if lo_State opts = JobStateArchived then sel (\<lambda>r. jr_state r = ''dead'')
        else Inl (ErrNew (''unsupported queue job state '' @ quote (lo_State opts))))"

definition row_snapshot :: "int \<Rightarrow> job_row \<Rightarrow> job_snapshot" where
  "row_snapshot t r = \<lparr>js_ID = int_str (jr_id r), js_Queue = jr_queue_name r,
     js_State = databaseJobState (jr_state r) (jr_attempt r) (jr_available_at r) t, js_Type = jr_job_type r, js_Payload = jr_payload r,
     js_Attempt = jr_attempt r, js_MaxRetry = jr_max_retry r,
     js_LastError = (case jr_last_error r of None \<Rightarrow> [] | Some e \<Rightarrow> e),
     js_NextProcessAt = (if 0 < jr_available_at r then Some (jr_available_at r * 1000000) else None)\<rparr>"

text \<open>\<open>ORDER BY id DESC LIMIT ... OFFSET ...\<close>\<close>

definition page_of :: "list_jobs_options \<Rightarrow> (job_row \<Rightarrow> bool) \<Rightarrow> sql_tables \<Rightarrow> job_row list" where
  "page_of opts P tb = take (nat (lo_PageSize opts)) (drop (nat ((lo_Page opts - 1) * lo_PageSize opts)) (rev (filter P (tb_jobs tb))))"

definition ListJobs :: "sql_env \<Rightarrow> goerr option \<Rightarrow> list_jobs_options \<Rightarrow> sql_world \<Rightarrow> (goerr + list_jobs_result) \<times> sql_world" where
  "ListJobs env ctxErr opts w = (case ctxErr of Some err \<Rightarrow> (Inl err, w)
     | None \<Rightarrow> let opts = options_Normalize opts in
         if lo_State opts = JobStateCompleted then (Inr \<lparr>lr_Jobs = [], lr_Total = 0\<rparr>, w)
         else (case time_Now env w of (t, w) \<Rightarrow>
           let tm = unix_milli t in
           (case jobsWhereClause opts tm of Inl err \<Rightarrow> (Inl err, w)
           | Inr P \<Rightarrow> (case query env (\<lambda>tb. int (length (filter P (tb_jobs tb)))) w of
               (Inl err, w) \<Rightarrow> (Inl err, w)
             | (Inr n, w) \<Rightarrow> (case query env (page_of opts P) w of
                 (Inl err, w) \<Rightarrow> (Inl err, w)
               | (Inr rows, w) \<Rightarrow> (Inr \<lparr>lr_Jobs = map (row_snapshot tm) rows, lr_Total = n\<rparr>, w))))))"

section \<open>Statistics\<close>

definition count_state :: "string \<Rightarrow> int \<Rightarrow> queue_counters \<Rightarrow> queue_counters" where
  "count_state state n c =
    (if state = ''pending'' then c\<lparr>qc_Pending := qc_Pending c + n\<rparr>
     else if state = ''processing'' then c\<lparr>qc_Active := qc_Active c + n\<rparr>
     else if state = ''dead'' then c\<lparr>qc_Archived := qc_Archived c + n, qc_Failed := qc_Failed c + n\<rparr> else c)"

text \<open>\<open>SELECT queue_name, state, COUNT(*) ... GROUP BY queue_name, state\<close>\<close>

definition state_groups :: "sql_tables \<Rightarrow> (string \<times> string \<times> int) list" where
  "state_groups tb = map (\<lambda>(q, s). (q, s, int (length (filter (\<lambda>r. jr_queue_name r = q \<and> jr_state r = s) (tb_jobs tb)))))
     (remdups (map (\<lambda>r. (jr_queue_name r, jr_state r)) (tb_jobs tb)))"

definition count_groups :: "(string \<times> string \<times> int) list \<Rightarrow> string \<rightharpoonup> queue_counters" where
  "count_groups gs = foldl (\<lambda>m (q, s, n). m(q \<mapsto> count_state s n (map_get zero_counters m q))) Map.empty gs"

definition zero_throughput :: queue_throughput where
  "zero_throughput = \<lparr>qt_Hour = \<lparr>tw_Processed = 0, tw_Failed = 0\<rparr>, qt_Day = \<lparr>tw_Processed = 0, tw_Failed = 0\<rparr>,
     qt_Week = \<lparr>tw_Processed = 0, tw_Failed = 0\<rparr>\<rparr>"

definition sql_Stats :: "sql_env \<Rightarrow> sql_world \<Rightarrow> (goerr + stats_snapshot) \<times> sql_world" where
  "sql_Stats env w = (case query env state_groups w of (Inl err, w) \<Rightarrow> (Inl err, w)
     | (Inr gs, w) \<Rightarrow> let byQueue = count_groups gs in
         (Inr \<lparr>ss_ByQueue = byQueue, ss_ThroughputByQueue = (\<lambda>q. map_option (\<lambda>_. zero_throughput) (byQueue q))\<rparr>, w))"

section \<open>Commands\<close>

text \<open>\<open>strconv.ParseInt\<close> in base ten and 64 bits.\<close>

definition parse_digits :: "string \<Rightarrow> int option" where
  "parse_digits s = (if s = [] \<or> \<not> list_all (\<lambda>c. 48 \<le> (of_char c :: nat) \<and> (of_char c :: nat) \<le> 57) s then None
     else Some (foldl (\<lambda>n c. 10 * n + int (of_char c - 48)) 0 s))"

definition parse_int64 :: "string \<Rightarrow> int option" where
  "parse_int64 s =
    (let (neg, ds) = (case s of [] \<Rightarrow> (False, []) | c # cs \<Rightarrow> if c = CHR ''-'' then (True, cs) else if c = CHR ''+'' then (False, cs) else (False, s))
     in case parse_digits ds of None \<Rightarrow> None
        | Some n \<Rightarrow> (let v = (if neg then - n else n) in if - (2 ^ 63) \<le> v \<and> v < 2 ^ 63 then Some v else None))"

definition admin_command :: "sql_env \<Rightarrow> goerr option \<Rightarrow> string \<Rightarrow> (int \<Rightarrow> sql_world \<Rightarrow> statement \<times> sql_world) \<Rightarrow> sql_world \<Rightarrow> goerr option \<times> sql_world" where
  "admin_command env ctxErr jobID f w = (case ctxErr of Some err \<Rightarrow> (Some err, w)
     | None \<Rightarrow> (case parse_int64 (trim_space jobID) of None \<Rightarrow> (Some (ErrNew (''invalid job id '' @ quote jobID)), w)
         | Some i \<Rightarrow> (case f i w of (stmt, w) \<Rightarrow> (case exec env stmt w of (Inl err, w) \<Rightarrow> (Some err, w) | (Inr _, w) \<Rightarrow> (None, w)))))"

definition retried_row :: "int \<Rightarrow> job_row \<Rightarrow> job_row" where
  "retried_row t r = r\<lparr>jr_state := ''pending'', jr_available_at := t, jr_processing_started_at := None, jr_processing_token := None,
     jr_last_error := None, jr_updated_at := t\<rparr>"

definition RetryJob :: "sql_env \<Rightarrow> goerr option \<Rightarrow> string \<Rightarrow> string \<Rightarrow> sql_world \<Rightarrow> goerr option \<times> sql_world" where
  "RetryJob env ctxErr queueName jobID w = admin_command env ctxErr jobID (\<lambda>i w. case time_Now env w of (t, w) \<Rightarrow>
     (update_jobs (\<lambda>r. jr_id r = i \<and> jr_queue_name r = NormalizeQueueName queueName) (retried_row (unix_milli t)), w)) w"

definition canceled_row :: "int \<Rightarrow> job_row \<Rightarrow> job_row" where
  "canceled_row t r = r\<lparr>jr_state := ''dead'', jr_processing_started_at := None, jr_processing_token := None,
     jr_last_error := Some ''canceled from queue admin'', jr_updated_at := t\<rparr>"

definition CancelJob :: "sql_env \<Rightarrow> goerr option \<Rightarrow> string \<Rightarrow> sql_world \<Rightarrow> goerr option \<times> sql_world" where
  "CancelJob env ctxErr jobID w = admin_command env ctxErr jobID (\<lambda>i w. case time_Now env w of (t, w) \<Rightarrow>
     (update_jobs (\<lambda>r. jr_id r = i) (canceled_row (unix_milli t)), w)) w"

definition DeleteJob :: "sql_env \<Rightarrow> goerr option \<Rightarrow> string \<Rightarrow> string \<Rightarrow> sql_world \<Rightarrow> goerr option \<times> sql_world" where
  "DeleteJob env ctxErr queueName jobID w = admin_command env ctxErr jobID (\<lambda>i w.
     (delete_jobs (\<lambda>r. jr_id r = i \<and> jr_queue_name r = NormalizeQueueName queueName), w)) w"

definition ClearQueue :: "sql_env \<Rightarrow> goerr option \<Rightarrow> string \<Rightarrow> sql_world \<Rightarrow> goerr option \<times> sql_world" where
  "ClearQueue env ctxErr queueName w = (case ctxErr of Some err \<Rightarrow> (Some err, w)
     | None \<Rightarrow> (case exec env (delete_jobs (\<lambda>r. jr_queue_name r = NormalizeQueueName queueName)) w of
         (Inl err, w) \<Rightarrow> (Some err, w) | (Inr _, w) \<Rightarrow> (None, w)))"

section \<open>Properties\<close>

text \<open>The states the queue writes.\<close>

definition row_state_ok :: "job_row \<Rightarrow> bool" where
  "row_state_ok r \<longleftrightarrow> jr_state r \<in> {''pending'', ''processing'', ''dead''} \<and> 0 \<le> jr_attempt r"

text \<open>C27. The condition a listing selects rows by agrees with the state it shows: a row of the
  queue is listed under a state exactly when that is its state, so every row appears under
  one state and no other.\<close>

theorem listing_matches_state:
  assumes "row_state_ok r" "jobsWhereClause opts t = Inr P"
  shows "P r \<longleftrightarrow> jr_queue_name r = NormalizeQueueName (lo_Queue opts)
    \<and> databaseJobState (jr_state r) (jr_attempt r) (jr_available_at r) t = lo_State opts"
proof -
  have distinct: "distinct [JobStatePending, JobStateActive, JobStateScheduled, JobStateRetry, JobStateArchived, JobStateCompleted]"
    by (simp add: job_state_defs)
  consider "jr_state r = ''pending''" | "jr_state r = ''processing''" | "jr_state r = ''dead''"
    using assms(1) by (auto simp: row_state_ok_def)
  then show ?thesis
    using assms distinct by cases (auto simp: row_state_ok_def jobsWhereClause_def databaseJobState_def Let_def split: if_splits)
qed

definition sample_row :: "int \<Rightarrow> string \<Rightarrow> job_row" where
  "sample_row i state = \<lparr>jr_id = i, jr_queue_name = ''default'', jr_job_type = ''t'', jr_payload = [], jr_metadata_json = None,
     jr_timeout_seconds = None, jr_max_retry = 0, jr_backoff_millis = 0, jr_attempt = 0, jr_available_at = 0,
     jr_processing_started_at = None, jr_processing_token = None, jr_last_error = None, jr_state = state, jr_created_at = 0,
     jr_updated_at = 0\<rparr>"

theorem listing_matches_state_witness:
  "\<exists>P. jobsWhereClause \<lparr>lo_Queue = [], lo_State = JobStateArchived, lo_Page = 1, lo_PageSize = 50\<rparr> 7 = Inr P
     \<and> P (sample_row 1 ''dead'') \<and> \<not> P (sample_row 2 ''pending'')"
proof -
  let ?opts = "\<lparr>lo_Queue = [], lo_State = JobStateArchived, lo_Page = 1, lo_PageSize = 50\<rparr>"
  obtain P where P: "jobsWhereClause ?opts 7 = Inr P"
    by (simp add: jobsWhereClause_def Let_def job_state_defs)
  have "row_state_ok (sample_row 1 ''dead'')" "row_state_ok (sample_row 2 ''pending'')"
    by (simp_all add: row_state_ok_def sample_row_def)
  from listing_matches_state [OF this(1) P] listing_matches_state [OF this(2) P] P show ?thesis
    by (auto simp: sample_row_def databaseJobState_def NormalizeQueueName_def job_state_defs)
qed

lemma count_state_simps [simp]:
  "qc_Pending (count_state s n c) = qc_Pending c + (if s = ''pending'' then n else 0)"
  "qc_Active (count_state s n c) = qc_Active c + (if s = ''processing'' then n else 0)"
  "qc_Archived (count_state s n c) = qc_Archived c + (if s = ''dead'' then n else 0)"
  "qc_Failed (count_state s n c) = qc_Failed c + (if s = ''dead'' then n else 0)"
  by (auto simp: count_state_def)

text \<open>What the groups of a queue and state add up to.\<close>

definition group_sum :: "string \<Rightarrow> string \<Rightarrow> (string \<times> string \<times> int) list \<Rightarrow> int" where
  "group_sum q s gs = (\<Sum>(q', s', n) \<leftarrow> gs. if q' = q \<and> s' = s then n else 0)"

lemma count_groups_snoc:
  "count_groups (gs @ [(q, s, n)]) = (count_groups gs)(q \<mapsto> count_state s n (map_get zero_counters (count_groups gs) q))"
  by (simp add: count_groups_def)

lemma count_groups_sums:
  "qc_Pending (map_get zero_counters (count_groups gs) q) = group_sum q ''pending'' gs
   \<and> qc_Active (map_get zero_counters (count_groups gs) q) = group_sum q ''processing'' gs
   \<and> qc_Archived (map_get zero_counters (count_groups gs) q) = group_sum q ''dead'' gs
   \<and> qc_Failed (map_get zero_counters (count_groups gs) q) = group_sum q ''dead'' gs
   \<and> (count_groups gs q = None \<longleftrightarrow> q \<notin> fst ` set gs)"
proof (induction gs rule: rev_induct)
  case Nil
  then show ?case by (simp add: count_groups_def group_sum_def map_get_def zero_counters_def)
next
  case (snoc g gs)
  obtain q' s' n where g: "g = (q', s', n)" by (cases g)
  show ?case unfolding g count_groups_snoc map_get_upd using snoc by (auto simp: group_sum_def)
qed

definition state_count :: "sql_tables \<Rightarrow> string \<Rightarrow> string \<Rightarrow> int" where
  "state_count tb q s = int (length (filter (\<lambda>r. jr_queue_name r = q \<and> jr_state r = s) (tb_jobs tb)))"

lemma sum_list_pick:
  "distinct ks \<Longrightarrow> (\<Sum>k \<leftarrow> ks. if k = x then f k else (0::int)) = (if x \<in> set ks then f x else 0)"
  by (induction ks) auto

lemma state_groups_sum: "group_sum q s (state_groups tb) = state_count tb q s"
proof -
  let ?ks = "remdups (map (\<lambda>r. (jr_queue_name r, jr_state r)) (tb_jobs tb))"
  have "group_sum q s (state_groups tb) = (\<Sum>k \<leftarrow> ?ks. if k = (q, s) then state_count tb (fst k) (snd k) else 0)"
    unfolding group_sum_def state_groups_def map_map by (intro arg_cong [where f = sum_list] map_cong) (auto simp: state_count_def split: if_splits)
  also have "\<dots> = (if (q, s) \<in> set ?ks then state_count tb q s else 0)" by (subst sum_list_pick) auto
  also have "\<dots> = state_count tb q s" by (auto simp: state_count_def filter_empty_conv)
  finally show ?thesis .
qed

text \<open>C28. The statistics count every row once: a queue is reported exactly when it has rows,
  and its pending, active and archived counters are the numbers of its rows in those
  states, the archived ones being its failures.\<close>

theorem stats_count_rows:
  assumes "sql_Stats env w = (Inr s, w')"
  shows "case ss_ByQueue s q of
      None \<Rightarrow> \<forall>r \<in> set (tb_jobs (sw_tables w')). jr_queue_name r \<noteq> q
    | Some c \<Rightarrow> (\<exists>r \<in> set (tb_jobs (sw_tables w')). jr_queue_name r = q)
        \<and> qc_Pending c = state_count (sw_tables w') q ''pending'' \<and> qc_Active c = state_count (sw_tables w') q ''processing''
        \<and> qc_Archived c = state_count (sw_tables w') q ''dead'' \<and> qc_Failed c = state_count (sw_tables w') q ''dead''"
proof -
  let ?tb = "sw_tables w'"
  have s: "ss_ByQueue s = count_groups (state_groups ?tb)"
    using assms by (auto simp: sql_Stats_def query_def tx_query_def peers_def Let_def split: fault.splits)
  have "fst ` set (state_groups ?tb) = jr_queue_name ` set (tb_jobs ?tb)"
    by (auto simp: state_groups_def image_iff)
  then show ?thesis
    using count_groups_sums [of "state_groups ?tb" q] unfolding s state_groups_sum
    by (auto simp: map_get_def split: option.split)
qed

theorem stats_count_rows_witness:
  "\<exists>s c. fst (sql_Stats quiet_env (new_world (empty_tables\<lparr>tb_jobs := [sample_row 1 ''pending'', sample_row 2 ''dead'', sample_row 3 ''pending'']\<rparr>)))
       = Inr s \<and> ss_ByQueue s ''default'' = Some c \<and> qc_Pending c = 2 \<and> qc_Archived c = 1"
proof -
  let ?w = "new_world (empty_tables\<lparr>tb_jobs := [sample_row 1 ''pending'', sample_row 2 ''dead'', sample_row 3 ''pending'']\<rparr>)"
  obtain s w' where run: "sql_Stats quiet_env ?w = (Inr s, w')" and tb: "sw_tables w' = sw_tables ?w"
    by (auto simp: sql_Stats_def query_def tx_query_def peers_def quiet_env_def Let_def)
  from stats_count_rows [OF run, of "''default''"] obtain c where "ss_ByQueue s ''default'' = Some c"
      "qc_Pending c = state_count (sw_tables ?w) ''default'' ''pending''" "qc_Archived c = state_count (sw_tables ?w) ''default'' ''dead''"
    unfolding tb by (auto simp: new_world_def sample_row_def split: option.splits)
  then show ?thesis using run by (auto simp: state_count_def new_world_def sample_row_def)
qed

end
