(* ===== verification/SqlSteps.thy ===== *)
theory SqlSteps
  imports SqlEffects SqlAdmin
begin

text \<open>
  The SQL queue at work: dispatchers, workers of any number of processes and administrators
  act on one database in any order, and every call may fail before or after it took effect.
  The theory gives the steps of such runs and what each may do to a single row.
\<close>

section \<open>Rows by id\<close>

definition row_of :: "sql_tables \<Rightarrow> int \<Rightarrow> job_row option" where
  "row_of tb i = List.find (\<lambda>r. jr_id r = i) (tb_jobs tb)"

lemma find_map_keeping: "(\<And>x. P (f x) = P x) \<Longrightarrow> List.find P (map f xs) = map_option f (List.find P xs)"
  by (induction xs) auto

lemma find_append: "List.find P (xs @ ys) = (case List.find P xs of None \<Rightarrow> List.find P ys | Some x \<Rightarrow> Some x)"
  by (induction xs) auto

lemma row_of_id: "row_of tb i = Some r \<Longrightarrow> jr_id r = i \<and> r \<in> set (tb_jobs tb)"
  by (auto simp: row_of_def find_Some_iff)

lemma row_of_iff:
  assumes "tables_ok tb"
  shows "row_of tb i = Some r \<longleftrightarrow> r \<in> set (tb_jobs tb) \<and> jr_id r = i"
proof
  assume r: "r \<in> set (tb_jobs tb) \<and> jr_id r = i"
  then obtain r' where "row_of tb i = Some r'" by (cases "row_of tb i") (auto simp: row_of_def find_None_iff)
  with r row_of_id [OF this] tables_ok_unique [OF assms, of r r'] show "row_of tb i = Some r" by simp
qed (use row_of_id in auto)

lemma row_of_same: "same_rows tb tb' \<Longrightarrow> row_of tb' = row_of tb"
  by (simp add: row_of_def same_rows_def fun_eq_iff)

lemma row_of_added: "row_added row tb tb' \<Longrightarrow> tables_ok tb \<Longrightarrow> row_of tb' = (row_of tb)(tb_next_id tb \<mapsto> row\<lparr>jr_id := tb_next_id tb\<rparr>)"
proof -
  assume added: "row_added row tb tb'" and ok: "tables_ok tb"
  have "row_of tb (tb_next_id tb) = None" using ok by (fastforce simp: row_of_def find_None_iff tables_ok_def)
  then show ?thesis using added by (auto simp: row_added_def row_of_def find_append fun_eq_iff split: option.splits)
qed

lemma row_of_update:
  assumes "update_jobs P f tb = Some (tb', n)" "keeps_id f"
  shows "row_of tb' i = map_option (\<lambda>r. if P r then f r else r) (row_of tb i)"
proof -
  have "tb_jobs tb' = map (\<lambda>r. if P r then f r else r) (tb_jobs tb)" using assms(1) by (auto simp: update_jobs_def)
  then show ?thesis using assms(2) by (simp add: row_of_def keeps_id_def find_map_keeping)
qed

lemma row_of_delete:
  assumes "delete_jobs P tb = Some (tb', n)" "tables_ok tb"
  shows "row_of tb' i = (case row_of tb i of None \<Rightarrow> None | Some r \<Rightarrow> if P r then None else Some r)"
proof -
  have tb': "tables_ok tb'" "set (tb_jobs tb') = {r \<in> set (tb_jobs tb). \<not> P r}"
    using delete_jobs_ok [OF assms(2,1)] assms(1) by (auto simp: delete_jobs_def)
  have "row_of tb' i = Some r \<longleftrightarrow> row_of tb i = Some r \<and> \<not> P r" for r
    using row_of_iff [OF tb'(1)] row_of_iff [OF assms(2)] tb'(2) by auto
  then have "row_of tb' i = None \<longleftrightarrow> (\<forall>r. row_of tb i = Some r \<longrightarrow> P r)" "row_of tb' i = Some r \<longleftrightarrow> row_of tb i = Some r \<and> \<not> P r" for r
    by (metis option.exhaust option.distinct(1))+
  then show ?thesis by (cases "row_of tb i") simp_all
qed

lemma keeps_id_updates [simp]:
  "keeps_id (recovered_row t)" "keeps_id (failure_update job err t st)" "keeps_id (retried_row t)" "keeps_id (canceled_row t)"
  "keeps_id (\<lambda>r. r\<lparr>jr_state := a, jr_processing_started_at := b, jr_processing_token := c, jr_updated_at := d\<rparr>)"
  "keeps_id (\<lambda>r. r\<lparr>jr_state := a, jr_available_at := e, jr_processing_started_at := b, jr_processing_token := c, jr_last_error := f, jr_updated_at := d\<rparr>)"
  by (simp_all add: keeps_id_def recovered_row_def failure_update_def retried_row_def canceled_row_def)

section \<open>Administration\<close>

lemma admin_effect:
  assumes "no_peers env" "admin_command env ctxErr jobID f w = (e, w')" "\<And>i w. sw_tables (snd (f i w)) = sw_tables w"
  shows "sw_tables w' = sw_tables w \<or> (\<exists>i w1 n. fst (f i w1) (sw_tables w) = Some (sw_tables w', n))"
proof -
  consider "w' = w" | i r where "exec env (fst (f i w)) (snd (f i w)) = (r, w')"
    using assms(2) by (auto simp: admin_command_def split: option.splits prod.splits sum.splits) (metis fst_conv snd_conv)+
  then show ?thesis
  proof cases
    case (2 i r)
    from assms(1) 2 show ?thesis by (cases rule: exec_cases) (auto simp: assms(3))
  qed simp
qed

section \<open>Rewriting rows\<close>

text \<open>Every statement but the insertion rewrites each row on its own, to a new content or to
  nothing.\<close>

definition rewritten :: "(job_row \<Rightarrow> job_row option) \<Rightarrow> sql_tables \<Rightarrow> sql_tables \<Rightarrow> bool" where
  "rewritten F tb tb' \<longleftrightarrow> tables_ok tb' \<and> tb_next_id tb' = tb_next_id tb \<and> (\<forall>i. row_of tb' i = Option.bind (row_of tb i) F)"

lemma rewritten_none: "tables_ok tb' \<Longrightarrow> same_rows tb tb' \<Longrightarrow> rewritten Some tb tb'"
  using row_of_same [of tb tb'] by (simp add: rewritten_def same_rows_def)

lemma rewritten_update:
  assumes "tables_ok tb" "update_jobs P f tb = Some (tb', n)" "keeps_id f"
  shows "rewritten (\<lambda>r. Some (if P r then f r else r)) tb tb'"
proof -
  have "row_of tb' i = Option.bind (row_of tb i) (\<lambda>r. Some (if P r then f r else r))" for i
    using row_of_update [OF assms(2,3), of i] by (cases "row_of tb i") simp_all
  moreover have "tb_next_id tb' = tb_next_id tb" using assms(2) by (auto simp: update_jobs_def)
  ultimately show ?thesis using update_jobs_ok [OF assms(1,3,2)] by (simp add: rewritten_def)
qed

lemma rewritten_delete:
  assumes "tables_ok tb" "delete_jobs P tb = Some (tb', n)"
  shows "rewritten (\<lambda>r. if P r then None else Some r) tb tb'"
proof -
  have "row_of tb' i = Option.bind (row_of tb i) (\<lambda>r. if P r then None else Some r)" for i
    using row_of_delete [OF assms(2,1), of i] by (cases "row_of tb i") simp_all
  moreover have "tb_next_id tb' = tb_next_id tb" using assms(2) by (auto simp: delete_jobs_def)
  ultimately show ?thesis using delete_jobs_ok [OF assms] by (simp add: rewritten_def)
qed

lemma same_rows_ok: "same_rows tb tb' \<Longrightarrow> tables_ok tb' = tables_ok tb"
  by (simp add: same_rows_def tables_ok_def)

lemma row_added_ok: "row_added row tb tb' \<Longrightarrow> tables_ok tb \<Longrightarrow> tables_ok tb'"
  by (fastforce simp: tables_ok_def row_added_def sorted_wrt_append)

lemma rewritten_bind: "rewritten F tb tb' \<Longrightarrow> row_of tb' i = Some r' \<longleftrightarrow> (\<exists>r. row_of tb i = Some r \<and> F r = Some r')"
  by (auto simp: rewritten_def bind_eq_Some_conv)

section \<open>Runs\<close>

text \<open>A worker runs the handler of its claim, then holds the outcome until the row is settled.
  A run also remembers the job sent for each id and the row each generation token was drawn
  for; nothing reads these two.\<close>

datatype work = Running db_job | Finished db_job "goerr option"

primrec work_job :: "work \<Rightarrow> db_job" where
  "work_job (Running job) = job"
| "work_job (Finished job _) = job"

record qrun =
  qr_tables :: sql_tables
  qr_workers :: "nat \<rightharpoonup> work"
  qr_gens :: "string \<rightharpoonup> int"
  qr_sent :: "int \<rightharpoonup> qjob"

definition run_start :: qrun where
  "run_start = \<lparr>qr_tables = empty_tables, qr_workers = Map.empty, qr_gens = Map.empty, qr_sent = Map.empty\<rparr>"

definition record_generations :: "sql_tables \<Rightarrow> (string \<rightharpoonup> int) \<Rightarrow> string \<rightharpoonup> int" where
  "record_generations tb gens t = (case gens t of Some i \<Rightarrow> Some i
     | None \<Rightarrow> map_option jr_id (List.find (\<lambda>r. jr_state r = ''processing'' \<and> jr_processing_token r = Some t) (tb_jobs tb)))"

text \<open>The random source fills its buffer and does not repeat a token of an earlier generation.\<close>

definition fresh_tokens :: "sql_env \<Rightarrow> qrun \<Rightarrow> bool" where
  "fresh_tokens env s \<longleftrightarrow> (\<forall>n b. oe_rand env n 16 = Inr b \<longrightarrow> length b = 16 \<and> qr_gens s (hex_encode b) = None)"

text \<open>The actions, with the time and configuration of a claim.\<close>

datatype action = Dispatch qjob | Claim nat db_config int | Finish nat | Done nat | Fail nat | Restore nat | Drop nat
  | AdminRetry | AdminCancel | AdminDelete

inductive qstep :: "qrun \<Rightarrow> action \<Rightarrow> qrun \<Rightarrow> bool" where
  dispatch: "\<lbrakk>no_peers env; sw_tables w = qr_tables s; sql_Dispatch cfg env handlers ctx job w = (e, w')\<rbrakk>
    \<Longrightarrow> qstep s (Dispatch job) (s\<lparr>qr_tables := sw_tables w',
          qr_sent := (if tb_next_id (sw_tables w') = tb_next_id (sw_tables w) then qr_sent s else (qr_sent s)(tb_next_id (sw_tables w) \<mapsto> job))\<rparr>)"
| claim: "\<lbrakk>no_peers env; sw_tables w = qr_tables s; fresh_tokens env s; qr_workers s k = None; claimOne cfg env w = (x, w')\<rbrakk>
    \<Longrightarrow> qstep s (Claim k cfg (unix_milli (fst (time_Now env w)))) (s\<lparr>qr_tables := sw_tables w',
          qr_workers := (case x of Inr (Some job) \<Rightarrow> (qr_workers s)(k \<mapsto> Running job) | _ \<Rightarrow> qr_workers s),
          qr_gens := record_generations (sw_tables w') (qr_gens s)\<rparr>)"
| finish: "qr_workers s k = Some (Running job)
    \<Longrightarrow> qstep s (Finish k) (s\<lparr>qr_workers := (qr_workers s)(k \<mapsto> Finished (job\<lparr>dj_applicationStateCommitted := b\<rparr>) err)\<rparr>)"
| success: "\<lbrakk>no_peers env; sw_tables w = qr_tables s; qr_workers s k = Some (Finished job None); markDone env job w = (e, w')\<rbrakk>
    \<Longrightarrow> qstep s (Done k) (s\<lparr>qr_tables := sw_tables w', qr_workers := (if e = None then (qr_workers s)(k := None) else qr_workers s)\<rparr>)"
| failure: "\<lbrakk>no_peers env; sw_tables w = qr_tables s; qr_workers s k = Some (Finished job (Some err)); markFailed env job err w = (e, w')\<rbrakk>
    \<Longrightarrow> qstep s (Fail k) (s\<lparr>qr_tables := sw_tables w', qr_workers := (if e = None then (qr_workers s)(k := None) else qr_workers s)\<rparr>)"
| restore: "\<lbrakk>no_peers env; sw_tables w = qr_tables s; qr_workers s k = Some (Finished job err);
      restoreRecoveredSettlementLineage cfg env job settlementErr w = (e, w')\<rbrakk>
    \<Longrightarrow> qstep s (Restore k) (s\<lparr>qr_tables := sw_tables w', qr_workers := (qr_workers s)(k := None)\<rparr>)"
| drop: "qstep s (Drop k) (s\<lparr>qr_workers := (qr_workers s)(k := None)\<rparr>)"
| admin_retry: "\<lbrakk>no_peers env; sw_tables w = qr_tables s; RetryJob env ctxErr queueName jobID w = (e, w')\<rbrakk>
    \<Longrightarrow> qstep s AdminRetry (s\<lparr>qr_tables := sw_tables w'\<rparr>)"
| admin_cancel: "\<lbrakk>no_peers env; sw_tables w = qr_tables s; CancelJob env ctxErr jobID w = (e, w')\<rbrakk>
    \<Longrightarrow> qstep s AdminCancel (s\<lparr>qr_tables := sw_tables w'\<rparr>)"
| admin_delete: "\<lbrakk>no_peers env; sw_tables w = qr_tables s;
      DeleteJob env ctxErr queueName jobID w = (e, w') \<or> ClearQueue env ctxErr queueName w = (e, w')\<rbrakk>
    \<Longrightarrow> qstep s AdminDelete (s\<lparr>qr_tables := sw_tables w'\<rparr>)"

inductive qsteps :: "qrun \<Rightarrow> action list \<Rightarrow> qrun \<Rightarrow> bool" where
  start: "qsteps s [] s"
| more: "qsteps s as s' \<Longrightarrow> qstep s' a s'' \<Longrightarrow> qsteps s (as @ [a]) s''"


section \<open>What a step may do to a row\<close>

definition new_token :: "qrun \<Rightarrow> string \<Rightarrow> bool" where
  "new_token s token \<longleftrightarrow> qr_gens s token = None \<and> token \<noteq> databaseRecoveryMarker \<and> token \<noteq> []"

definition taken_row :: "int \<Rightarrow> string \<Rightarrow> job_row \<Rightarrow> job_row" where
  "taken_row t token r = r\<lparr>jr_state := ''processing'', jr_processing_started_at := Some t, jr_processing_token := Some token, jr_updated_at := t\<rparr>"

definition restored_row :: "int \<Rightarrow> string \<Rightarrow> string \<Rightarrow> int \<Rightarrow> job_row \<Rightarrow> job_row" where
  "restored_row availableAt recovery msg t r = r\<lparr>jr_state := ''pending'', jr_available_at := availableAt, jr_processing_started_at := None,
     jr_processing_token := Some recovery, jr_last_error := Some msg, jr_updated_at := t\<rparr>"

definition owns :: "db_job \<Rightarrow> job_row \<Rightarrow> bool" where
  "owns job r \<longleftrightarrow> owned (dj_id job) (dj_processingToken job) r"

inductive change :: "qrun \<Rightarrow> action \<Rightarrow> job_row \<Rightarrow> job_row option \<Rightarrow> bool" for s where
  recovered: "stale_row cfg t r \<Longrightarrow> change s (Claim k cfg t) r (Some (recovered_row t r))"
| taken: "\<lbrakk>r1 = r \<or> stale_row cfg t r \<and> r1 = recovered_row t r; ready_row cfg t r1; new_token s token\<rbrakk>
    \<Longrightarrow> change s (Claim k cfg t) r (Some (taken_row t token r1))"
| deleted: "\<lbrakk>qr_workers s k = Some (Finished job None); owns job r\<rbrakk> \<Longrightarrow> change s (Done k) r None"
| failed: "\<lbrakk>qr_workers s k = Some (Finished job (Some err)); owns job r; classifyDatabaseFailure job (Some err) t = Inr st\<rbrakk>
    \<Longrightarrow> change s (Fail k) r (Some (failure_update job err t st r))"
| restored: "\<lbrakk>qr_workers s k = Some (Finished job err); owns job r; databaseSettlementRecoveryToken (Some job) = Inr (Some recovery)\<rbrakk>
    \<Longrightarrow> change s (Restore k) r (Some (restored_row availableAt recovery msg t r))"
| retried: "change s AdminRetry r (Some (retried_row t r))"
| canceled: "change s AdminCancel r (Some (canceled_row t r))"
| discarded: "change s AdminDelete r None"

text \<open>A step on the table that rewrites rows changes each as allowed.\<close>

definition changes :: "qrun \<Rightarrow> action \<Rightarrow> sql_tables \<Rightarrow> bool" where
  "changes s a tb' \<longleftrightarrow> (\<exists>F. rewritten F (qr_tables s) tb' \<and> (\<forall>r. row_of (qr_tables s) (jr_id r) = Some r \<longrightarrow> F r = Some r \<or> change s a r (F r)))"

lemma changes_none: "tables_ok tb' \<Longrightarrow> tb' = qr_tables s \<Longrightarrow> changes s a tb'"
  unfolding changes_def by (metis rewritten_none same_rows_refl)

lemma changes_update:
  assumes "tables_ok (qr_tables s)" "update_jobs P f (qr_tables s) = Some (tb', n)" "keeps_id f" "\<And>r. P r \<Longrightarrow> change s a r (Some (f r))"
  shows "changes s a tb'"
  unfolding changes_def using rewritten_update [OF assms(1-3)] assms(4) by (intro exI conjI allI impI) auto

lemma changes_delete:
  assumes "tables_ok (qr_tables s)" "delete_jobs P (qr_tables s) = Some (tb', n)" "\<And>r. P r \<Longrightarrow> change s a r None"
  shows "changes s a tb'"
  unfolding changes_def using rewritten_delete [OF assms(1-2)] assms(3) by (intro exI conjI allI impI) auto

lemma hex_encode_length [simp]: "length (hex_encode b) = 2 * length b"
  by (induction b) (auto simp: hex_encode_def)

lemma fresh_new_token:
  assumes "fresh_tokens env s" "drawn env token"
  shows "new_token s token"
proof -
  obtain n b where b: "oe_rand env n 16 = Inr b" "token = hex_encode b" using assms(2) by (auto simp: drawn_def)
  with assms(1) have "length token = 32" "qr_gens s token = None" by (auto simp: fresh_tokens_def)
  moreover have "length databaseRecoveryMarker = 43" by (simp add: databaseRecoveryMarker_def)
  ultimately show ?thesis by (auto simp: new_token_def)
qed

lemma rewritten_compose: "rewritten F tb tb1 \<Longrightarrow> rewritten G tb1 tb' \<Longrightarrow> rewritten (\<lambda>r. Option.bind (F r) G) tb tb'"
  by (simp add: rewritten_def)

text \<open>A claim recovers the expired leases and takes at most one ready row.\<close>

definition recover_if :: "db_config \<Rightarrow> int \<Rightarrow> job_row \<Rightarrow> job_row" where
  "recover_if cfg t r = (if stale_row cfg t r then recovered_row t r else r)"

lemma recover_if_id [simp]: "jr_id (recover_if cfg t r) = jr_id r"
  by (simp add: recover_if_def recovered_row_def)

lemma claim_rewritten:
  assumes "no_peers env" "claimOne cfg env w = (x, w')" "tables_ok (sw_tables w)" "t = unix_milli (fst (time_Now env w))"
  obtains (idle) F where "rewritten (\<lambda>r. Some (F r)) (sw_tables w) (sw_tables w')" "F = (\<lambda>r. r) \<or> F = recover_if cfg t" "\<And>job. x \<noteq> Inr (Some job)"
    | (takes) r token where "row_of (sw_tables w) (jr_id r) = Some r" "ready_row cfg t (recover_if cfg t r)" "drawn env token"
        "rewritten (\<lambda>q. Some (if jr_id q = jr_id r then taken_row t token (recover_if cfg t q) else recover_if cfg t q)) (sw_tables w) (sw_tables w')"
        "x = Inr (Some ((claimed_job (recover_if cfg t r))\<lparr>dj_processingToken := token\<rparr>)) \<or> (\<exists>err. x = Inl err)"
  using assms(1,2)
proof (cases rule: claimOne_cases)
  case (kept err)
  then show thesis using that(1) [of "\<lambda>r. r"] rewritten_none [OF assms(3), of "sw_tables w"] by simp
next
  case (recovered t' tb n)
  then have t: "t' = t" using assms(4) by simp
  have R: "rewritten (\<lambda>r. Some (recover_if cfg t r)) (sw_tables w) tb"
    using rewritten_update [OF assms(3) recovered(2)] t by (simp add: recover_if_def cong: if_cong)
  then have ok: "tables_ok tb" by (simp add: rewritten_def)
  from recovered(3) show thesis
  proof
    assume "sw_tables w' = tb \<and> (\<forall>job. x \<noteq> Inr (Some job))"
    then show thesis using that(1) [of "recover_if cfg t"] R by simp
  next
    assume "\<exists>r token. claim_applied cfg env t' tb (sw_tables w') r token
        \<and> (x = Inr (Some ((claimed_job r)\<lparr>dj_processingToken := token\<rparr>)) \<or> (\<exists>err. x = Inl err))"
    then obtain q token where q: "first_ready cfg env t tb q" "drawn env token" "claim_statement t token (jr_id q) tb = Some (sw_tables w', 1)"
        "x = Inr (Some ((claimed_job q)\<lparr>dj_processingToken := token\<rparr>)) \<or> (\<exists>err. x = Inl err)"
      by (auto simp: claim_applied_def t)
    have q': "row_of tb (jr_id q) = Some q" "ready_row cfg t q" using first_ready_row [OF q(1)] row_of_iff [OF ok] by auto
    then obtain r where r0: "row_of (sw_tables w) (jr_id q) = Some r" and r2: "q = recover_if cfg t r" using rewritten_bind [OF R] by auto
    have ir: "jr_id q = jr_id r" using row_of_id [OF r0] by simp
    then have r1: "row_of (sw_tables w) (jr_id r) = Some r" using r0 by simp
    have C: "rewritten (\<lambda>r. Some (if jr_id r = jr_id q \<and> jr_state r = ''pending'' then taken_row t token r else r)) tb (sw_tables w')"
      using rewritten_update [OF ok q(3) [unfolded claim_statement_def]] by (simp add: taken_row_def cong: if_cong)
    show thesis
    proof (rule that(2) [of r token])
      show "row_of (sw_tables w) (jr_id r) = Some r" "ready_row cfg t (recover_if cfg t r)" "drawn env token"
        using r1 q'(2) q(2) unfolding r2 .
      show "x = Inr (Some ((claimed_job (recover_if cfg t r))\<lparr>dj_processingToken := token\<rparr>)) \<or> (\<exists>err. x = Inl err)" using q(4) unfolding r2 .
      let ?F = "\<lambda>p. Some (if jr_id p = jr_id r then taken_row t token (recover_if cfg t p) else recover_if cfg t p)"
      have "row_of (sw_tables w') i = Option.bind (row_of (sw_tables w) i) ?F" for i
      proof (cases "row_of (sw_tables w) i")
        case None
        then show ?thesis using R C by (simp add: rewritten_def)
      next
        case (Some p)
        then have p: "row_of tb i = Some (recover_if cfg t p)" "jr_id p = i" using R row_of_id by (auto simp: rewritten_def)
        have "i = jr_id r \<Longrightarrow> jr_state (recover_if cfg t p) = ''pending''" using Some r1 q'(2) unfolding r2 by (simp add: ready_row_def)
        then show ?thesis using C p Some ir by (auto simp: rewritten_def)
      qed
      then show "rewritten ?F (sw_tables w) (sw_tables w')" using R C by (simp add: rewritten_def)
    qed
  qed
qed

lemma claim_changes:
  assumes "no_peers env" "claimOne cfg env w = (x, w')" "tables_ok (sw_tables w)" "sw_tables w = qr_tables s" "fresh_tokens env s"
  shows "changes s (Claim k cfg (unix_milli (fst (time_Now env w)))) (sw_tables w')"
  using assms(1-3) refl
proof (cases rule: claim_rewritten)
  case (idle F)
  then show ?thesis unfolding changes_def using assms(4) by (auto simp: recover_if_def intro!: exI [of _ "\<lambda>r. Some (F r)"] change.recovered)
next
  case (takes r token)
  let ?t = "unix_milli (fst (time_Now env w))"
  let ?F = "\<lambda>q. Some (if jr_id q = jr_id r then taken_row ?t token (recover_if cfg ?t q) else recover_if cfg ?t q)"
  have "?F q = Some q \<or> change s (Claim k cfg ?t) q (?F q)" if "row_of (qr_tables s) (jr_id q) = Some q" for q
  proof (cases "jr_id q = jr_id r")
    case True
    then have "q = r" using that takes(1) assms(4) by simp
    then have "ready_row cfg ?t (recover_if cfg ?t q)" "recover_if cfg ?t q = q \<or> stale_row cfg ?t q \<and> recover_if cfg ?t q = recovered_row ?t q"
      using takes(2) by (auto simp: recover_if_def)
    with True show ?thesis using change.taken [OF _ _ fresh_new_token [OF assms(5) takes(3)]] by simp
  next
    case False
    then show ?thesis by (auto simp: recover_if_def intro: change.recovered)
  qed
  with takes(4) [unfolded assms(4)] show ?thesis unfolding changes_def by blast
qed

lemma admin_changes:
  assumes np: "no_peers env" and ok: "tables_ok (sw_tables w)" and tb: "sw_tables w = qr_tables s"
  shows "RetryJob env ctxErr queueName jobID w = (e, w') \<Longrightarrow> changes s AdminRetry (sw_tables w')"
    and "CancelJob env ctxErr jobID w = (e, w') \<Longrightarrow> changes s AdminCancel (sw_tables w')"
    and "DeleteJob env ctxErr queueName jobID w = (e, w') \<Longrightarrow> changes s AdminDelete (sw_tables w')"
    and "ClearQueue env ctxErr queueName w = (e, w') \<Longrightarrow> changes s AdminDelete (sw_tables w')"
proof -
  note ok' = ok [unfolded tb]
  have kept: "sw_tables w' = sw_tables w \<Longrightarrow> changes s a (sw_tables w')" for a using changes_none ok tb by simp
  show "changes s AdminRetry (sw_tables w')" if "RetryJob env ctxErr queueName jobID w = (e, w')"
    using admin_effect [OF np that [unfolded RetryJob_def]] kept changes_update [OF ok' _ keeps_id_updates(3)] change.retried
    by (auto simp: case_prod_beta tb)
  show "changes s AdminCancel (sw_tables w')" if "CancelJob env ctxErr jobID w = (e, w')"
    using admin_effect [OF np that [unfolded CancelJob_def]] kept changes_update [OF ok' _ keeps_id_updates(4)] change.canceled
    by (auto simp: case_prod_beta tb)
  show "changes s AdminDelete (sw_tables w')" if "DeleteJob env ctxErr queueName jobID w = (e, w')"
    using admin_effect [OF np that [unfolded DeleteJob_def]] kept changes_delete [OF ok'] change.discarded by (auto simp: tb)
  show "changes s AdminDelete (sw_tables w')" if run: "ClearQueue env ctxErr queueName w = (e, w')"
  proof -
    consider "w' = w" | r where "exec env (delete_jobs (\<lambda>r. jr_queue_name r = NormalizeQueueName queueName)) w = (r, w')"
      using run by (auto simp: ClearQueue_def split: option.splits prod.splits sum.splits)
    then show ?thesis
    proof cases
      case (2 r)
      from np 2 show ?thesis
        by (cases rule: exec_cases) (use kept changes_delete [OF ok'] change.discarded tb in auto)
    qed (use kept in simp)
  qed
qed

lemma step_changes:
  assumes "qstep s a s'" "tables_ok (qr_tables s)" "\<And>job. a \<noteq> Dispatch job"
  shows "changes s a (qr_tables s')"
  using assms(1)
proof cases
  case (claim env w k cfg x w')
  then show ?thesis using claim_changes [of env cfg w x w' s k] assms(2) by simp
next
  case (success env w k job e w')
  from success(3,6) show ?thesis
    by (cases rule: markDone_cases)
      (use success assms(2) changes_none changes_delete [OF assms(2)] change.deleted in \<open>auto simp: owns_def\<close>)
next
  case (failure env w k job err e w')
  from failure(3,6) show ?thesis
    by (cases rule: markFailed_cases)
      (use failure assms(2) changes_none changes_update [OF assms(2)] change.failed in \<open>auto simp: owns_def\<close>)
next
  case (restore env w k job err cfg settlementErr e w')
  from restore(3,6) show ?thesis
  proof (cases rule: restore_cases)
    case (applied n availableAt recovery msg t)
    then show ?thesis using restore changes_update [OF assms(2), of _ "restored_row availableAt recovery msg t"] change.restored
      by (auto simp: owns_def restore_statement_def restored_row_def [abs_def])
  qed (use restore assms(2) changes_none in auto)
next
  case (admin_delete env w ctxErr queueName jobID e w')
  then show ?thesis using admin_changes(3,4) [of env w s] assms(2) by auto
next
  case (admin_retry env w ctxErr queueName jobID e w')
  then show ?thesis using admin_changes(1) [of env w s] assms(2) by auto
next
  case (admin_cancel env w ctxErr jobID e w')
  then show ?thesis using admin_changes(2) [of env w s] assms(2) by auto
qed (use assms changes_none in auto)

lemma dispatch_effect:
  assumes "qstep s (Dispatch job) s'" "tables_ok (qr_tables s)"
  shows "qr_workers s' = qr_workers s \<and> qr_gens s' = qr_gens s \<and> (same_rows (qr_tables s) (qr_tables s') \<and> qr_sent s' = qr_sent s
      \<or> (\<exists>metadata t. row_added (dispatched_row job metadata t) (qr_tables s) (qr_tables s')) \<and> qr_sent s' = (qr_sent s)(tb_next_id (qr_tables s) \<mapsto> job))"
  using assms(1)
proof cases
  case (dispatch env w cfg handlers ctx e w')
  from sql_Dispatch_cases [OF dispatch(2,4)]
  show ?thesis using dispatch(1,3) by (auto simp: same_rows_def row_added_def)
qed

end
