(* ===== verification/SqlRuns.thy ===== *)
theory SqlRuns
  imports SqlSteps
begin

text \<open>
  Single rows followed through the runs of the SQL queue: who may change a row, that a
  delivery has one owner, that a delivery carries what was dispatched, how often a job is
  attempted, and what a recovered delivery is told.
\<close>

section \<open>The invariant\<close>

text \<open>What a row and a claim carry from the dispatched job.\<close>

definition content :: "job_row \<Rightarrow> string \<times> string \<times> bytes \<times> string option \<times> int option \<times> int \<times> int" where
  "content r = (jr_queue_name r, jr_job_type r, jr_payload r, jr_metadata_json r, jr_timeout_seconds r, jr_max_retry r, jr_backoff_millis r)"

definition job_content :: "db_job \<Rightarrow> string \<times> string \<times> bytes \<times> string option \<times> int option \<times> int \<times> int" where
  "job_content j = (dj_queueName j, dj_jobType j, dj_payload j, dj_metadataJSON j, dj_timeoutSeconds j, dj_maxRetry j, dj_backoffMillis j)"

definition carries :: "qjob option \<Rightarrow> string \<times> string \<times> bytes \<times> string option \<times> int option \<times> int \<times> int \<Rightarrow> bool" where
  "carries sent c \<longleftrightarrow> (\<exists>job metadata t. sent = Some job \<and> c = content (dispatched_row job metadata t))"

definition row_inv :: "qrun \<Rightarrow> job_row \<Rightarrow> bool" where
  "row_inv s r \<longleftrightarrow> carries (qr_sent s (jr_id r)) (content r)
     \<and> (\<forall>token. jr_processing_token r = Some token \<longrightarrow> token = databaseRecoveryMarker \<or> qr_gens s token = Some (jr_id r))
     \<and> (jr_state r = ''processing'' \<longrightarrow> (\<exists>token. jr_processing_token r = Some token \<and> qr_gens s token = Some (jr_id r)))"

definition job_inv :: "qrun \<Rightarrow> db_job \<Rightarrow> bool" where
  "job_inv s j \<longleftrightarrow> carries (qr_sent s (dj_id j)) (job_content j) \<and> qr_gens s (dj_processingToken j) = Some (dj_id j)
     \<and> (dj_recoveryToken j = [] \<or> qr_gens s (dj_recoveryToken j) = Some (dj_id j) \<and> dj_recoveryToken j \<noteq> dj_processingToken j)"

definition run_inv :: "qrun \<Rightarrow> bool" where
  "run_inv s \<longleftrightarrow> tables_ok (qr_tables s) \<and> (\<forall>i. qr_sent s i \<noteq> None \<longrightarrow> i < tb_next_id (qr_tables s))
     \<and> qr_gens s databaseRecoveryMarker = None
     \<and> (\<forall>i r. row_of (qr_tables s) i = Some r \<longrightarrow> row_inv s r)
     \<and> (\<forall>k wk. qr_workers s k = Some wk \<longrightarrow> job_inv s (work_job wk))
     \<and> (\<forall>k k' wk wk'. qr_workers s k = Some wk \<and> qr_workers s k' = Some wk' \<and> dj_processingToken (work_job wk) = dj_processingToken (work_job wk') \<longrightarrow> k = k')
     \<and> (\<forall>k wk r. qr_workers s k = Some wk \<and> row_of (qr_tables s) (dj_id (work_job wk)) = Some r \<and> owns (work_job wk) r
          \<longrightarrow> dj_attempt (work_job wk) = jr_attempt r \<and> dj_maxRetry (work_job wk) = jr_max_retry r)"

text \<open>The parts that only look at a row and at the ghost records are stable as these records
  grow.\<close>

definition keeps_records :: "qrun \<Rightarrow> qrun \<Rightarrow> bool" where
  "keeps_records s s' \<longleftrightarrow> (\<forall>t i. qr_gens s t = Some i \<longrightarrow> qr_gens s' t = Some i) \<and> (\<forall>i job. qr_sent s i = Some job \<longrightarrow> qr_sent s' i = Some job)"

lemma carries_keeps_records: "keeps_records s s' \<Longrightarrow> carries (qr_sent s i) c \<Longrightarrow> carries (qr_sent s' i) c"
  unfolding keeps_records_def carries_def by blast

lemma row_inv_keeps_records: "keeps_records s s' \<Longrightarrow> row_inv s r \<Longrightarrow> row_inv s' r"
  unfolding row_inv_def using carries_keeps_records by (auto simp: keeps_records_def)

lemma job_inv_keeps_records: "keeps_records s s' \<Longrightarrow> job_inv s j \<Longrightarrow> job_inv s' j"
  unfolding job_inv_def using carries_keeps_records by (auto simp: keeps_records_def)

text \<open>Rewriting a row keeps its content, and gives it no token but one it may carry.\<close>

lemma row_inv_change:
  assumes "row_inv s r" "change s a r (Some r')" "run_inv s" "\<And>k cfg t. a \<noteq> Claim k cfg t"
  shows "row_inv s r'"
proof -
  have job: "job_inv s job" if "qr_workers s k = Some (Finished job err)" for k job err
    using assms(3) that by (fastforce simp: run_inv_def)
  from assms(2) show ?thesis
  proof cases
    case (failed k job err t st)
    then show ?thesis using assms(1) job [OF failed(3)]
      by (auto simp: row_inv_def failure_update_def content_def databasePendingRecoveryToken_def job_inv_def owns_def owned_def split: if_splits)
  next
    case (restored k job err recovery availableAt msg t)
    then show ?thesis using assms(1) job [OF restored(3)]
      by (auto simp: row_inv_def restored_row_def content_def databaseSettlementRecoveryToken_def job_inv_def owns_def owned_def split: if_splits)
  qed (use assms(1,4) in \<open>auto simp: row_inv_def retried_row_def canceled_row_def content_def\<close>)
qed

lemma row_inv_recover: "row_inv s r \<Longrightarrow> row_inv s (recover_if cfg t r)"
  by (auto simp: row_inv_def recover_if_def recovered_row_def content_def split: option.splits)

lemma recover_if_owned: "owns j (recover_if cfg t r) \<longleftrightarrow> owns j r \<and> \<not> stale_row cfg t r"
  by (auto simp: owns_def owned_def recover_if_def recovered_row_def)

lemma recover_if_fields [simp]: "content (recover_if cfg t r) = content r" "jr_attempt (recover_if cfg t r) = jr_attempt r" "jr_max_retry (recover_if cfg t r) = jr_max_retry r"
  by (simp_all add: recover_if_def recovered_row_def content_def)

text \<open>The tokens in the table tell which generations exist.\<close>

lemma record_same:
  assumes "\<And>i r token. row_of tb i = Some r \<Longrightarrow> jr_state r = ''processing'' \<Longrightarrow> jr_processing_token r = Some token \<Longrightarrow> gens token \<noteq> None"
    and "tables_ok tb"
  shows "record_generations tb gens = gens"
proof
  fix t
  have "List.find (\<lambda>r. jr_state r = ''processing'' \<and> jr_processing_token r = Some t) (tb_jobs tb) = None" if "gens t = None"
    using assms(1) row_of_iff [OF assms(2)] that unfolding find_None_iff by blast
  then show "record_generations tb gens t = gens t" by (cases "gens t") (simp_all add: record_generations_def)
qed

lemma record_taken:
  assumes "\<And>i r t. row_of tb i = Some r \<Longrightarrow> jr_state r = ''processing'' \<Longrightarrow> jr_processing_token r = Some t \<Longrightarrow> gens t \<noteq> None \<or> t = token \<and> jr_id r = j"
    and "tables_ok tb" "row_of tb j = Some r0" "jr_state r0 = ''processing''" "jr_processing_token r0 = Some token" "gens token = None"
  shows "record_generations tb gens = gens(token \<mapsto> j)"
proof
  fix t
  let ?f = "List.find (\<lambda>r. jr_state r = ''processing'' \<and> jr_processing_token r = Some t) (tb_jobs tb)"
  note rows = row_of_iff [OF assms(2)]
  show "record_generations tb gens t = (gens(token \<mapsto> j)) t"
  proof (cases "t = token")
    case True
    then have "?f \<noteq> None" using assms(3-5) rows unfolding find_None_iff by blast
    then obtain r where r: "?f = Some r" by blast
    then have "r \<in> set (tb_jobs tb)" "jr_state r = ''processing''" "jr_processing_token r = Some token" using True by (auto simp: find_Some_iff)
    then have "jr_id r = j" using assms(1,6) rows by blast
    then show ?thesis using True r assms(6) by (simp add: record_generations_def)
  next
    case False
    have "?f = None" if "gens t = None" using assms(1) rows that False unfolding find_None_iff by blast
    then show ?thesis using False by (cases "gens t") (simp_all add: record_generations_def)
  qed
qed

lemma run_invD:
  assumes "run_inv s"
  shows "tables_ok (qr_tables s)" "qr_sent s i \<noteq> None \<Longrightarrow> i < tb_next_id (qr_tables s)" "qr_gens s databaseRecoveryMarker = None"
    "row_of (qr_tables s) i = Some r \<Longrightarrow> row_inv s r" "qr_workers s k = Some wk \<Longrightarrow> job_inv s (work_job wk)"
    "qr_workers s k = Some wk \<Longrightarrow> qr_workers s k' = Some wk' \<Longrightarrow> dj_processingToken (work_job wk) = dj_processingToken (work_job wk') \<Longrightarrow> k = k'"
    "qr_workers s k = Some wk \<Longrightarrow> row_of (qr_tables s) (dj_id (work_job wk)) = Some r \<Longrightarrow> owns (work_job wk) r
      \<Longrightarrow> dj_attempt (work_job wk) = jr_attempt r \<and> dj_maxRetry (work_job wk) = jr_max_retry r"
  using assms unfolding run_inv_def by blast+

lemma run_invI:
  assumes "tables_ok (qr_tables s)" "\<And>i. qr_sent s i \<noteq> None \<Longrightarrow> i < tb_next_id (qr_tables s)" "qr_gens s databaseRecoveryMarker = None"
    "\<And>i r. row_of (qr_tables s) i = Some r \<Longrightarrow> row_inv s r" "\<And>k wk. qr_workers s k = Some wk \<Longrightarrow> job_inv s (work_job wk)"
    "\<And>k k' wk wk'. qr_workers s k = Some wk \<Longrightarrow> qr_workers s k' = Some wk' \<Longrightarrow> dj_processingToken (work_job wk) = dj_processingToken (work_job wk') \<Longrightarrow> k = k'"
    "\<And>k wk r. qr_workers s k = Some wk \<Longrightarrow> row_of (qr_tables s) (dj_id (work_job wk)) = Some r \<Longrightarrow> owns (work_job wk) r
      \<Longrightarrow> dj_attempt (work_job wk) = jr_attempt r \<and> dj_maxRetry (work_job wk) = jr_max_retry r"
  shows "run_inv s"
  using assms unfolding run_inv_def by blast

lemma change_releases: "change s a r (Some r') \<Longrightarrow> (\<And>k cfg t. a \<noteq> Claim k cfg t) \<Longrightarrow> jr_state r' \<noteq> ''processing'' \<and> jr_id r' = jr_id r"
  by (erule change.cases) (auto simp: failure_update_def restored_row_def retried_row_def canceled_row_def)

lemma changes_row:
  assumes "changes s a tb'" "row_of tb' i = Some r'" "tables_ok (qr_tables s)"
  shows "\<exists>r. row_of (qr_tables s) i = Some r \<and> (r' = r \<or> change s a r (Some r'))"
proof -
  obtain F where F: "rewritten F (qr_tables s) tb'" "\<forall>r. row_of (qr_tables s) (jr_id r) = Some r \<longrightarrow> F r = Some r \<or> change s a r (F r)"
    using assms(1) by (auto simp: changes_def)
  then obtain r where r: "row_of (qr_tables s) i = Some r" "F r = Some r'" using rewritten_bind assms(2) by blast
  then have "r' = r \<or> change s a r (Some r')" using F(2) row_of_id [OF r(1)] by auto
  with r(1) show ?thesis by blast
qed

lemma run_inv_rewritten:
  assumes inv: "run_inv s" and ch: "changes s a (qr_tables s')" and a: "\<And>k cfg t. a \<noteq> Claim k cfg t"
    and same: "qr_gens s' = qr_gens s" "qr_sent s' = qr_sent s"
    and wk: "\<And>k wk'. qr_workers s' k = Some wk' \<Longrightarrow> \<exists>wk b. qr_workers s k = Some wk \<and> work_job wk' = (work_job wk)\<lparr>dj_applicationStateCommitted := b\<rparr>"
  shows "run_inv s'"
proof (rule run_invI)
  have ok: "tables_ok (qr_tables s)" using inv by (rule run_invD)
  have g: "keeps_records s s'" using same by (simp add: keeps_records_def)
  have fields: "job_inv t (j\<lparr>dj_applicationStateCommitted := b\<rparr>) = job_inv t j" for t j b by (simp add: job_inv_def job_content_def)
  show "tables_ok (qr_tables s')" using ch by (auto simp: changes_def rewritten_def)
  show "i < tb_next_id (qr_tables s')" if "qr_sent s' i \<noteq> None" for i
    using run_invD(2) [OF inv, of i] ch same that by (auto simp: changes_def rewritten_def)
  show "qr_gens s' databaseRecoveryMarker = None" using run_invD(3) [OF inv] same by simp
  show "row_inv s' r'" if h: "row_of (qr_tables s') i = Some r'" for i r'
  proof -
    obtain r where r: "row_of (qr_tables s) i = Some r" "r' = r \<or> change s a r (Some r')" using changes_row [OF ch h ok] by blast
    then have "row_inv s r'" using run_invD(4) [OF inv r(1)] row_inv_change [OF _ _ inv a] by blast
    then show ?thesis by (rule row_inv_keeps_records [OF g])
  qed
  show "job_inv s' (work_job wk')" if "qr_workers s' k = Some wk'" for k wk'
    using wk [OF that] run_invD(5) [OF inv] job_inv_keeps_records [OF g] by (auto simp: fields)
  show "k = k'" if "qr_workers s' k = Some w1" "qr_workers s' k' = Some w2" "dj_processingToken (work_job w1) = dj_processingToken (work_job w2)" for k k' w1 w2
    using wk [OF that(1)] wk [OF that(2)] that(3) run_invD(6) [OF inv] by fastforce
  show "dj_attempt (work_job wk') = jr_attempt r' \<and> dj_maxRetry (work_job wk') = jr_max_retry r'"
    if h: "qr_workers s' k = Some wk'" "row_of (qr_tables s') (dj_id (work_job wk')) = Some r'" "owns (work_job wk') r'" for k wk' r'
  proof -
    obtain r where r: "row_of (qr_tables s) (dj_id (work_job wk')) = Some r" "r' = r \<or> change s a r (Some r')"
      using changes_row [OF ch h(2) ok] by blast
    then have "r' = r" using h(3) change_releases [OF _ a] by (auto simp: owns_def owned_def)
    then show ?thesis using wk [OF h(1)] run_invD(7) [OF inv] r(1) h(3) by (fastforce simp: owns_def)
  qed
qed

lemma run_inv_dispatch:
  assumes inv: "run_inv s" and run: "qstep s (Dispatch job) s'"
  shows "run_inv s'"
proof -
  note ok = run_invD(1) [OF inv]
  note eff = dispatch_effect [OF run ok]
  then consider "same_rows (qr_tables s) (qr_tables s')" "qr_sent s' = qr_sent s"
    | metadata t where "row_added (dispatched_row job metadata t) (qr_tables s) (qr_tables s')" "qr_sent s' = (qr_sent s)(tb_next_id (qr_tables s) \<mapsto> job)"
    by blast
  then show ?thesis
  proof cases
    case 1
    then have "changes s AdminDelete (qr_tables s')" unfolding changes_def using rewritten_none same_rows_ok ok by blast
    then show ?thesis
    proof (rule run_inv_rewritten [OF inv])
      show "\<exists>wk b. qr_workers s k = Some wk \<and> work_job wk' = (work_job wk)\<lparr>dj_applicationStateCommitted := b\<rparr>" if "qr_workers s' k = Some wk'" for k wk'
        using that eff by (intro exI [of _ wk'] exI [of _ "dj_applicationStateCommitted (work_job wk')"]) simp
    qed (use eff 1(2) in simp_all)
  next
    case (2 metadata t)
    let ?n = "tb_next_id (qr_tables s)" and ?row = "dispatched_row job metadata t"
    note rows = row_of_added [OF 2(1) ok]
    have fresh: "qr_sent s ?n = None" using run_invD(2) [OF inv, of ?n] by (cases "qr_sent s ?n") auto
    then have g: "keeps_records s s'" using eff 2(2) by (auto simp: keeps_records_def)
    have new: "row_inv s' (?row\<lparr>jr_id := ?n\<rparr>)"
      by (auto simp: row_inv_def 2(2) carries_def content_def dispatched_row_def Let_def)
    show ?thesis
    proof (rule run_invI)
      show "tables_ok (qr_tables s')" using row_added_ok [OF 2(1) ok] .
      show "i < tb_next_id (qr_tables s')" if "qr_sent s' i \<noteq> None" for i
        using that run_invD(2) [OF inv, of i] 2 by (auto simp: row_added_def split: if_splits)
      show "qr_gens s' databaseRecoveryMarker = None" using run_invD(3) [OF inv] eff by simp
      show "row_inv s' r" if "row_of (qr_tables s') i = Some r" for i r
        using that new run_invD(4) [OF inv] row_inv_keeps_records [OF g] by (auto simp: rows split: if_splits)
      show "job_inv s' (work_job wk)" if "qr_workers s' k = Some wk" for k wk
        using that eff run_invD(5) [OF inv] job_inv_keeps_records [OF g] by auto
      show "k = k'" if "qr_workers s' k = Some w1" "qr_workers s' k' = Some w2" "dj_processingToken (work_job w1) = dj_processingToken (work_job w2)" for k k' w1 w2
        using that eff run_invD(6) [OF inv] by auto
      show "dj_attempt (work_job wk) = jr_attempt r \<and> dj_maxRetry (work_job wk) = jr_max_retry r"
        if "qr_workers s' k = Some wk" "row_of (qr_tables s') (dj_id (work_job wk)) = Some r" "owns (work_job wk) r" for k wk r
        using that eff run_invD(7) [OF inv] by (auto simp: rows owns_def owned_def dispatched_row_def Let_def split: if_splits)
    qed
  qed
qed

text \<open>A claim that only recovers leases.\<close>

lemma run_inv_recover:
  assumes inv: "run_inv s" and R: "rewritten (\<lambda>r. Some (F r)) (qr_tables s) tb'" and F: "F = (\<lambda>r. r) \<or> F = recover_if cfg t"
  shows "run_inv (s\<lparr>qr_tables := tb', qr_gens := record_generations tb' (qr_gens s)\<rparr>)"
proof -
  have row: "row_inv s r'" if "row_of tb' i = Some r'" for i r'
    using that rewritten_bind [OF R] F row_inv_recover run_invD(4) [OF inv] by auto
  have own: "\<exists>r. row_of (qr_tables s) i = Some r \<and> owns j r \<and> jr_attempt r' = jr_attempt r \<and> jr_max_retry r' = jr_max_retry r"
    if "row_of tb' i = Some r'" "owns j r'" for i j r'
    using that rewritten_bind [OF R] F by (auto simp: recover_if_owned)
  have "record_generations tb' (qr_gens s) = qr_gens s"
  proof (rule record_same)
    show "tables_ok tb'" using R by (simp add: rewritten_def)
    show "qr_gens s token \<noteq> None" if "row_of tb' i = Some r" "jr_state r = ''processing''" "jr_processing_token r = Some token" for i r token
      using row [OF that(1)] that(2,3) by (auto simp: row_inv_def)
  qed
  then have s': "s\<lparr>qr_tables := tb', qr_gens := record_generations tb' (qr_gens s)\<rparr> = s\<lparr>qr_tables := tb'\<rparr>" by simp
  have same: "row_inv (s\<lparr>qr_tables := tb'\<rparr>) = row_inv s" "job_inv (s\<lparr>qr_tables := tb'\<rparr>) = job_inv s"
    by (simp_all add: row_inv_def job_inv_def fun_eq_iff)
  show ?thesis
    unfolding s'
  proof (rule run_invI)
    show "dj_attempt (work_job wk) = jr_attempt r \<and> dj_maxRetry (work_job wk) = jr_max_retry r"
      if "qr_workers (s\<lparr>qr_tables := tb'\<rparr>) k = Some wk" "row_of (qr_tables (s\<lparr>qr_tables := tb'\<rparr>)) (dj_id (work_job wk)) = Some r" "owns (work_job wk) r" for k wk r
      using own [of "dj_id (work_job wk)" r "work_job wk"] that run_invD(7) [OF inv] by auto
    show "k = k'" if "qr_workers (s\<lparr>qr_tables := tb'\<rparr>) k = Some w1" "qr_workers (s\<lparr>qr_tables := tb'\<rparr>) k' = Some w2"
      "dj_processingToken (work_job w1) = dj_processingToken (work_job w2)" for k k' w1 w2
      using that run_invD(6) [OF inv] by simp
  qed (use row run_invD(1-5) [OF inv] R in \<open>simp_all add: same rewritten_def\<close>)
qed

lemma taken_row_fields [simp]:
  "content (taken_row t token r) = content r" "jr_id (taken_row t token r) = jr_id r" "jr_attempt (taken_row t token r) = jr_attempt r"
  "jr_max_retry (taken_row t token r) = jr_max_retry r" "jr_state (taken_row t token r) = ''processing''"
  "jr_processing_token (taken_row t token r) = Some token"
  by (simp_all add: taken_row_def content_def)

lemma claimed_job_fields:
  "job_content (claimed_job r) = content r" "dj_attempt (claimed_job r) = jr_attempt r" "dj_maxRetry (claimed_job r) = jr_max_retry r"
  "dj_recoveryToken (claimed_job r) = [] \<or> jr_processing_token r = Some (dj_recoveryToken (claimed_job r)) \<and> dj_recoveryToken (claimed_job r) \<noteq> databaseRecoveryMarker"
  by (auto simp: claimed_job_def job_content_def content_def databaseRecoveryProof_def split: option.splits prod.splits if_splits)

lemma update_token_fields [simp]: "job_content (j\<lparr>dj_processingToken := t\<rparr>) = job_content j"
  by (simp add: job_content_def)

text \<open>The table and the records after a claim took a row.\<close>

definition claim_table :: "qrun \<Rightarrow> db_config \<Rightarrow> int \<Rightarrow> job_row \<Rightarrow> string \<Rightarrow> sql_tables \<Rightarrow> bool" where
  "claim_table s cfg t r token tb' \<longleftrightarrow> row_of (qr_tables s) (jr_id r) = Some r \<and> new_token s token
     \<and> rewritten (\<lambda>q. Some (if jr_id q = jr_id r then taken_row t token (recover_if cfg t q) else recover_if cfg t q)) (qr_tables s) tb'"

lemma claim_table_rows:
  assumes "claim_table s cfg t r token tb'"
  shows "row_of tb' i = (if i = jr_id r then Some (taken_row t token (recover_if cfg t r)) else map_option (recover_if cfg t) (row_of (qr_tables s) i))"
proof -
  let ?F = "\<lambda>q. Some (if jr_id q = jr_id r then taken_row t token (recover_if cfg t q) else recover_if cfg t q)"
  have r: "row_of (qr_tables s) (jr_id r) = Some r" and R: "row_of tb' i = Option.bind (row_of (qr_tables s) i) ?F"
    using assms by (simp_all add: claim_table_def rewritten_def)
  show ?thesis
  proof (cases "row_of (qr_tables s) i")
    case None
    moreover from this r have "i \<noteq> jr_id r" by auto
    ultimately show ?thesis using R by simp
  next
    case (Some p)
    then have "jr_id p = i" using row_of_id by blast
    moreover have "p = r" if "i = jr_id r" using that r Some by simp
    ultimately show ?thesis using R Some by auto
  qed
qed

lemma claim_generations:
  assumes "claim_table s cfg t r token tb'" "run_inv s"
  shows "record_generations tb' (qr_gens s) = (qr_gens s)(token \<mapsto> jr_id r)"
proof (rule record_taken)
  note rows = claim_table_rows [OF assms(1)]
  show "qr_gens s t' \<noteq> None \<or> t' = token \<and> jr_id q = jr_id r"
    if h: "row_of tb' i = Some q" "jr_state q = ''processing''" "jr_processing_token q = Some t'" for i q t'
  proof (cases "i = jr_id r")
    case True
    then show ?thesis using h rows by auto
  next
    case False
    then obtain p where "row_of (qr_tables s) i = Some p" "q = recover_if cfg t p" using h(1) rows by auto
    then have "row_inv s q" using row_inv_recover run_invD(4) [OF assms(2)] by blast
    then show ?thesis using h(2,3) by (auto simp: row_inv_def)
  qed
  show "row_of tb' (jr_id r) = Some (taken_row t token (recover_if cfg t r))" by (simp add: rows)
  show "tables_ok tb'" "qr_gens s token = None" using assms(1) by (simp_all add: claim_table_def rewritten_def new_token_def)
qed simp_all

lemma run_inv_taken:
  assumes inv: "run_inv s" and C: "claim_table s cfg t r token tb'"
    and wk: "W = qr_workers s \<or> qr_workers s k = None \<and> W = (qr_workers s)(k \<mapsto> Running ((claimed_job (recover_if cfg t r))\<lparr>dj_processingToken := token\<rparr>))"
  shows "run_inv (s\<lparr>qr_tables := tb', qr_workers := W, qr_gens := record_generations tb' (qr_gens s)\<rparr>)" (is "run_inv ?s'")
proof -
  let ?j = "(claimed_job (recover_if cfg t r))\<lparr>dj_processingToken := token\<rparr>"
  note gens = claim_generations [OF C inv] and rows = claim_table_rows [OF C]
  have r: "row_of (qr_tables s) (jr_id r) = Some r" and token: "new_token s token" using C by (simp_all add: claim_table_def)
  have g: "keeps_records s ?s'" using token by (auto simp: keeps_records_def gens new_token_def)
  have ri: "row_inv s (recover_if cfg t r)" using row_inv_recover [OF run_invD(4) [OF inv r]] .
  have rec: "dj_recoveryToken ?j = [] \<or> qr_gens s (dj_recoveryToken ?j) = Some (jr_id r)"
    using claimed_job_fields(4) [of "recover_if cfg t r"] ri by (auto simp: row_inv_def)
  have sent: "carries (qr_sent s (jr_id r)) (content (recover_if cfg t r))" using ri unfolding row_inv_def by simp
  have jinv: "job_inv ?s' ?j"
    unfolding job_inv_def using sent rec token by (auto simp: gens claimed_job_fields(1) new_token_def)
  have workers: "wk = Running ?j \<and> k' = k \<or> qr_workers s k' = Some wk" if "W k' = Some wk" for k' wk
    using wk that by (auto split: if_splits)
  have used: "dj_processingToken (work_job wk) \<noteq> token" if "qr_workers s k' = Some wk" for k' wk
    using run_invD(5) [OF inv that] token by (auto simp: job_inv_def new_token_def)
  show ?thesis
  proof (rule run_invI)
    show "tables_ok (qr_tables ?s')" using C by (simp add: claim_table_def rewritten_def)
    show "i < tb_next_id (qr_tables ?s')" if "qr_sent ?s' i \<noteq> None" for i
      using that run_invD(2) [OF inv, of i] C by (simp add: claim_table_def rewritten_def)
    show "qr_gens ?s' databaseRecoveryMarker = None" using run_invD(3) [OF inv] token by (auto simp: gens new_token_def)
    show "row_inv ?s' q" if h: "row_of (qr_tables ?s') i = Some q" for i q
    proof (cases "i = jr_id r")
      case True
      then have "q = taken_row t token (recover_if cfg t r)" using h rows by simp
      then show ?thesis using sent by (auto simp: row_inv_def gens)
    next
      case False
      then obtain p where "row_of (qr_tables s) i = Some p" "q = recover_if cfg t p" using h rows by auto
      then show ?thesis using row_inv_keeps_records [OF g] row_inv_recover run_invD(4) [OF inv] by blast
    qed
    show "job_inv ?s' (work_job wk)" if h: "qr_workers ?s' k' = Some wk" for k' wk
      using workers [of k' wk] h jinv run_invD(5) [OF inv] job_inv_keeps_records [OF g] by auto
    show "k1 = k2" if h: "qr_workers ?s' k1 = Some w1" "qr_workers ?s' k2 = Some w2" "dj_processingToken (work_job w1) = dj_processingToken (work_job w2)" for k1 k2 w1 w2
      using workers [of k1 w1] workers [of k2 w2] h used run_invD(6) [OF inv] by fastforce
    show "dj_attempt (work_job wk) = jr_attempt q \<and> dj_maxRetry (work_job wk) = jr_max_retry q"
      if h: "qr_workers ?s' k' = Some wk" "row_of (qr_tables ?s') (dj_id (work_job wk)) = Some q" "owns (work_job wk) q" for k' wk q
    proof (cases "wk = Running ?j")
      case True
      then have "q = taken_row t token (recover_if cfg t r)" using h(2) rows by simp
      then show ?thesis using True by (simp add: claimed_job_fields)
    next
      case False
      then have old: "qr_workers s k' = Some wk" using workers [of k' wk] h(1) by auto
      have "q \<noteq> taken_row t token (recover_if cfg t r)" using used [OF old] h(3) by (auto simp: owns_def owned_def)
      then obtain p where "row_of (qr_tables s) (dj_id (work_job wk)) = Some p" "q = recover_if cfg t p" using h(2) rows by (auto split: if_splits)
      then show ?thesis using run_invD(7) [OF inv old] h(3) by (auto simp: recover_if_owned)
    qed
  qed
qed

lemma run_inv_claim:
  assumes inv: "run_inv s" and run: "qstep s (Claim k cfg t) s'"
  shows "run_inv s'"
  using run
proof cases
  case (claim env w x w')
  note ok = run_invD(1) [OF inv]
  from claim(3,7) ok [folded claim(4)] claim(1) show ?thesis
  proof (cases rule: claim_rewritten)
    case (idle F)
    then have W: "(case x of Inr (Some job) \<Rightarrow> (qr_workers s)(k \<mapsto> Running job) | _ \<Rightarrow> qr_workers s) = qr_workers s"
      by (auto split: sum.split option.split)
    from run_inv_recover [OF inv idle(1) [unfolded claim(4)] idle(2)] show ?thesis using claim(2) W by simp
  next
    case (takes r token)
    then have C: "claim_table s cfg t r token (sw_tables w')"
      using fresh_new_token [OF claim(5) takes(3)] claim(4) by (simp add: claim_table_def)
    let ?W = "case x of Inr (Some job) \<Rightarrow> (qr_workers s)(k \<mapsto> Running job) | _ \<Rightarrow> qr_workers s"
    have "?W = qr_workers s \<or> qr_workers s k = None \<and> ?W = (qr_workers s)(k \<mapsto> Running ((claimed_job (recover_if cfg t r))\<lparr>dj_processingToken := token\<rparr>))"
      using takes(5) claim(6) by auto
    from run_inv_taken [OF inv C this] show ?thesis unfolding claim(2) .
  qed
qed

text \<open>Apart from claims, no step gives a worker another delivery or touches the records.\<close>

lemma step_workers:
  assumes run: "qstep s a s'" and a: "\<And>job. a \<noteq> Dispatch job" "\<And>k cfg t. a \<noteq> Claim k cfg t"
  shows "qr_gens s' = qr_gens s \<and> qr_sent s' = qr_sent s"
    and "qr_workers s' k = Some wk' \<Longrightarrow> \<exists>wk b. qr_workers s k = Some wk \<and> work_job wk' = (work_job wk)\<lparr>dj_applicationStateCommitted := b\<rparr>"
proof -
  show "qr_gens s' = qr_gens s \<and> qr_sent s' = qr_sent s" using run by cases (simp_all add: a)
  assume wk: "qr_workers s' k = Some wk'"
  have "qr_workers s k = Some wk' \<or> (\<exists>job b err. qr_workers s k = Some (Running job) \<and> wk' = Finished (job\<lparr>dj_applicationStateCommitted := b\<rparr>) err)"
    using run wk a by cases (auto split: if_splits)
  then show "\<exists>wk b. qr_workers s k = Some wk \<and> work_job wk' = (work_job wk)\<lparr>dj_applicationStateCommitted := b\<rparr>"
  proof
    assume "qr_workers s k = Some wk'"
    then show ?thesis by (intro exI [of _ wk'] exI [of _ "dj_applicationStateCommitted (work_job wk')"]) simp
  qed fastforce
qed

lemma run_inv_step:
  assumes inv: "run_inv s" and run: "qstep s a s'"
  shows "run_inv s'"
proof (cases "(\<exists>job. a = Dispatch job) \<or> (\<exists>k cfg t. a = Claim k cfg t)")
  case True
  then show ?thesis using run_inv_dispatch [OF inv] run_inv_claim [OF inv] run by blast
next
  case False
  then have a: "\<And>job. a \<noteq> Dispatch job" "\<And>k cfg t. a \<noteq> Claim k cfg t" by blast+
  have ch: "changes s a (qr_tables s')" using step_changes [OF run run_invD(1) [OF inv] a(1)] .
  note same = step_workers(1) [OF run a]
  show ?thesis
    by (rule run_inv_rewritten [OF inv ch a(2) same [THEN conjunct1] same [THEN conjunct2]]) (rule step_workers(2) [OF run a])
qed

lemma run_inv_reachable: "qsteps run_start as s \<Longrightarrow> run_inv s"
proof (induction run_start as s rule: qsteps.induct)
  case start
  show ?case by (rule run_invI) (simp_all add: run_start_def row_of_def empty_tables_def tables_ok_def)
next
  case (more as s' a s'')
  then show ?case by (blast intro: run_inv_step)
qed

section \<open>Histories\<close>

lemma sent_dispatched: "qsteps run_start as s \<Longrightarrow> qr_sent s i = Some job \<Longrightarrow> Dispatch job \<in> set as"
proof (induction run_start as s rule: qsteps.induct)
  case (more as s' a s'')
  show ?case
  proof (cases "qr_sent s'' i = qr_sent s' i")
    case True
    then show ?thesis using more by simp
  next
    case False
    with more.hyps(3) have "a = Dispatch job" using more.prems by cases (auto split: if_splits)
    then show ?thesis by simp
  qed
qed (simp add: run_start_def)

text \<open>A generation is recorded when its token appears in the row it was drawn for.\<close>

definition generation_of :: "qrun \<Rightarrow> string \<Rightarrow> int \<Rightarrow> bool" where
  "generation_of s token i \<longleftrightarrow> (\<exists>r. row_of (qr_tables s) i = Some r \<and> jr_state r = ''processing'' \<and> jr_processing_token r = Some token)"

lemma step_generation:
  assumes "qstep s a s'" "run_inv s" "qr_gens s' token = Some i" "qr_gens s token \<noteq> Some i"
  shows "generation_of s' token i"
proof -
  have ok: "tables_ok (qr_tables s')" using run_invD(1) [OF run_inv_step [OF assms(2,1)]] .
  have "qr_gens s' = qr_gens s \<or> qr_gens s' = record_generations (qr_tables s') (qr_gens s)" using assms(1) by cases simp_all
  then have "record_generations (qr_tables s') (qr_gens s) token = Some i" "qr_gens s token = None"
    using assms(3,4) by (auto simp: record_generations_def split: option.splits)
  then obtain r where "r \<in> set (tb_jobs (qr_tables s'))" "jr_id r = i" "jr_state r = ''processing''" "jr_processing_token r = Some token"
    by (auto simp: record_generations_def find_Some_iff) (metis nth_mem)
  then show ?thesis using row_of_iff [OF ok] unfolding generation_of_def by blast
qed

lemma generation_history:
  assumes "qsteps run_start as s" "qr_gens s token = Some i"
  shows "\<exists>as1 as2 s1. as = as1 @ as2 \<and> qsteps run_start as1 s1 \<and> generation_of s1 token i"
  using assms
proof (induction run_start as s rule: qsteps.induct)
  case (more as s' a s'')
  show ?case
  proof (cases "qr_gens s' token = Some i")
    case True
    then show ?thesis using more.hyps(2) by (metis append.assoc)
  next
    case False
    then have "generation_of s'' token i"
      using step_generation [OF more.hyps(3) run_inv_reachable [OF more.hyps(1)]] more.prems by blast
    moreover have "qsteps run_start (as @ [a]) s''" using more.hyps(1,3) by (rule qsteps.more)
    ultimately show ?thesis by (metis append_Nil2)
  qed
qed (simp add: run_start_def)

section \<open>Attempts\<close>

definition attempts_ok :: "int \<Rightarrow> int \<Rightarrow> bool" where
  "attempts_ok attempt maxRetry \<longleftrightarrow> 0 \<le> attempt \<and> attempt \<le> max 0 maxRetry"

definition row_attempts :: "job_row \<Rightarrow> bool" where
  "row_attempts r \<longleftrightarrow> 0 \<le> jr_attempt r \<and> jr_attempt r \<le> max 0 (jr_max_retry r) + 1
     \<and> (jr_state r \<noteq> ''dead'' \<longrightarrow> attempts_ok (jr_attempt r) (jr_max_retry r))"

definition attempt_inv :: "qrun \<Rightarrow> bool" where
  "attempt_inv s \<longleftrightarrow> (\<forall>i r. row_of (qr_tables s) i = Some r \<longrightarrow> row_attempts r)
     \<and> (\<forall>k wk. qr_workers s k = Some wk \<longrightarrow> attempts_ok (dj_attempt (work_job wk)) (dj_maxRetry (work_job wk)))"

lemma change_attempts:
  assumes "change s a r (Some r')" "row_attempts r" "a \<noteq> AdminRetry" "run_inv s" "row_of (qr_tables s) (jr_id r) = Some r"
  shows "row_attempts r'"
  using assms(1)
proof cases
  case (failed k job err t st)
  then have "dj_attempt job = jr_attempt r" "dj_maxRetry job = jr_max_retry r"
    using run_invD(7) [OF assms(4) failed(3)] assms(5) by (auto simp: owns_def owned_def)
  moreover have "jr_state r = ''processing''" using failed(4) by (simp add: owns_def owned_def)
  ultimately show ?thesis using failed assms(2)
    by (auto simp: row_attempts_def attempts_ok_def failure_update_def classifyDatabaseFailure_def databasePendingSettlement_def
        job_attempt_def ClassifyAttempt_Retry split: attempt_decision.splits)
qed (use assms(2,3) in \<open>auto simp: row_attempts_def recovered_row_def taken_row_def restored_row_def canceled_row_def
    ready_row_def stale_row_def owns_def owned_def Let_def\<close>)

lemma claim_attempt:
  assumes "qstep s (Claim k cfg t) s'" "attempt_inv s" "tables_ok (qr_tables s)" "qr_workers s' k' = Some wk"
  shows "attempts_ok (dj_attempt (work_job wk)) (dj_maxRetry (work_job wk))"
  using assms(1)
proof cases
  case (claim env w x w')
  have old: "attempts_ok (dj_attempt (work_job wk)) (dj_maxRetry (work_job wk))" if "qr_workers s k' = Some wk"
    using assms(2) that by (auto simp: attempt_inv_def)
  from claim(3,7) assms(3) [folded claim(4)] claim(1) show ?thesis
  proof (cases rule: claim_rewritten)
    case (idle F)
    then show ?thesis using old assms(4) claim(2) by (auto split: sum.splits option.splits)
  next
    case (takes r token)
    have "row_attempts r" using takes(1) assms(2) claim(4) by (auto simp: attempt_inv_def)
    moreover have "jr_state r \<noteq> ''dead''" using takes(2) by (auto simp: ready_row_def recover_if_def stale_row_def Let_def split: if_splits)
    ultimately have "attempts_ok (jr_attempt r) (jr_max_retry r)" by (simp add: row_attempts_def)
    then show ?thesis using old assms(4) claim(2) takes(5) by (auto simp: claimed_job_fields split: if_splits)
  qed
qed

lemma attempt_inv_step:
  assumes run: "qstep s a s'" and inv: "run_inv s" "attempt_inv s" and a: "a \<noteq> AdminRetry"
  shows "attempt_inv s'"
proof -
  note ok = run_invD(1) [OF inv(1)]
  have "row_attempts r'" if h: "row_of (qr_tables s') i = Some r'" for i r'
  proof (cases "\<exists>job. a = Dispatch job")
    case True
    then obtain job where "qstep s (Dispatch job) s'" using run by blast
    note eff = dispatch_effect [OF this ok]
    have new: "row_attempts (dispatched_row job md t\<lparr>jr_id := n\<rparr>)" for md t n
      by (simp add: row_attempts_def attempts_ok_def dispatched_row_def Let_def)
    show ?thesis using eff h inv(2) new row_of_same row_of_added [OF _ ok] by (auto simp: attempt_inv_def split: if_splits)
  next
    case False
    then have "changes s a (qr_tables s')" using step_changes [OF run ok] by blast
    from changes_row [OF this h ok] obtain r where r: "row_of (qr_tables s) i = Some r" "r' = r \<or> change s a r (Some r')" by blast
    moreover have "row_attempts r" using r(1) inv(2) by (auto simp: attempt_inv_def)
    ultimately show ?thesis using change_attempts [OF _ _ a inv(1)] row_of_id by blast
  qed
  moreover have "attempts_ok (dj_attempt (work_job wk)) (dj_maxRetry (work_job wk))" if h: "qr_workers s' k = Some wk" for k wk
  proof (cases "(\<exists>job. a = Dispatch job) \<or> (\<exists>k cfg t. a = Claim k cfg t)")
    case True
    then show ?thesis using claim_attempt [OF _ inv(2) ok h] dispatch_effect [OF _ ok] run h inv(2) by (auto simp: attempt_inv_def)
  next
    case False
    then show ?thesis using step_workers(2) [OF run _ _ h] inv(2) by (fastforce simp: attempt_inv_def)
  qed
  ultimately show ?thesis by (auto simp: attempt_inv_def)
qed

lemma attempt_inv_reachable: "qsteps run_start as s \<Longrightarrow> AdminRetry \<notin> set as \<Longrightarrow> attempt_inv s"
proof (induction run_start as s rule: qsteps.induct)
  case start
  show ?case by (simp add: attempt_inv_def run_start_def row_of_def empty_tables_def)
next
  case (more as s' a s'')
  then show ?case using attempt_inv_step run_inv_reachable by (metis in_set_conv_decomp in_set_butlastD butlast_snoc)
qed

section \<open>Types of rows\<close>

text \<open>A row is in one of three states; it has a start time and a token exactly while it is processed,
  and a dead row carries an error.\<close>

definition row_type :: "job_row \<Rightarrow> bool" where
  "row_type r \<longleftrightarrow> row_state_ok r \<and> 0 < jr_id r
     \<and> (jr_state r = ''processing'' \<longleftrightarrow> jr_processing_started_at r \<noteq> None)
     \<and> (jr_state r = ''processing'' \<longrightarrow> jr_processing_token r \<noteq> None)
     \<and> (jr_state r = ''dead'' \<longrightarrow> jr_processing_token r = None \<and> jr_last_error r \<noteq> None)"

lemma change_type:
  assumes "change s a r (Some r')" "row_type r" "run_inv s" "row_of (qr_tables s) (jr_id r) = Some r"
  shows "row_type r'"
  using assms(1)
proof cases
  case (failed k job err t st)
  then have "dj_attempt job = jr_attempt r"
    using run_invD(7) [OF assms(3) failed(3)] assms(4) by (auto simp: owns_def owned_def)
  then show ?thesis using failed assms(2)
    by (auto simp: row_type_def row_state_ok_def failure_update_def classifyDatabaseFailure_def databasePendingSettlement_def
        split: attempt_decision.splits)
qed (use assms(2) in \<open>auto simp: row_type_def row_state_ok_def recovered_row_def taken_row_def restored_row_def canceled_row_def retried_row_def\<close>)

lemma rows_typed: "qsteps run_start as s \<Longrightarrow> row_of (qr_tables s) i = Some r \<Longrightarrow> row_type r"
proof (induction run_start as s arbitrary: i r rule: qsteps.induct)
  case start
  then show ?case by (simp add: run_start_def row_of_def empty_tables_def)
next
  case (more as s' a s'')
  note inv = run_inv_reachable [OF more.hyps(1)]
  note ok = run_invD(1) [OF inv]
  show ?case
  proof (cases "\<exists>job. a = Dispatch job")
    case True
    then obtain job where "qstep s' (Dispatch job) s''" using more.hyps(3) by blast
    note eff = dispatch_effect [OF this ok]
    have new: "row_type (dispatched_row job md t\<lparr>jr_id := tb_next_id (qr_tables s')\<rparr>)" for md t
      using ok by (simp add: row_type_def row_state_ok_def dispatched_row_def tables_ok_def Let_def)
    show ?thesis using eff more.prems more.hyps(2) new row_of_same row_of_added [OF _ ok] by (auto split: if_splits)
  next
    case False
    then have "changes s' a (qr_tables s'')" using step_changes [OF more.hyps(3) ok] by blast
    from changes_row [OF this more.prems ok] obtain q where q: "row_of (qr_tables s') i = Some q" "r = q \<or> change s' a q (Some r)" by blast
    then show ?thesis using more.hyps(2) [OF q(1)] change_type [OF _ _ inv] row_of_id [OF q(1)] by auto
  qed
qed

end
