(* ===== verification/SqlLineage.thy ===== *)
theory SqlLineage
  imports SqlRuns
begin

text \<open>
  What holds in every run of the SQL queue, and a run in which a worker dies and another
  takes its job over.
\<close>

section \<open>A sample run\<close>

text \<open>A job is dispatched and claimed; the worker dies, and after its lease expired another
  worker takes the job over.\<close>

definition later_env :: sql_env where
  "later_env = quiet_env\<lparr>oe_clock := (\<lambda>n. 1000000000000), oe_rand := (\<lambda>n k. Inr (replicate k (CHR ''a'')))\<rparr>"

definition sample_cfg :: db_config where
  "sample_cfg = sample_config ''sqlite''"

definition mail_job :: qjob where
  "mail_job = q_Retry 2 (q_OnQueue ''default'' (q_NewJob ''t''))"

definition dispatched_tables :: sql_tables where
  "dispatched_tables = sw_tables (snd (sql_Dispatch sample_cfg quiet_env [] None mail_job (new_world empty_tables)))"

definition dispatched_run :: qrun where
  "dispatched_run = run_start\<lparr>qr_tables := dispatched_tables,
     qr_sent := (if tb_next_id dispatched_tables = tb_next_id empty_tables then qr_sent run_start else (qr_sent run_start)(tb_next_id empty_tables \<mapsto> mail_job))\<rparr>"

definition claim_run :: "sql_env \<Rightarrow> nat \<Rightarrow> qrun \<Rightarrow> qrun" where
  "claim_run env k s = (case claimOne sample_cfg env (new_world (qr_tables s)) of (x, w') \<Rightarrow>
     s\<lparr>qr_tables := sw_tables w', qr_workers := (case x of Inr (Some job) \<Rightarrow> (qr_workers s)(k \<mapsto> Running job) | _ \<Rightarrow> qr_workers s),
       qr_gens := record_generations (sw_tables w') (qr_gens s)\<rparr>)"

definition claimed_run :: qrun where
  "claimed_run = claim_run quiet_env 0 dispatched_run"

definition recovered_run :: qrun where
  "recovered_run = claim_run later_env 1 (claimed_run\<lparr>qr_workers := (qr_workers claimed_run)(0 := None)\<rparr>)"

lemma dispatched_rows: "map (\<lambda>r. (jr_id r, jr_state r, jr_available_at r)) (tb_jobs (qr_tables dispatched_run)) = [(1, ''pending'', 0)]"
  by code_simp

lemma claimed_rows:
  "map (\<lambda>r. (jr_id r, jr_state r, jr_processing_token r)) (tb_jobs (qr_tables claimed_run)) = [(1, ''processing'', Some (replicate 32 (CHR ''0'')))]"
  "map_option (\<lambda>wk. (dj_id (work_job wk), dj_processingToken (work_job wk))) (qr_workers claimed_run 0) = Some (1, replicate 32 (CHR ''0''))"
  by code_simp+

lemma claimed_row:
  "\<exists>r. row_of (qr_tables claimed_run) 1 = Some r \<and> jr_id r = 1 \<and> jr_state r = ''processing'' \<and> jr_processing_token r = Some (replicate 32 (CHR ''0''))"
  using claimed_rows(1) by (auto simp: row_of_def map_eq_Cons_conv)

lemma recovered_worker:
  "map_option (\<lambda>wk. (dj_id (work_job wk), dj_recoveryToken (work_job wk), dj_attempt (work_job wk), dj_maxRetry (work_job wk)))
     (qr_workers recovered_run 1) = Some (1, replicate 32 (CHR ''0''), 0, 2)"
  by code_simp

lemma claim_run_step:
  assumes "no_peers env" "fresh_tokens env s" "qr_workers s k = None"
  shows "qstep s (Claim k sample_cfg (unix_milli (oe_clock env 0))) (claim_run env k s)"
proof -
  let ?w = "new_world (qr_tables s)"
  obtain x w' where run: "claimOne sample_cfg env ?w = (x, w')" by fastforce
  have t: "fst (time_Now env ?w) = oe_clock env 0" by (simp add: time_Now_def new_world_def)
  have "sw_tables ?w = qr_tables s" by (simp add: new_world_def)
  from qstep.claim [OF assms(1) this assms(2,3) run] show ?thesis unfolding t by (simp add: claim_run_def run)
qed

lemma sample_dispatched: "qsteps run_start [Dispatch mail_job] dispatched_run"
proof -
  have np: "no_peers quiet_env" by (simp add: no_peers_def quiet_env_def)
  have tb: "sw_tables (new_world empty_tables) = empty_tables" "empty_tables = qr_tables run_start" by (simp_all add: new_world_def run_start_def)
  have "qstep run_start (Dispatch mail_job) dispatched_run"
    using qstep.dispatch [OF np trans [OF tb] prod.collapse [symmetric], where cfg = sample_cfg and handlers = "[]" and ctx = None and job = mail_job]
    unfolding dispatched_run_def dispatched_tables_def tb(1) .
  from qsteps.more [OF qsteps.start this] show ?thesis by simp
qed

lemma sample_claim_step: "qstep dispatched_run (Claim 0 sample_cfg 0) claimed_run"
proof -
  have "no_peers quiet_env" "fresh_tokens quiet_env dispatched_run" "qr_workers dispatched_run 0 = None"
    by (auto simp: no_peers_def quiet_env_def fresh_tokens_def dispatched_run_def run_start_def)
  from claim_run_step [OF this] show ?thesis by (simp add: claimed_run_def quiet_env_def unix_milli_def)
qed

lemma sample_claimed: "qsteps run_start [Dispatch mail_job, Claim 0 sample_cfg 0] claimed_run"
  using qsteps.more [OF sample_dispatched sample_claim_step] by simp

lemma claim_run_others: "k' \<noteq> k \<Longrightarrow> qr_workers (claim_run env k s) k' = qr_workers s k'"
  by (auto simp: claim_run_def split: prod.split sum.split option.split)

lemma sample_recovered: "qsteps run_start [Dispatch mail_job, Claim 0 sample_cfg 0, Drop 0, Claim 1 sample_cfg 1000000] recovered_run"
proof -
  let ?s = "claimed_run\<lparr>qr_workers := (qr_workers claimed_run)(0 := None)\<rparr>" and ?t = "hex_encode (replicate 16 (CHR ''a''))"
  have 1: "qsteps run_start [Dispatch mail_job, Claim 0 sample_cfg 0, Drop 0] ?s"
    using qsteps.more [OF sample_claimed qstep.drop [of claimed_run 0]] by simp
  obtain r where r: "tb_jobs (qr_tables claimed_run) = [r]" "jr_processing_token r = Some (replicate 32 (CHR ''0''))"
    using claimed_rows(1) by (auto simp: map_eq_Cons_conv)
  have g: "qr_gens claimed_run = record_generations (qr_tables claimed_run) (qr_gens dispatched_run)"
    by (simp add: claimed_run_def claim_run_def split: prod.split)
  have "?t \<noteq> replicate 32 (CHR ''0'')" by code_simp
  then have "qr_gens claimed_run ?t = None" using r by (simp add: g record_generations_def dispatched_run_def run_start_def)
  then have "fresh_tokens later_env ?s" by (simp add: fresh_tokens_def later_env_def)
  moreover have "no_peers later_env" by (simp add: no_peers_def later_env_def quiet_env_def)
  moreover have "qr_workers ?s 1 = None" by (simp add: claimed_run_def claim_run_others dispatched_run_def run_start_def)
  ultimately have "qstep ?s (Claim 1 sample_cfg (unix_milli (oe_clock later_env 0))) recovered_run"
    using claim_run_step [of later_env ?s 1] by (simp add: recovered_run_def)
  from qsteps.more [OF 1 this] show ?thesis by (simp add: later_env_def unix_milli_def)
qed

section \<open>Properties\<close>



text \<open>C32. A row of the queue changes only by authority: a claim moves it only when it was ready or its
  lease had expired at the clock of the claim, and never removes it; otherwise it is changed
  by the worker whose generation owns it or by an administrator; and it disappears only
  because its owner's handler succeeded or an administrator deleted it.\<close>

theorem row_change_authorised:
  assumes "qsteps run_start as s" and "qstep s a s'" and "row_of (qr_tables s) i = Some r" and "row_of (qr_tables s') i \<noteq> Some r"
  shows "case a of
      Claim k cfg t \<Rightarrow> row_of (qr_tables s') i \<noteq> None \<and> (ready_row cfg t r \<or> stale_row cfg t r)
    | Done k \<Rightarrow> row_of (qr_tables s') i = None \<and> (\<exists>job. qr_workers s k = Some (Finished job None) \<and> owns job r)
    | Fail k \<Rightarrow> row_of (qr_tables s') i \<noteq> None \<and> (\<exists>job err. qr_workers s k = Some (Finished job (Some err)) \<and> owns job r)
    | Restore k \<Rightarrow> row_of (qr_tables s') i \<noteq> None \<and> (\<exists>job err. qr_workers s k = Some (Finished job err) \<and> owns job r)
    | AdminRetry \<Rightarrow> row_of (qr_tables s') i \<noteq> None
    | AdminCancel \<Rightarrow> row_of (qr_tables s') i \<noteq> None
    | AdminDelete \<Rightarrow> row_of (qr_tables s') i = None
    | _ \<Rightarrow> False"
proof -
  note ok = run_invD(1) [OF run_inv_reachable [OF assms(1)]]
  show ?thesis
  proof (cases "\<exists>job. a = Dispatch job")
    case True
    then obtain job where a: "a = Dispatch job" by blast
    have "i \<noteq> tb_next_id (qr_tables s)" using assms(3) row_of_id ok by (fastforce simp: tables_ok_def)
    then have "row_of (qr_tables s') i = row_of (qr_tables s) i"
      using dispatch_effect [OF assms(2) [unfolded a] ok] row_of_same row_of_added [OF _ ok] by auto
    with assms(3,4) show ?thesis by simp
  next
    case False
    then have "changes s a (qr_tables s')" using step_changes [OF assms(2) ok] by blast
    then obtain F where F: "rewritten F (qr_tables s) (qr_tables s')" "F r = Some r \<or> change s a r (F r)"
      using assms(3) row_of_id [OF assms(3)] by (auto simp: changes_def)
    then have "row_of (qr_tables s') i = F r" using assms(3) by (simp add: rewritten_def)
    with F(2) assms(4) have "change s a r (F r)" "row_of (qr_tables s') i = F r" by auto
    then show ?thesis by cases auto
  qed
qed

theorem row_change_authorised_witness:
  "\<exists>r. row_of (qr_tables dispatched_run) 1 = Some r \<and> row_of (qr_tables claimed_run) 1 \<noteq> Some r
     \<and> row_of (qr_tables claimed_run) 1 \<noteq> None \<and> (ready_row sample_cfg 0 r \<or> stale_row sample_cfg 0 r)"
proof -
  obtain r where "tb_jobs (qr_tables dispatched_run) = [r]" "jr_id r = 1" "jr_state r = ''pending''"
    using dispatched_rows by (auto simp: map_eq_Cons_conv)
  then have r: "row_of (qr_tables dispatched_run) 1 = Some r" "jr_state r = ''pending''" by (simp_all add: row_of_def)
  obtain q where q: "row_of (qr_tables claimed_run) 1 = Some q" "jr_state q = ''processing''" using claimed_row by blast
  then have "row_of (qr_tables claimed_run) 1 \<noteq> Some r" using r(2) by auto
  with row_change_authorised [OF sample_dispatched sample_claim_step r(1) this] r(1) show ?thesis by auto
qed

text \<open>C33. A row has at most one owner: two workers, of the same or of different processes, never hold
  the generation under which the row is being processed.\<close>

theorem delivery_exclusive:
  assumes "qsteps run_start as s" and "qr_workers s k = Some wk" and "qr_workers s k' = Some wk'"
    and "owns (work_job wk) r" and "owns (work_job wk') r"
  shows "k = k'"
  using run_invD(6) [OF run_inv_reachable [OF assms(1)] assms(2,3)] assms(4,5) by (auto simp: owns_def owned_def)

theorem delivery_exclusive_witness:
  "\<exists>wk r. qr_workers claimed_run 0 = Some wk \<and> row_of (qr_tables claimed_run) 1 = Some r \<and> owns (work_job wk) r
     \<and> \<not> (\<exists>k' wk'. k' \<noteq> 0 \<and> qr_workers claimed_run k' = Some wk' \<and> owns (work_job wk') r)"
proof -
  obtain r where r: "row_of (qr_tables claimed_run) 1 = Some r" "jr_id r = 1" "jr_state r = ''processing''" "jr_processing_token r = Some (replicate 32 (CHR ''0''))"
    using claimed_row by blast
  obtain wk where wk: "qr_workers claimed_run 0 = Some wk" "dj_id (work_job wk) = 1" "dj_processingToken (work_job wk) = replicate 32 (CHR ''0'')"
    using claimed_rows(2) by auto
  have "owns (work_job wk) r" using r wk by (simp add: owns_def owned_def)
  with delivery_exclusive [OF sample_claimed wk(1)] r(1) wk(1) show ?thesis by metis
qed



text \<open>C35. The generation a recovered delivery names is genuine: it is another one than the worker's
  own, and earlier in the run the same row was being processed under it.\<close>

theorem recovered_generation_genuine:
  assumes "qsteps run_start as s" and "qr_workers s k = Some wk" and "dj_recoveryToken (work_job wk) \<noteq> []"
  shows "dj_recoveryToken (work_job wk) \<noteq> dj_processingToken (work_job wk)
    \<and> (\<exists>as1 as2 s1. as = as1 @ as2 \<and> qsteps run_start as1 s1 \<and> generation_of s1 (dj_recoveryToken (work_job wk)) (dj_id (work_job wk)))"
  using run_invD(5) [OF run_inv_reachable [OF assms(1)] assms(2)] generation_history [OF assms(1)] assms(3)
  by (auto simp: job_inv_def)

theorem recovered_generation_genuine_witness:
  "\<exists>wk as1 as2 s1. qr_workers recovered_run 1 = Some wk \<and> dj_recoveryToken (work_job wk) \<noteq> []
     \<and> [Dispatch mail_job, Claim 0 sample_cfg 0, Drop 0, Claim 1 sample_cfg 1000000] = as1 @ as2
     \<and> qsteps run_start as1 s1 \<and> generation_of s1 (dj_recoveryToken (work_job wk)) (dj_id (work_job wk))"
proof -
  obtain wk where wk: "qr_workers recovered_run 1 = Some wk" "dj_recoveryToken (work_job wk) = replicate 32 (CHR ''0'')"
    using recovered_worker by auto
  then have "dj_recoveryToken (work_job wk) \<noteq> []" by simp
  with recovered_generation_genuine [OF sample_recovered wk(1) this] wk(1) show ?thesis by blast
qed

text \<open>C36. Without an administrator's retry no delivery exceeds the retry limit of its job: the attempt
  number a worker sees is between zero and the limit, and the count kept in the row passes
  the limit by at most the last, failed attempt.\<close>

theorem attempts_bounded:
  assumes "qsteps run_start as s" and "AdminRetry \<notin> set as"
  shows "(\<forall>k wk. qr_workers s k = Some wk \<longrightarrow> 0 \<le> dj_attempt (work_job wk) \<and> dj_attempt (work_job wk) \<le> max 0 (dj_maxRetry (work_job wk)))
    \<and> (\<forall>i r. row_of (qr_tables s) i = Some r \<longrightarrow> 0 \<le> jr_attempt r \<and> jr_attempt r \<le> max 0 (jr_max_retry r) + 1)"
  using attempt_inv_reachable [OF assms] by (auto simp: attempt_inv_def attempts_ok_def row_attempts_def)

theorem attempts_bounded_witness:
  "\<exists>wk. qr_workers recovered_run 1 = Some wk \<and> dj_maxRetry (work_job wk) = 2 \<and> 0 \<le> dj_attempt (work_job wk) \<and> dj_attempt (work_job wk) \<le> 2"
proof -
  obtain wk where wk: "qr_workers recovered_run 1 = Some wk" "dj_maxRetry (work_job wk) = 2" using recovered_worker by auto
  with attempts_bounded [OF sample_recovered] show ?thesis by fastforce
qed

text \<open>C37. A worker whose generation no longer owns a row, because its lease was taken over or an
  administrator intervened, cannot settle the delivery: both finalisations return an error and
  leave the tables as they are.\<close>

theorem lost_lease_cannot_settle:
  assumes "no_peers env" and "\<forall>r \<in> set (tb_jobs (sw_tables w)). \<not> owns job r"
  shows "fst (markDone env job w) \<noteq> None \<and> sw_tables (snd (markDone env job w)) = sw_tables w
    \<and> fst (markFailed env job err w) \<noteq> None \<and> sw_tables (snd (markFailed env job err w)) = sw_tables w"
proof -
  have none: "filter (owned (dj_id job) (dj_processingToken job)) (tb_jobs (sw_tables w)) = []"
      "filter (\<lambda>r. \<not> owned (dj_id job) (dj_processingToken job) r) (tb_jobs (sw_tables w)) = tb_jobs (sw_tables w)"
      "map (\<lambda>r. if owned (dj_id job) (dj_processingToken job) r then f r else r) (tb_jobs (sw_tables w)) = tb_jobs (sw_tables w)" for f
    using assms(2) by (auto simp: owns_def filter_empty_conv filter_id_conv map_idI)
  have D: "fst (markDone env job w) \<noteq> None \<and> sw_tables (snd (markDone env job w)) = sw_tables w"
    by (rule markDone_cases [OF assms(1), of job w "fst (markDone env job w)" "snd (markDone env job w)"]) (auto simp: delete_jobs_def none)
  have F: "fst (markFailed env job err w) \<noteq> None \<and> sw_tables (snd (markFailed env job err w)) = sw_tables w"
    by (rule markFailed_cases [OF assms(1), of job err w "fst (markFailed env job err w)" "snd (markFailed env job err w)"]) (auto simp: update_jobs_def none)
  from D F show ?thesis by blast
qed

theorem lost_lease_cannot_settle_witness:
  "\<exists>wk. qr_workers claimed_run 0 = Some wk
     \<and> fst (markDone quiet_env (work_job wk) (new_world (qr_tables dispatched_run))) \<noteq> None
     \<and> sw_tables (snd (markDone quiet_env (work_job wk) (new_world (qr_tables dispatched_run)))) = qr_tables dispatched_run"
proof -
  let ?w = "new_world (qr_tables dispatched_run)"
  obtain wk where wk: "qr_workers claimed_run 0 = Some wk" using claimed_rows(2) by auto
  have w: "sw_tables ?w = qr_tables dispatched_run" by (simp add: new_world_def)
  obtain r where "tb_jobs (qr_tables dispatched_run) = [r]" "jr_state r = ''pending''" using dispatched_rows by (auto simp: map_eq_Cons_conv)
  then have "\<forall>r \<in> set (tb_jobs (sw_tables ?w)). \<not> owns (work_job wk) r" by (simp add: w owns_def owned_def)
  moreover have "no_peers quiet_env" by (simp add: no_peers_def quiet_env_def)
  ultimately show ?thesis using lost_lease_cannot_settle [of quiet_env ?w "work_job wk" "ErrNew ''late''"] wk w by auto
qed

end
