(* ===== verification/SqlObserved.thy ===== *)
theory SqlObserved
  imports SqlEffects
begin

text \<open>
  The SQL queue behind the observing wrappers. Its dispatch publishes no enqueue event and
  leaves the acceptance gate alone, so it satisfies the contract of an accepting backend
  and every observed dispatch is reported exactly once.
\<close>

section \<open>Calls publish nothing\<close>

definition quiet :: "sql_world \<Rightarrow> sql_world \<Rightarrow> bool" where
  "quiet w w' \<longleftrightarrow> ob_gates w' = ob_gates w \<and> ob_events w' = ob_events w \<and> ob_settlements w' = ob_settlements w"

definition silent :: "(sql_world \<Rightarrow> 'a \<times> sql_world) \<Rightarrow> bool" where
  "silent f \<longleftrightarrow> (\<forall>w. quiet w (snd (f w)))"

lemma quiet_refl [simp]: "quiet w w"
  by (simp add: quiet_def)

lemma quiet_trans: "quiet a b \<Longrightarrow> quiet b c \<Longrightarrow> quiet a c"
  by (simp add: quiet_def)

lemma silentD: "silent f \<Longrightarrow> f w = (x, w') \<Longrightarrow> quiet w w'"
  by (metis silent_def snd_conv)

lemma silentI: "(\<And>w x w'. f w = (x, w') \<Longrightarrow> quiet w w') \<Longrightarrow> silent f"
  unfolding silent_def by (metis surjective_pairing)

lemma silent_return [simp]: "silent (\<lambda>w. (x, w))"
  by (simp add: silent_def)

lemma silent_calls: "silent (time_Now env)" "silent (rand_Read env n)" "silent (tx_exec env stmt)" "silent (tx_query env q)"
  "silent (exec env stmt)" "silent (query env q)" "silent (beginTx env)" "silent (commit env snapshot)"
  by (auto simp: silent_def quiet_def time_Now_def rand_Read_def tx_exec_def tx_query_def exec_def query_def beginTx_def commit_def
      rollback_def peers_def Let_def split: option.split fault.split)

lemma quiet_update [simp]: "quiet w (rollback snapshot w') \<longleftrightarrow> quiet w w'" "quiet w (w'\<lparr>sw_workers := n, sw_started := b\<rparr>) \<longleftrightarrow> quiet w w'"
  "quiet w (w'\<lparr>sw_uniqueClaims := c\<rparr>) \<longleftrightarrow> quiet w w'"
  by (simp_all add: quiet_def rollback_def)

section \<open>Starting\<close>

lemma silent_and_then: "silent f \<Longrightarrow> silent g \<Longrightarrow> silent (and_then f g)"
  by (intro silentI) (auto simp: and_then_def split: prod.splits option.splits dest: silentD quiet_trans)

lemma silent_exec_all: "silent (exec_all env ds)"
proof (induction ds)
  case (Cons d ds)
  show ?case
  proof (rule silentI)
    fix w x w' assume run: "exec_all env (d # ds) w = (x, w')"
    obtain r w1 where 1: "exec env (ddl_statement d) w = (r, w1)" by fastforce
    then have "w' = w1 \<or> exec_all env ds w1 = (x, w')" using run by (auto split: sum.splits)
    then show "quiet w w'" using silentD [OF silent_calls(5) 1] silentD [OF Cons] quiet_trans by blast
  qed
qed simp

lemma silent_ensure_added:
  assumes "silent exists"
  shows "silent (ensure_added exists env d what)"
proof (rule silentI)
  fix w x w' assume run: "ensure_added exists env d what w = (x, w')"
  obtain r1 w1 where 1: "exists w = (r1, w1)" by fastforce
  obtain r2 w2 where 2: "exec env (ddl_statement d) w1 = (r2, w2)" by fastforce
  obtain r3 w3 where 3: "exists w2 = (r3, w3)" by fastforce
  have "w' = w1 \<or> w' = w2 \<or> w' = w3" using run 1 2 3 unfolding ensure_added_def by (auto split: sum.splits bool.splits)
  then show "quiet w w'"
    using silentD [OF assms 1] silentD [OF silent_calls(5) 2] silentD [OF assms 3] by (metis quiet_trans)
qed

lemma silent_inspection:
  "silent (queueJobColumnExists cfg env c)" "silent (mysqlIndexExists env i)"
  "silent (managedQueueTableExists env t)" "silent (managedQueueTableColumns env t)"
  "silent (databaseNowMillis (query env) env)" "silent (databaseNowMillis (tx_query env) env)"
  "silent (pruneExpiredUniqueLocks (exec env) n)" "silent (pruneExpiredUniqueLocks (tx_exec env) n)"
  by (auto simp: queueJobColumnExists_def mysqlIndexExists_def managedQueueTableExists_def managedQueueTableColumns_def
      databaseNowMillis_def pruneExpiredUniqueLocks_def intro!: silentI split: prod.splits sum.splits
      dest!: silent_calls(3-6) [THEN silentD])

lemma silent_prune_at_start: "silent (prune_at_start env)"
  unfolding prune_at_start_def
  by (intro silentI) (auto split: prod.splits sum.splits dest!: silent_inspection [THEN silentD] intro: quiet_trans)

lemma silent_ensureSchema: "silent (ensureSchema cfg env)"
proof -
  have "silent (\<lambda>w. if dc_DriverName cfg = ''mysql'' then ensureMySQLUniqueExpiryIndex env w else (None, w))"
    by (cases "dc_DriverName cfg = ''mysql''")
      (simp_all add: ensureMySQLUniqueExpiryIndex_def silent_ensure_added [OF silent_inspection(2)])
  moreover have "silent (ensureProcessingTokenColumn cfg env)" "silent (ensureMetadataJSONColumn cfg env)"
    by (simp_all add: ensureProcessingTokenColumn_def [abs_def] ensureMetadataJSONColumn_def [abs_def]
        silent_ensure_added [OF silent_inspection(1)])
  ultimately show ?thesis
    unfolding ensureSchema_def by (intro silent_and_then silent_exec_all silent_prune_at_start)
qed

lemma silent_require_table: "silent (require_table env t cs)"
proof (rule silentI)
  fix w x w' assume run: "require_table env t cs w = (x, w')"
  obtain r1 w1 where 1: "managedQueueTableExists env t w = (r1, w1)" by fastforce
  obtain r2 w2 where 2: "managedQueueTableColumns env t w1 = (r2, w2)" by fastforce
  have "w' = w1 \<or> w' = w2" using run 1 2 unfolding require_table_def by (auto split: sum.splits option.splits if_splits)
  then show "quiet w w'" using silentD [OF silent_inspection(3) 1] silentD [OF silent_inspection(4) 2] by (metis quiet_trans)
qed

lemma silent_requireManagedQueueSchema: "silent (requireManagedQueueSchema env)"
  unfolding requireManagedQueueSchema_def
  by (intro silentI) (auto split: prod.splits option.splits dest!: silent_require_table [THEN silentD] intro: quiet_trans)

lemma silent_StartWorkers: "silent (StartWorkers cfg env ctxErr)"
proof (rule silentI)
  fix w x w' assume run: "StartWorkers cfg env ctxErr w = (x, w')"
  obtain e1 w1 where 1: "(if dc_AutoMigrate cfg \<and> \<not> dc_DisableAutoMigrate cfg then ensureSchema cfg env w
      else requireManagedQueueSchema env w) = (e1, w1)" by fastforce
  then have "quiet w w1" by (auto split: if_splits dest: silentD [OF silent_ensureSchema] silentD [OF silent_requireManagedQueueSchema])
  moreover have "w' = w \<or> quiet w w1 \<longrightarrow> quiet w w'"
    using run unfolding StartWorkers_def 1 by (auto split: if_splits option.splits)
  ultimately show "quiet w w'" by auto
qed

section \<open>Dispatching\<close>

lemma silent_acquire_keys: "silent (acquire_keys env ks t e)"
proof (induction ks)
  case (Cons k ks)
  show ?case
  proof (rule silentI)
    fix w x w' assume run: "acquire_keys env (k # ks) t e w = (x, w')"
    obtain r w1 where 1: "acquireUniqueKey env k t e w = (r, w1)" by fastforce
    have q1: "quiet w w1" using 1 unfolding acquireUniqueKey_def
      by (auto split: prod.splits sum.splits if_splits dest!: silent_calls(3) [THEN silentD] intro: quiet_trans)
    have "w' = w1 \<or> acquire_keys env ks t e w1 = (x, w')" using run 1 by (auto split: sum.splits bool.splits)
    then show "quiet w w'" using q1 silentD [OF Cons] quiet_trans by blast
  qed
qed simp

lemma silent_acquireUnique: "silent (acquireUnique env job q ttl)"
proof (rule silentI)
  fix w x w' assume run: "acquireUnique env job q ttl w = (x, w')"
  obtain r w1 where 1: "databaseNowMillis (tx_query env) env w = (r, w1)" by fastforce
  note q1 = silentD [OF silent_inspection(6) 1]
  show "quiet w w'"
  proof (cases r)
    case (Inl err)
    then show ?thesis using run 1 q1 by (simp add: acquireUnique_def)
  next
    case (Inr t)
    let ?w = "w1\<lparr>sw_uniqueClaims := sw_uniqueClaims w1 + 1\<rparr>"
    obtain e w2 where 2: "(if (sw_uniqueClaims w1 + 1) mod 256 = 0 then pruneExpiredUniqueLocks (tx_exec env) t ?w else (None, ?w)) = (e, w2)"
      by fastforce
    have "quiet ?w w2" using 2 silentD [OF silent_inspection(8), of env t ?w e w2] by (simp split: if_splits)
    then have "quiet w1 w2" using quiet_trans [of w1 ?w w2] by simp
    moreover have "w' = w2 \<or> (\<exists>ks t e. acquire_keys env ks t e w2 = (x, w'))"
      using run 1 2 Inr unfolding acquireUnique_def
      by (auto simp: Let_def simp del: acquire_keys.simps split: option.splits)
    ultimately show ?thesis using q1 silentD [OF silent_acquire_keys] quiet_trans by (metis quiet_update(3))
  qed
qed

lemma silent_dispatch_unique: "silent (dispatch_unique env job row)"
proof (rule silentI)
  fix w e w' assume run: "dispatch_unique env job row w = (e, w')"
  obtain b w1 where 1: "beginTx env w = (b, w1)" by fastforce
  obtain a w2 where 2: "acquireUnique env job (do_QueueName (DriverOptions job)) (do_UniqueTTL (DriverOptions job)) w1 = (a, w2)" by fastforce
  obtain r w3 where 3: "tx_exec env (insert_job row) w2 = (r, w3)" by fastforce
  have q: "quiet w w1" "quiet w w2" "quiet w w3"
    using silentD [OF silent_calls(7) 1] silentD [OF silent_acquireUnique 2] silentD [OF silent_calls(3) 3] quiet_trans by blast+
  have "w' = w1 \<or> (\<exists>s. w' = rollback s w2) \<or> (\<exists>s. w' = rollback s w3) \<or> (\<exists>s. commit env s w3 = (e, w'))"
    using run 1 2 3 unfolding dispatch_unique_def by (auto split: sum.splits bool.splits)
  then show "quiet w w'" using q silentD [OF silent_calls(8)] quiet_trans by auto
qed

lemma silent_sql_Dispatch: "silent (sql_Dispatch cfg env handlers ctx job)"
proof (rule silentI)
  fix w e w' assume run: "sql_Dispatch cfg env handlers ctx job w = (e, w')"
  obtain e1 w1 where 1: "(if \<not> sw_started w \<and> handlers \<noteq> [] then StartWorkers cfg env None w else (None, w)) = (e1, w1)" by fastforce
  have q1: "quiet w w1" using 1 silentD [OF silent_StartWorkers] by (auto split: if_splits)
  obtain t w2 where 2: "time_Now env w1 = (t, w2)" by fastforce
  have q2: "quiet w w2" using q1 silentD [OF silent_calls(1) 2] quiet_trans by blast
  have "w' = w \<or> w' = w1 \<or> w' = w2 \<or> (\<exists>row r. exec env (insert_job row) w2 = (r, w')) \<or> (\<exists>row. dispatch_unique env job row w2 = (e, w'))"
    using run 1 2 unfolding sql_Dispatch_def by (auto simp: Let_def split: if_splits option.splits sum.splits prod.splits)
  then show "quiet w w'" using q1 q2 silentD [OF silent_calls(5)] silentD [OF silent_dispatch_unique] quiet_trans by auto
qed

interpretation sqlq: accepting_backend env "sql_Dispatch cfg env handlers" for cfg env handlers
proof unfold_locales
  fix c job w err w' a g
  assume run: "sql_Dispatch cfg env handlers (Some c) job w = (err, w')" and "ob_gates w a = Some g"
  with silentD [OF silent_sql_Dispatch run]
  show "ob_gates w' a = Some g \<and> enqueue_log w' = enqueue_log w
      \<or> ob_gates w' a = Some \<lparr>ac_accepted = True, ac_callbacks = []\<rparr>
        \<and> enqueue_log w' = enqueue_log w @ (if oe_observed env then filter is_enqueue (map deferred_kind (ac_callbacks g)) else [])"
    by (simp add: quiet_def enqueue_log_def kinds_def)
qed

end
