(* ===== verification/SqlDelivery.thy ===== *)
theory SqlDelivery
  imports SqlObserved
begin

text \<open>
  What an observer of the SQL queue is told: one enqueue event for every dispatch, which
  agrees with the result and with the table, and one success for every delivery whose
  handler succeeded and whose row was deleted, never for a delivery that stays in the table.
\<close>

section \<open>Backends that do not fail after accepting\<close>

locale settled_backend = accepting_backend env inner
  for env :: "'e obs_env_scheme" and inner :: "'w backend_dispatch" +
  assumes failure_closed: "\<lbrakk>inner (Some c) job w = (Some e, w'); cx_acceptance c = Some a; ob_gates w a = Some g; \<not> ac_accepted g\<rbrakk>
    \<Longrightarrow> ob_gates w' a = Some g"
begin

lemma dispatch_reported_exactly:
  assumes run: "observed_Dispatch env driver inner ctx job w = (err, w')"
    and obs: "oe_observed env" and fresh: "cx_acceptance (ctx_or_background ctx) = None"
  shows "enqueue_log w' = enqueue_log w @ [if err = None then EventEnqueueAccepted else rejection_kind err]"
proof (cases err)
  case None
  with dispatch_reported_once [OF assms] show ?thesis by simp
next
  case (Some e)
  let ?a = "ob_nextGate w" and ?c = "(ctx_or_background ctx)\<lparr>cx_acceptance := Some (ob_nextGate w)\<rparr>"
  let ?g = "\<lparr>ac_accepted = False, ac_callbacks = [ObserveAccepted ?c (dispatch_base env driver job)]\<rparr> :: deferred dispatch_acceptance"
  let ?w1 = "w\<lparr>ob_nextGate := Suc ?a, ob_gates := (ob_gates w)(?a \<mapsto> ?g)\<rparr>"
  obtain err1 w2 where inner: "inner (Some ?c) job ?w1 = (err1, w2)" by fastforce
  have w1: "gate_onAccepted env ?a (ObserveAccepted ?c (dispatch_base env driver job))
      (w\<lparr>ob_gates := (ob_gates w)(?a \<mapsto> new_acceptance), ob_nextGate := Suc ?a\<rparr>) = ?w1"
    by (simp add: gate_onAccepted_def onAccepted_def new_acceptance_def)
  have err1: "err1 = err"
    using run fresh inner w1 unfolding observed_Dispatch_def ensureDispatchAcceptance_def
    by (auto simp: Let_def split: prod.splits if_splits)
  have closed: "ob_gates w2 ?a = Some ?g"
    using failure_closed [of ?c job ?w1 e w2 ?a ?g] inner err1 Some by simp
  then have log: "enqueue_log w2 = enqueue_log w"
    using gate_protocol [OF inner, of ?a ?g] by (simp add: enqueue_log_def)
  have "\<not> gate_isAccepted ?a w2" using closed by (simp add: gate_isAccepted_def isAccepted_def)
  then have "\<exists>t w3. time_Now env w2 = (t, w3) \<and> w' = SafeObserve env (Some ?c)
      ((dispatch_base env driver job)\<lparr>qe_Time := t, qe_Kind := rejection_kind err, qe_Err := err\<rparr>) w3"
    using run fresh inner w1 err1 Some unfolding observed_Dispatch_def ensureDispatchAcceptance_def
    by (auto simp: Let_def split: prod.splits)
  then show ?thesis using log obs Some by (auto simp: enqueue_log_def time_Now_def)
qed

end

interpretation sqlq: settled_backend env "sql_Dispatch cfg env handlers" for cfg env handlers
  by unfold_locales (use silentD [OF silent_sql_Dispatch] in \<open>auto simp: quiet_def\<close>)

section \<open>Dispatch\<close>

lemma more_tables: "obs.more w' = obs.more w \<Longrightarrow> sw_tables w' = sw_tables (w :: sql_world)"
  by (cases w; cases w') simp

lemma gate_tables [simp]:
  "sw_tables (gate_onAccepted env a fn w) = sw_tables (w :: sql_world)" "sw_tables (gate_markAccepted env a w) = sw_tables (w :: sql_world)"
  by (auto simp: gate_onAccepted_def gate_markAccepted_def split: option.split prod.split intro!: more_tables)

lemma observed_Dispatch_inner:
  assumes "observed_Dispatch env driver inner ctx job w = (err, w')"
  obtains c w1 w2 where "inner (Some c) job w1 = (err, w2)" "sw_tables w1 = sw_tables (w :: sql_world)" "sw_tables w' = sw_tables w2"
proof -
  obtain c a w0 where 0: "ensureDispatchAcceptance ctx w = (c, a, w0)" by (metis prod_cases3)
  let ?w1 = "gate_onAccepted env a (ObserveAccepted c (dispatch_base env driver job)) w0"
  obtain e w2 where 2: "inner (Some c) job ?w1 = (e, w2)" by fastforce
  have "sw_tables ?w1 = sw_tables w" using 0 by (auto simp: ensureDispatchAcceptance_def Let_def split: option.splits)
  moreover have "err = e" "sw_tables w' = sw_tables w2"
    using assms 0 2 by (auto simp: observed_Dispatch_def Let_def time_Now_def split: if_splits)
  ultimately show thesis using that 2 by blast
qed



section \<open>Settled deliveries\<close>

text \<open>How often success was announced, and how many announcements a settlement still holds.\<close>

definition successes :: "'w obs_scheme \<Rightarrow> nat" where
  "successes w = length (filter (\<lambda>k. k = EventProcessSucceeded) (kinds w))"

definition held :: "deferred list \<Rightarrow> nat" where
  "held cs = length (filter (\<lambda>c. deferred_kind c = EventProcessSucceeded) cs)"

definition announces :: "'w obs_scheme \<Rightarrow> nat \<Rightarrow> (bool \<times> nat) option" where
  "announces w a = map_option (\<lambda>s. (st_committed s, held (st_callbacks s))) (ob_settlements w a)"

text \<open>What is expected of an application handler: it may work on the database, dispatch jobs and
  let its workflow record and defer facts, but it neither commits a settlement nor announces
  that a delivery succeeded. Both are the runtime's business.\<close>

definition application_handler :: "sql_handler \<Rightarrow> bool" where
  "application_handler h \<longleftrightarrow> (\<forall>ctx job w r w'. h ctx job w = (r, w') \<longrightarrow> successes w' = successes w \<and> announces w' = announces w)"

lemma successes_simps [simp]:
  "successes (SafeObserve env ctx event w) = successes w + (if oe_observed env \<and> qe_Kind event = EventProcessSucceeded then 1 else 0)"
  "successes (run_all env cs w) = successes w + (if oe_observed env then held cs else 0)"
  "successes (snd (time_Now env w)) = successes w"
  by (simp_all add: successes_def held_def filter_map comp_def time_Now_def)

lemma announces_simps [simp]:
  "announces (SafeObserve env ctx event w) = announces w" "announces (run_all env cs w) = announces w"
  "announces (snd (time_Now env w)) = announces w"
  by (simp_all add: announces_def fun_eq_iff time_Now_def)

lemma quiet_successes: "quiet w w' \<Longrightarrow> successes w' = successes w \<and> announces w' = announces w"
  by (simp add: quiet_def successes_def kinds_def announces_def fun_eq_iff)

lemma PreserveDeliveryContext_settlement:
  "deliverySettlementFromContext ctx = Some a \<Longrightarrow> cx_settlement (PreserveDeliveryContext ctx d) = Some a"
  by (auto simp: PreserveDeliveryContext_def Let_def split: prod.split option.split)

lemma decorate_settlement: "deliverySettlementFromContext ctx = Some a \<Longrightarrow> deliverySettlementFromContext (decorate dec ctx) = Some a"
  by (auto simp: decorate_def deliverySettlementFromContext_def [of "Some _"] PreserveDeliveryContext_settlement split: option.split)

text \<open>The wrapper defers the success of a handler to the settlement of its delivery.\<close>

lemma finish_observed_announces:
  fixes env :: "'e obs_env_scheme" and w :: "'w obs_scheme"
  assumes "deliverySettlementFromContext ctx = Some a" "announces w a = Some (False, n)"
  shows "successes (finish_observed env ctx base start r w) = successes w"
    and "announces (finish_observed env ctx base start r w) a = Some (False, n + (if r = Returned None then 1 else 0))"
proof -
  obtain s where s: "ob_settlements w a = Some s" "\<not> st_committed s" "held (st_callbacks s) = n"
    using assms(2) by (auto simp: announces_def)
  have f: "defer_observation env ctx fn w' = (True, w'\<lparr>ob_settlements := (ob_settlements w)(a \<mapsto> s\<lparr>st_callbacks := st_callbacks s @ [fn]\<rparr>)\<rparr>)"
    if "ob_settlements w' = ob_settlements w" for fn and w' :: "'w obs_scheme"
    using assms(1) s that by (simp add: defer_observation_def DeferUntilDeliveryCommitted_def deferCommit_def)
  show "successes (finish_observed env ctx base start r w) = successes w"
    by (auto simp: finish_observed_def Let_def time_Now_def f) (auto simp: successes_def)
  show "announces (finish_observed env ctx base start r w) a = Some (False, n + (if r = Returned None then 1 else 0))"
    using s by (auto simp: finish_observed_def Let_def time_Now_def f announces_def held_def)
qed

lemma wrapObservedHandler_announces:
  assumes h: "application_handler h" and ctx: "deliverySettlementFromContext ctx = Some a" and fresh: "announces w a = Some (False, 0)"
    and run: "wrapObservedHandler env driver q dec h ctx job w = (r, w')"
  shows "successes w' = successes w" and "announces w' a = Some (False, if r = Returned None then 1 else 0)"
proof -
  let ?ctx = "decorate dec ctx" and ?start = "fst (time_Now env w)"
  let ?base = "process_base env driver q job ?start" and ?w0 = "snd (time_Now env w)"
  let ?w1 = "SafeObserve env ?ctx ?base (if 0 < qe_Attempt ?base then SafeObserve env ?ctx (?base\<lparr>qe_Kind := EventProcessRetried\<rparr>) ?w0 else ?w0)"
  obtain r2 w2 where 2: "h ?ctx job ?w1 = (r2, w2)" by fastforce
  have r: "r = r2" "w' = finish_observed env ?ctx ?base ?start r w2"
    using run 2 by (auto simp: wrapObservedHandler_def case_prod_beta Let_def)
  have "successes ?w1 = successes w" "announces ?w1 = announces w"
    by (auto simp: process_base_def with_metadata_def zero_qevent_def)
  then have "successes w2 = successes w" "announces w2 a = Some (False, 0)"
    using h 2 fresh by (auto simp: application_handler_def)
  with finish_observed_announces [OF decorate_settlement [OF ctx, of dec], of w2 0 env ?base ?start r] r
  show "successes w' = successes w" "announces w' a = Some (False, if r = Returned None then 1 else 0)" by auto
qed

text \<open>The settlement calls publish nothing themselves.\<close>

lemma silent_settle: "silent (settle env stmt)"
  by (intro silentI) (auto simp: settle_def split: prod.splits sum.splits dest: silentD [OF silent_calls(5)])

lemma silent_markDone: "silent (markDone env job)"
  by (intro silentI) (auto simp: markDone_def split: sum.splits prod.splits dest: silentD [OF silent_settle])

lemma silent_markFailed: "silent (markFailed env job e)"
proof (rule silentI)
  fix w x w' assume run: "markFailed env job e w = (x, w')"
  obtain t w1 where 1: "time_Now env w = (t, w1)" by fastforce
  have "w' = w \<or> w' = w1 \<or> (\<exists>stmt. settle env stmt w1 = (x, w'))"
    using run 1 unfolding markFailed_def by (auto simp: Let_def split: sum.splits if_splits)
  then show "quiet w w'" using silentD [OF silent_calls(1) 1] silentD [OF silent_settle] quiet_trans by auto
qed

lemma silent_settle_retries: "silent f \<Longrightarrow> silent (settle_retries n f lastErr)"
proof (induction n arbitrary: lastErr)
  case (Suc n)
  show ?case
  proof (rule silentI)
    fix w x w' assume run: "settle_retries (Suc n) f lastErr w = (x, w')"
    obtain e w1 where 1: "f w = (e, w1)" by fastforce
    have "w' = w1 \<or> (\<exists>l. settle_retries n f l w1 = (x, w'))" using run 1 by (auto split: option.splits)
    then show "quiet w w'" using silentD [OF Suc.prems 1] silentD [OF Suc.IH [OF Suc.prems]] quiet_trans by blast
  qed
qed (simp add: silent_def)

lemma silent_finalize: "silent (markDoneWithRetry env job)" "silent (markFailedWithRetry env job e)"
  by (auto simp: markDoneWithRetry_def markFailedWithRetry_def intro!: silentI split: prod.splits option.splits
      dest!: silentD [OF silent_settle_retries [OF silent_markDone]] silentD [OF silent_settle_retries [OF silent_markFailed]])

lemma silent_restore: "silent (restoreRecoveredSettlementLineage cfg env job err)"
proof (rule silentI)
  fix w x w' assume run: "restoreRecoveredSettlementLineage cfg env job err w = (x, w')"
  obtain t w1 where 1: "time_Now env w = (t, w1)" by fastforce
  have "w' = w1 \<or> (\<exists>stmt. settle env stmt w1 = (x, w'))"
    using run 1 unfolding restoreRecoveredSettlementLineage_def restoreDatabaseSettlementLineage_def
    by (auto split: sum.splits option.splits)
  then show "quiet w w'" using silentD [OF silent_calls(1) 1] silentD [OF silent_settle] quiet_trans by auto
qed

lemma settlement_failure_successes: "successes (handleSettlementFailure cfg env ctx job err w) = successes w"
proof -
  obtain e w1 where 1: "restoreRecoveredSettlementLineage cfg env job err w = (e, w1)" by fastforce
  with quiet_successes [OF silentD [OF silent_restore 1]] show ?thesis
    by (simp add: handleSettlementFailure_def observeSettlementFailure_def delivery_event_def with_metadata_def zero_qevent_def case_prod_beta)
qed

lemma archive_observed [simp]:
  "successes (observeConfirmedProcessArchive env ctx job err w) = successes w"
  "sw_tables (observeConfirmedProcessArchive env ctx job err w) = sw_tables w"
  by (simp_all add: observeConfirmedProcessArchive_def delivery_event_def with_metadata_def zero_qevent_def case_prod_beta)

text \<open>A finalisation that reports success has deleted the row of its generation.\<close>

lemma settle_deletes: "settle env (delete_jobs P) w = (None, w') \<Longrightarrow> \<forall>r \<in> set (tb_jobs (sw_tables w')). \<not> P r"
  by (auto simp: settle_def exec_def tx_exec_def delete_jobs_def requireDatabaseSettlementRow_def Let_def
      split: prod.splits sum.splits fault.splits)

lemma retries_deletes:
  assumes "settle_retries n (markDone env job) lastErr w = (None, w')" "lastErr = None \<Longrightarrow> 0 < n"
  shows "\<forall>r \<in> set (tb_jobs (sw_tables w')). \<not> owned (dj_id job) (dj_processingToken job) r"
  using assms
proof (induction n arbitrary: lastErr w)
  case (Suc n)
  obtain e w1 where 1: "markDone env job w = (e, w1)" by fastforce
  show ?case
  proof (cases e)
    case None
    then have "settle env (delete_jobs (owned (dj_id job) (dj_processingToken job))) w = (None, w1)" "w' = w1"
      using Suc.prems 1 by (auto simp: markDone_def databaseProcessingClaim_def split: if_splits)
    with settle_deletes show ?thesis by blast
  next
    case (Some err)
    then show ?thesis using Suc.IH [of "Some err" w1] Suc.prems 1 by simp
  qed
qed simp

lemma markDoneWithRetry_deletes:
  "markDoneWithRetry env job w = (None, w') \<Longrightarrow> \<forall>r \<in> set (tb_jobs (sw_tables w')). \<not> owned (dj_id job) (dj_processingToken job) r"
  unfolding markDoneWithRetry_def databaseFinalizeRetryCount_def
  by (auto split: prod.splits option.splits simp del: settle_retries.simps dest!: retries_deletes)

lemma settlement_Commit_announces:
  "announces w a = Some (False, n) \<Longrightarrow> successes (settlement_Commit env a w) = successes w + (if oe_observed env then n else 0)"
  "sw_tables (settlement_Commit env a w') = sw_tables (w' :: sql_world)"
  by (auto simp: settlement_Commit_def announces_def Commit_def successes_def held_def filter_map comp_def
      split: option.splits prod.splits intro!: more_tables)

text \<open>What the handler of a delivery returned when the worker ran it.\<close>

definition handler_result :: "sql_env \<Rightarrow> sql_handler \<Rightarrow> db_job \<Rightarrow> sql_world \<Rightarrow> callback_result" where
  "handler_result env handler job w = (case databaseSettlementContext (Some job) w of (ctx, a, w) \<Rightarrow>
     fst (runHandlerWithContinuationPermit ctx handler (databaseDeliveryJob env job) w))"

lemma delivery_context:
  assumes "databaseSettlementContext (Some job) w = (ctx, a, w1)"
  shows "cx_settlement ctx = Some a" "announces w1 a = Some (False, 0)" "successes w1 = successes w"
  using assms by (auto simp: databaseSettlementContext_def begin_settlement_def WithDeliverySettlement_def WithDeliveryProvenance_def
      announces_def new_settlement_def held_def successes_def ctx_or_background_def Let_def split: prod.splits)

lemma run_announces:
  assumes "application_handler h" "cx_settlement ctx = Some a" "announces w a = Some (False, 0)"
    and run: "runHandlerWithContinuationPermit ctx (wrapObservedHandler env driver q dec h) job w = (r, w')"
  shows "successes w' = successes w" "announces w' a = Some (False, if r = Returned None then 1 else 0)"
proof -
  obtain c release p where 1: "Permit queue_scope (Some ctx) (sw_permits w) = (c, release, p)" by (metis prod_cases3)
  obtain r1 w2 where 2: "wrapObservedHandler env driver q dec h (Some c) job (w\<lparr>sw_permits := p\<rparr>) = (r1, w2)" by fastforce
  have c: "deliverySettlementFromContext (Some c) = Some a"
    using 1 assms(2) by (auto simp: Permit_def queue_scope_def deliverySettlementFromContext_def ctx_or_background_def Let_def)
  have same: "successes (w\<lparr>sw_permits := x\<rparr>) = successes w" "announces (w\<lparr>sw_permits := x\<rparr>) = announces w" for w :: sql_world and x
    by (simp_all add: successes_def kinds_def announces_def fun_eq_iff)
  have w: "r = r1" "w' = w2\<lparr>sw_permits := release_permit release (sw_permits w2)\<rparr>"
    using run 1 2 by (auto simp: runHandlerWithContinuationPermit_def)
  from wrapObservedHandler_announces [OF assms(1) c _ 2] assms(3) w
  show "successes w' = successes w" "announces w' a = Some (False, if r = Returned None then 1 else 0)" by (simp_all add: same)
qed

lemma settle_delivery_announces:
  assumes run: "settle_delivery cfg env ctx a job err w = (ok, w')" and held: "announces w a = Some (False, n)"
    and obs: "oe_observed env"
  shows "successes w' = successes w + (if ok then n else 0)"
    and "ok \<Longrightarrow> err = None \<Longrightarrow> \<forall>r \<in> set (tb_jobs (sw_tables w')). \<not> owned (dj_id job) (dj_processingToken job) r"
proof -
  obtain e w1 where 1: "(case err of None \<Rightarrow> markDoneWithRetry env job w | Some e \<Rightarrow> markFailedWithRetry env job e w) = (e, w1)" by fastforce
  have "quiet w w1" using 1 silentD [OF silent_finalize(1)] silentD [OF silent_finalize(2)] by (auto split: option.splits)
  note q = quiet_successes [OF this]
  show "successes w' = successes w + (if ok then n else 0)"
    using run 1 q held obs unfolding settle_delivery_def
    by (auto simp: settlement_failure_successes settlement_Commit_announces Let_def split: option.splits)
  assume "ok" "err = None"
  with run 1 have "markDoneWithRetry env job w = (None, w1)" "w' = settlement_Commit env a w1"
    unfolding settle_delivery_def by (auto split: option.splits)
  with markDoneWithRetry_deletes show "\<forall>r \<in> set (tb_jobs (sw_tables w')). \<not> owned (dj_id job) (dj_processingToken job) r"
    by (simp add: settlement_Commit_announces(2))
qed


lemma settle_healthy:
  assumes "\<forall>n. se_fault env n = Healthy" "no_peers env" "stmt (sw_tables w) = Some (tb, 1)"
  shows "fst (settle env stmt w) = None"
  using assms by (simp add: settle_def exec_def tx_exec_def peers_def no_peers_def requireDatabaseSettlementRow_def Let_def)

lemma observed_idle_tables:
  "sw_tables (snd (runHandlerWithContinuationPermit ctx (wrapObservedHandler env driver q dec (\<lambda>ctx job w. (r, w))) job w)) = sw_tables w"
proof -
  have "sw_tables (snd (defer_observation env c fn w)) = sw_tables w" for c fn and w :: sql_world
    by (rule more_tables) (simp add: defer_observation_def case_prod_beta)
  then have "sw_tables (finish_observed env c base start r w) = sw_tables w" for c base start r and w :: sql_world
    by (simp add: finish_observed_def case_prod_beta Let_def)
  then show ?thesis by (simp add: runHandlerWithContinuationPermit_def wrapObservedHandler_def case_prod_beta Let_def)
qed

lemma processJob_idle:
  assumes "\<forall>n. se_fault env n = Healthy" "no_peers env" "dj_id job > 0" "dj_processingToken job \<noteq> []"
    and "map_of handlers (dj_jobType job) = Some (wrapObservedHandler env driver q dec (\<lambda>ctx job w. (Returned None, w)))"
    and "delete_jobs (owned (dj_id job) (dj_processingToken job)) (sw_tables w) = Some (tb, 1)"
  shows "fst (processJob cfg env handlers job w) = Settled"
proof -
  let ?h = "wrapObservedHandler env driver q dec (\<lambda>ctx job w. (Returned None, w))"
  obtain ctx a w1 where 1: "databaseSettlementContext (Some job) w = (ctx, a, w1)" by (metis prod_cases3)
  have t1: "sw_tables w1 = sw_tables w"
    using 1 by (auto simp: databaseSettlementContext_def begin_settlement_def Let_def split: prod.splits)
  obtain r w2 where 2: "runHandlerWithContinuationPermit ctx ?h (databaseDeliveryJob env job) w1 = (r, w2)" by fastforce
  have t2: "sw_tables w2 = sw_tables w" using observed_idle_tables [of ctx env driver q dec "Returned None" _ w1] 2 t1 by (metis snd_conv)
  have r: "r = Returned None"
    using 2 by (auto simp: runHandlerWithContinuationPermit_def wrapObservedHandler_def case_prod_beta Let_def)
  let ?job = "job\<lparr>dj_applicationStateCommitted := settlement_applied a w2\<rparr>"
  have "fst (markDone env ?job w2) = None"
    using settle_healthy [OF assms(1,2)] assms(3,4,6) t2 by (simp add: markDone_def databaseProcessingClaim_def)
  then obtain w3 where "markDone env ?job w2 = (None, w3)" by (metis prod.collapse)
  then have "markDoneWithRetry env ?job w2 = (None, w3)"
    by (simp add: markDoneWithRetry_def databaseFinalizeRetryCount_def numeral_3_eq_3)
  then show ?thesis using assms(5) 1 2 r by (simp add: processJob_def settle_delivery_def)
qed

definition sample_claim :: "db_job \<times> sql_tables" where
  "sample_claim = (let row = \<lparr>jr_id = 1, jr_queue_name = ''default'', jr_job_type = ''t'', jr_payload = [], jr_metadata_json = None,
       jr_timeout_seconds = None, jr_max_retry = 0, jr_backoff_millis = 0, jr_attempt = 0, jr_available_at = 0,
       jr_processing_started_at = Some 0, jr_processing_token = Some ''g'', jr_last_error = None, jr_state = ''processing'',
       jr_created_at = 0, jr_updated_at = 0\<rparr>
     in ((claimed_job row)\<lparr>dj_processingToken := ''g''\<rparr>, empty_tables\<lparr>tb_jobs := [row], tb_next_id := 2\<rparr>))"


end
