(* ===== verification/LocalQueue.thy ===== *)
theory LocalQueue
  imports Collector Uniqueness "HOL-Library.AList"
begin

text \<open>
  The in-process queue of \<open>queue_local.go\<close> with its two drivers: \<open>sync\<close> runs a job inside
  \<open>Dispatch\<close>, \<open>workerpool\<close> hands it to goroutines through a bounded channel. Every function
  that holds a mutex is one function on the state. Where a goroutine may block, the
  operation returns what it waits for, and the continuation is an operation of its own.
  Handlers are functions on the state; the retry loop may run forever, so it has the result
  \<^const>\<open>None\<close> then.
\<close>

section \<open>State\<close>

definition DriverSync :: string where "DriverSync = ''sync''"
definition DriverWorkerpool :: string where "DriverWorkerpool = ''workerpool''"

record workerpool_config =
  wc_Workers :: int
  wc_QueueCapacity :: int
  wc_DefaultJobTimeout :: duration

text \<open>The number of processors is what the runtime reports.\<close>

definition default_worker_count :: "int \<Rightarrow> int \<Rightarrow> int" where
  "default_worker_count numCPU configured = (if 0 < configured then configured else if numCPU \<le> 0 then 1 else numCPU)"

definition workerpool_normalize :: "int \<Rightarrow> workerpool_config \<Rightarrow> workerpool_config" where
  "workerpool_normalize numCPU c =
    (let c = c\<lparr>wc_Workers := default_worker_count numCPU (wc_Workers c)\<rparr>
     in if wc_QueueCapacity c \<le> 0 then c\<lparr>wc_QueueCapacity := wc_Workers c\<rparr> else c)"

record local_metrics =
  lm_Pending :: int
  lm_Active :: int
  lm_Processed :: int
  lm_Failed :: int
  lm_Delayed :: int

definition zero_metrics :: local_metrics where
  "zero_metrics = \<lparr>lm_Pending = 0, lm_Active = 0, lm_Processed = 0, lm_Failed = 0, lm_Delayed = 0\<rparr>"

record queued_job =
  qd_ctx :: dctx
  qd_job :: qjob
  qd_opts :: qjob_options

text \<open>A channel of work is its buffer, with \<^const>\<open>None\<close> the nil channel; a closed channel is what
  the workers that still range over it can receive. Idle channels are numbered, and the
  closed ones are remembered.\<close>

record local_world = obs +
  lw_driver :: string
  lw_cfg :: workerpool_config
  lw_resizeBuffer :: bool
  lw_unique :: claim_store
  lw_metrics :: "(string \<times> local_metrics) list"
  lw_pausedQueues :: "string list"
  lw_workQueue :: "queued_job list option"
  lw_closedQueue :: "queued_job list option"
  lw_workPending :: int
  lw_workIdle :: "nat option"
  lw_workerWG :: int
  lw_syncWorkPending :: int
  lw_syncWorkIdle :: "nat option"
  lw_idleChannels :: nat
  lw_closedIdle :: "nat list"
  lw_permits :: permit_heap
  lw_shuttingDown :: bool
  lw_enqueued :: int
  lw_started :: int
  lw_finished :: int
  lw_delayed :: int
  lw_waits :: nat

text \<open>The environment also says how each wait between attempts ends: its timer fires, or the
  context ends first; and what a \<open>select\<close> chooses between a channel with room and a context
  that may have ended.\<close>

record local_env = obs_env +
  le_wait :: "nat \<Rightarrow> duration \<Rightarrow> goerr option"
  le_select :: "nat \<Rightarrow> goerr option"

type_synonym local_handler = "dctx option \<Rightarrow> qjob \<Rightarrow> local_world \<Rightarrow> callback_result \<times> local_world"
type_synonym local_handlers = "(string \<times> local_handler) list"

text \<open>The token of the continuation scope of the queue.\<close>

definition local_scope :: scope where
  "local_scope = Some 0"

definition newLocalQueueWithConfig :: "int \<Rightarrow> string \<Rightarrow> workerpool_config \<Rightarrow> local_world" where
  "newLocalQueueWithConfig numCPU driver cfg = \<lparr>ob_reads = 0, ob_draws = 0, ob_events = [], ob_gates = Map.empty, ob_nextGate = 0,
     ob_settlements = Map.empty, ob_nextSettlement = 0, lw_driver = driver, lw_cfg = workerpool_normalize numCPU cfg,
     lw_resizeBuffer = (wc_QueueCapacity cfg \<le> 0), lw_unique = zero_claims, lw_metrics = [], lw_pausedQueues = [],
     lw_workQueue = None, lw_closedQueue = None, lw_workPending = 0, lw_workIdle = None, lw_workerWG = 0, lw_syncWorkPending = 0, lw_syncWorkIdle = None,
     lw_idleChannels = 0, lw_closedIdle = [], lw_permits = \<lparr>ph_next = 0, ph_permits = Map.empty\<rparr>, lw_shuttingDown = False,
     lw_enqueued = 0, lw_started = 0, lw_finished = 0, lw_delayed = 0, lw_waits = 0\<rparr>"

section \<open>Registration, pausing and metrics\<close>

definition local_Register :: "string \<Rightarrow> local_handler option \<Rightarrow> local_handlers \<Rightarrow> local_handlers" where
  "local_Register jobType handler hs = (if jobType = [] then hs else
     case handler of None \<Rightarrow> hs | Some h \<Rightarrow> AList.update jobType h hs)"

definition local_lookup :: "local_handlers \<Rightarrow> string \<Rightarrow> local_handler option" where
  "local_lookup hs jobType = map_of hs jobType"

definition local_Pause :: "string \<Rightarrow> local_world \<Rightarrow> local_world" where
  "local_Pause queueName w = w\<lparr>lw_pausedQueues := List.insert (NormalizeQueueName queueName) (lw_pausedQueues w)\<rparr>"

definition local_Resume :: "string \<Rightarrow> local_world \<Rightarrow> local_world" where
  "local_Resume queueName w = w\<lparr>lw_pausedQueues := removeAll (NormalizeQueueName queueName) (lw_pausedQueues w)\<rparr>"

definition isPaused :: "string \<Rightarrow> local_world \<Rightarrow> bool" where
  "isPaused queueName w \<longleftrightarrow> NormalizeQueueName queueName \<in> set (lw_pausedQueues w)"

definition updateQueueMetrics :: "string \<Rightarrow> (local_metrics \<Rightarrow> local_metrics) \<Rightarrow> local_world \<Rightarrow> local_world" where
  "updateQueueMetrics queueName update w = (let name = NormalizeQueueName queueName;
       metrics = (case map_of (lw_metrics w) name of None \<Rightarrow> zero_metrics | Some m \<Rightarrow> m)
     in w\<lparr>lw_metrics := AList.update name (update metrics) (lw_metrics w)\<rparr>)"

definition boolToInt64 :: "bool \<Rightarrow> int" where
  "boolToInt64 v = (if v then 1 else 0)"

definition local_counters :: "bool \<Rightarrow> local_metrics \<Rightarrow> queue_counters" where
  "local_counters paused m = zero_counters\<lparr>qc_Pending := lm_Pending m + lm_Delayed m, qc_Active := lm_Active m,
     qc_Processed := lm_Processed m, qc_Failed := lm_Failed m, qc_Paused := boolToInt64 paused\<rparr>"

definition local_zero_throughput :: queue_throughput where
  "local_zero_throughput = \<lparr>qt_Hour = \<lparr>tw_Processed = 0, tw_Failed = 0\<rparr>, qt_Day = \<lparr>tw_Processed = 0, tw_Failed = 0\<rparr>,
     qt_Week = \<lparr>tw_Processed = 0, tw_Failed = 0\<rparr>\<rparr>"

definition local_Stats :: "local_world \<Rightarrow> stats_snapshot" where
  "local_Stats w =
    (let byQueue = (\<lambda>q. case map_of (lw_metrics w) q of
           Some m \<Rightarrow> Some (local_counters (q \<in> set (lw_pausedQueues w)) m)
         | None \<Rightarrow> if q \<in> set (lw_pausedQueues w) then Some (zero_counters\<lparr>qc_Paused := boolToInt64 True\<rparr>)
             else if lw_metrics w = [] \<and> lw_pausedQueues w = [] \<and> q = ''default'' then Some zero_counters else None)
     in \<lparr>ss_ByQueue = byQueue, ss_ThroughputByQueue = (\<lambda>q. map_option (\<lambda>_. local_zero_throughput) (byQueue q))\<rparr>)"

section \<open>Running a job\<close>

definition no_handler :: "string \<Rightarrow> goerr" where
  "no_handler jobType = ErrNew (''no handler registered for job type '' @ quote jobType)"

definition validateEnqueue :: "local_handlers \<Rightarrow> qjob \<Rightarrow> string \<Rightarrow> local_world \<Rightarrow> goerr option" where
  "validateEnqueue hs job queueName w = (if isPaused queueName w then Some (Sentinel ErrQueuePaused)
     else if local_lookup hs (qj_Type job) = None then Some (no_handler (qj_Type job)) else None)"

definition local_run :: "local_handlers \<Rightarrow> dctx \<Rightarrow> qjob \<Rightarrow> local_world \<Rightarrow> callback_result \<times> local_world" where
  "local_run hs ctx job w = (case local_lookup hs (qj_Type job) of
     None \<Rightarrow> (Returned (Some (no_handler (qj_Type job))), w) | Some handler \<Rightarrow> handler (Some ctx) job w)"

definition localRedeliveryBackoff :: duration where
  "localRedeliveryBackoff = 1000000"

definition waitForLocalRetry :: "local_env \<Rightarrow> duration \<Rightarrow> local_world \<Rightarrow> goerr option \<times> local_world" where
  "waitForLocalRetry env delay w = (le_wait env (lw_waits w) delay, w\<lparr>lw_waits := Suc (lw_waits w)\<rparr>)"

text \<open>One attempt runs under a permit that is released when the handler returns or panics.\<close>

definition permitted_run :: "local_handlers \<Rightarrow> dctx \<Rightarrow> qjob \<Rightarrow> local_world \<Rightarrow> callback_result \<times> local_world" where
  "permitted_run hs ctx job w = (case Permit local_scope (Some ctx) (lw_permits w) of (attemptCtx, release, h) \<Rightarrow>
     case local_run hs attemptCtx job (w\<lparr>lw_permits := h\<rparr>) of (r, w) \<Rightarrow>
       (r, w\<lparr>lw_permits := release_permit release (lw_permits w)\<rparr>))"

partial_function (option) run_attempts ::
  "local_env \<Rightarrow> local_handlers \<Rightarrow> dctx \<Rightarrow> qjob \<Rightarrow> duration option \<Rightarrow> int \<Rightarrow> int \<Rightarrow> local_world \<Rightarrow> (callback_result \<times> local_world) option" where
  "run_attempts env hs ctx job backoff maxRetry attempt w =
    (let delivery = \<lparr>da_Number = attempt, da_MaxRetry = maxRetry\<rparr> in
     case permitted_run hs (WithDeliveryAttempt (Some ctx) delivery) (withAttempt attempt job) w of (r, w) \<Rightarrow>
       (case r of
          Returned err \<Rightarrow>
            (case ClassifyAttempt delivery err of
               AttemptSucceeded \<Rightarrow> Some (Returned None, w)
             | AttemptFailed \<Rightarrow> Some (Returned err, w)
             | AttemptRetry \<Rightarrow>
                 (case waitForLocalRetry env (case backoff of None \<Rightarrow> 0 | Some d \<Rightarrow> d) w of (waitErr, w) \<Rightarrow>
                    if waitErr \<noteq> None then Some (Returned waitErr, w)
                    else run_attempts env hs ctx job backoff maxRetry (attempt + 1) w)
             | AttemptRedeliver \<Rightarrow>
                 (case waitForLocalRetry env localRedeliveryBackoff w of (waitErr, w) \<Rightarrow>
                    if waitErr \<noteq> None then Some (Returned waitErr, w)
                    else run_attempts env hs ctx job backoff maxRetry attempt w))
        | PanickedError _ \<Rightarrow> Some (r, w)
        | PanickedValue _ \<Rightarrow> Some (r, w)))"

definition retry_limit :: "qjob_options \<Rightarrow> int" where
  "retry_limit parsed = (case qo_maxRetry parsed of None \<Rightarrow> 0 | Some n \<Rightarrow> if 0 < n then n else 0)"

definition runWithRetry :: "local_env \<Rightarrow> local_handlers \<Rightarrow> dctx option \<Rightarrow> qjob \<Rightarrow> qjob_options \<Rightarrow> local_world \<Rightarrow> (callback_result \<times> local_world) option" where
  "runWithRetry env hs ctx job parsed w =
    (let jobForRun = (case qo_maxRetry parsed of None \<Rightarrow> job | Some n \<Rightarrow> q_Retry n job);
         jobForRun = (if qo_queueName parsed \<noteq> [] then q_OnQueue (qo_queueName parsed) jobForRun else jobForRun)
     in run_attempts env hs (ctx_or_background ctx) jobForRun (qo_backoff parsed) (retry_limit parsed) 0 w)"

section \<open>Pending work\<close>

definition reserveSyncWork :: "dctx option \<Rightarrow> local_world \<Rightarrow> goerr option \<times> local_world" where
  "reserveSyncWork ctx w = (if lw_shuttingDown w \<and> \<not> Owns local_scope ctx (lw_permits w) then (Some (Sentinel ErrQueuerShuttingDown), w)
     else let w = (if lw_syncWorkPending w = 0
                   then w\<lparr>lw_syncWorkIdle := Some (lw_idleChannels w), lw_idleChannels := Suc (lw_idleChannels w)\<rparr> else w)
          in (None, w\<lparr>lw_syncWorkPending := lw_syncWorkPending w + 1\<rparr>))"

definition finishSyncWork :: "local_world \<Rightarrow> local_world" where
  "finishSyncWork w = (let w = w\<lparr>lw_syncWorkPending := lw_syncWorkPending w - 1\<rparr> in
     if lw_syncWorkPending w = 0 then (case lw_syncWorkIdle w of None \<Rightarrow> w | Some c \<Rightarrow> w\<lparr>lw_closedIdle := c # lw_closedIdle w\<rparr>) else w)"

definition finishQueuedWork :: "local_world \<Rightarrow> local_world" where
  "finishQueuedWork w = (let w = w\<lparr>lw_workPending := lw_workPending w - 1\<rparr> in
     if lw_workPending w = 0 then (case lw_workIdle w of None \<Rightarrow> w
       | Some c \<Rightarrow> w\<lparr>lw_closedIdle := c # lw_closedIdle w, lw_workIdle := None\<rparr>) else w)"

definition startMemoryWorkersLocked :: "local_world \<Rightarrow> local_world" where
  "startMemoryWorkersLocked w = (if lw_workQueue w \<noteq> None \<or> lw_shuttingDown w then w
     else w\<lparr>lw_workQueue := Some [], lw_workerWG := lw_workerWG w + max 0 (wc_Workers (lw_cfg w))\<rparr>)"

definition local_StartWorkers :: "local_world \<Rightarrow> local_world" where
  "local_StartWorkers w = (if lw_driver w \<noteq> DriverWorkerpool then w else startMemoryWorkersLocked w)"

definition setWorkers :: "int \<Rightarrow> local_world \<Rightarrow> local_world" where
  "setWorkers n w = (if n \<le> 0 \<or> lw_workQueue w \<noteq> None \<or> lw_shuttingDown w then w
     else let c = (lw_cfg w)\<lparr>wc_Workers := n\<rparr> in w\<lparr>lw_cfg := (if lw_resizeBuffer w then c\<lparr>wc_QueueCapacity := n\<rparr> else c)\<rparr>)"

definition reserveWorkerQueue :: "dctx option \<Rightarrow> local_world \<Rightarrow> goerr option \<times> local_world" where
  "reserveWorkerQueue ctx w = (if lw_shuttingDown w \<and> \<not> Owns local_scope ctx (lw_permits w) then (Some (Sentinel ErrQueuerShuttingDown), w)
     else if lw_workQueue w = None \<and> lw_shuttingDown w then (Some (Sentinel ErrWorkerpoolQueueNotInitialized), w)
     else let w = (if lw_workQueue w = None then startMemoryWorkersLocked w else w) in
       if lw_workQueue w = None then (Some (Sentinel ErrWorkerpoolQueueNotInitialized), w)
       else let w = (if lw_workPending w = 0
                     then w\<lparr>lw_workIdle := Some (lw_idleChannels w), lw_idleChannels := Suc (lw_idleChannels w)\<rparr> else w)
            in (None, w\<lparr>lw_workPending := lw_workPending w + 1\<rparr>))"

section \<open>Enqueueing\<close>

text \<open>A goroutine that owns a reservation: a caller that waits for room in the channel, with the
  uniqueness claim and the gate it compensates when its context ends; a goroutine started
  for a continuation; the timer of a delayed job, and the same goroutine once the timer fired
  and the channel was full. The context of a delayed job never ends.\<close>

datatype reservation = WaitingCaller queued_job string "64 word" nat | Forwarder queued_job | Timer queued_job | DelayedSender queued_job

primrec reserved_job :: "reservation \<Rightarrow> queued_job" where
  "reserved_job (WaitingCaller q _ _ _) = q"
| "reserved_job (Forwarder q) = q"
| "reserved_job (Timer q) = q"
| "reserved_job (DelayedSender q) = q"

text \<open>How a dispatch ends: it returns, its handler panics, or it leaves a goroutine with a reservation.
  A waiting caller has not returned yet.\<close>

datatype dispatch_outcome = DispatchReturned "goerr option" | DispatchPanicked callback_result | DispatchLeft reservation

definition has_room :: "local_world \<Rightarrow> bool" where
  "has_room w = (case lw_workQueue w of None \<Rightarrow> False | Some buf \<Rightarrow> int (length buf) < wc_QueueCapacity (lw_cfg w))"

definition send_job :: "queued_job \<Rightarrow> local_world \<Rightarrow> local_world" where
  "send_job q w = w\<lparr>lw_workQueue := map_option (\<lambda>buf. buf @ [q]) (lw_workQueue w)\<rparr>"

definition recordQueuedJob :: "local_env \<Rightarrow> qjob_options \<Rightarrow> nat option \<Rightarrow> local_world \<Rightarrow> local_world" where
  "recordQueuedJob env parsed acceptance w =
    (let w = updateQueueMetrics (NormalizeQueueName (qo_queueName parsed)) (\<lambda>m. m\<lparr>lm_Pending := lm_Pending m + 1\<rparr>)
               (w\<lparr>lw_enqueued := lw_enqueued w + 1\<rparr>)
     in case acceptance of None \<Rightarrow> w | Some a \<Rightarrow> gate_markAccepted env a w)"

text \<open>The acceptance is marked only on request and when the context carries a gate. A worker
  waits until it is marked, so sending and marking are one step for it.\<close>

definition enqueueReservedAsync ::
  "local_env \<Rightarrow> dctx \<Rightarrow> qjob \<Rightarrow> qjob_options \<Rightarrow> bool \<Rightarrow> bool \<Rightarrow> (queued_job \<Rightarrow> reservation) \<Rightarrow> local_world \<Rightarrow> dispatch_outcome \<times> local_world" where
  "enqueueReservedAsync env ctx job parsed markAcceptance cancellable waiting w =
    (let acceptance = (if markAcceptance then cx_acceptance ctx else None);
         queued = \<lparr>qd_ctx = ctx, qd_job = job, qd_opts = parsed\<rparr>
     in if Owns local_scope (Some ctx) (lw_permits w)
        then (if has_room w then (DispatchReturned None, recordQueuedJob env parsed acceptance (send_job queued w))
              else (DispatchLeft (Forwarder queued), recordQueuedJob env parsed None
                     (case acceptance of None \<Rightarrow> w | Some a \<Rightarrow> gate_markAccepted env a w)))
        else if has_room w
        then (case (if cancellable then le_select env (lw_waits w) else None) of
                Some err \<Rightarrow> (DispatchReturned (Some err), finishQueuedWork (w\<lparr>lw_waits := Suc (lw_waits w)\<rparr>))
              | None \<Rightarrow> (DispatchReturned None, recordQueuedJob env parsed acceptance (send_job queued (w\<lparr>lw_waits := Suc (lw_waits w)\<rparr>))))
        else (DispatchLeft (waiting queued), w))"

definition enqueueAsync ::
  "local_env \<Rightarrow> dctx \<Rightarrow> qjob \<Rightarrow> qjob_options \<Rightarrow> string \<Rightarrow> 64 word \<Rightarrow> nat \<Rightarrow> local_world \<Rightarrow> dispatch_outcome \<times> local_world" where
  "enqueueAsync env ctx job parsed key token gate w = (case reserveWorkerQueue (Some ctx) w of
     (Some err, w) \<Rightarrow> (DispatchReturned (Some err), w)
   | (None, w) \<Rightarrow> enqueueReservedAsync env ctx job parsed True True (\<lambda>q. WaitingCaller q key token gate) w)"

text \<open>A delayed job leaves its counters once its goroutine returns.\<close>

definition finish_delayed :: "qjob_options \<Rightarrow> local_world \<Rightarrow> local_world" where
  "finish_delayed parsed w = (let w = updateQueueMetrics (NormalizeQueueName (qo_queueName parsed))
       (\<lambda>m. if 0 < lm_Delayed m then m\<lparr>lm_Delayed := lm_Delayed m - 1\<rparr> else m) w
     in w\<lparr>lw_delayed := lw_delayed w - 1\<rparr>)"

text \<open>What the goroutines do later: send when there is room, or give up when the context of a
  waiting caller ends.\<close>

definition resume_send :: "local_env \<Rightarrow> reservation \<Rightarrow> local_world \<Rightarrow> local_world" where
  "resume_send env r w = (case r of
     WaitingCaller q key token gate \<Rightarrow> recordQueuedJob env (qd_opts q) (cx_acceptance (qd_ctx q)) (send_job q w)
   | Forwarder q \<Rightarrow> send_job q w
   | DelayedSender q \<Rightarrow> finish_delayed (qd_opts q) (recordQueuedJob env (qd_opts q) None (send_job q w))
   | Timer q \<Rightarrow> w)"

definition release_claim :: "string \<Rightarrow> 64 word \<Rightarrow> local_world \<Rightarrow> local_world" where
  "release_claim key token w = w\<lparr>lw_unique := Release key token (lw_unique w)\<rparr>"

definition cancel_send :: "string \<Rightarrow> 64 word \<Rightarrow> nat \<Rightarrow> local_world \<Rightarrow> local_world" where
  "cancel_send key token gate w = (let w = finishQueuedWork w in
     if gate_isAccepted gate w then w else release_claim key token w)"

definition claimUnique :: "local_env \<Rightarrow> qjob \<Rightarrow> string \<Rightarrow> duration \<Rightarrow> local_world \<Rightarrow> (string \<times> 64 word) option \<times> local_world" where
  "claimUnique env job queueName ttl w = (case time_Now env w of (t, w) \<Rightarrow>
     let key = DriverUniqueKey (oe_sha256 env) (oe_decode env) job queueName in
     case Acquire t key ttl (lw_unique w) of ((token, ok), s) \<Rightarrow>
       (if ok then Some (key, token) else None, w\<lparr>lw_unique := s\<rparr>))"

definition finish_metrics :: "bool \<Rightarrow> local_metrics \<Rightarrow> local_metrics" where
  "finish_metrics ok m = (let m = (if 0 < lm_Active m then m\<lparr>lm_Active := lm_Active m - 1\<rparr> else m)
     in if ok then m\<lparr>lm_Processed := lm_Processed m + 1\<rparr> else m\<lparr>lm_Failed := lm_Failed m + 1\<rparr>)"

definition enqueueNow ::
  "local_env \<Rightarrow> local_handlers \<Rightarrow> dctx \<Rightarrow> qjob \<Rightarrow> qjob_options \<Rightarrow> string \<Rightarrow> 64 word \<Rightarrow> nat \<Rightarrow> local_world \<Rightarrow> (dispatch_outcome \<times> local_world) option" where
  "enqueueNow env hs ctx job parsed key token gate w =
    (let queueName = NormalizeQueueName (qo_queueName parsed) in
     case validateEnqueue hs job queueName w of Some err \<Rightarrow> Some (DispatchReturned (Some err), w)
     | None \<Rightarrow>
         if lw_driver w = DriverWorkerpool then Some (enqueueAsync env ctx job parsed key token gate w)
         else let w = (case cx_acceptance ctx of None \<Rightarrow> w | Some a \<Rightarrow> gate_markAccepted env a w);
                  w = updateQueueMetrics queueName (\<lambda>m. m\<lparr>lm_Active := lm_Active m + 1\<rparr>) w
              in map_option (\<lambda>(r, w). case r of
                   Returned err \<Rightarrow> (DispatchReturned err, updateQueueMetrics queueName (finish_metrics (err = None)) w)
                 | _ \<Rightarrow> (DispatchPanicked r, w)) (runWithRetry env hs (Some ctx) job parsed w))"

section \<open>Dispatch\<close>

definition compensate :: "string \<Rightarrow> 64 word \<Rightarrow> nat \<Rightarrow> dispatch_outcome \<times> local_world \<Rightarrow> dispatch_outcome \<times> local_world" where
  "compensate key token gate r = (case r of
     (DispatchReturned (Some err), w) \<Rightarrow> (DispatchReturned (Some err), if gate_isAccepted gate w then w else release_claim key token w)
   | (out, w) \<Rightarrow> (out, w))"

definition dispatch_now ::
  "local_env \<Rightarrow> local_handlers \<Rightarrow> dctx \<Rightarrow> nat \<Rightarrow> qjob \<Rightarrow> qjob_options \<Rightarrow> string \<Rightarrow> 64 word \<Rightarrow> local_world \<Rightarrow> (dispatch_outcome \<times> local_world) option" where
  "dispatch_now env hs ctx gate job parsed key token w =
    (if lw_driver w = DriverSync
     then (case reserveSyncWork (Some ctx) w of
             (Some err, w) \<Rightarrow> Some (DispatchReturned (Some err), release_claim key token w)
           | (None, w) \<Rightarrow> map_option (\<lambda>r. case compensate key token gate r of (out, w) \<Rightarrow> (out, finishSyncWork w))
               (enqueueNow env hs ctx job parsed key token gate w))
     else map_option (compensate key token gate) (enqueueNow env hs ctx job parsed key token gate w))"

definition dispatch_delayed ::
  "local_env \<Rightarrow> dctx \<Rightarrow> qjob \<Rightarrow> qjob_options \<Rightarrow> string \<Rightarrow> 64 word \<Rightarrow> local_world \<Rightarrow> dispatch_outcome \<times> local_world" where
  "dispatch_delayed env ctx job parsed key token w =
    (case (if lw_driver w = DriverWorkerpool then reserveWorkerQueue (Some ctx) w
           else if lw_driver w = DriverSync then reserveSyncWork (Some ctx) w else (None, w)) of
       (Some err, w) \<Rightarrow> (DispatchReturned (Some err), release_claim key token w)
     | (None, w) \<Rightarrow>
         let w = w\<lparr>lw_delayed := lw_delayed w + 1\<rparr>;
             w = updateQueueMetrics (NormalizeQueueName (qo_queueName parsed)) (\<lambda>m. m\<lparr>lm_Delayed := lm_Delayed m + 1\<rparr>) w;
             w = (case cx_acceptance ctx of None \<Rightarrow> w | Some a \<Rightarrow> gate_markAccepted env a w)
         in (DispatchLeft (Timer \<lparr>qd_ctx = ctx, qd_job = job, qd_opts = parsed\<rparr>), w))"

definition local_Dispatch ::
  "local_env \<Rightarrow> local_handlers \<Rightarrow> dctx option \<Rightarrow> qjob \<Rightarrow> local_world \<Rightarrow> (dispatch_outcome \<times> local_world) option" where
  "local_Dispatch env hs ctx job w =
    (case ensureDispatchAcceptance ctx w of (ctx, gate, w) \<Rightarrow>
     if lw_shuttingDown w \<and> \<not> Owns local_scope (Some ctx) (lw_permits w)
     then Some (DispatchReturned (Some (Sentinel ErrQueuerShuttingDown)), w)
     else case job_validate job of Some err \<Rightarrow> Some (DispatchReturned (Some err), w)
     | None \<Rightarrow>
         let parsed = qj_options job; queueName = NormalizeQueueName (qo_queueName parsed) in
         (case validateEnqueue hs job queueName w of Some err \<Rightarrow> Some (DispatchReturned (Some err), w)
          | None \<Rightarrow>
              (case (if 0 < qo_uniqueTTL parsed then claimUnique env job queueName (qo_uniqueTTL parsed) w else (Some ([], 0), w)) of
                 (None, w) \<Rightarrow> Some (DispatchReturned (Some (Sentinel ErrDuplicate)), w)
               | (Some (key, token), w) \<Rightarrow>
                   if qo_delay parsed \<le> 0 then dispatch_now env hs ctx gate job parsed key token w
                   else Some (dispatch_delayed env ctx job parsed key token w))))"

text \<open>The goroutine of a delayed job, when its timer fires: it returns, keeps its reservation, or
  its handler panics, which ends the process.\<close>

definition fire_timer :: "local_env \<Rightarrow> local_handlers \<Rightarrow> queued_job \<Rightarrow> local_world \<Rightarrow> (dispatch_outcome \<times> local_world) option" where
  "fire_timer env hs q w =
    (if lw_driver w = DriverWorkerpool
     then Some (case enqueueReservedAsync env (qd_ctx q) (qd_job q) (qd_opts q) False False DelayedSender w of
       (DispatchLeft (DelayedSender q), w) \<Rightarrow> (DispatchLeft (DelayedSender q), w)
     | (DispatchReturned (Some err), w) \<Rightarrow> (DispatchReturned None, finish_delayed (qd_opts q) (finishQueuedWork w))
     | (out, w) \<Rightarrow> (out, finish_delayed (qd_opts q) w))
     else map_option (\<lambda>(out, w). case out of
         DispatchPanicked r \<Rightarrow> (DispatchPanicked r, w)
       | _ \<Rightarrow> (DispatchReturned None, finishSyncWork (finish_delayed (qd_opts q) w)))
       (enqueueNow env hs (qd_ctx q) (qd_job q) (qd_opts q) [] 0 0 w))"

section \<open>Workers\<close>

definition worker_receive :: "local_world \<Rightarrow> (queued_job \<times> local_world) option" where
  "worker_receive w = (case lw_workQueue w of
     Some (q # qs) \<Rightarrow> Some (q, w\<lparr>lw_workQueue := Some qs\<rparr>)
   | Some [] \<Rightarrow> None
   | None \<Rightarrow> (case lw_closedQueue w of Some (q # qs) \<Rightarrow> Some (q, w\<lparr>lw_closedQueue := Some qs\<rparr>) | _ \<Rightarrow> None))"

definition worker_begin :: "queued_job \<Rightarrow> local_world \<Rightarrow> local_world" where
  "worker_begin q w = updateQueueMetrics (NormalizeQueueName (qo_queueName (qd_opts q)))
     (\<lambda>m. let m = (if 0 < lm_Pending m then m\<lparr>lm_Pending := lm_Pending m - 1\<rparr> else m) in m\<lparr>lm_Active := lm_Active m + 1\<rparr>)
     (w\<lparr>lw_started := lw_started w + 1\<rparr>)"

text \<open>A panic becomes the error of the run.\<close>

fun panic_error :: "callback_result \<Rightarrow> goerr option" where
  "panic_error (Returned err) = err"
| "panic_error (PanickedError err) = Some (ErrNew (''panic: '' @ error_text err))"
| "panic_error (PanickedValue v) = Some (ErrNew (''panic: '' @ v))"

definition worker_end :: "queued_job \<Rightarrow> goerr option \<Rightarrow> local_world \<Rightarrow> local_world" where
  "worker_end q runErr w =
    (let w = updateQueueMetrics (NormalizeQueueName (qo_queueName (qd_opts q))) (finish_metrics (runErr = None)) w
     in finishQueuedWork (w\<lparr>lw_finished := lw_finished w + 1\<rparr>))"

definition worker_process :: "local_env \<Rightarrow> local_handlers \<Rightarrow> queued_job \<Rightarrow> local_world \<Rightarrow> local_world option" where
  "worker_process env hs q w = map_option (\<lambda>(r, w). worker_end q (panic_error r) w)
     (runWithRetry env hs (Some (qd_ctx q)) (qd_job q) (qd_opts q) (worker_begin q w))"

section \<open>Draining\<close>

definition begin_drain :: "local_world \<Rightarrow> local_world" where
  "begin_drain w = w\<lparr>lw_shuttingDown := True\<rparr>"

text \<open>One round of the loop: the channel is closed, or the idle channel to wait for.\<close>

definition closeWorkerQueueWhenIdle :: "local_world \<Rightarrow> nat option option \<times> local_world" where
  "closeWorkerQueueWhenIdle w = (if lw_workPending w = 0
     then (None, case lw_workQueue w of None \<Rightarrow> w | Some buf \<Rightarrow> w\<lparr>lw_closedQueue := Some buf, lw_workQueue := None\<rparr>)
     else (Some (lw_workIdle w), w))"

definition waitForSyncWork :: "local_world \<Rightarrow> nat option option" where
  "waitForSyncWork w = (if lw_syncWorkPending w = 0 then None else Some (lw_syncWorkIdle w))"

end
