(* ===== verification/LocalRuns.thy ===== *)
theory LocalRuns
  imports LocalQueue "HOL-Library.Multiset"
begin

text \<open>
  Runs of the in-process queue: the retry loop returns when only finitely many attempts ask
  for redelivery, a panic on the \<open>sync\<close> driver leaves the job counted as active, and what a
  dispatch does to the channel of the workerpool and to the count of pending work.
\<close>

section \<open>The retry loop\<close>

text \<open>A bound on the redeliveries the handlers still ask for, which every such request
  decreases and nothing increases.\<close>

definition budgeted :: "(local_world \<Rightarrow> nat) \<Rightarrow> local_handlers \<Rightarrow> bool" where
  "budgeted budget hs \<longleftrightarrow> (\<forall>w h n. budget (w\<lparr>lw_permits := h\<rparr>) = budget w \<and> budget (w\<lparr>lw_waits := n\<rparr>) = budget w)
     \<and> (\<forall>t h ctx job w err w'. (t, h) \<in> set hs \<and> h ctx job w = (Returned err, w')
          \<longrightarrow> (if IsUncommitted err then budget w' < budget w else budget w' \<le> budget w))"

lemma budgeted_run:
  assumes "budgeted budget hs" "permitted_run hs ctx job w = (Returned err, w')"
  shows "if IsUncommitted err then budget w' < budget w else budget w' \<le> budget w"
proof -
  obtain c release h where 1: "Permit local_scope (Some ctx) (lw_permits w) = (c, release, h)" by (metis prod_cases3)
  obtain r w1 where 2: "local_run hs c job (w\<lparr>lw_permits := h\<rparr>) = (r, w1)" by fastforce
  have w': "r = Returned err" "w' = w1\<lparr>lw_permits := release_permit release (lw_permits w1)\<rparr>"
    using assms(2) 1 2 by (auto simp: permitted_run_def)
  have same: "budget (v\<lparr>lw_permits := x\<rparr>) = budget v" for v x using assms(1) by (simp add: budgeted_def)
  show ?thesis
  proof (cases "local_lookup hs (qj_Type job)")
    case None
    then have "err = Some (no_handler (qj_Type job))" "w1 = w\<lparr>lw_permits := h\<rparr>" using 2 w'(1) by (auto simp: local_run_def)
    then show ?thesis using w'(2) by (simp add: same no_handler_def IsUncommitted_def)
  next
    case (Some f)
    then have "(qj_Type job, f) \<in> set hs" "f (Some c) job (w\<lparr>lw_permits := h\<rparr>) = (Returned err, w1)"
      using 2 w'(1) by (auto simp: local_lookup_def local_run_def dest: map_of_SomeD)
    then have "if IsUncommitted err then budget w1 < budget (w\<lparr>lw_permits := h\<rparr>) else budget w1 \<le> budget (w\<lparr>lw_permits := h\<rparr>)"
      using assms(1) unfolding budgeted_def by blast
    then show ?thesis using w'(2) by (auto simp: same split: if_splits)
  qed
qed

lemma run_attempts_returns:
  assumes "budgeted budget hs"
  shows "\<exists>r w'. run_attempts env hs ctx job backoff maxRetry attempt w = Some (r, w')"
proof (induction "budget w + nat (maxRetry - attempt)" arbitrary: attempt w rule: less_induct)
  case less
  let ?d = "\<lparr>da_Number = attempt, da_MaxRetry = maxRetry\<rparr>"
  obtain r w1 where run: "permitted_run hs (WithDeliveryAttempt (Some ctx) ?d) (withAttempt attempt job) w = (r, w1)" by fastforce
  have same: "budget (v\<lparr>lw_waits := n\<rparr>) = budget v" for v n using assms by (simp add: budgeted_def)
  show ?case
  proof (cases r)
    case (Returned err)
    note dec = budgeted_run [OF assms run [unfolded Returned]]
    have retry: "\<exists>r w'. run_attempts env hs ctx job backoff maxRetry (attempt + 1) (w1\<lparr>lw_waits := n\<rparr>) = Some (r, w')"
      if "ClassifyAttempt ?d err = AttemptRetry" for n
      using that dec by (intro less) (auto simp: ClassifyAttempt_Retry same)
    have redeliver: "\<exists>r w'. run_attempts env hs ctx job backoff maxRetry attempt (w1\<lparr>lw_waits := n\<rparr>) = Some (r, w')"
      if "ClassifyAttempt ?d err = AttemptRedeliver" for n
      using that dec by (intro less) (simp add: same)
    show ?thesis
      by (subst run_attempts.simps)
        (use run Returned retry redeliver in \<open>auto simp: Let_def waitForLocalRetry_def split: attempt_decision.split\<close>)
  qed (subst run_attempts.simps, use run in \<open>auto simp: Let_def\<close>)+
qed

text \<open>C40. The retry loop of the in-process queue returns whatever the handlers do, provided they ask
  for redelivery only finitely often: ordinary failures end it after the retry limit.\<close>

theorem retry_loop_returns:
  assumes "budgeted budget hs"
  shows "\<exists>r w'. runWithRetry env hs ctx job parsed w = Some (r, w')"
  using run_attempts_returns [OF assms] by (simp add: runWithRetry_def Let_def)

definition failing_handler :: local_handler where
  "failing_handler ctx job w = (Returned (Some (ErrNew ''boom'')), w\<lparr>lw_started := lw_started w + 1\<rparr>)"

definition local_quiet_env :: local_env where
  "local_quiet_env = \<lparr>oe_clock = (\<lambda>n. int n), oe_rand = (\<lambda>n k. Inr (replicate k (char_of n))), oe_observed = True,
     oe_sha1 = (\<lambda>x. x), oe_sha256 = (\<lambda>x. x), oe_decode = (\<lambda>_. None), le_wait = (\<lambda>_ _. None), le_select = (\<lambda>_. None)\<rparr>"

theorem retry_loop_returns_witness:
  "\<exists>r w'. runWithRetry local_quiet_env [(''t'', failing_handler)] None (q_Retry 2 (q_NewJob ''t''))
     (qj_options (q_Retry 2 (q_NewJob ''t''))) (newLocalQueueWithConfig 4 DriverSync \<lparr>wc_Workers = 1, wc_QueueCapacity = 1, wc_DefaultJobTimeout = 0\<rparr>) = Some (r, w')"
proof (rule retry_loop_returns)
  show "budgeted (\<lambda>_. 0) [(''t'', failing_handler)]" by (auto simp: budgeted_def failing_handler_def IsUncommitted_def)
qed

section \<open>A panic on the sync driver\<close>

definition active_jobs :: "string \<Rightarrow> local_world \<Rightarrow> int" where
  "active_jobs queueName w = (case map_of (lw_metrics w) (NormalizeQueueName queueName) of None \<Rightarrow> 0 | Some m \<Rightarrow> lm_Active m)"

lemma active_jobs_update:
  "active_jobs queueName (updateQueueMetrics queueName (\<lambda>m. m\<lparr>lm_Active := lm_Active m + 1\<rparr>) w) = active_jobs queueName w + 1"
  by (simp add: active_jobs_def updateQueueMetrics_def Let_def update_conv zero_metrics_def split: option.split)

lemma active_jobs_gate: "active_jobs queueName (gate_markAccepted env a w) = active_jobs queueName w"
proof -
  have "obs.more (gate_markAccepted env a w) = obs.more w" by (simp add: gate_markAccepted_def split: option.split prod.split)
  then have "lw_metrics (gate_markAccepted env a w) = lw_metrics w" by (cases "gate_markAccepted env a w"; cases w) simp
  then show ?thesis by (simp add: active_jobs_def)
qed

text \<open>The count of active jobs goes down again only when the run returns: after a panic it
  stays one above what the run itself left.\<close>

lemma sync_panic_keeps_active:
  assumes "lw_driver w \<noteq> DriverWorkerpool" "qo_queueName parsed = ''default''"
    "validateEnqueue hs job ''default'' w = None"
    "\<And>w1. \<exists>w2. runWithRetry env hs (Some ctx) job parsed w1 = Some (PanickedValue v, w2) \<and> active_jobs ''default'' w2 = active_jobs ''default'' w1"
  shows "\<exists>w'. enqueueNow env hs ctx job parsed key token gate w = Some (DispatchPanicked (PanickedValue v), w')
    \<and> active_jobs ''default'' w' = active_jobs ''default'' w + 1"
proof -
  have name: "NormalizeQueueName ''default'' = ''default''" by code_simp
  let ?w0 = "case cx_acceptance ctx of None \<Rightarrow> w | Some a \<Rightarrow> gate_markAccepted env a w"
  let ?w1 = "updateQueueMetrics ''default'' (\<lambda>m. m\<lparr>lm_Active := lm_Active m + 1\<rparr>) ?w0"
  have gate: "active_jobs ''default'' ?w0 = active_jobs ''default'' w" by (simp add: active_jobs_gate split: option.split)
  obtain w2 where "runWithRetry env hs (Some ctx) job parsed ?w1 = Some (PanickedValue v, w2)" "active_jobs ''default'' w2 = active_jobs ''default'' ?w1"
    using assms(4) by blast
  then show ?thesis using assms(1-3) gate active_jobs_update [of "''default''" ?w0] by (simp add: enqueueNow_def name)
qed

section \<open>What dispatching does to the channel\<close>

text \<open>The part of the state the drain depends on.\<close>

definition core :: "local_world \<Rightarrow> string \<times> workerpool_config \<times> queued_job list option \<times> queued_job list option \<times> int \<times> permit_heap \<times> bool" where
  "core w = (lw_driver w, lw_cfg w, lw_workQueue w, lw_closedQueue w, lw_workPending w, lw_permits w, lw_shuttingDown w)"

lemma more_core: "obs.more w' = obs.more w \<Longrightarrow> core w' = core w"
  by (cases w; cases w') (simp add: core_def)

lemma core_gate [simp]: "core (gate_markAccepted env a w) = core w"
  by (rule more_core) (simp add: gate_markAccepted_def split: option.split prod.split)

lemma core_frame [simp]:
  "core (updateQueueMetrics q f w) = core w" "core (release_claim key token w) = core w"
  "core (w\<lparr>lw_waits := n\<rparr>) = core w" "core (w\<lparr>lw_enqueued := m\<rparr>) = core w" "core (w\<lparr>lw_delayed := m\<rparr>) = core w"
  "core (w\<lparr>lw_started := m\<rparr>) = core w" "core (w\<lparr>lw_finished := m\<rparr>) = core w" "core (w\<lparr>lw_unique := u\<rparr>) = core w"
  "core (finish_delayed parsed w) = core w"
  by (simp_all add: core_def updateQueueMetrics_def release_claim_def finish_delayed_def Let_def)

lemma core_eqD:
  "core w' = core w \<Longrightarrow> lw_driver w' = lw_driver w \<and> lw_cfg w' = lw_cfg w \<and> lw_workQueue w' = lw_workQueue w \<and> lw_closedQueue w' = lw_closedQueue w
     \<and> lw_workPending w' = lw_workPending w \<and> lw_permits w' = lw_permits w \<and> lw_shuttingDown w' = lw_shuttingDown w"
  by (simp add: core_def)

lemma core_recordQueuedJob [simp]: "core (recordQueuedJob env parsed a w) = core w"
  by (simp add: recordQueuedJob_def Let_def split: option.split)

lemma ensure_core: "ensureDispatchAcceptance ctx w = (c, a, w') \<Longrightarrow> core w' = core w"
  by (auto simp: ensureDispatchAcceptance_def Let_def core_def split: option.splits)

lemma claimUnique_core: "claimUnique env job q ttl w = (r, w') \<Longrightarrow> core w' = core w"
  by (auto simp: claimUnique_def time_Now_def Let_def core_def split: prod.splits)

text \<open>A dispatch to a workerpool changes nothing there, or starts the workers, puts the job into the
  channel, or leaves a reservation; the last two count it as pending.\<close>

definition started :: "local_world \<Rightarrow> queued_job list option \<Rightarrow> bool" where
  "started w q \<longleftrightarrow> q = lw_workQueue w \<or> \<not> lw_shuttingDown w \<and> lw_workQueue w = None \<and> q = Some []"

inductive dispatched :: "local_world \<Rightarrow> reservation list \<Rightarrow> queued_job list \<Rightarrow> local_world \<Rightarrow> bool" for w where
  refused: "\<lbrakk>started w (lw_workQueue w'); lw_workPending w' = lw_workPending w\<rbrakk> \<Longrightarrow> dispatched w [] [] w'"
| sent: "\<lbrakk>started w (Some buf); lw_workQueue w' = Some (buf @ [q]); lw_workPending w' = lw_workPending w + 1\<rbrakk> \<Longrightarrow> dispatched w [] [q] w'"
| left: "\<lbrakk>started w (Some buf); lw_workQueue w' = Some buf; lw_workPending w' = lw_workPending w + 1; q = reserved_job r\<rbrakk> \<Longrightarrow> dispatched w [r] [q] w'"

definition steady :: "local_world \<Rightarrow> local_world \<Rightarrow> bool" where
  "steady w w' \<longleftrightarrow> lw_driver w' = lw_driver w \<and> lw_closedQueue w' = lw_closedQueue w \<and> lw_permits w' = lw_permits w \<and> lw_shuttingDown w' = lw_shuttingDown w"

definition left_by :: "dispatch_outcome \<Rightarrow> reservation list" where
  "left_by out = (case out of DispatchLeft r \<Rightarrow> [r] | _ \<Rightarrow> [])"

lemma core_steady: "core w' = core w \<Longrightarrow> steady w w'"
  by (simp add: core_def steady_def)

lemma steady_trans: "steady a b \<Longrightarrow> steady b c \<Longrightarrow> steady a c"
  by (simp add: steady_def)

lemma reserve_effect:
  assumes "reserveWorkerQueue ctx w = (e, w')"
  shows "steady w w' \<and> (e \<noteq> None \<longrightarrow> w' = w) \<and> (e = None \<longrightarrow> (\<exists>buf. started w (Some buf) \<and> lw_workQueue w' = Some buf)
    \<and> lw_workPending w' = lw_workPending w + 1)"
  using assms by (auto simp: reserveWorkerQueue_def startMemoryWorkersLocked_def steady_def started_def Let_def split: if_splits)

lemma finishQueuedWork_core: "steady w (finishQueuedWork w) \<and> lw_workQueue (finishQueuedWork w) = lw_workQueue w
    \<and> lw_workPending (finishQueuedWork w) = lw_workPending w - 1 \<and> lw_cfg (finishQueuedWork w) = lw_cfg w"
  by (auto simp: finishQueuedWork_def steady_def Let_def split: option.split)

lemma send_job_core: "steady w (send_job q w) \<and> lw_workPending (send_job q w) = lw_workPending w \<and> lw_cfg (send_job q w) = lw_cfg w
    \<and> lw_workQueue (send_job q w) = map_option (\<lambda>buf. buf @ [q]) (lw_workQueue w)"
  by (simp add: send_job_def steady_def)

text \<open>An enqueue on a reservation sends the job, leaves a goroutine, or gives the reservation back.\<close>

lemma enqueueReserved_effect:
  assumes run: "enqueueReservedAsync env ctx job parsed mark cancellable waiting w = (out, w')"
    and q: "q = \<lparr>qd_ctx = ctx, qd_job = job, qd_opts = parsed\<rparr>" and waiting: "reserved_job (waiting q) = q"
    and buf: "lw_workQueue w = Some buf"
  shows "steady w w'"
    and "out = DispatchReturned None \<and> lw_workQueue w' = Some (buf @ [q]) \<and> lw_workPending w' = lw_workPending w
      \<or> (\<exists>r. out = DispatchLeft r \<and> reserved_job r = q \<and> lw_workQueue w' = Some buf \<and> lw_workPending w' = lw_workPending w)
      \<or> cancellable \<and> (\<exists>e. out = DispatchReturned (Some e)) \<and> lw_workQueue w' = Some buf \<and> lw_workPending w' = lw_workPending w - 1"
proof -
  have c: "lw_workQueue (recordQueuedJob env parsed a v) = lw_workQueue v" "lw_workPending (recordQueuedJob env parsed a v) = lw_workPending v"
      "steady v (recordQueuedJob env parsed a v)" "lw_workQueue (gate_markAccepted env g v) = lw_workQueue v"
      "lw_workPending (gate_markAccepted env g v) = lw_workPending v" "steady v (gate_markAccepted env g v)" for a v g
    using core_recordQueuedJob [of env parsed a v] core_gate [of env g v] by (simp_all add: core_def steady_def)
  have f: "steady v (finishQueuedWork v)" "lw_workQueue (finishQueuedWork v) = lw_workQueue v" "lw_workPending (finishQueuedWork v) = lw_workPending v - 1" for v
    using finishQueuedWork_core by blast+
  show "steady w w'" using run unfolding enqueueReservedAsync_def Let_def
    using c(3) c(6) f(1) by (auto simp: send_job_def steady_def split: if_splits option.splits)
  show "out = DispatchReturned None \<and> lw_workQueue w' = Some (buf @ [q]) \<and> lw_workPending w' = lw_workPending w
      \<or> (\<exists>r. out = DispatchLeft r \<and> reserved_job r = q \<and> lw_workQueue w' = Some buf \<and> lw_workPending w' = lw_workPending w)
      \<or> cancellable \<and> (\<exists>e. out = DispatchReturned (Some e)) \<and> lw_workQueue w' = Some buf \<and> lw_workPending w' = lw_workPending w - 1"
    using run waiting buf unfolding enqueueReservedAsync_def Let_def q
    by (auto simp: c f send_job_def split: if_splits option.splits)
qed

lemma enqueueAsync_effect:
  assumes "enqueueAsync env ctx job parsed key token gate w = (out, w')"
  shows "steady w w' \<and> (\<exists>js. dispatched w (left_by out) js w') \<and> (\<forall>r. out \<noteq> DispatchPanicked r)"
proof -
  obtain e w1 where 1: "reserveWorkerQueue (Some ctx) w = (e, w1)" by fastforce
  note r1 = reserve_effect [OF 1]
  show ?thesis
  proof (cases e)
    case (Some err)
    then have "w' = w" "left_by out = []" "out = DispatchReturned (Some err)" using assms 1 r1 by (auto simp: enqueueAsync_def left_by_def)
    then show ?thesis using dispatched.refused [of w w] by (auto simp: started_def steady_def)
  next
    case None
    let ?q = "\<lparr>qd_ctx = ctx, qd_job = job, qd_opts = parsed\<rparr>"
    obtain buf where buf: "started w (Some buf)" "lw_workQueue w1 = Some buf" "lw_workPending w1 = lw_workPending w + 1"
      using r1 None by auto
    have run: "enqueueReservedAsync env ctx job parsed True True (\<lambda>q. WaitingCaller q key token gate) w1 = (out, w')"
      using assms 1 None by (simp add: enqueueAsync_def)
    note eff = enqueueReserved_effect [OF run refl _ buf(2), simplified]
    have "steady w w'" using eff(1) r1 steady_trans by blast
    moreover have "\<exists>js. dispatched w (left_by out) js w'"
      using eff(2)
    proof (elim disjE exE conjE)
      assume "out = DispatchReturned None" "lw_workQueue w' = Some (buf @ [?q])" "lw_workPending w' = lw_workPending w1"
      then show ?thesis using dispatched.sent [OF buf(1)] buf(3) by (auto simp: left_by_def)
    next
      fix r assume "out = DispatchLeft r" "reserved_job r = ?q" "lw_workQueue w' = Some buf" "lw_workPending w' = lw_workPending w1"
      then show ?thesis using dispatched.left [OF buf(1)] buf(3) by (auto simp: left_by_def)
    next
      fix err assume "out = DispatchReturned (Some err)" "lw_workQueue w' = Some buf" "lw_workPending w' = lw_workPending w1 - 1"
      then show ?thesis using dispatched.refused [of w w'] buf by (auto simp: left_by_def)
    qed
    ultimately show ?thesis using eff(2) by auto
  qed
qed

text \<open>What only touches the rest of the state can be put before or after.\<close>

lemma dispatched_core:
  "dispatched w rs js w' \<Longrightarrow> core v = core w \<Longrightarrow> core v' = core w' \<Longrightarrow> dispatched v rs js v'"
  by (erule dispatched.cases) (auto simp: core_def started_def intro: dispatched.intros)

lemma local_Dispatch_effect:
  assumes "local_Dispatch env hs ctx job w = Some (out, w')" "lw_driver w = DriverWorkerpool"
  shows "steady w w' \<and> (\<exists>js. dispatched w (left_by out) js w')"
proof -
  have not_sync: "DriverWorkerpool \<noteq> DriverSync" by (simp add: DriverWorkerpool_def DriverSync_def)
  obtain c gate w1 where 1: "ensureDispatchAcceptance ctx w = (c, gate, w1)" by (metis prod_cases3)
  note c1 = ensure_core [OF 1]
  let ?parsed = "qj_options job" let ?name = "NormalizeQueueName (qo_queueName ?parsed)"
  obtain u w2 where 2: "(if 0 < qo_uniqueTTL ?parsed then claimUnique env job ?name (qo_uniqueTTL ?parsed) w1 else (Some ([], 0), w1)) = (u, w2)" by fastforce
  then have c2: "core w2 = core w" using claimUnique_core c1 by (auto split: if_splits)
  then have drv: "lw_driver w2 = DriverWorkerpool" using assms(2) core_eqD by metis
  have same: "steady w v \<and> (\<exists>js. dispatched w [] js v)" if "core v = core w" for v
    using that dispatched.refused [of w v] core_eqD [OF that] core_steady [OF that] by (auto simp: started_def)
  consider (early) e where "out = DispatchReturned e" "w' = w1 \<or> w' = w2"
    | (now) key token where "u = Some (key, token)" "dispatch_now env hs c gate job ?parsed key token w2 = Some (out, w')"
    | (later) key token where "u = Some (key, token)" "dispatch_delayed env c job ?parsed key token w2 = (out, w')"
    using assms(1) 1 2 unfolding local_Dispatch_def by (auto simp: Let_def split: if_splits option.splits prod.splits)
  then show ?thesis
  proof cases
    case early
    then show ?thesis using same c1 c2 by (auto simp: left_by_def)
  next
    case (now key token)
    then obtain out1 w3 where n: "enqueueNow env hs c job ?parsed key token gate w2 = Some (out1, w3)" "compensate key token gate (out1, w3) = (out, w')"
      using drv not_sync by (auto simp: dispatch_now_def)
    have c: "core w' = core w3" "left_by out = left_by out1"
      using n(2) by (auto simp: compensate_def left_by_def split: dispatch_outcome.splits option.splits if_splits)
    have "w3 = w2 \<and> left_by out1 = [] \<or> enqueueAsync env c job ?parsed key token gate w2 = (out1, w3)"
      using n(1) drv by (auto simp: enqueueNow_def Let_def left_by_def split: option.splits)
    then show ?thesis
    proof
      assume "w3 = w2 \<and> left_by out1 = []"
      then show ?thesis using same [of w'] c c2 by simp
    next
      assume "enqueueAsync env c job ?parsed key token gate w2 = (out1, w3)"
      from enqueueAsync_effect [OF this] show ?thesis
        using c c2 dispatched_core core_steady steady_trans by metis
    qed
  next
    case (later key token)
    obtain e w3 where 3: "reserveWorkerQueue (Some c) w2 = (e, w3)" by fastforce
    note r3 = reserve_effect [OF 3]
    show ?thesis
    proof (cases e)
      case (Some err)
      then have "core w' = core w" "left_by out = []" using later(2) 3 r3 drv c2 by (auto simp: dispatch_delayed_def left_by_def)
      then show ?thesis using same by simp
    next
      case None
      then have "core w' = core w3" "left_by out = [Timer \<lparr>qd_ctx = c, qd_job = job, qd_opts = ?parsed\<rparr>]"
        using later(2) 3 drv by (auto simp: dispatch_delayed_def left_by_def Let_def split: option.splits)
      moreover have "\<exists>js. dispatched w2 [Timer \<lparr>qd_ctx = c, qd_job = job, qd_opts = ?parsed\<rparr>] js w3"
        using r3 None dispatched.left by blast
      ultimately show ?thesis using r3 c2 dispatched_core core_steady steady_trans by metis
    qed
  qed
qed

end
