(* ===== verification/LocalPool.thy ===== *)
theory LocalPool
  imports LocalRuns
begin

text \<open>
  The workerpool as a machine of goroutines, and the safety of its drain: the channel is
  closed only when every admitted job has run or was given up by its caller, nobody is left
  who could send on it, and a running handler can always enqueue.
\<close>

section \<open>The machine\<close>

text \<open>Beside the state of the queue there are the goroutines that own a reservation and the
  workers with the job they run and the permit of the attempt in progress. The jobs that were
  admitted, finished and given up are recorded; nothing reads the records.\<close>

record pool =
  pl_world :: local_world
  pl_reserved :: "reservation list"
  pl_running :: "nat \<rightharpoonup> queued_job \<times> nat option"
  pl_admitted :: "queued_job multiset"
  pl_finished :: "queued_job multiset"
  pl_abandoned :: "queued_job multiset"

definition pool_start :: "int \<Rightarrow> workerpool_config \<Rightarrow> pool" where
  "pool_start numCPU cfg = \<lparr>pl_world = newLocalQueueWithConfig numCPU DriverWorkerpool cfg, pl_reserved = [], pl_running = Map.empty,
     pl_admitted = {#}, pl_finished = {#}, pl_abandoned = {#}\<rparr>"

definition admitted_by :: "local_world \<Rightarrow> dispatch_outcome \<Rightarrow> local_world \<Rightarrow> queued_job multiset" where
  "admitted_by w out w' = (case out of DispatchLeft r \<Rightarrow> {#reserved_job r#}
     | _ \<Rightarrow> if lw_workPending w' = lw_workPending w then {#} else {#last (the (lw_workQueue w'))#})"

inductive pool_step :: "pool \<Rightarrow> pool \<Rightarrow> bool" where
  dispatching: "local_Dispatch env hs ctx job (pl_world s) = Some (out, w')
    \<Longrightarrow> pool_step s (s\<lparr>pl_world := w', pl_reserved := pl_reserved s @ left_by out, pl_admitted := pl_admitted s + admitted_by (pl_world s) out w'\<rparr>)"
| resuming: "\<lbrakk>pl_reserved s = rs @ r # rs'; has_room (pl_world s); \<And>q. r \<noteq> Timer q\<rbrakk>
    \<Longrightarrow> pool_step s (s\<lparr>pl_world := resume_send env r (pl_world s), pl_reserved := rs @ rs'\<rparr>)"
| giving_up: "pl_reserved s = rs @ WaitingCaller q key token gate # rs'
    \<Longrightarrow> pool_step s (s\<lparr>pl_world := cancel_send key token gate (pl_world s), pl_reserved := rs @ rs', pl_abandoned := add_mset q (pl_abandoned s)\<rparr>)"
| firing: "\<lbrakk>pl_reserved s = rs @ Timer q # rs'; fire_timer env hs q (pl_world s) = Some (out, w')\<rbrakk>
    \<Longrightarrow> pool_step s (s\<lparr>pl_world := w', pl_reserved := rs @ left_by out @ rs'\<rparr>)"
| receiving: "\<lbrakk>pl_running s k = None; worker_receive (pl_world s) = Some (q, w')\<rbrakk>
    \<Longrightarrow> pool_step s (s\<lparr>pl_world := worker_begin q w', pl_running := (pl_running s)(k \<mapsto> (q, None))\<rparr>)"
| attempting: "\<lbrakk>pl_running s k = Some (q, None); Permit local_scope (Some ctx) (lw_permits (pl_world s)) = (ctx', Some p, h)\<rbrakk>
    \<Longrightarrow> pool_step s (s\<lparr>pl_world := (pl_world s)\<lparr>lw_permits := h\<rparr>, pl_running := (pl_running s)(k \<mapsto> (q, Some p))\<rparr>)"
| returning: "pl_running s k = Some (q, Some p)
    \<Longrightarrow> pool_step s (s\<lparr>pl_world := (pl_world s)\<lparr>lw_permits := release_permit (Some p) (lw_permits (pl_world s))\<rparr>,
          pl_running := (pl_running s)(k \<mapsto> (q, None))\<rparr>)"
| finishing: "pl_running s k = Some (q, None)
    \<Longrightarrow> pool_step s (s\<lparr>pl_world := worker_end q err (pl_world s), pl_running := (pl_running s)(k := None), pl_finished := add_mset q (pl_finished s)\<rparr>)"
| draining: "pool_step s (s\<lparr>pl_world := begin_drain (pl_world s)\<rparr>)"
| closing: "lw_shuttingDown (pl_world s) \<Longrightarrow> pool_step s (s\<lparr>pl_world := snd (closeWorkerQueueWhenIdle (pl_world s))\<rparr>)"
| starting: "pool_step s (s\<lparr>pl_world := local_StartWorkers (pl_world s)\<rparr>)"
| sizing: "pool_step s (s\<lparr>pl_world := setWorkers n (pl_world s)\<rparr>)"
| pausing: "pool_step s (s\<lparr>pl_world := local_Pause queueName (pl_world s)\<rparr>)"
| resumption: "pool_step s (s\<lparr>pl_world := local_Resume queueName (pl_world s)\<rparr>)"

inductive pool_reachable :: "int \<Rightarrow> workerpool_config \<Rightarrow> pool \<Rightarrow> bool" for numCPU cfg where
  initially: "pool_reachable numCPU cfg (pool_start numCPU cfg)"
| later: "pool_reachable numCPU cfg s \<Longrightarrow> pool_step s s' \<Longrightarrow> pool_reachable numCPU cfg s'"

section \<open>The invariant\<close>

definition buffered :: "local_world \<Rightarrow> queued_job list" where
  "buffered w = (case lw_workQueue w of None \<Rightarrow> [] | Some buf \<Rightarrow> buf)"

definition running_jobs :: "(nat \<rightharpoonup> queued_job \<times> nat option) \<Rightarrow> queued_job multiset" where
  "running_jobs run = image_mset (\<lambda>k. fst (the (run k))) (mset_set (dom run))"

definition outstanding :: "pool \<Rightarrow> queued_job multiset" where
  "outstanding s = mset (map reserved_job (pl_reserved s)) + mset (buffered (pl_world s)) + running_jobs (pl_running s)"

definition pool_inv :: "pool \<Rightarrow> bool" where
  "pool_inv s \<longleftrightarrow> (let w = pl_world s in
     lw_driver w = DriverWorkerpool \<and> finite (dom (pl_running s))
     \<and> lw_workPending w = int (size (outstanding s))
     \<and> pl_admitted s = pl_finished s + pl_abandoned s + outstanding s
     \<and> (lw_workQueue w = None \<longrightarrow> outstanding s = {#})
     \<and> (lw_closedQueue w \<noteq> None \<longrightarrow> lw_closedQueue w = Some [] \<and> lw_workQueue w = None \<and> lw_shuttingDown w)
     \<and> (\<forall>p. permit_live 0 (lw_permits w) p \<longrightarrow> (\<exists>k q. pl_running s k = Some (q, Some p))))"

lemma running_jobs_simps [simp]:
  "running_jobs Map.empty = {#}"
  "finite (dom run) \<Longrightarrow> run k = None \<Longrightarrow> running_jobs (run(k \<mapsto> (q, p))) = add_mset q (running_jobs run)"
  "finite (dom run) \<Longrightarrow> run k = Some (q, p') \<Longrightarrow> running_jobs (run(k \<mapsto> (q, p))) = running_jobs run"
  "finite (dom run) \<Longrightarrow> run k = Some (q, p') \<Longrightarrow> add_mset q (running_jobs (run(k := None))) = running_jobs run"
proof -
  have mem: "x \<in># mset_set A \<Longrightarrow> x \<in> A" for x and A :: "nat set" by (cases "finite A") simp_all
  have upd: "image_mset (\<lambda>j. fst (the ((run(k \<mapsto> x)) j))) (mset_set (dom run - {k})) = image_mset (\<lambda>j. fst (the (run j))) (mset_set (dom run - {k}))" for x
    by (rule image_mset_cong) (auto dest: mem)
  have del: "image_mset (\<lambda>j. fst (the ((run(k := None)) j))) (mset_set (dom run - {k})) = image_mset (\<lambda>j. fst (the (run j))) (mset_set (dom run - {k}))"
    by (rule image_mset_cong) (auto dest: mem)
  show "running_jobs Map.empty = {#}" by (simp add: running_jobs_def)
  have ins: "mset_set (insert k (dom run)) = add_mset k (mset_set (dom run - {k}))" if "finite (dom run)"
    using that by (metis finite_Diff insert_Diff_single Diff_iff insertI1 mset_set.insert)
  show "running_jobs (run(k \<mapsto> (q, p))) = add_mset q (running_jobs run)" if "finite (dom run)" "run k = None"
  proof -
    have "dom run - {k} = dom run" using that(2) by auto
    then show ?thesis using ins [OF that(1)] upd [of "(q, p)"] by (simp add: running_jobs_def)
  qed
  have all: "running_jobs run = add_mset q (image_mset (\<lambda>j. fst (the (run j))) (mset_set (dom run - {k})))" if "finite (dom run)" "run k = Some (q, p')"
  proof -
    have "insert k (dom run) = dom run" using that(2) by auto
    then show ?thesis using ins [OF that(1)] that(2) by (simp add: running_jobs_def)
  qed
  show "running_jobs (run(k \<mapsto> (q, p))) = running_jobs run" if "finite (dom run)" "run k = Some (q, p')"
    using all [OF that] ins [OF that(1)] upd [of "(q, p)"] by (simp add: running_jobs_def)
  show "add_mset q (running_jobs (run(k := None))) = running_jobs run" if "finite (dom run)" "run k = Some (q, p')"
    using all [OF that] del by (simp add: running_jobs_def)
qed

lemma pool_invI:
  assumes "lw_driver (pl_world s) = DriverWorkerpool" "finite (dom (pl_running s))" "lw_workPending (pl_world s) = int (size (outstanding s))"
    "pl_admitted s = pl_finished s + pl_abandoned s + outstanding s" "lw_workQueue (pl_world s) = None \<Longrightarrow> outstanding s = {#}"
    "lw_closedQueue (pl_world s) \<noteq> None \<Longrightarrow> lw_closedQueue (pl_world s) = Some [] \<and> lw_workQueue (pl_world s) = None \<and> lw_shuttingDown (pl_world s)"
    "\<And>p. permit_live 0 (lw_permits (pl_world s)) p \<Longrightarrow> \<exists>k q. pl_running s k = Some (q, Some p)"
  shows "pool_inv s"
  using assms by (simp add: pool_inv_def Let_def)

lemma pool_invD:
  assumes "pool_inv s"
  shows "lw_driver (pl_world s) = DriverWorkerpool" "finite (dom (pl_running s))" "lw_workPending (pl_world s) = int (size (outstanding s))"
    "pl_admitted s = pl_finished s + pl_abandoned s + outstanding s" "lw_workQueue (pl_world s) = None \<Longrightarrow> outstanding s = {#}"
    "lw_closedQueue (pl_world s) \<noteq> None \<Longrightarrow> lw_closedQueue (pl_world s) = Some [] \<and> lw_workQueue (pl_world s) = None \<and> lw_shuttingDown (pl_world s)"
    "permit_live 0 (lw_permits (pl_world s)) p \<Longrightarrow> \<exists>k q. pl_running s k = Some (q, Some p)"
  using assms by (simp_all add: pool_inv_def Let_def)

lemma running_outstanding: "finite (dom (pl_running s)) \<Longrightarrow> pl_running s k \<noteq> None \<Longrightarrow> outstanding s \<noteq> {#}"
  by (auto simp: outstanding_def running_jobs_def domIff mset_set_empty_iff)

text \<open>A step that only moves jobs between the goroutines and the channel.\<close>

lemma pool_inv_moves:
  assumes inv: "pool_inv s" and st: "steady (pl_world s) (pl_world s')" and run: "pl_running s' = pl_running s"
    and pend: "lw_workPending (pl_world s') = lw_workPending (pl_world s) + int (size new) - int (size gone)"
    and out: "outstanding s' + gone = outstanding s + new" and gone: "gone \<subseteq># outstanding s"
    and ghosts: "pl_finished s' = pl_finished s" "pl_abandoned s' = pl_abandoned s + gone" "pl_admitted s' = pl_admitted s + new"
    and queue: "lw_workQueue (pl_world s') = None \<longleftrightarrow> lw_workQueue (pl_world s) = None \<and> new = {#}"
    and kept: "lw_shuttingDown (pl_world s) \<Longrightarrow> lw_workQueue (pl_world s) = None \<Longrightarrow> lw_workQueue (pl_world s') = None"
  shows "pool_inv s'"
proof (rule pool_invI)
  note D = pool_invD [OF inv]
  have size: "size (outstanding s') + size gone = size (outstanding s) + size new" using out by (metis size_union)
  show "lw_driver (pl_world s') = DriverWorkerpool" "finite (dom (pl_running s'))" using D(1,2) st run by (simp_all add: steady_def)
  show "lw_workPending (pl_world s') = int (size (outstanding s'))" using pend D(3) size by simp
  show "pl_admitted s' = pl_finished s' + pl_abandoned s' + outstanding s'"
    using ghosts D(4) out by (metis (no_types, lifting) add.assoc add.commute)
  show "outstanding s' = {#}" if "lw_workQueue (pl_world s') = None" using that queue D(5) out by auto
  show "lw_closedQueue (pl_world s') = Some [] \<and> lw_workQueue (pl_world s') = None \<and> lw_shuttingDown (pl_world s')"
    if "lw_closedQueue (pl_world s') \<noteq> None" using that D(6) st kept by (auto simp: steady_def)
  show "\<exists>k q. pl_running s' k = Some (q, Some p)" if "permit_live 0 (lw_permits (pl_world s')) p" for p
    using that D(7) st run by (auto simp: steady_def)
qed

lemma buffered_simps [simp]: "lw_workQueue w = Some buf \<Longrightarrow> buffered w = buf" "lw_workQueue w = None \<Longrightarrow> buffered w = []"
  by (simp_all add: buffered_def)

lemma started_buffered: "started w (Some buf) \<Longrightarrow> buffered w = buf"
  by (auto simp: started_def buffered_def split: option.splits)

lemma pool_inv_dispatch:
  assumes inv: "pool_inv s" and run: "local_Dispatch env hs ctx job (pl_world s) = Some (out, w')"
  shows "pool_inv (s\<lparr>pl_world := w', pl_reserved := pl_reserved s @ left_by out, pl_admitted := pl_admitted s + admitted_by (pl_world s) out w'\<rparr>)"
    (is "pool_inv ?s'")
proof -
  note D = pool_invD [OF inv]
  from local_Dispatch_effect [OF run D(1)] obtain js where st: "steady (pl_world s) w'" and d: "dispatched (pl_world s) (left_by out) js w'" by blast
  have closed: "lw_workQueue (pl_world s) = None \<Longrightarrow> lw_shuttingDown (pl_world s) \<Longrightarrow> started (pl_world s) q \<Longrightarrow> q = None" for q
    by (auto simp: started_def)
  from d show ?thesis
  proof cases
    case refused
    then have "admitted_by (pl_world s) out w' = {#}" by (auto simp: admitted_by_def left_by_def split: dispatch_outcome.splits)
    moreover have "buffered w' = buffered (pl_world s)" using refused by (auto simp: started_def buffered_def)
    ultimately have o: "outstanding ?s' = outstanding s" "pl_admitted ?s' = pl_admitted s" using refused by (simp_all add: outstanding_def)
    show ?thesis
    proof (rule pool_invI)
      show "outstanding ?s' = {#}" if "lw_workQueue (pl_world ?s') = None" using that refused o(1) D(5) by (auto simp: started_def)
      show "lw_closedQueue (pl_world ?s') = Some [] \<and> lw_workQueue (pl_world ?s') = None \<and> lw_shuttingDown (pl_world ?s')"
        if "lw_closedQueue (pl_world ?s') \<noteq> None" using that D(6) st refused by (auto simp: steady_def started_def)
      show "\<exists>k q. pl_running ?s' k = Some (q, Some p)" if "permit_live 0 (lw_permits (pl_world ?s')) p" for p
        using that D(7) st by (auto simp: steady_def)
    qed (use D(1-4) st o refused in \<open>auto simp: steady_def\<close>)
  next
    case (sent buf q)
    then have "admitted_by (pl_world s) out w' = {#q#}" by (auto simp: admitted_by_def left_by_def split: dispatch_outcome.splits)
    moreover have "buffered w' = buffered (pl_world s) @ [q]" using sent started_buffered by auto
    ultimately have o: "outstanding ?s' = add_mset q (outstanding s)" "pl_admitted ?s' = add_mset q (pl_admitted s)" using sent by (simp_all add: outstanding_def)
    show ?thesis
    proof (rule pool_inv_moves [OF inv, of _ "{#q#}" "{#}"])
      show "lw_workQueue (pl_world ?s') = None" if "lw_shuttingDown (pl_world s)" "lw_workQueue (pl_world s) = None"
        using that sent closed by auto
    qed (use st o sent in simp_all)
  next
    case (left buf q r)
    then have "admitted_by (pl_world s) out w' = {#reserved_job r#}" by (auto simp: admitted_by_def left_by_def split: dispatch_outcome.splits)
    moreover have "buffered w' = buffered (pl_world s)" using left started_buffered by auto
    ultimately have o: "outstanding ?s' = add_mset (reserved_job r) (outstanding s)" "pl_admitted ?s' = add_mset (reserved_job r) (pl_admitted s)"
      using left by (simp_all add: outstanding_def)
    show ?thesis
    proof (rule pool_inv_moves [OF inv, of _ "{#reserved_job r#}" "{#}"])
      show "lw_workQueue (pl_world ?s') = None" if "lw_shuttingDown (pl_world s)" "lw_workQueue (pl_world s) = None"
        using that left closed by auto
    qed (use st o left in simp_all)
  qed
qed


text \<open>The goroutines that hold a reservation.\<close>

lemma reserved_queue:
  assumes inv: "pool_inv s" and rs: "pl_reserved s = rs @ r # rs'"
  obtains buf where "lw_workQueue (pl_world s) = Some buf"
proof -
  have "outstanding s \<noteq> {#}" using rs by (simp add: outstanding_def)
  then show ?thesis using pool_invD(5) [OF inv] that by (cases "lw_workQueue (pl_world s)") auto
qed

lemma resume_send_effect:
  assumes "\<And>q. r \<noteq> Timer q"
  shows "steady w (resume_send env r w) \<and> lw_workPending (resume_send env r w) = lw_workPending w
    \<and> lw_workQueue (resume_send env r w) = map_option (\<lambda>buf. buf @ [reserved_job r]) (lw_workQueue w)"
proof -
  have "core (resume_send env r w) = core (send_job (reserved_job r) w)" using assms by (cases r) (auto simp: resume_send_def)
  from core_eqD [OF this] core_steady [OF this] show ?thesis using send_job_core [of w "reserved_job r"] steady_trans by metis
qed

lemma pool_inv_resume:
  assumes inv: "pool_inv s" and rs: "pl_reserved s = rs @ r # rs'" and r: "\<And>q. r \<noteq> Timer q"
  shows "pool_inv (s\<lparr>pl_world := resume_send env r (pl_world s), pl_reserved := rs @ rs'\<rparr>)" (is "pool_inv ?s'")
proof -
  obtain buf where buf: "lw_workQueue (pl_world s) = Some buf" using reserved_queue [OF inv rs] .
  note e = resume_send_effect [OF r, of "pl_world s" env]
  have "outstanding ?s' = outstanding s" using rs e buf by (simp add: outstanding_def)
  then show ?thesis using e buf by (intro pool_inv_moves [OF inv, of _ "{#}" "{#}"]) simp_all
qed

lemma pool_inv_give_up:
  assumes inv: "pool_inv s" and rs: "pl_reserved s = rs @ WaitingCaller q key token gate # rs'"
  shows "pool_inv (s\<lparr>pl_world := cancel_send key token gate (pl_world s), pl_reserved := rs @ rs', pl_abandoned := add_mset q (pl_abandoned s)\<rparr>)"
    (is "pool_inv ?s'")
proof -
  obtain buf where buf: "lw_workQueue (pl_world s) = Some buf" using reserved_queue [OF inv rs] .
  have "core (pl_world ?s') = core (finishQueuedWork (pl_world s))" by (simp add: cancel_send_def Let_def)
  from core_eqD [OF this] core_steady [OF this]
  have e: "steady (pl_world s) (pl_world ?s')" "lw_workQueue (pl_world ?s') = Some buf" "lw_workPending (pl_world ?s') = lw_workPending (pl_world s) - 1"
    using finishQueuedWork_core [of "pl_world s"] buf steady_trans by (metis, metis, metis)
  have "outstanding s = add_mset q (outstanding ?s')" using rs e(2) buf by (simp add: outstanding_def)
  then show ?thesis using e buf by (intro pool_inv_moves [OF inv, of _ "{#}" "{#q#}"]) simp_all
qed

lemma fire_timer_effect:
  assumes run: "fire_timer env hs q w = Some (out, w')" and drv: "lw_driver w = DriverWorkerpool" and buf: "lw_workQueue w = Some buf"
  shows "steady w w' \<and> lw_workPending w' = lw_workPending w \<and> (\<exists>buf'. lw_workQueue w' = Some buf'
    \<and> mset (map reserved_job (left_by out)) + mset buf' = add_mset q (mset buf))"
proof -
  obtain o1 w1 where 1: "enqueueReservedAsync env (qd_ctx q) (qd_job q) (qd_opts q) False False DelayedSender w = (o1, w1)" by fastforce
  note eff = enqueueReserved_effect [OF 1 refl _ buf, simplified]
  have same: "left_by out = left_by o1 \<and> core w' = core w1"
    using run drv 1 eff(2) by (auto simp: fire_timer_def left_by_def split: reservation.splits)
  show ?thesis using eff same core_eqD [of w' w1] core_steady [of w' w1] steady_trans [of w w1 w']
    by (auto simp: left_by_def)
qed

lemma pool_inv_fire:
  assumes inv: "pool_inv s" and rs: "pl_reserved s = rs @ Timer q # rs'" and run: "fire_timer env hs q (pl_world s) = Some (out, w')"
  shows "pool_inv (s\<lparr>pl_world := w', pl_reserved := rs @ left_by out @ rs'\<rparr>)" (is "pool_inv ?s'")
proof -
  obtain buf where buf: "lw_workQueue (pl_world s) = Some buf" using reserved_queue [OF inv rs] .
  from fire_timer_effect [OF run pool_invD(1) [OF inv] buf] obtain buf' where e: "steady (pl_world s) w'" "lw_workPending w' = lw_workPending (pl_world s)"
    "lw_workQueue w' = Some buf'" "mset (map reserved_job (left_by out)) + mset buf' = add_mset q (mset buf)" by blast
  have "outstanding ?s' = mset (map reserved_job rs) + mset (map reserved_job rs') + (mset (map reserved_job (left_by out)) + mset buf') + running_jobs (pl_running s)"
    using e(3) by (simp add: outstanding_def)
  also have "\<dots> = outstanding s" unfolding e(4) using rs buf by (simp add: outstanding_def)
  finally show ?thesis using e(1-3) buf by (intro pool_inv_moves [OF inv, of _ "{#}" "{#}"]) simp_all
qed


text \<open>The workers.\<close>

lemma pool_inv_receive:
  assumes inv: "pool_inv s" and idle: "pl_running s k = None" and rcv: "worker_receive (pl_world s) = Some (q, w')"
  shows "pool_inv (s\<lparr>pl_world := worker_begin q w', pl_running := (pl_running s)(k \<mapsto> (q, None))\<rparr>)" (is "pool_inv ?s'")
proof -
  note D = pool_invD [OF inv]
  obtain qs where qs: "lw_workQueue (pl_world s) = Some (q # qs)" "w' = (pl_world s)\<lparr>lw_workQueue := Some qs\<rparr>"
    using rcv D(6) by (auto simp: worker_receive_def split: option.splits list.splits)
  have "core (worker_begin q w') = core w'" by (simp add: worker_begin_def)
  from core_eqD [OF this] have w: "lw_workQueue (worker_begin q w') = Some qs" "lw_workPending (worker_begin q w') = lw_workPending (pl_world s)"
    "lw_driver (worker_begin q w') = lw_driver (pl_world s)" "lw_closedQueue (worker_begin q w') = lw_closedQueue (pl_world s)"
    "lw_permits (worker_begin q w') = lw_permits (pl_world s)" using qs(2) by simp_all
  have o: "outstanding ?s' = outstanding s" using qs(1) w(1) idle D(2) by (simp add: outstanding_def)
  show ?thesis
  proof (rule pool_invI)
    show "\<exists>k q. pl_running ?s' k = Some (q, Some p)" if live: "permit_live 0 (lw_permits (pl_world ?s')) p" for p
    proof -
      obtain j q' where "pl_running s j = Some (q', Some p)" using live D(7) [of p] w(5) by auto
      then have "pl_running ?s' j = Some (q', Some p)" using idle by (cases "j = k") simp_all
      then show ?thesis by blast
    qed
  qed (use D(1-6) w o qs(1) in auto)
qed

text \<open>An attempt takes or releases the permit of its worker.\<close>

lemma pool_inv_permit:
  assumes inv: "pool_inv s" and run: "pl_running s k = Some (q, p0)"
    and live: "\<And>p. permit_live 0 h p \<Longrightarrow> p1 = Some p \<or> permit_live 0 (lw_permits (pl_world s)) p \<and> p0 \<noteq> Some p"
  shows "pool_inv (s\<lparr>pl_world := (pl_world s)\<lparr>lw_permits := h\<rparr>, pl_running := (pl_running s)(k \<mapsto> (q, p1))\<rparr>)" (is "pool_inv ?s'")
proof -
  note D = pool_invD [OF inv]
  have o: "outstanding ?s' = outstanding s" using run D(2) by (simp add: outstanding_def buffered_def)
  show ?thesis
  proof (rule pool_invI)
    show "\<exists>k q. pl_running ?s' k = Some (q, Some p)" if h: "permit_live 0 (lw_permits (pl_world ?s')) p" for p
    proof (cases "p1 = Some p")
      case True
      then have "pl_running ?s' k = Some (q, Some p)" by simp
      then show ?thesis by blast
    next
      case False
      then have old: "permit_live 0 (lw_permits (pl_world s)) p" "p0 \<noteq> Some p" using h live [of p] by auto
      then obtain j q' where "pl_running s j = Some (q', Some p)" using D(7) by blast
      then have "pl_running ?s' j = Some (q', Some p)" using run old(2) by (cases "j = k") simp_all
      then show ?thesis by blast
    qed
  qed (use D(1-6) o in auto)
qed

lemma pool_inv_finish:
  assumes inv: "pool_inv s" and run: "pl_running s k = Some (q, None)"
  shows "pool_inv (s\<lparr>pl_world := worker_end q err (pl_world s), pl_running := (pl_running s)(k := None), pl_finished := add_mset q (pl_finished s)\<rparr>)"
    (is "pool_inv ?s'")
proof -
  note D = pool_invD [OF inv]
  obtain w1 where w1: "worker_end q err (pl_world s) = finishQueuedWork w1" "core w1 = core (pl_world s)" by (auto simp: worker_end_def Let_def)
  note c = core_eqD [OF w1(2)] and f = finishQueuedWork_core [of w1]
  have w: "lw_workQueue (pl_world ?s') = lw_workQueue (pl_world s)" "lw_workPending (pl_world ?s') = lw_workPending (pl_world s) - 1" "steady (pl_world s) (pl_world ?s')"
    using c f core_steady [OF w1(2)] steady_trans [of "pl_world s" w1] by (simp_all add: w1(1))
  have o: "outstanding s = add_mset q (outstanding ?s')"
    using running_jobs_simps(4) [OF D(2) run] w(1) by (simp add: outstanding_def buffered_def flip: union_mset_add_mset_right)
  then have queue: "lw_workQueue (pl_world s) \<noteq> None" using D(5) by auto
  show ?thesis
  proof (rule pool_invI)
    show "\<exists>k q. pl_running ?s' k = Some (q, Some p)" if live: "permit_live 0 (lw_permits (pl_world ?s')) p" for p
    proof -
      obtain j q' where "pl_running s j = Some (q', Some p)" using live D(7) [of p] w(3) by (auto simp: steady_def)
      then have "pl_running ?s' j = Some (q', Some p)" using run by (cases "j = k") simp_all
      then show ?thesis by blast
    qed
  qed (use D(1-4) D(6) w o queue in \<open>auto simp: steady_def\<close>)
qed

text \<open>The channel closes on an empty buffer.\<close>

lemma pool_inv_close:
  assumes inv: "pool_inv s" and down: "lw_shuttingDown (pl_world s)"
  shows "pool_inv (s\<lparr>pl_world := snd (closeWorkerQueueWhenIdle (pl_world s))\<rparr>)" (is "pool_inv ?s'")
proof (cases "lw_workPending (pl_world s) = 0 \<and> lw_workQueue (pl_world s) \<noteq> None")
  case False
  then have "?s' = s" by (auto simp: closeWorkerQueueWhenIdle_def split: option.splits)
  then show ?thesis using inv by simp
next
  case True
  note D = pool_invD [OF inv]
  have none: "outstanding s = {#}" using True D(3) by simp
  then have buf: "lw_workQueue (pl_world s) = Some []" using True by (auto simp: outstanding_def)
  have w: "pl_world ?s' = (pl_world s)\<lparr>lw_closedQueue := Some [], lw_workQueue := None\<rparr>" using True buf by (simp add: closeWorkerQueueWhenIdle_def)
  have o: "outstanding ?s' = {#}" unfolding outstanding_def w using none by (simp add: outstanding_def)
  show ?thesis by (rule pool_invI) (use D none o w down True in auto)
qed

text \<open>The other operations leave the channel and the counters alone, or open the channel.\<close>

lemma pool_inv_quiet:
  assumes inv: "pool_inv s" and w: "lw_driver w = lw_driver (pl_world s)" "lw_closedQueue w = lw_closedQueue (pl_world s)"
    "lw_permits w = lw_permits (pl_world s)" "lw_workPending w = lw_workPending (pl_world s)" "lw_shuttingDown (pl_world s) \<longrightarrow> lw_shuttingDown w"
    "lw_workQueue w = lw_workQueue (pl_world s) \<or> lw_workQueue (pl_world s) = None \<and> lw_workQueue w = Some [] \<and> \<not> lw_shuttingDown (pl_world s)"
  shows "pool_inv (s\<lparr>pl_world := w\<rparr>)"
proof -
  note D = pool_invD [OF inv]
  have "buffered w = buffered (pl_world s)" using w(6) by (auto simp: buffered_def)
  then have o: "outstanding (s\<lparr>pl_world := w\<rparr>) = outstanding s" by (simp add: outstanding_def)
  show ?thesis by (rule pool_invI) (use D w o in auto)
qed

lemma pool_step_inv: "pool_step s s' \<Longrightarrow> pool_inv s \<Longrightarrow> pool_inv s'"
proof (induction rule: pool_step.induct)
  case (dispatching env hs ctx job s out w')
  then show ?case by (intro pool_inv_dispatch)
next
  case (attempting s k q ctx ctx' p h)
  show ?case by (rule pool_inv_permit [OF attempting(3,1)]) (use attempting(2) in \<open>auto simp: local_scope_def Permit_def Let_def permit_live_def split: if_splits\<close>)
next
  case (returning s k q p)
  show ?case by (rule pool_inv_permit [OF returning(2,1)]) (auto simp: release_permit_def permit_live_def split: option.splits if_splits)
qed (simp_all add: pool_inv_resume pool_inv_give_up pool_inv_fire pool_inv_receive pool_inv_finish pool_inv_close
  pool_inv_quiet begin_drain_def local_StartWorkers_def startMemoryWorkersLocked_def setWorkers_def Let_def local_Pause_def local_Resume_def)

lemma pool_reachable_inv: "pool_reachable numCPU cfg s \<Longrightarrow> pool_inv s"
proof (induction rule: pool_reachable.induct)
  case initially
  show ?case by (rule pool_invI) (simp_all add: pool_start_def newLocalQueueWithConfig_def outstanding_def buffered_def permit_live_def)
qed (rule pool_step_inv)


section \<open>A run of the pool\<close>

text \<open>One job is dispatched, a worker starts an attempt, the drain begins, the attempt returns, the
  worker finishes and the channel is closed.\<close>

definition sample_dispatched :: "dispatch_outcome \<times> local_world" where
  "sample_dispatched = the (local_Dispatch local_quiet_env [(''t'', failing_handler)] None (q_NewJob ''t'')
     (pl_world (pool_start 4 \<lparr>wc_Workers = 1, wc_QueueCapacity = 1, wc_DefaultJobTimeout = 0\<rparr>)))"

definition sample_received :: "queued_job \<times> local_world" where
  "sample_received = the (worker_receive (snd sample_dispatched))"

definition sample_permit :: "dctx \<times> nat option \<times> permit_heap" where
  "sample_permit = Permit local_scope (Some (qd_ctx (fst sample_received))) (lw_permits (worker_begin (fst sample_received) (snd sample_received)))"

definition sample_draining :: pool where
  "sample_draining = \<lparr>pl_world = begin_drain ((worker_begin (fst sample_received) (snd sample_received))\<lparr>lw_permits := snd (snd sample_permit)\<rparr>),
     pl_reserved = [], pl_running = [0 \<mapsto> (fst sample_received, Some 0)], pl_admitted = {#fst sample_received#}, pl_finished = {#}, pl_abandoned = {#}\<rparr>"

definition sample_drained :: pool where
  "sample_drained = \<lparr>pl_world = snd (closeWorkerQueueWhenIdle (worker_end (fst sample_received) (Some (ErrNew ''boom''))
       ((pl_world sample_draining)\<lparr>lw_permits := release_permit (Some 0) (lw_permits (pl_world sample_draining))\<rparr>))),
     pl_reserved = [], pl_running = Map.empty, pl_admitted = {#fst sample_received#}, pl_finished = {#fst sample_received#}, pl_abandoned = {#}\<rparr>"

lemma sample_values:
  "\<not> Option.is_none (local_Dispatch local_quiet_env [(''t'', failing_handler)] None (q_NewJob ''t'')
     (pl_world (pool_start 4 \<lparr>wc_Workers = 1, wc_QueueCapacity = 1, wc_DefaultJobTimeout = 0\<rparr>)))"
  "\<not> Option.is_none (worker_receive (snd sample_dispatched))"
  "fst (snd sample_permit) = Some 0"
  "lw_workPending (snd sample_dispatched) = 1"
  "map_option length (lw_workQueue (snd sample_dispatched)) = Some 1"
  "Owns local_scope (Some (fst sample_permit)) (lw_permits (pl_world sample_draining))"
  "left_by (fst sample_dispatched) = []"
  "(case fst sample_dispatched of DispatchLeft _ \<Rightarrow> False | _ \<Rightarrow> True)"
  "lw_shuttingDown (worker_end (fst sample_received) (Some (ErrNew ''boom''))
     ((pl_world sample_draining)\<lparr>lw_permits := release_permit (Some 0) (lw_permits (pl_world sample_draining))\<rparr>))"
  "map_option length (lw_closedQueue (pl_world sample_drained)) = Some 0"
  by code_simp+


lemma sample_draining_reachable: "pool_reachable 4 \<lparr>wc_Workers = 1, wc_QueueCapacity = 1, wc_DefaultJobTimeout = 0\<rparr> sample_draining"
    (is "pool_reachable 4 ?cfg _")
proof -
  let ?w0 = "pl_world (pool_start 4 ?cfg)" let ?out = "fst sample_dispatched" let ?w1 = "snd sample_dispatched"
  let ?q = "fst sample_received" let ?w2 = "snd sample_received"
  let ?s1 = "(pool_start 4 ?cfg)\<lparr>pl_world := ?w1, pl_reserved := pl_reserved (pool_start 4 ?cfg) @ left_by ?out,
    pl_admitted := pl_admitted (pool_start 4 ?cfg) + admitted_by ?w0 ?out ?w1\<rparr>"
  let ?s2 = "?s1\<lparr>pl_world := worker_begin ?q ?w2, pl_running := (pl_running ?s1)(0 \<mapsto> (?q, None))\<rparr>"
  let ?s3 = "?s2\<lparr>pl_world := (pl_world ?s2)\<lparr>lw_permits := snd (snd sample_permit)\<rparr>, pl_running := (pl_running ?s2)(0 \<mapsto> (?q, Some 0))\<rparr>"
  have 1: "local_Dispatch local_quiet_env [(''t'', failing_handler)] None (q_NewJob ''t'') ?w0 = Some (?out, ?w1)"
    using sample_values(1) by (auto simp: sample_dispatched_def Option.is_none_def)
  have 2: "worker_receive ?w1 = Some (?q, ?w2)" using sample_values(2) by (auto simp: sample_received_def Option.is_none_def)
  have 3: "Permit local_scope (Some (qd_ctx ?q)) (lw_permits (pl_world ?s2)) = (fst sample_permit, Some 0, snd (snd sample_permit))"
    using sample_values(3) by (simp add: prod_eq_iff) (simp add: sample_permit_def)
  obtain qs where qs: "lw_workQueue ?w1 = Some (?q # qs)"
    using 2 sample_values(5) by (cases "lw_workQueue ?w1"; cases "the (lw_workQueue ?w1)") (auto simp: worker_receive_def prod_eq_iff)
  then have "admitted_by ?w0 ?out ?w1 = {#?q#}" using sample_values(4,5,8)
    by (auto simp: admitted_by_def pool_start_def newLocalQueueWithConfig_def split: dispatch_outcome.splits)
  then have s3: "?s3\<lparr>pl_world := begin_drain (pl_world ?s3)\<rparr> = sample_draining"
    using sample_values(7) by (simp add: sample_draining_def pool_start_def)
  have "pool_reachable 4 ?cfg ?s1" by (rule later [OF initially]) (rule dispatching [OF 1])
  moreover have "pool_step ?s1 ?s2" by (rule receiving) (use 2 in \<open>simp_all add: pool_start_def\<close>)
  moreover have "pool_step ?s2 ?s3" by (rule attempting [OF _ 3]) simp
  moreover have "pool_step ?s3 sample_draining" unfolding s3 [symmetric] by (rule draining)
  ultimately show ?thesis by (meson later)
qed

lemma sample_drained_reachable: "pool_reachable 4 \<lparr>wc_Workers = 1, wc_QueueCapacity = 1, wc_DefaultJobTimeout = 0\<rparr> sample_drained"
    (is "pool_reachable 4 ?cfg _")
proof -
  let ?s = sample_draining let ?q = "fst sample_received"
  let ?s1 = "?s\<lparr>pl_world := (pl_world ?s)\<lparr>lw_permits := release_permit (Some 0) (lw_permits (pl_world ?s))\<rparr>, pl_running := (pl_running ?s)(0 \<mapsto> (?q, None))\<rparr>"
  let ?s2 = "?s1\<lparr>pl_world := worker_end ?q (Some (ErrNew ''boom'')) (pl_world ?s1), pl_running := (pl_running ?s1)(0 := None), pl_finished := add_mset ?q (pl_finished ?s1)\<rparr>"
  have s3: "?s2\<lparr>pl_world := snd (closeWorkerQueueWhenIdle (pl_world ?s2))\<rparr> = sample_drained"
    by (simp add: sample_drained_def) (simp add: sample_draining_def fun_upd_idem_iff)
  have "pool_step ?s ?s1" by (rule returning) (simp add: sample_draining_def)
  moreover have "pool_step ?s1 ?s2" by (rule finishing) simp
  moreover have "pool_step ?s2 sample_drained" unfolding s3 [symmetric] by (rule closing) (use sample_values(9) in simp)
  ultimately show ?thesis using sample_draining_reachable by (meson later)
qed

section \<open>Properties\<close>

text \<open>C38. A drain of the workerpool loses nothing: once the channel is closed its buffer is empty, no
  caller, forwarding goroutine or timer is left that could send on it, no worker runs a job,
  every admitted job was finished or given up by its own caller, and nothing is admitted any more.\<close>

theorem drain_loses_nothing:
  assumes "pool_reachable numCPU cfg s" "lw_closedQueue (pl_world s) \<noteq> None"
  shows "lw_closedQueue (pl_world s) = Some [] \<and> pl_reserved s = [] \<and> pl_running s = Map.empty
    \<and> pl_admitted s = pl_finished s + pl_abandoned s \<and> fst (reserveWorkerQueue ctx (pl_world s)) \<noteq> None"
proof -
  note D = pool_invD [OF pool_reachable_inv [OF assms(1)]]
  have closed: "lw_closedQueue (pl_world s) = Some []" "lw_workQueue (pl_world s) = None" "lw_shuttingDown (pl_world s)" using D(6) assms(2) by auto
  then have none: "outstanding s = {#}" using D(5) by simp
  then have "pl_running s = Map.empty" using running_outstanding [OF D(2)] by blast
  then show ?thesis using none closed D(4) by (auto simp: outstanding_def reserveWorkerQueue_def)
qed

theorem drain_loses_nothing_witness:
  "lw_closedQueue (pl_world sample_drained) = Some [] \<and> size (pl_finished sample_drained) = 1
    \<and> pl_admitted sample_drained = pl_finished sample_drained + pl_abandoned sample_drained
    \<and> fst (reserveWorkerQueue None (pl_world sample_drained)) \<noteq> None"
proof -
  have "lw_closedQueue (pl_world sample_drained) \<noteq> None" using sample_values(10) by auto
  from drain_loses_nothing [OF sample_drained_reachable this] show ?thesis by (simp add: sample_drained_def)
qed

text \<open>C39. A running handler can always enqueue: while a context carries a live permit of the queue, a
  reservation with it succeeds even during a drain, and the drain does not close the channel.\<close>

theorem continuation_admitted:
  assumes "pool_reachable numCPU cfg s" "Owns local_scope ctx (lw_permits (pl_world s))"
  shows "fst (reserveWorkerQueue ctx (pl_world s)) = None \<and> fst (closeWorkerQueueWhenIdle (pl_world s)) \<noteq> None"
proof -
  note D = pool_invD [OF pool_reachable_inv [OF assms(1)]]
  obtain p where "permit_live 0 (lw_permits (pl_world s)) p" using assms(2) by (auto simp: local_scope_def Owns_def list_ex_iff)
  then have "outstanding s \<noteq> {#}" using D(7) [of p] running_outstanding [OF D(2)] by auto
  then have "lw_workQueue (pl_world s) \<noteq> None" "lw_workPending (pl_world s) \<noteq> 0" using D(3,5) by auto
  then show ?thesis using assms(2) by (auto simp: reserveWorkerQueue_def closeWorkerQueueWhenIdle_def Let_def)
qed

theorem continuation_admitted_witness:
  "lw_shuttingDown (pl_world sample_draining) \<and> fst (reserveWorkerQueue (Some (fst sample_permit)) (pl_world sample_draining)) = None
    \<and> fst (closeWorkerQueueWhenIdle (pl_world sample_draining)) \<noteq> None"
  using continuation_admitted [OF sample_draining_reachable sample_values(6)] by (simp add: sample_draining_def begin_drain_def)

end
