(* ===== verification/Spec2Isabelle.thy ===== *)
theory Spec2Isabelle
  imports ChainRuns Uniqueness ActiveGauge SqlMigration SqlLineage SqlDelivery LocalPool
begin

text \<open>
  A verification development for the Go module \<open>goforj/queue\<close>, a job queue with
  interchangeable drivers and a workflow engine for chains and batches of jobs.

  \<^bold>\<open>The program.\<close> An application builds jobs (\<open>job.go\<close>) and dispatches them to a queue whose
  driver stores or transports them; workers of the driver run the registered handlers and
  settle each delivery. \<open>busruntime\<close> holds what drivers and the workflow engine agree on:
  how a result is classified, continuation permits for handlers that enqueue while their
  runtime drains, and the gate that holds facts back until a delivery is settled. The engine
  under \<open>internal/workflow\<close> dispatches chains and batches as deliveries of its own, keeps
  their progress in a store and recovers outcomes that were committed before a crash.
  \<open>observability.go\<close> reports what happens as events and counts them. The SQL queue of
  \<open>driver/sqlqueuecore\<close> keeps jobs in a table which any number of processes claim from; the in-process queue of
  \<open>queue_local.go\<close> runs them in the caller or on a pool of goroutines behind a bounded channel.

  \<^bold>\<open>Conventions.\<close> A Go struct is a record whose fields carry a prefix, an enum a datatype, a map a
  map, an error a tree of type \<open>goerr\<close> with nil as \<^const>\<open>None\<close>, and a function with an error
  result returns a sum or an option. Pointers whose identity matters (permits, settlement
  and acceptance gates, heap entries) are addresses into a map. Clocks and random sources are
  functions of the number of the reading; hashes and JSON codecs are parameters. A method
  that holds its mutex from beginning to end is one function on the state.

  \<^bold>\<open>Theories.\<close>
  \<^item> \<open>Prelude\<close>, \<open>GoErrors\<close>: the Go vocabulary, formatting of strings, error trees with
    \<open>errors.Is\<close> and the classification of attempts (\<open>busruntime/runtime.go\<close>).
  \<^item> \<open>BusRuntime\<close>: contexts, permits (\<open>busruntime/runtime.go\<close>), delivery settlement
    (\<open>busruntime/delivery_settlement.go\<close>) and the acceptance gate (\<open>dispatch_acceptance.go\<close>). A
    permit is valid until it is released, also through a replaced context.
  \<^item> \<open>WorkflowTypes\<close>, \<open>MemoryStore\<close>: the records of \<open>types.go\<close>, \<open>protocol.go\<close>, \<open>events.go\<close>,
    \<open>middleware.go\<close> and \<open>store.go\<close>, and every method of \<open>store_memory.go\<close>.
    \<open>StoreInvariants\<close> and \<open>StoreTraces\<close> show that each reachable state satisfies \<open>store_ok\<close>, that
    outcomes of chain nodes, batch members and callbacks are claimed at most once, and that
    terminal workflows and receipts do not change.
  \<^item> \<open>EngineBase\<close>, \<open>Callbacks\<close>, \<open>ChainEngine\<close>, \<open>BatchEngine\<close>: the engine of \<open>runtime.go\<close>,
    \<open>chain.go\<close> and \<open>batch.go\<close> over a store given as a record of operations. \<open>Framing\<close> shows
    that fingerprints and fact identifiers determine what they identify; \<open>EngineRuns\<close> that
    recovered deliveries run no application code; \<open>ChainRuns\<close> that a chain on a queueing broker
    runs its jobs in order and ends completed or failed.
  \<^item> \<open>GoHeap\<close>, \<open>Uniqueness\<close>, \<open>Simulation\<close>: \<open>container/heap\<close> over an interface stated as a
    locale, the claims of \<open>internal/uniqueness/memory.go\<close> as its instance, and their
    refinement of a plain registry of holders.
  \<^item> \<open>Jobs\<close>: the job builder and validation of \<open>job.go\<close>, driver options and metadata, and the
    uniqueness keys of \<open>job_identity.go\<close>, \<open>logical_job.go\<close> and \<open>queuecore\<close>.
  \<^item> \<open>Observability\<close>, \<open>Collector\<close>, \<open>ActiveGauge\<close>: events, observed dispatch and observed
    handlers, the statistics collector of \<open>observability.go\<close>, its throughput windows and its
    gauge of active executions. The locale \<open>accepting_backend\<close> states what an observed
    dispatch relies on.
  \<^item> \<open>SqlTables\<close>, \<open>SqlSchema\<close>, \<open>SqlMigration\<close>: the database as the driver sees it, with
    numbered calls that may be refused, lose their reply or meet changes of other sessions;
    migration and validation of the schema.
  \<^item> \<open>SqlQueue\<close>, \<open>SqlAdmin\<close>, \<open>SqlEffects\<close>: dispatch with uniqueness locks, claiming, recovery of
    expired leases, settlement, the worker and administration
    (\<open>driver/sqlqueuecore/queue_database_impl.go\<close>, \<open>admin.go\<close>), and what each does to the tables
    under any fault.
  \<^item> \<open>SqlObserved\<close>, \<open>SqlDelivery\<close>: the SQL queue as an instance of \<open>accepting_backend\<close>; the events
    published for dispatches and deliveries agree with the table.
  \<^item> \<open>SqlSteps\<close>, \<open>SqlRuns\<close>, \<open>SqlLineage\<close>: runs of the SQL queue by any number of workers,
    dispatchers and administrators as a labelled step relation over the operations. Every
    reachable table is well-typed, each change of a row is authorised, a row has at most one
    owner, deliveries carry what was dispatched, attempts stay within the limit, and a
    worker that lost its lease cannot settle.
  \<^item> \<open>LocalQueue\<close>, \<open>LocalRuns\<close>, \<open>LocalPool\<close>: the in-process queue of \<open>queue_local.go\<close>. The
    retry loop returns when redelivery is asked for finitely often. The workerpool is a
    machine of dispatchers, forwarding goroutines, timers and workers; its drain closes the
    channel only when every admitted job is finished or given up, and a running handler can
    enqueue until then.

  \<^bold>\<open>Bounds.\<close> The retry loops are structural recursions with the bounds of the source: five
  attempts of a claim on SQLite and one elsewhere, three attempts of a finalisation. Loops over
  data are recursions on lists. The broker of \<open>ChainRuns\<close> runs for a given number of deliveries,
  and the theorem says how many are enough. Identifiers and counts are unbounded integers
  except the tokens of uniqueness claims, which are 64-bit words that wrap. The retry loop of
  the in-process queue has no bound in the source, because redeliveries do not count: it is a
  partial function, and its termination is a theorem about handlers with finitely many
  redelivery requests.

  \<^bold>\<open>Not modelled.\<close> The SQL implementation of the workflow store, the drivers over third-party
  clients (Redis, NATS, SQS, RabbitMQ), the null driver, points of the history display, the wiring of the
  public API, fakes, hooks, logging, documentation generators and examples. The SQL
  workflow store is represented only by the contract the engine relies on; the drivers over
  clients keep their state in services outside the sources. Goroutines appear as interleavings of whole
  operations, not of their instructions; timeouts only as errors a call may return.
\<close>

end
